(* ===== verification/Prelude.thy ===== *)
theory Prelude
  imports Main "HOL-Library.AList" "HOL-Library.Sublist" "HOL-Library.Code_Target_Nat"
begin

text \<open>
  The prelude of the development: the result type and its sequencing operators, which
  model \<^verbatim>\<open>Result\<close> and the question-mark operator of the source, the loops over a vector that
  stop at the first error, and the association lists that model \<^verbatim>\<open>HashMap\<close>.  Two
  collections of facts carry the component proofs: \<open>result_simps\<close> (unfolding of the
  result operators) and \<open>alist_simps\<close> (lookup, update and deletion of maps).
\<close>

named_theorems result_simps \<open>unfolding the result operators\<close>
named_theorems alist_simps \<open>lookup, update and deletion in maps\<close>

section \<open>Results\<close>

text \<open>\<^verbatim>\<open>Result<T, E>\<close> is \<open>'e + 'a\<close>: \<open>Inl\<close> is \<^verbatim>\<open>Err\<close>, \<open>Inr\<close> is \<^verbatim>\<open>Ok\<close>.\<close>

type_synonym ('e, 'a) res = "'e + 'a"

abbreviation Ok :: "'a \<Rightarrow> ('e, 'a) res" where "Ok \<equiv> Inr"
abbreviation Err :: "'e \<Rightarrow> ('e, 'a) res" where "Err \<equiv> Inl"

definition tryR :: "('e, 'a) res \<Rightarrow> ('a \<Rightarrow> ('e, 'b) res) \<Rightarrow> ('e, 'b) res" where
  "tryR r f = (case r of Inl e \<Rightarrow> Inl e | Inr a \<Rightarrow> f a)"

definition thenR :: "('e, unit) res \<Rightarrow> ('e, 'b) res \<Rightarrow> ('e, 'b) res" where
  "thenR r s = (case r of Inl e \<Rightarrow> Inl e | Inr _ \<Rightarrow> s)"

definition map_err :: "('e \<Rightarrow> 'f) \<Rightarrow> ('e, 'a) res \<Rightarrow> ('f, 'a) res" where
  "map_err h r = (case r of Inl e \<Rightarrow> Inl (h e) | Inr a \<Rightarrow> Inr a)"

definition ok_or :: "'e \<Rightarrow> 'a option \<Rightarrow> ('e, 'a) res" where
  "ok_or e x = (case x of None \<Rightarrow> Inl e | Some a \<Rightarrow> Inr a)"

definition is_ok :: "('e, 'a) res \<Rightarrow> bool" where
  "is_ok r = (case r of Inl _ \<Rightarrow> False | Inr _ \<Rightarrow> True)"

definition failIf :: "bool \<Rightarrow> 'e \<Rightarrow> ('e, unit) res" where
  "failIf b e = (if b then Inl e else Inr ())"

text \<open>\<^verbatim>\<open>if let Some(x) = opt { f(x)?; }\<close>\<close>

definition whenSome :: "'a option \<Rightarrow> ('a \<Rightarrow> ('e, unit) res) \<Rightarrow> ('e, unit) res" where
  "whenSome x f = (case x of None \<Rightarrow> Inr () | Some a \<Rightarrow> f a)"

text \<open>\<^verbatim>\<open>for x in xs { f(x)?; }\<close>, and the same with \<^verbatim>\<open>enumerate\<close> from a start index.\<close>

fun eachR :: "('a \<Rightarrow> ('e, unit) res) \<Rightarrow> 'a list \<Rightarrow> ('e, unit) res" where
  "eachR f [] = Inr ()"
| "eachR f (x # xs) = thenR (f x) (eachR f xs)"

fun eachIR :: "(nat \<Rightarrow> 'a \<Rightarrow> ('e, unit) res) \<Rightarrow> nat \<Rightarrow> 'a list \<Rightarrow> ('e, unit) res" where
  "eachIR f i [] = Inr ()"
| "eachIR f i (x # xs) = thenR (f i x) (eachIR f (Suc i) xs)"

text \<open>\<^verbatim>\<open>for x in &mut xs { *x = f(x)?; }\<close>, and \<^verbatim>\<open>collect::<Result<Vec<_>, _>>()\<close>.\<close>

fun mapR :: "('a \<Rightarrow> ('e, 'b) res) \<Rightarrow> 'a list \<Rightarrow> ('e, 'b list) res" where
  "mapR f [] = Inr []"
| "mapR f (x # xs) = tryR (f x) (\<lambda>y. tryR (mapR f xs) (\<lambda>ys. Inr (y # ys)))"

definition mapOptR :: "('a \<Rightarrow> ('e, 'b) res) \<Rightarrow> 'a option \<Rightarrow> ('e, 'b option) res" where
  "mapOptR f x = (case x of None \<Rightarrow> Inr None | Some a \<Rightarrow> tryR (f a) (\<lambda>b. Inr (Some b)))"

lemma tryR_simps [simp]: "tryR (Inl e) f = Inl e" "tryR (Inr a) f = f a"
  by (simp_all add: tryR_def)

lemma thenR_simps [simp]: "thenR (Inl e) s = Inl e" "thenR (Inr u) s = s"
  by (simp_all add: thenR_def)

lemma map_err_simps [simp]: "map_err h (Inl e) = Inl (h e)" "map_err h (Inr a) = Inr a"
  by (simp_all add: map_err_def)

lemma ok_or_simps [simp]: "ok_or e None = Inl e" "ok_or e (Some a) = Inr a"
  by (simp_all add: ok_or_def)

lemma is_ok_simps [simp]: "is_ok (Inl e) = False" "is_ok (Inr a) = True"
  by (simp_all add: is_ok_def)

lemma whenSome_simps [simp]: "whenSome None f = Inr ()" "whenSome (Some a) f = f a"
  by (simp_all add: whenSome_def)

lemma mapOptR_simps [simp]:
  "mapOptR f None = Inr None" "mapOptR f (Some a) = tryR (f a) (\<lambda>b. Inr (Some b))"
  by (simp_all add: mapOptR_def)

lemma tryR_Inr_iff [result_simps]: "tryR r f = Inr b \<longleftrightarrow> (\<exists>a. r = Inr a \<and> f a = Inr b)"
  by (cases r) simp_all

lemma thenR_Inr_iff [result_simps]: "thenR r s = Inr b \<longleftrightarrow> r = Inr () \<and> s = Inr b"
  by (cases r) simp_all

lemma map_err_Inr_iff [result_simps]: "map_err h r = Inr a \<longleftrightarrow> r = Inr a"
  by (cases r) simp_all

lemma map_err_Inl_iff [result_simps]: "map_err h r = Inl e \<longleftrightarrow> (\<exists>d. r = Inl d \<and> e = h d)"
  by (cases r) auto

lemma failIf_Inr_iff [result_simps]: "failIf b e = Inr u \<longleftrightarrow> \<not> b"
  by (simp add: failIf_def)

lemma failIf_Inl_iff [result_simps]: "failIf b e = Inl d \<longleftrightarrow> b \<and> d = e"
  by (auto simp add: failIf_def)

lemma failIf_simps [simp]: "failIf True e = Inl e" "failIf False e = Inr ()"
  by (simp_all add: failIf_def)

lemma ok_or_Inr_iff [result_simps]: "ok_or e x = Inr a \<longleftrightarrow> x = Some a"
  by (cases x) simp_all

lemma is_ok_iff: "is_ok r \<longleftrightarrow> (\<exists>a. r = Inr a)"
  by (cases r) simp_all

lemma is_ok_unit: "is_ok (r :: ('e, unit) res) \<longleftrightarrow> r = Inr ()"
  by (cases r) simp_all

lemma is_ok_map_err [simp]: "is_ok (map_err h r) = is_ok r"
  by (cases r) simp_all

lemma is_ok_thenR [simp]: "is_ok (thenR r s) \<longleftrightarrow> is_ok r \<and> is_ok s"
  by (cases r) simp_all

lemma is_ok_failIf [simp]: "is_ok (failIf b e) \<longleftrightarrow> \<not> b"
  by (cases b) simp_all

lemma whenSome_Inr_iff [result_simps]:
  "whenSome x f = Inr u \<longleftrightarrow> (\<forall>a. x = Some a \<longrightarrow> f a = Inr ())"
  by (cases x) simp_all

lemma is_ok_whenSome [simp]: "is_ok (whenSome x f) \<longleftrightarrow> (\<forall>a. x = Some a \<longrightarrow> is_ok (f a))"
  by (cases x) simp_all

lemma eachR_Inr_iff [result_simps]: "eachR f xs = Inr u \<longleftrightarrow> (\<forall>x \<in> set xs. f x = Inr ())"
  by (induction xs) (simp_all add: thenR_Inr_iff)

lemma is_ok_eachR [simp]: "is_ok (eachR f xs) \<longleftrightarrow> (\<forall>x \<in> set xs. is_ok (f x))"
  by (induction xs) simp_all

lemma eachIR_Inr_iff [result_simps]:
  "eachIR f i xs = Inr u \<longleftrightarrow> (\<forall>k < length xs. f (i + k) (xs ! k) = Inr ())"
proof (induction xs arbitrary: i)
  case Nil
  then show ?case by simp
next
  case (Cons x xs)
  have "(\<forall>k < length (x # xs). f (i + k) ((x # xs) ! k) = Inr ()) \<longleftrightarrow>
      f i x = Inr () \<and> (\<forall>k < length xs. f (Suc i + k) (xs ! k) = Inr ())"
    by (simp add: All_less_Suc2)
  with Cons.IH [of "Suc i"] show ?case by (simp add: thenR_Inr_iff)
qed

lemma is_ok_eachIR_const [simp]:
  "is_ok (eachIR (\<lambda>i x. map_err (h i x) (f x)) i xs) \<longleftrightarrow> (\<forall>x \<in> set xs. is_ok (f x))"
  by (induction xs arbitrary: i) simp_all

text \<open>A loop that fails returns the error of its first failing element.\<close>

lemma eachR_Inl_first:
  "eachR f xs = Inl e \<longleftrightarrow>
     (\<exists>ys x zs. xs = ys @ x # zs \<and> (\<forall>y \<in> set ys. is_ok (f y)) \<and> f x = Inl e)"
proof (induction xs)
  case Nil
  then show ?case by simp
next
  case (Cons x xs)
  show ?case
  proof (cases "f x")
    case (Inl d)
    then show ?thesis
      by (fastforce simp: Cons_eq_append_conv)
  next
    case (Inr u)
    then have "eachR f (x # xs) = eachR f xs" by simp
    with Cons.IH Inr show ?thesis
      by (auto simp: Cons_eq_append_conv) (metis is_ok_simps(2) list.set_intros(1) set_ConsD)+
  qed
qed

lemma mapR_Inr_iff [result_simps]:
  "mapR f xs = Inr ys \<longleftrightarrow> list_all2 (\<lambda>x y. f x = Inr y) xs ys"
proof (induction xs arbitrary: ys)
  case Nil
  then show ?case by auto
next
  case (Cons x xs)
  then show ?case by (cases ys) (auto simp: tryR_Inr_iff)
qed

lemma mapR_id: "(\<And>x. x \<in> set xs \<Longrightarrow> f x = Inr x) \<Longrightarrow> mapR f xs = Inr xs"
  by (induction xs) simp_all

lemma mapR_cong [fundef_cong]:
  "xs = ys \<Longrightarrow> (\<And>x. x \<in> set ys \<Longrightarrow> f x = g x) \<Longrightarrow> mapR f xs = mapR g ys"
  by (induction xs arbitrary: ys) auto

lemma mapR_set: "mapR f xs = Inr ys \<Longrightarrow> y \<in> set ys \<Longrightarrow> \<exists>x \<in> set xs. f x = Inr y"
  by (induction xs arbitrary: ys) (auto simp: tryR_Inr_iff)

lemma mapOptR_Inr_iff [result_simps]:
  "mapOptR f x = Inr y \<longleftrightarrow> rel_option (\<lambda>a b. f a = Inr b) x y"
  by (cases x; cases y) (auto simp: tryR_Inr_iff)

lemma find_SomeD: "find P xs = Some x \<Longrightarrow> x \<in> set xs \<and> P x"
  by (induction xs) (auto split: if_splits)

section \<open>Stateful fallible operations\<close>

text \<open>
  An operation that may fail and may change a state of type \<open>'s\<close>: the change is kept when it
  fails, as in the source.  \<open>bindS\<close> is the question mark in a sequence of such operations.
\<close>

type_synonym ('s, 'e, 'a) op = "'s \<Rightarrow> ('e, 'a) res \<times> 's"

definition returnS :: "'a \<Rightarrow> ('s, 'e, 'a) op" where "returnS a s = (Ok a, s)"
definition errS :: "'e \<Rightarrow> ('s, 'e, 'a) op" where "errS e s = (Err e, s)"
definition liftS :: "('e, 'a) res \<Rightarrow> ('s, 'e, 'a) op" where "liftS r s = (r, s)"
definition getS :: "('s \<Rightarrow> 'a) \<Rightarrow> ('s, 'e, 'a) op" where "getS f s = (Ok (f s), s)"

definition bindS :: "('s, 'e, 'a) op \<Rightarrow> ('a \<Rightarrow> ('s, 'e, 'b) op) \<Rightarrow> ('s, 'e, 'b) op" where
  "bindS m f s = (case m s of (Inl e, s') \<Rightarrow> (Inl e, s') | (Inr a, s') \<Rightarrow> f a s')"

definition thenS :: "('s, 'e, 'a) op \<Rightarrow> ('s, 'e, 'b) op \<Rightarrow> ('s, 'e, 'b) op" where
  "thenS m k = bindS m (\<lambda>_. k)"

definition mapErrS :: "('e \<Rightarrow> 'f) \<Rightarrow> ('s, 'e, 'a) op \<Rightarrow> ('s, 'f, 'a) op" where
  "mapErrS h m s = (case m s of (r, s') \<Rightarrow> (map_err h r, s'))"

text \<open>Run an operation and carry on whatever its result: \<^verbatim>\<open>if let Err(e) = op() { warn!(...) }\<close>.\<close>

definition execS :: "('s, 'e, 'a) op \<Rightarrow> 's \<Rightarrow> 's" where "execS m s = snd (m s)"

lemma bindS_simps [simp]:
  "m s = (Inl e, s') \<Longrightarrow> bindS m f s = (Inl e, s')" "m s = (Inr a, s') \<Longrightarrow> bindS m f s = f a s'"
  by (simp_all add: bindS_def)

lemma op_simps [simp]:
  "returnS a s = (Ok a, s)" "errS e s = (Err e, s)" "liftS r s = (r, s)" "getS g s = (Ok (g s), s)"
  by (simp_all add: returnS_def errS_def liftS_def getS_def)

lemma mapErrS_Ok [simp]: "mapErrS h m s = (Ok a, s') \<longleftrightarrow> m s = (Ok a, s')"
  by (cases "m s") (simp add: mapErrS_def result_simps)

lemma mapErrS_Err: "mapErrS h m s = (Err e, s') \<longleftrightarrow> (\<exists>d. m s = (Err d, s') \<and> e = h d)"
  by (cases "m s") (auto simp add: mapErrS_def result_simps)

lemma bindS_Ok: "bindS m f s = (Ok b, s') \<longleftrightarrow> (\<exists>a t. m s = (Ok a, t) \<and> f a t = (Ok b, s'))"
  by (auto simp: bindS_def split: prod.splits sum.splits)

lemma bindS_Err: "bindS m f s = (Err e, s') \<longleftrightarrow>
    m s = (Err e, s') \<or> (\<exists>a t. m s = (Ok a, t) \<and> f a t = (Err e, s'))"
  by (auto simp: bindS_def split: prod.splits sum.splits)

text \<open>A property of the state that every step keeps is kept by a sequence.\<close>

definition keeps :: "('s \<Rightarrow> 's \<Rightarrow> bool) \<Rightarrow> ('s, 'e, 'a) op \<Rightarrow> bool" where
  "keeps R m = (\<forall>s. R s (snd (m s)))"

named_theorems keeps_intros \<open>what a sequence of operations keeps\<close>

lemma keepsI: "(\<And>s. R s (snd (m s))) \<Longrightarrow> keeps R m"
  by (simp add: keeps_def)

lemma keepsD: "keeps R m \<Longrightarrow> R s (snd (m s))"
  by (simp add: keeps_def)

lemma keeps_pure [keeps_intros]:
  "reflp R \<Longrightarrow> keeps R (returnS a)" "reflp R \<Longrightarrow> keeps R (errS e)"
  "reflp R \<Longrightarrow> keeps R (liftS r)" "reflp R \<Longrightarrow> keeps R (getS g)"
  by (simp_all add: keeps_def reflpD)

lemma keeps_bind [keeps_intros]:
  assumes "transp R" "keeps R m" "\<And>a. keeps R (f a)"
  shows "keeps R (bindS m f)"
proof (rule keepsI)
  fix s
  show "R s (snd (bindS m f s))"
    using keepsD [OF assms(2), of s] keepsD [OF assms(3)] transpD [OF assms(1)]
    by (cases "m s"; cases "fst (m s)") (auto simp: bindS_def)
qed

lemma keeps_then [keeps_intros]: "transp R \<Longrightarrow> keeps R m \<Longrightarrow> keeps R k \<Longrightarrow> keeps R (thenS m k)"
  unfolding thenS_def by (rule keeps_bind)

lemma keeps_mapErr [keeps_intros]: "keeps R m \<Longrightarrow> keeps R (mapErrS h m)"
  by (auto simp: keeps_def mapErrS_def split: prod.splits) (metis snd_conv)

lemma keeps_if [keeps_intros]: "(b \<Longrightarrow> keeps R m) \<Longrightarrow> (\<not> b \<Longrightarrow> keeps R k) \<Longrightarrow> keeps R (if b then m else k)"
  by simp

section \<open>Maps\<close>

text \<open>
  A \<^verbatim>\<open>HashMap\<close> is an association list with distinct keys; its order stands for the
  iteration order, which the source leaves open, so every statement about an iteration
  holds for every order.
\<close>

abbreviation keys :: "('k \<times> 'v) list \<Rightarrow> 'k list" where "keys m \<equiv> map fst m"

abbreviation insertM :: "'k \<Rightarrow> 'v \<Rightarrow> ('k \<times> 'v) list \<Rightarrow> ('k \<times> 'v) list" where
  "insertM \<equiv> AList.update"

definition removeM :: "'k \<Rightarrow> ('k \<times> 'v) list \<Rightarrow> ('k \<times> 'v) list" where
  "removeM k m = filter (\<lambda>p. fst p \<noteq> k) m"

definition containsM :: "'k \<Rightarrow> ('k \<times> 'v) list \<Rightarrow> bool" where
  "containsM k m = (k \<in> set (keys m))"

text \<open>\<^verbatim>\<open>get_mut(k)\<close> followed by an update of the value in place.\<close>

definition adjustM :: "'k \<Rightarrow> ('v \<Rightarrow> 'v) \<Rightarrow> ('k \<times> 'v) list \<Rightarrow> ('k \<times> 'v) list" where
  "adjustM k f m = map (\<lambda>(j, v). (j, if j = k then f v else v)) m"

lemma map_of_insertM [alist_simps, simp]:
  "map_of (insertM k v m) j = (if j = k then Some v else map_of m j)"
  by (simp add: update_conv')

lemma set_keys_insertM [alist_simps, simp]: "fst ` set (insertM k v m) = insert k (fst ` set m)"
proof -
  have "dom (map_of (insertM k v m)) = insert k (dom (map_of m))"
    by (simp add: update_conv')
  then show ?thesis by (simp add: dom_map_of_conv_image_fst)
qed

lemma distinct_insertM [alist_simps, simp]: "distinct (keys m) \<Longrightarrow> distinct (keys (insertM k v m))"
  by (rule distinct_update)

lemma map_of_removeM [alist_simps, simp]:
  "map_of (removeM k m) j = (if j = k then None else map_of m j)"
  by (induction m) (auto simp: removeM_def)

lemma set_removeM [alist_simps, simp]: "set (removeM k m) = {p \<in> set m. fst p \<noteq> k}"
  by (simp add: removeM_def)

lemma fst_in_keys: "(a, b) \<in> set m \<Longrightarrow> a \<in> fst ` set m"
  by force

lemma image_fst_neq [alist_simps, simp]: "fst ` {p \<in> S. fst p \<noteq> k} = fst ` S - {k}"
  by force

lemma distinct_removeM [alist_simps, simp]: "distinct (keys m) \<Longrightarrow> distinct (keys (removeM k m))"
  by (simp add: removeM_def distinct_map_filter)

lemma map_of_adjustM [alist_simps, simp]:
  "map_of (adjustM k f m) j = (if j = k then map_option f (map_of m j) else map_of m j)"
  by (induction m) (auto simp: adjustM_def)

lemma keys_adjustM [alist_simps, simp]: "keys (adjustM k f m) = keys m"
  by (induction m) (auto simp: adjustM_def)

lemma containsM_map_of [alist_simps]: "containsM k m \<longleftrightarrow> map_of m k \<noteq> None"
  by (simp add: containsM_def map_of_eq_None_iff)

lemma containsM_iff: "containsM k m \<longleftrightarrow> (\<exists>v. map_of m k = Some v)"
  by (simp add: containsM_map_of)

lemma set_insertM_D: "p \<in> set (insertM k v m) \<Longrightarrow> p = (k, v) \<or> p \<in> set m"
  by (induction m) (auto split: if_splits)

lemma map_of_in_set: "distinct (keys m) \<Longrightarrow> (k, v) \<in> set m \<longleftrightarrow> map_of m k = Some v"
  by (metis map_of_eq_Some_iff)

lemma set_insertM: "distinct (keys m) \<Longrightarrow>
    set (insertM k v m) = insert (k, v) {p \<in> set m. fst p \<noteq> k}"
  by (induction m) (auto simp: rev_image_eqI)

section \<open>Interfaces\<close>

text \<open>
  What several components promise.  A writer and a reader of texts or tables: what is written is read
  back, \<open>ret\<close> being how the reader answers.  Then nothing is lost in writing.
\<close>

locale codec =
  fixes enc :: "'a \<Rightarrow> 'b"
    and dec :: "'b \<Rightarrow> 'c"
    and ret :: "'a \<Rightarrow> 'c"
    and carried :: "'a \<Rightarrow> bool"
  assumes read_back: "carried x \<Longrightarrow> dec (enc x) = ret x"
    and ret_inject: "ret x = ret y \<Longrightarrow> x = y"
begin

lemma written_inj: "inj_on enc {x. carried x}"
proof (rule inj_onI)
  fix x y assume "x \<in> {x. carried x}" "y \<in> {x. carried x}" "enc x = enc y"
  then have "ret x = ret y" using read_back [of x] read_back [of y] by simp
  then show "x = y" by (rule ret_inject)
qed

lemma written_differ: "carried x \<Longrightarrow> carried y \<Longrightarrow> x \<noteq> y \<Longrightarrow> enc x \<noteq> enc y"
  using written_inj by (auto dest: inj_onD)

end

text \<open>A property that every step keeps holds along every run.\<close>

locale preserved =
  fixes step :: "'s \<Rightarrow> 's \<Rightarrow> bool"
    and inv :: "'s \<Rightarrow> bool"
  assumes step_inv: "step s t \<Longrightarrow> inv s \<Longrightarrow> inv t"
begin

lemma run_inv: "step\<^sup>*\<^sup>* s t \<Longrightarrow> inv s \<Longrightarrow> inv t"
  by (induction rule: rtranclp_induct) (auto intro: step_inv)

end

text \<open>When a rank decreases besides, no run is infinite.\<close>

locale ranked = preserved step inv for step :: "'s \<Rightarrow> 's \<Rightarrow> bool" and inv :: "'s \<Rightarrow> bool" +
  fixes rank :: "'s \<Rightarrow> 'r"
    and order :: "('r \<times> 'r) set"
  assumes wf_order: "wf order"
    and rank_step: "step s t \<Longrightarrow> inv s \<Longrightarrow> (rank t, rank s) \<in> order"
begin

lemma run_ends: "wfp (\<lambda>t s. inv s \<and> step s t)"
proof -
  have "wfp (\<lambda>t s. (rank t, rank s) \<in> order)"
    using wf_inv_image [OF wf_order, of rank] by (simp add: wfp_def inv_image_def)
  then show ?thesis by (rule wfp_subset) (auto dest: rank_step)
qed

end

end
