(* ===== verification/RustStd.thy ===== *)
theory RustStd
  imports Prelude
begin

text \<open>
  What the source uses of the Rust standard library.  A Rust string is the list of its
  UTF-8 bytes (\<open>string\<close>), so \<open>length\<close> is \<^verbatim>\<open>len()\<close> and searching for an ASCII character or
  an ASCII pattern is a search for bytes; the operations that look at whole characters
  (\<^verbatim>\<open>chars\<close>, \<^verbatim>\<open>trim\<close>) decode.  Numbers are printed and parsed in decimal as \<^verbatim>\<open>Display\<close> and
  \<^verbatim>\<open>FromStr\<close> do: parsing accepts one leading plus sign and any number of leading zeros and
  fails on an empty digit string or a value above the type's maximum.
\<close>

section \<open>Bytes and character classes\<close>

definition code :: "char \<Rightarrow> nat" where "code c = of_char c"

definition is_digit :: "char \<Rightarrow> bool" where "is_digit c = (48 \<le> code c \<and> code c \<le> 57)"
definition is_lower :: "char \<Rightarrow> bool" where "is_lower c = (97 \<le> code c \<and> code c \<le> 122)"
definition is_upper :: "char \<Rightarrow> bool" where "is_upper c = (65 \<le> code c \<and> code c \<le> 90)"
definition is_alpha :: "char \<Rightarrow> bool" where "is_alpha c = (is_lower c \<or> is_upper c)"
definition is_alnum :: "char \<Rightarrow> bool" where "is_alnum c = (is_alpha c \<or> is_digit c)"
definition is_hex :: "char \<Rightarrow> bool" where
  "is_hex c = (is_digit c \<or> (97 \<le> code c \<and> code c \<le> 102) \<or> (65 \<le> code c \<and> code c \<le> 70))"
definition is_ascii :: "char \<Rightarrow> bool" where "is_ascii c = (code c < 128)"

lemmas class_defs = is_digit_def is_lower_def is_upper_def is_alpha_def is_alnum_def is_hex_def
  is_ascii_def code_def

definition nul :: char where "nul = CHR 0x00"
definition newline :: char where "newline = CHR 0x0A"

text \<open>The punctuation the formats use is in none of the classes.\<close>

lemma class_punct [simp]:
  "\<not> is_alnum (CHR ''/'')" "\<not> is_alnum (CHR ''.'')" "\<not> is_alnum (CHR '':'')"
  "\<not> is_alnum (CHR ''-'')" "\<not> is_alnum (CHR ''_'')" "\<not> is_alnum (CHR ''$'')"
  "\<not> is_alnum (CHR ''+'')" "\<not> is_alnum (CHR ''='')" "\<not> is_alnum (CHR '','')"
  "\<not> is_alnum (CHR ''#'')" "\<not> is_alnum (CHR '';'')" "\<not> is_alnum (CHR ''['')"
  "\<not> is_alnum (CHR '']'')" "\<not> is_alnum (CHR '' '')" "\<not> is_alnum nul"
  "\<not> is_digit (CHR ''/'')" "\<not> is_digit (CHR ''.'')" "\<not> is_digit (CHR '':'')"
  "\<not> is_digit (CHR ''-'')" "\<not> is_digit (CHR ''_'')" "\<not> is_digit (CHR ''$'')"
  "\<not> is_digit (CHR ''+'')" "\<not> is_digit (CHR ''='')" "\<not> is_digit (CHR '','')"
  "\<not> is_digit (CHR ''#'')" "\<not> is_digit (CHR '';'')" "\<not> is_digit (CHR ''['')"
  "\<not> is_digit (CHR '']'')" "\<not> is_digit (CHR '' '')" "\<not> is_digit nul"
  "\<not> is_hex (CHR ''/'')" "\<not> is_hex (CHR ''.'')" "\<not> is_hex (CHR '':'')"
  "\<not> is_hex (CHR ''-'')" "\<not> is_hex (CHR ''_'')" "\<not> is_hex (CHR ''$'')"
  "\<not> is_hex (CHR ''+'')" "\<not> is_hex (CHR ''='')" "\<not> is_hex (CHR '','')"
  "\<not> is_hex (CHR ''#'')" "\<not> is_hex (CHR '';'')" "\<not> is_hex (CHR ''['')"
  "\<not> is_hex (CHR '']'')" "\<not> is_hex (CHR '' '')" "\<not> is_hex nul"
  "\<not> is_alpha (CHR ''/'')" "\<not> is_alpha (CHR ''.'')" "\<not> is_alpha (CHR '':'')"
  "\<not> is_alpha (CHR ''-'')" "\<not> is_alpha (CHR ''_'')" "\<not> is_alpha (CHR ''$'')"
  "\<not> is_alpha (CHR ''+'')" "\<not> is_alpha (CHR ''='')" "\<not> is_alpha (CHR '','')"
  "\<not> is_alpha (CHR ''#'')" "\<not> is_alpha (CHR '';'')" "\<not> is_alpha (CHR ''['')"
  "\<not> is_alpha (CHR '']'')" "\<not> is_alpha (CHR '' '')" "\<not> is_alpha nul"
  by (simp_all add: class_defs nul_def)

lemma nul_neq [simp]: "CHR ''-'' \<noteq> nul" "CHR ''_'' \<noteq> nul" "CHR ''/'' \<noteq> nul" "CHR ''.'' \<noteq> nul"
  by (simp_all add: nul_def)

lemma digit_alnum [simp]: "is_digit c \<Longrightarrow> is_alnum c" and alpha_alnum [simp]: "is_alpha c \<Longrightarrow> is_alnum c"
  by (simp_all add: is_alnum_def)

lemma hex_alnum [simp]: "is_hex c \<Longrightarrow> is_alnum c"
  by (auto simp: class_defs)

section \<open>Searching and splitting\<close>

definition contains_char :: "char \<Rightarrow> string \<Rightarrow> bool" where "contains_char c s = (c \<in> set s)"

definition starts_with :: "string \<Rightarrow> string \<Rightarrow> bool" where "starts_with p s = prefix p s"
definition ends_with :: "string \<Rightarrow> string \<Rightarrow> bool" where "ends_with p s = suffix p s"

definition strip_prefix :: "string \<Rightarrow> string \<Rightarrow> string option" where
  "strip_prefix p s = (if starts_with p s then Some (drop (length p) s) else None)"

definition strip_suffix :: "string \<Rightarrow> string \<Rightarrow> string option" where
  "strip_suffix p s = (if ends_with p s then Some (take (length s - length p) s) else None)"

text \<open>\<^verbatim>\<open>find\<close>: the first position of a pattern.\<close>

fun find_str :: "string \<Rightarrow> string \<Rightarrow> nat option" where
  "find_str p [] = (if p = [] then Some 0 else None)"
| "find_str p (c # s) = (if prefix p (c # s) then Some 0 else map_option Suc (find_str p s))"

definition contains_str :: "string \<Rightarrow> string \<Rightarrow> bool" where
  "contains_str p s = (find_str p s \<noteq> None)"

text \<open>\<^verbatim>\<open>rfind\<close> of a character: its last position.\<close>

fun rfind_char :: "char \<Rightarrow> string \<Rightarrow> nat option" where
  "rfind_char c [] = None"
| "rfind_char c (d # s) =
     (case rfind_char c s of Some i \<Rightarrow> Some (Suc i) | None \<Rightarrow> if d = c then Some 0 else None)"

text \<open>\<^verbatim>\<open>split\<close> on a character: one more part than there are separators.\<close>

fun split_char :: "char \<Rightarrow> string \<Rightarrow> string list" where
  "split_char c [] = [[]]"
| "split_char c (d # s) =
     (if d = c then [] # split_char c s
      else (case split_char c s of [] \<Rightarrow> [[d]] | p # ps \<Rightarrow> (d # p) # ps))"

fun split_once :: "char \<Rightarrow> string \<Rightarrow> (string \<times> string) option" where
  "split_once c [] = None"
| "split_once c (d # s) =
     (if d = c then Some ([], s)
      else (case split_once c s of None \<Rightarrow> None | Some (a, b) \<Rightarrow> Some (d # a, b)))"

fun join :: "string \<Rightarrow> string list \<Rightarrow> string" where
  "join sep [] = []"
| "join sep [p] = p"
| "join sep (p # q # ps) = p @ sep @ join sep (q # ps)"

text \<open>
  \<^verbatim>\<open>lines\<close>: split at newlines; a line that ends in a newline loses one carriage return before
  it, and there is no line after a final newline.
\<close>

definition chomp_cr :: "string \<Rightarrow> string" where
  "chomp_cr l = (if l \<noteq> [] \<and> last l = CHR 0x0D then butlast l else l)"

definition rlines :: "string \<Rightarrow> string list" where
  "rlines s = (let ps = split_char newline s
               in map chomp_cr (butlast ps) @ (if last ps = [] then [] else [last ps]))"

text \<open>\<^verbatim>\<open>Path::join\<close>: an absolute second path replaces the first.\<close>

definition path_join :: "string \<Rightarrow> string \<Rightarrow> string" where
  "path_join a b =
     (if starts_with ''/'' b then b
      else if a = [] \<or> ends_with ''/'' a then a @ b else a @ ''/'' @ b)"

lemma split_char_ne [simp]: "split_char c s \<noteq> []"
  by (induction s) (auto split: list.splits)

lemma split_char_nosep: "p \<in> set (split_char c s) \<Longrightarrow> c \<notin> set p"
proof (induction s arbitrary: p)
  case Nil
  then show ?case by simp
next
  case (Cons d s)
  then show ?case by (cases "split_char c s") (auto split: if_splits)
qed

lemma join_split [simp]: "join [c] (split_char c s) = s"
proof (induction s)
  case Nil
  then show ?case by simp
next
  case (Cons d s)
  obtain p ps where ps: "split_char c s = p # ps" by (cases "split_char c s") auto
  then show ?case using Cons by (cases ps) auto
qed

lemma split_char_id: "c \<notin> set s \<Longrightarrow> split_char c s = [s]"
  by (induction s) auto

lemma split_char_append: "c \<notin> set p \<Longrightarrow> split_char c (p @ c # s) = p # split_char c s"
  by (induction p) auto

lemma split_join: "ps \<noteq> [] \<Longrightarrow> (\<And>p. p \<in> set ps \<Longrightarrow> c \<notin> set p) \<Longrightarrow> split_char c (join [c] ps) = ps"
  by (induction "[c]" ps rule: join.induct) (auto simp: split_char_id split_char_append)

lemma split_char_Cons_iff:
  "split_char c s = p # ps \<longleftrightarrow>
     c \<notin> set p \<and> (if ps = [] then s = p else (\<exists>t. s = p @ c # t \<and> split_char c t = ps))"
proof
  assume h: "split_char c s = p # ps"
  have np: "c \<notin> set p" using split_char_nosep [of p c s] h by simp
  have j: "s = join [c] (p # ps)" using join_split [of c s] h by simp
  have "split_char c (join [c] ps) = ps" if "ps \<noteq> []"
    using split_char_nosep [of _ c s] h that by (intro split_join) auto
  with np j show "c \<notin> set p \<and> (if ps = [] then s = p else (\<exists>t. s = p @ c # t \<and> split_char c t = ps))"
    by (cases ps) auto
next
  assume "c \<notin> set p \<and> (if ps = [] then s = p else (\<exists>t. s = p @ c # t \<and> split_char c t = ps))"
  then show "split_char c s = p # ps"
    by (metis split_char_append split_char_id)
qed

lemma split_once_None: "split_once c s = None \<longleftrightarrow> c \<notin> set s"
  by (induction s) (auto split: option.splits)

lemma split_once_append [simp]: "c \<notin> set a \<Longrightarrow> split_once c (a @ c # b) = Some (a, b)"
  by (induction a) auto

lemma split_once_Some: "split_once c s = Some (a, b) \<longleftrightarrow> s = a @ c # b \<and> c \<notin> set a"
proof
  assume h: "split_once c s = Some (a, b)"
  then have "c \<in> set s" using split_once_None [of c s] by fastforce
  then obtain p q where pq: "s = p @ c # q" "c \<notin> set p" by (meson split_list_first)
  then have "split_once c s = Some (p, q)" by simp
  with h pq show "s = a @ c # b \<and> c \<notin> set a" by simp
next
  assume "s = a @ c # b \<and> c \<notin> set a"
  then show "split_once c s = Some (a, b)" by simp
qed

lemma rfind_char_None: "rfind_char c s = None \<longleftrightarrow> c \<notin> set s"
  by (induction s) (auto split: option.splits)

lemma rfind_char_last: "c \<notin> set b \<Longrightarrow> rfind_char c (a @ c # b) = Some (length a)"
proof (induction a)
  case Nil
  then have "rfind_char c b = None" by (simp add: rfind_char_None)
  then show ?case by simp
next
  case (Cons d a)
  then show ?case by simp
qed

lemma rfind_char_Some:
  "rfind_char c s = Some i \<longleftrightarrow> (\<exists>a b. s = a @ c # b \<and> length a = i \<and> c \<notin> set b)"
proof
  assume h: "rfind_char c s = Some i"
  then have "c \<in> set s" using rfind_char_None [of c s] by fastforce
  then obtain a b where "s = a @ c # b" "c \<notin> set b" by (meson split_list_last)
  with h show "\<exists>a b. s = a @ c # b \<and> length a = i \<and> c \<notin> set b"
    using rfind_char_last [of c b a] by auto
next
  assume "\<exists>a b. s = a @ c # b \<and> length a = i \<and> c \<notin> set b"
  then show "rfind_char c s = Some i" by (auto simp: rfind_char_last)
qed

lemma find_str_Some: "find_str p s = Some i \<Longrightarrow> i + length p \<le> length s \<and> prefix p (drop i s)"
proof (induction s arbitrary: i)
  case Nil
  then show ?case by (simp split: if_splits)
next
  case (Cons c s)
  then show ?case
    by (auto split: if_splits dest: prefix_length_le)
qed

lemma contains_str_sublist: "contains_str p s \<longleftrightarrow> sublist p s"
  unfolding contains_str_def
  by (induction s) (auto simp: sublist_Cons_right)

lemma strip_prefix_append [simp]: "strip_prefix p (p @ s) = Some s"
  by (simp add: strip_prefix_def starts_with_def)

lemma starts_with_append [simp]: "starts_with p (p @ s)"
  by (simp add: starts_with_def)

section \<open>Characters and white space\<close>

text \<open>
  \<^verbatim>\<open>chars\<close>: the code points of a UTF-8 byte string.  A Rust string is valid UTF-8; a byte
  that cannot start or finish a character is kept as itself.
\<close>

fun chars :: "string \<Rightarrow> nat list" where
  "chars [] = []"
| "chars [a] = [code a]"
| "chars [a, b] =
     (if 192 \<le> code a \<and> code a < 224 then [(code a - 192) * 64 + (code b - 128)]
      else code a # chars [b])"
| "chars [a, b, c] =
     (if 192 \<le> code a \<and> code a < 224 then ((code a - 192) * 64 + (code b - 128)) # chars [c]
      else if 224 \<le> code a \<and> code a < 240
        then [(code a - 224) * 4096 + (code b - 128) * 64 + (code c - 128)]
      else code a # chars [b, c])"
| "chars (a # b # c # d # s) =
     (if 192 \<le> code a \<and> code a < 224
        then ((code a - 192) * 64 + (code b - 128)) # chars (c # d # s)
      else if 224 \<le> code a \<and> code a < 240
        then ((code a - 224) * 4096 + (code b - 128) * 64 + (code c - 128)) # chars (d # s)
      else if 240 \<le> code a
        then ((code a - 240) * 262144 + (code b - 128) * 4096 + (code c - 128) * 64
              + (code d - 128)) # chars s
      else code a # chars (b # c # d # s))"

lemma chars_ascii: "list_all is_ascii s \<Longrightarrow> chars s = map code s"
  by (induction s rule: chars.induct) (auto simp: is_ascii_def)

text \<open>The UTF-8 encodings of the characters with the \<^verbatim>\<open>White_Space\<close> property.\<close>

definition ws_encodings :: "string list" where
  "ws_encodings =
    [[CHR 0x09], [CHR 0x0A], [CHR 0x0B], [CHR 0x0C], [CHR 0x0D], [CHR 0x20],
     [CHR 0xC2, CHR 0x85], [CHR 0xC2, CHR 0xA0], [CHR 0xE1, CHR 0x9A, CHR 0x80],
     [CHR 0xE2, CHR 0x80, CHR 0x80], [CHR 0xE2, CHR 0x80, CHR 0x81],
     [CHR 0xE2, CHR 0x80, CHR 0x82], [CHR 0xE2, CHR 0x80, CHR 0x83],
     [CHR 0xE2, CHR 0x80, CHR 0x84], [CHR 0xE2, CHR 0x80, CHR 0x85],
     [CHR 0xE2, CHR 0x80, CHR 0x86], [CHR 0xE2, CHR 0x80, CHR 0x87],
     [CHR 0xE2, CHR 0x80, CHR 0x88], [CHR 0xE2, CHR 0x80, CHR 0x89],
     [CHR 0xE2, CHR 0x80, CHR 0x8A], [CHR 0xE2, CHR 0x80, CHR 0xA8],
     [CHR 0xE2, CHR 0x80, CHR 0xA9], [CHR 0xE2, CHR 0x80, CHR 0xAF],
     [CHR 0xE2, CHR 0x81, CHR 0x9F], [CHR 0xE3, CHR 0x80, CHR 0x80]]"

text \<open>Strip the encodings of a table from the front, as long as one of them is a prefix.\<close>

function strip_front :: "string list \<Rightarrow> string \<Rightarrow> string" where
  "strip_front tab s =
     (case find (\<lambda>w. w \<noteq> [] \<and> prefix w s) tab of
        None \<Rightarrow> s | Some w \<Rightarrow> strip_front tab (drop (length w) s))"
  by pat_completeness auto
termination
  by (relation "measure (\<lambda>(tab, s). length s)")
     (auto simp: find_Some_iff prefix_def)

declare strip_front.simps [simp del]

definition trim_start :: "string \<Rightarrow> string" where "trim_start s = strip_front ws_encodings s"

definition trim_end :: "string \<Rightarrow> string" where
  "trim_end s = rev (strip_front (map rev ws_encodings) (rev s))"

definition trim :: "string \<Rightarrow> string" where "trim s = trim_end (trim_start s)"

text \<open>
  A byte is white space free when no encoding of white space starts or ends with it; a
  string that starts and ends with such bytes is its own trim.
\<close>

definition solid :: "char \<Rightarrow> bool" where
  "solid c = (33 \<le> code c \<and> code c < 128)"

definition trimmed :: "string \<Rightarrow> bool" where
  "trimmed s = (s = [] \<or> (solid (hd s) \<and> solid (last s)))"

lemma solid_not_ws: "solid c \<Longrightarrow> w \<in> set ws_encodings \<Longrightarrow> w \<noteq> [] \<and> hd w \<noteq> c \<and> last w \<noteq> c"
  by (auto simp: ws_encodings_def solid_def code_def)

lemma strip_front_none: "(\<And>w. w \<in> set tab \<Longrightarrow> w \<noteq> [] \<Longrightarrow> \<not> prefix w s) \<Longrightarrow> strip_front tab s = s"
proof -
  assume h: "\<And>w. w \<in> set tab \<Longrightarrow> w \<noteq> [] \<Longrightarrow> \<not> prefix w s"
  then have "find (\<lambda>w. w \<noteq> [] \<and> prefix w s) tab = None"
    by (auto simp: find_None_iff)
  then show ?thesis by (subst strip_front.simps) simp
qed

lemma trim_start_trimmed: "trimmed s \<Longrightarrow> trim_start s = s"
  unfolding trim_start_def
proof (rule strip_front_none)
  fix w assume "trimmed s" "w \<in> set ws_encodings" "w \<noteq> []"
  then show "\<not> prefix w s"
    using solid_not_ws [of "hd s" w] by (cases w; cases s) (auto simp: trimmed_def)
qed

lemma trim_end_trimmed: "trimmed s \<Longrightarrow> trim_end s = s"
proof -
  assume t: "trimmed s"
  have "strip_front (map rev ws_encodings) (rev s) = rev s"
  proof (rule strip_front_none)
    fix w assume w: "w \<in> set (map rev ws_encodings)" "w \<noteq> []"
    then obtain v where v: "w = rev v" "v \<in> set ws_encodings" by auto
    show "\<not> prefix w (rev s)"
    proof
      assume "prefix w (rev s)"
      then have "hd w = hd (rev s)" "s \<noteq> []" using w(2) by (auto simp: prefix_def)
      then have "last v = last s" using v w(2) by (simp add: hd_rev)
      then show False using t solid_not_ws [of "last s" v] v(2) \<open>s \<noteq> []\<close> by (auto simp: trimmed_def)
    qed
  qed
  then show ?thesis by (simp add: trim_end_def)
qed

lemma trim_trimmed [simp]: "trimmed s \<Longrightarrow> trim s = s"
  by (simp add: trim_def trim_start_trimmed trim_end_trimmed)

lemma trimmed_Nil [simp]: "trimmed []"
  by (simp add: trimmed_def)

lemma strip_front_step:
  assumes w: "w \<in> set tab" "w \<noteq> []"
    and uniq: "\<And>v. v \<in> set tab \<Longrightarrow> v \<noteq> [] \<Longrightarrow> hd v = hd w \<Longrightarrow> v = w"
  shows "strip_front tab (w @ s) = strip_front tab s"
proof -
  let ?P = "\<lambda>v. v \<noteq> [] \<and> prefix v (w @ s)"
  have "find ?P tab \<noteq> None"
    using w by (auto simp: find_None_iff)
  then obtain v where v: "find ?P tab = Some v" by auto
  have P: "v \<in> set tab" "v \<noteq> [] \<and> prefix v (w @ s)"
    using find_SomeD [OF v] by simp_all
  have "hd v = hd w"
    using P(2) w(2) by (auto simp: prefix_def neq_Nil_conv append_eq_Cons_conv)
  then have "v = w" using uniq P by blast
  with v show ?thesis by (subst strip_front.simps) simp
qed

lemma space_encoding:
  "'' '' \<in> set ws_encodings" "'' '' \<in> set (map rev ws_encodings)"
  "v \<in> set ws_encodings \<Longrightarrow> hd v = CHR '' '' \<Longrightarrow> v = '' ''"
  "v \<in> set (map rev ws_encodings) \<Longrightarrow> hd v = CHR '' '' \<Longrightarrow> v = '' ''"
  by (auto simp: ws_encodings_def)

lemma trim_start_space [simp]: "trim_start (CHR '' '' # s) = trim_start s"
  unfolding trim_start_def
  using strip_front_step [OF space_encoding(1), of s] by (simp add: space_encoding(3))

lemma trim_end_space [simp]: "trim_end (s @ '' '') = trim_end s"
  unfolding trim_end_def
  using strip_front_step [OF space_encoding(2), of "rev s"] space_encoding(4) by simp

lemma trim_space_front: "trimmed s \<Longrightarrow> trim (CHR '' '' # s) = s"
  by (simp add: trim_def trim_start_trimmed trim_end_trimmed)

section \<open>Numbers\<close>

definition digit_val :: "char \<Rightarrow> nat" where "digit_val c = code c - 48"

definition digits_val :: "string \<Rightarrow> nat" where
  "digits_val s = foldl (\<lambda>n c. 10 * n + digit_val c) 0 s"

definition parse_uint :: "nat \<Rightarrow> string \<Rightarrow> nat option" where
  "parse_uint mx s =
     (let d = (case s of c # t \<Rightarrow> if c = CHR ''+'' then t else s | [] \<Rightarrow> [])
      in if d \<noteq> [] \<and> list_all is_digit d \<and> digits_val d \<le> mx then Some (digits_val d) else None)"

definition parse_u8 :: "string \<Rightarrow> nat option" where "parse_u8 = parse_uint 255"
definition parse_u16 :: "string \<Rightarrow> nat option" where "parse_u16 = parse_uint 65535"
definition parse_u32 :: "string \<Rightarrow> nat option" where "parse_u32 = parse_uint 4294967295"

text \<open>\<^verbatim>\<open>u64::from_str_radix(s, 16)\<close>.\<close>

definition hex_val :: "char \<Rightarrow> nat" where
  "hex_val c = (if is_digit c then code c - 48 else if is_lower c then code c - 87 else code c - 55)"

definition hex_digits_val :: "string \<Rightarrow> nat" where
  "hex_digits_val s = foldl (\<lambda>n c. 16 * n + hex_val c) 0 s"

definition parse_u64_hex :: "string \<Rightarrow> nat option" where
  "parse_u64_hex s =
     (let d = (case s of c # t \<Rightarrow> if c = CHR ''+'' then t else s | [] \<Rightarrow> [])
      in if d \<noteq> [] \<and> list_all is_hex d \<and> hex_digits_val d < 2 ^ 64 then Some (hex_digits_val d)
         else None)"

text \<open>\<^verbatim>\<open>Display\<close> of an unsigned integer.\<close>

fun show_nat :: "nat \<Rightarrow> string" where
  "show_nat n = (if n < 10 then [char_of (48 + n)] else show_nat (n div 10) @ [char_of (48 + n mod 10)])"

declare show_nat.simps [simp del]

lemma digits_val_Nil [simp]: "digits_val [] = 0"
  by (simp add: digits_val_def)

lemma digits_val_snoc [simp]: "digits_val (s @ [c]) = 10 * digits_val s + digit_val c"
  by (simp add: digits_val_def)

lemma code_char_of [simp]: "n < 256 \<Longrightarrow> code (char_of n) = n"
  by (simp add: code_def)

lemma show_nat_props: "show_nat n \<noteq> [] \<and> list_all is_digit (show_nat n) \<and> digits_val (show_nat n) = n"
proof (induction n rule: show_nat.induct)
  case (1 n)
  have d: "m < 10 \<Longrightarrow> is_digit (char_of (48 + m)) \<and> digit_val (char_of (48 + m)) = m" for m :: nat
    by (simp add: is_digit_def digit_val_def)
  show ?case
  proof (cases "n < 10")
    case True
    then show ?thesis using d [of n] digits_val_snoc [of "[]" "char_of (48 + n)"]
      by (subst (1 2 3) show_nat.simps) simp
  next
    case False
    have "digits_val (show_nat (n div 10) @ [char_of (48 + n mod 10)]) = n"
      using "1.IH" [OF False] d [of "n mod 10"] by simp
    then show ?thesis using "1.IH" [OF False] d [of "n mod 10"] False
      by (subst (1 2 3) show_nat.simps) simp
  qed
qed

lemma show_nat_ne [simp]: "show_nat n \<noteq> []"
  and show_nat_digits: "list_all is_digit (show_nat n)"
  and digits_val_show [simp]: "digits_val (show_nat n) = n"
  using show_nat_props by auto

lemma show_nat_set: "c \<in> set (show_nat n) \<Longrightarrow> is_digit c"
  using show_nat_digits by (auto simp: list_all_iff)

lemma show_nat_no_plus: "show_nat n = c # t \<Longrightarrow> c \<noteq> CHR ''+''"
  using show_nat_set [of c n] by (auto simp: is_digit_def code_def)

lemma parse_uint_show: "n \<le> mx \<Longrightarrow> parse_uint mx (show_nat n) = Some n"
proof -
  assume n: "n \<le> mx"
  obtain c t where ct: "show_nat n = c # t" by (cases "show_nat n") auto
  with show_nat_no_plus have "c \<noteq> CHR ''+''" by blast
  then show ?thesis
    using ct n digits_val_show [of n] show_nat_digits [of n] by (auto simp: parse_uint_def Let_def)
qed

interpretation decimal: codec show_nat "parse_uint mx" Some "\<lambda>n. n \<le> mx" for mx
  by unfold_locales (simp_all add: parse_uint_show)

lemma parse_uint_bound: "parse_uint mx s = Some n \<Longrightarrow> n \<le> mx"
  by (auto simp: parse_uint_def Let_def split: if_splits)

lemma solid_digit: "is_digit c \<Longrightarrow> solid c" and solid_alnum: "is_alnum c \<Longrightarrow> solid c"
  by (auto simp: solid_def class_defs)

lemma trimmed_show_nat [simp]: "trimmed (show_nat n)"
  using show_nat_set [of _ n] by (auto simp: trimmed_def intro!: solid_digit)

section \<open>Lines and words\<close>

definition unlines :: "string list \<Rightarrow> string" where
  "unlines ls = concat (map (\<lambda>l. l @ [newline]) ls)"

text \<open>Texts a line of a file can carry: no surrounding white space, no line break, not empty.\<close>

definition text_ok :: "string \<Rightarrow> bool" where
  "text_ok v = (v \<noteq> [] \<and> trimmed v \<and> newline \<notin> set v)"

lemma text_ok_show_nat [simp]: "text_ok (show_nat n)"
  using show_nat_set [of newline n] by (auto simp: text_ok_def newline_def is_digit_def code_def)

lemma rlines_unlines:
  assumes "\<And>l. l \<in> set ls \<Longrightarrow> text_ok l"
  shows "rlines (unlines ls) = ls"
proof -
  have "split_char newline (unlines ls) = ls @ [[]]"
    using assms by (induction ls) (auto simp: unlines_def text_ok_def split_char_append)
  moreover have "chomp_cr l = l" if "l \<in> set ls" for l
    using assms [OF that] by (auto simp: chomp_cr_def text_ok_def trimmed_def solid_def code_def)
  ultimately show ?thesis by (simp add: rlines_def map_idI)
qed

text \<open>
  \<^verbatim>\<open>split_whitespace\<close>: the bytes are read from the left with the word so far (reversed) and
  the number of bytes of a white space still to skip.
\<close>

fun ws_words :: "nat \<Rightarrow> string \<Rightarrow> string \<Rightarrow> string list" where
  "ws_words k cur [] = (if cur = [] then [] else [rev cur])"
| "ws_words (Suc k) cur (c # s) = ws_words k cur s"
| "ws_words 0 cur (c # s) =
     (case find (\<lambda>w. prefix w (c # s)) ws_encodings of
        Some w \<Rightarrow> (if cur = [] then [] else [rev cur]) @ ws_words (length w - 1) [] s
      | None \<Rightarrow> ws_words 0 (c # cur) s)"

definition split_whitespace :: "string \<Rightarrow> string list" where "split_whitespace s = ws_words 0 [] s"

lemma find_ws_solid: "solid c \<Longrightarrow> find (\<lambda>w. prefix w (c # s)) ws_encodings = None"
  using solid_not_ws [of c] by (fastforce simp: find_None_iff prefix_Cons)

lemma find_ws_space: "find (\<lambda>w. prefix w (CHR '' '' # s)) ws_encodings = Some '' ''"
  by (simp add: ws_encodings_def)

lemma ws_words_solid: "list_all solid w \<Longrightarrow> ws_words 0 cur (w @ s) = ws_words 0 (rev w @ cur) s"
  by (induction w arbitrary: cur) (simp_all add: find_ws_solid)

lemma split_whitespace_join:
  "(\<And>w. w \<in> set ws \<Longrightarrow> w \<noteq> [] \<and> list_all solid w) \<Longrightarrow> split_whitespace (join '' '' ws) = ws"
  unfolding split_whitespace_def
proof (induction ws rule: induct_list012)
  case (2 w)
  then have "ws_words 0 [] (w @ []) = ws_words 0 (rev w @ []) []" by (intro ws_words_solid) simp
  then show ?case using 2 by simp
next
  case (3 v w ws)
  then have "ws_words 0 [] (v @ CHR '' '' # join '' '' (w # ws)) = v # ws_words 0 [] (join '' '' (w # ws))"
    by (subst ws_words_solid) (simp_all add: find_ws_space)
  then show ?case using 3 by simp
qed simp

lemma solid_text_ok: "v \<noteq> [] \<Longrightarrow> list_all solid v \<Longrightarrow> text_ok v"
  by (auto simp: text_ok_def trimmed_def list_all_iff newline_def solid_def code_def)

lemma text_ok_prefix: "text_ok v \<Longrightarrow> list_all solid p \<Longrightarrow> p \<noteq> [] \<Longrightarrow> text_ok (p @ CHR '' '' # v)"
  by (auto simp: text_ok_def trimmed_def list_all_iff newline_def solid_def code_def)

lemma text_ok_words: "ws \<noteq> [] \<Longrightarrow> (\<And>w. w \<in> set ws \<Longrightarrow> w \<noteq> [] \<and> list_all solid w) \<Longrightarrow> text_ok (join '' '' ws)"
proof (induction ws rule: induct_list012)
  case (3 v w ws)
  then show ?case using text_ok_prefix [of "join '' '' (w # ws)" v] by simp
qed (auto intro: solid_text_ok)

section \<open>Case\<close>

text \<open>
  \<^verbatim>\<open>to_lowercase\<close> on ASCII letters; the texts it is compared with have no letter that a character
  beyond ASCII lowers to.
\<close>

definition lower_char :: "char \<Rightarrow> char" where
  "lower_char c = (if 65 \<le> code c \<and> code c \<le> 90 then char_of (code c + 32) else c)"

definition to_lowercase :: "string \<Rightarrow> string" where "to_lowercase s = map lower_char s"

end
