(* ===== verification/Regex.thy ===== *)
theory Regex
  imports RustStd
begin

text \<open>
  The \<^verbatim>\<open>regex\<close> crate is not part of the repository; what the source gives it is a handful of
  anchored patterns over ASCII classes.  This theory gives such a pattern its documented
  meaning: the syntax tree of the pattern, the language it denotes, and an executable
  matcher by derivatives, proved to decide membership.  The validators of the source write
  their patterns in this syntax literally.  \<open>language_simps\<close> collects the languages of the
  operators, and the lemmas of the last section read the shapes the patterns use (a class
  repeated, parts separated by a character) as predicates on strings.
\<close>

named_theorems language_simps \<open>membership in the language of a pattern\<close>

section \<open>Patterns and their languages\<close>

datatype rx =
    Nothing
  | Empty
  | Cls "char \<Rightarrow> bool"
  | Cat rx rx
  | Alt rx rx
  | Star rx

definition Chr :: "char \<Rightarrow> rx" where "Chr c = Cls (\<lambda>d. d = c)"
definition Opt :: "rx \<Rightarrow> rx" where "Opt r = Alt Empty r"
definition Plus :: "rx \<Rightarrow> rx" where "Plus r = Cat r (Star r)"

fun Times :: "nat \<Rightarrow> rx \<Rightarrow> rx" where
  "Times 0 r = Empty"
| "Times (Suc n) r = Cat r (Times n r)"

text \<open>\<open>r{m,n}\<close>: \<open>m\<close> copies and then at most \<open>n - m\<close> more.\<close>

fun UpTo :: "nat \<Rightarrow> rx \<Rightarrow> rx" where
  "UpTo 0 r = Empty"
| "UpTo (Suc n) r = Opt (Cat r (UpTo n r))"

definition Between :: "nat \<Rightarrow> nat \<Rightarrow> rx \<Rightarrow> rx" where
  "Between m n r = Cat (Times m r) (UpTo (n - m) r)"

inductive_set star :: "string set \<Rightarrow> string set" for A where
  star_Nil [intro]: "[] \<in> star A"
| star_app [intro]: "a \<in> A \<Longrightarrow> s \<in> star A \<Longrightarrow> a @ s \<in> star A"

definition conc :: "string set \<Rightarrow> string set \<Rightarrow> string set" where
  "conc A B = {a @ b | a b. a \<in> A \<and> b \<in> B}"

fun lang :: "rx \<Rightarrow> string set" where
  "lang Nothing = {}"
| "lang Empty = {[]}"
| "lang (Cls f) = {[c] | c. f c}"
| "lang (Cat r s) = conc (lang r) (lang s)"
| "lang (Alt r s) = lang r \<union> lang s"
| "lang (Star r) = star (lang r)"

section \<open>The matcher\<close>

fun nullable :: "rx \<Rightarrow> bool" where
  "nullable Nothing = False"
| "nullable Empty = True"
| "nullable (Cls f) = False"
| "nullable (Cat r s) = (nullable r \<and> nullable s)"
| "nullable (Alt r s) = (nullable r \<or> nullable s)"
| "nullable (Star r) = True"

text \<open>Constructors that drop the empty language keep the derivatives small.\<close>

definition mkCat :: "rx \<Rightarrow> rx \<Rightarrow> rx" where
  "mkCat r s = (case r of Nothing \<Rightarrow> Nothing | Empty \<Rightarrow> s | _ \<Rightarrow> Cat r s)"

definition mkAlt :: "rx \<Rightarrow> rx \<Rightarrow> rx" where
  "mkAlt r s = (case r of Nothing \<Rightarrow> s | _ \<Rightarrow> (case s of Nothing \<Rightarrow> r | _ \<Rightarrow> Alt r s))"

fun deriv :: "char \<Rightarrow> rx \<Rightarrow> rx" where
  "deriv c Nothing = Nothing"
| "deriv c Empty = Nothing"
| "deriv c (Cls f) = (if f c then Empty else Nothing)"
| "deriv c (Cat r s) =
     (if nullable r then mkAlt (mkCat (deriv c r) s) (deriv c s) else mkCat (deriv c r) s)"
| "deriv c (Alt r s) = mkAlt (deriv c r) (deriv c s)"
| "deriv c (Star r) = mkCat (deriv c r) (Star r)"

fun is_match :: "rx \<Rightarrow> string \<Rightarrow> bool" where
  "is_match r [] = nullable r"
| "is_match r (c # s) = is_match (deriv c r) s"

lemma lang_mkCat [simp]: "lang (mkCat r s) = conc (lang r) (lang s)"
  by (cases r) (auto simp: mkCat_def conc_def)

lemma lang_mkAlt [simp]: "lang (mkAlt r s) = lang r \<union> lang s"
  by (cases r; cases s) (auto simp: mkAlt_def)

lemma nullable_iff: "nullable r \<longleftrightarrow> [] \<in> lang r"
  by (induction r) (auto simp: conc_def)

lemma conc_Cons: "c # s \<in> conc A B \<longleftrightarrow>
    (\<exists>a b. s = a @ b \<and> c # a \<in> A \<and> b \<in> B) \<or> ([] \<in> A \<and> c # s \<in> B)"
proof
  assume "c # s \<in> conc A B"
  then obtain a b where "c # s = a @ b" "a \<in> A" "b \<in> B" by (auto simp: conc_def)
  then show "(\<exists>a b. s = a @ b \<and> c # a \<in> A \<and> b \<in> B) \<or> ([] \<in> A \<and> c # s \<in> B)"
    by (cases a) auto
next
  assume "(\<exists>a b. s = a @ b \<and> c # a \<in> A \<and> b \<in> B) \<or> ([] \<in> A \<and> c # s \<in> B)"
  then show "c # s \<in> conc A B"
  proof
    assume "\<exists>a b. s = a @ b \<and> c # a \<in> A \<and> b \<in> B"
    then obtain a b where "c # s = (c # a) @ b" "c # a \<in> A" "b \<in> B" by auto
    then show ?thesis unfolding conc_def by blast
  next
    assume "[] \<in> A \<and> c # s \<in> B"
    then have "c # s = [] @ (c # s)" "[] \<in> A" "c # s \<in> B" by auto
    then show ?thesis unfolding conc_def by blast
  qed
qed

lemma star_Cons: "c # s \<in> star A \<longleftrightarrow> (\<exists>a b. s = a @ b \<and> c # a \<in> A \<and> b \<in> star A)"
proof
  assume "c # s \<in> star A"
  then show "\<exists>a b. s = a @ b \<and> c # a \<in> A \<and> b \<in> star A"
  proof (induction "c # s" rule: star.induct)
    case (star_app a t)
    then show ?case by (cases a) auto
  qed
next
  assume "\<exists>a b. s = a @ b \<and> c # a \<in> A \<and> b \<in> star A"
  then show "c # s \<in> star A" using star.star_app by fastforce
qed

lemma lang_deriv: "s \<in> lang (deriv c r) \<longleftrightarrow> c # s \<in> lang r"
proof (induction r arbitrary: s)
  case (Cat r1 r2)
  then show ?case
    by (auto simp: conc_Cons nullable_iff) (auto simp: conc_def)
next
  case (Star r)
  then show ?case by (auto simp: star_Cons) (auto simp: conc_def)
qed auto

theorem is_match_iff: "is_match r s \<longleftrightarrow> s \<in> lang r"
  by (induction s arbitrary: r) (simp_all add: nullable_iff lang_deriv)

section \<open>Reading the languages\<close>

lemma lang_Chr [language_simps]: "s \<in> lang (Chr c) \<longleftrightarrow> s = [c]"
  by (auto simp: Chr_def)

lemma lang_Cls [language_simps]: "s \<in> lang (Cls f) \<longleftrightarrow> (\<exists>c. s = [c] \<and> f c)"
  by auto

lemma lang_Opt [language_simps]: "s \<in> lang (Opt r) \<longleftrightarrow> s = [] \<or> s \<in> lang r"
  by (simp add: Opt_def)

lemma lang_Cat: "s \<in> lang (Cat r t) \<longleftrightarrow> (\<exists>a b. s = a @ b \<and> a \<in> lang r \<and> b \<in> lang t)"
  by (auto simp: conc_def)

lemma star_Cls: "s \<in> star {[c] | c. f c} \<longleftrightarrow> list_all f s"
proof
  assume "s \<in> star {[c] | c. f c}"
  then show "list_all f s" by (induction rule: star.induct) auto
next
  assume "list_all f s"
  then show "s \<in> star {[c] | c. f c}"
  proof (induction s)
    case (Cons c s)
    then have "[c] @ s \<in> star {[c] | c. f c}" by (intro star.star_app) auto
    then show ?case by simp
  qed auto
qed

lemma lang_Star_Cls [language_simps]: "s \<in> lang (Star (Cls f)) \<longleftrightarrow> list_all f s"
  using star_Cls [of s f] by simp

lemma lang_Cls_Cat [language_simps]:
  "s \<in> lang (Cat (Cls f) r) \<longleftrightarrow> (\<exists>c t. s = c # t \<and> f c \<and> t \<in> lang r)"
proof -
  have "s \<in> lang (Cat (Cls f) r) \<longleftrightarrow> (\<exists>a b. s = a @ b \<and> (\<exists>c. a = [c] \<and> f c) \<and> b \<in> lang r)"
    unfolding lang_Cat lang_Cls ..
  also have "\<dots> \<longleftrightarrow> (\<exists>c t. s = c # t \<and> f c \<and> t \<in> lang r)"
    by (metis append_Cons append_Nil)
  finally show ?thesis .
qed

lemma lang_Plus_Cls [language_simps]: "s \<in> lang (Plus (Cls f)) \<longleftrightarrow> s \<noteq> [] \<and> list_all f s"
  unfolding Plus_def lang_Cls_Cat lang_Star_Cls by (cases s) auto

lemma conc_assoc: "conc (conc A B) C = conc A (conc B C)"
proof
  show "conc (conc A B) C \<subseteq> conc A (conc B C)"
  proof
    fix s assume "s \<in> conc (conc A B) C"
    then obtain a b d where "s = a @ (b @ d)" "a \<in> A" "b \<in> B" "d \<in> C" by (auto simp: conc_def)
    then show "s \<in> conc A (conc B C)" unfolding conc_def by blast
  qed
  show "conc A (conc B C) \<subseteq> conc (conc A B) C"
  proof
    fix s assume "s \<in> conc A (conc B C)"
    then obtain a b d where "s = (a @ b) @ d" "a \<in> A" "b \<in> B" "d \<in> C" by (auto simp: conc_def)
    then show "s \<in> conc (conc A B) C" unfolding conc_def by blast
  qed
qed

lemma lang_Cat_assoc: "lang (Cat (Cat a b) d) = lang (Cat a (Cat b d))"
  by (simp add: conc_assoc)

lemma lang_Cat_Empty: "lang (Cat Empty q) = lang q"
  by (auto simp: conc_def)

lemma lang_Cat_Alt: "lang (Cat (Alt a b) q) = lang (Cat a q) \<union> lang (Cat b q)"
  by (auto simp: conc_def)

lemma lang_Times_Cls: "s \<in> lang (Times n (Cls f)) \<longleftrightarrow> length s = n \<and> list_all f s"
proof (induction n arbitrary: s)
  case (Suc n)
  then show ?case
    unfolding Times.simps lang_Cls_Cat by (cases s) auto
qed auto

lemma lang_UpTo_Cls: "s \<in> lang (UpTo n (Cls f)) \<longleftrightarrow> length s \<le> n \<and> list_all f s"
proof (induction n arbitrary: s)
  case (Suc n)
  then show ?case
    unfolding UpTo.simps lang_Opt lang_Cls_Cat by (cases s) auto
qed auto

lemma lang_Between_Cls [language_simps]:
  assumes "m \<le> n"
  shows "s \<in> lang (Between m n (Cls f)) \<longleftrightarrow> m \<le> length s \<and> length s \<le> n \<and> list_all f s"
proof
  assume "s \<in> lang (Between m n (Cls f))"
  then show "m \<le> length s \<and> length s \<le> n \<and> list_all f s"
    using assms unfolding Between_def lang_Cat lang_Times_Cls lang_UpTo_Cls by auto
next
  assume h: "m \<le> length s \<and> length s \<le> n \<and> list_all f s"
  have "s = take m s @ drop m s" by simp
  then show "s \<in> lang (Between m n (Cls f))"
    unfolding Between_def lang_Cat lang_Times_Cls lang_UpTo_Cls
    using h by (intro exI [of _ "take m s"] exI [of _ "drop m s"])
      (auto simp: list_all_iff dest: in_set_takeD in_set_dropD)
qed

text \<open>
  Parts separated by a character: when no part contains the separator, the parts of a
  matching string are what \<^verbatim>\<open>split\<close> returns.
\<close>

definition sep_free :: "char \<Rightarrow> rx \<Rightarrow> bool" where
  "sep_free c r = (\<forall>s \<in> lang r. c \<notin> set s)"

lemma lang_sep_Cons:
  assumes "sep_free c r"
  shows "s \<in> lang (Cat (Cat r (Chr c)) q) \<longleftrightarrow>
    (\<exists>p t. s = p @ c # t \<and> c \<notin> set p \<and> p \<in> lang r \<and> t \<in> lang q)"
proof -
  have "s \<in> lang (Cat (Cat r (Chr c)) q) \<longleftrightarrow>
      (\<exists>p b. s = p @ b \<and> p \<in> lang r \<and> (\<exists>d t. b = d # t \<and> d = c \<and> t \<in> lang q))"
    unfolding lang_Cat_assoc lang_Cat [of s r] Chr_def lang_Cls_Cat ..
  then have "s \<in> lang (Cat (Cat r (Chr c)) q) \<longleftrightarrow> (\<exists>p t. s = p @ c # t \<and> p \<in> lang r \<and> t \<in> lang q)"
    by blast
  with assms show ?thesis by (auto simp: sep_free_def)
qed

lemma lang_sep_Times:
  assumes "sep_free c r"
  shows "s \<in> lang (Cat (Times n (Cat r (Chr c))) r) \<longleftrightarrow>
    length (split_char c s) = Suc n \<and> (\<forall>p \<in> set (split_char c s). p \<in> lang r)"
proof (induction n arbitrary: s)
  case 0
  show ?case
  proof
    assume "s \<in> lang (Cat (Times 0 (Cat r (Chr c))) r)"
    then have "s \<in> lang r" by (auto simp: conc_def)
    moreover from this have "split_char c s = [s]"
      using assms by (intro split_char_id) (simp add: sep_free_def)
    ultimately show "length (split_char c s) = Suc 0 \<and> (\<forall>p \<in> set (split_char c s). p \<in> lang r)"
      by simp
  next
    assume h: "length (split_char c s) = Suc 0 \<and> (\<forall>p \<in> set (split_char c s). p \<in> lang r)"
    then obtain p where "split_char c s = [p]" by (auto simp: length_Suc_conv)
    then have "s = p" using join_split [of c s] by simp
    with h \<open>split_char c s = [p]\<close> show "s \<in> lang (Cat (Times 0 (Cat r (Chr c))) r)"
      by (auto simp: conc_def)
  qed
next
  case (Suc n)
  have "s \<in> lang (Cat (Times (Suc n) (Cat r (Chr c))) r) \<longleftrightarrow>
      s \<in> lang (Cat (Cat r (Chr c)) (Cat (Times n (Cat r (Chr c))) r))"
    unfolding Times.simps lang_Cat_assoc [of "Cat r (Chr c)" "Times n (Cat r (Chr c))" r] ..
  also have "\<dots> \<longleftrightarrow> (\<exists>p t. s = p @ c # t \<and> c \<notin> set p \<and> p \<in> lang r \<and>
      length (split_char c t) = Suc n \<and> (\<forall>q \<in> set (split_char c t). q \<in> lang r))"
    unfolding lang_sep_Cons [OF assms] Suc.IH by blast
  also have "\<dots> \<longleftrightarrow> length (split_char c s) = Suc (Suc n) \<and> (\<forall>p \<in> set (split_char c s). p \<in> lang r)"
    (is "?L \<longleftrightarrow> ?R")
  proof
    assume ?L
    then show ?R by (auto simp: split_char_append)
  next
    assume h: ?R
    then obtain p ps where ps: "split_char c s = p # ps" "length ps = Suc n"
      by (auto simp: length_Suc_conv)
    then have "ps \<noteq> []" by auto
    with ps(1) obtain t where "c \<notin> set p" "s = p @ c # t" "split_char c t = ps"
      unfolding split_char_Cons_iff by auto
    with h ps show ?L by auto
  qed
  finally show ?case .
qed

lemma lang_UpTo_Times: "s \<in> lang (Cat (UpTo n r) q) \<longleftrightarrow> (\<exists>k \<le> n. s \<in> lang (Cat (Times k r) q))"
proof (induction n arbitrary: s)
  case 0
  then show ?case by simp
next
  case (Suc n)
  have "s \<in> lang (Cat (UpTo (Suc n) r) q) \<longleftrightarrow> s \<in> lang q \<or> s \<in> lang (Cat r (Cat (UpTo n r) q))"
    unfolding UpTo.simps Opt_def lang_Cat_Alt lang_Cat_Empty lang_Cat_assoc by blast
  also have "\<dots> \<longleftrightarrow> s \<in> lang (Cat (Times 0 r) q) \<or> (\<exists>k \<le> n. s \<in> lang (Cat r (Cat (Times k r) q)))"
    unfolding Times.simps lang_Cat_Empty lang_Cat [of s r] Suc.IH by blast
  also have "\<dots> \<longleftrightarrow> s \<in> lang (Cat (Times 0 r) q) \<or> (\<exists>k \<le> n. s \<in> lang (Cat (Times (Suc k) r) q))"
    unfolding Times.simps lang_Cat_assoc ..
  also have "\<dots> \<longleftrightarrow> (\<exists>k \<le> Suc n. s \<in> lang (Cat (Times k r) q))"
    by (metis Suc_le_mono le0 not0_implies_Suc)
  finally show ?case .
qed

lemma lang_Times_add: "lang (Cat (Times (m + k) r) q) = lang (Cat (Times m r) (Cat (Times k r) q))"
proof (induction m)
  case 0
  then show ?case by (auto simp: conc_def)
next
  case (Suc m)
  have "lang (Cat (Times (Suc m + k) r) q) = lang (Cat r (Cat (Times (m + k) r) q))"
    by (simp only: add_Suc Times.simps lang_Cat_assoc)
  also have "\<dots> = lang (Cat r (Cat (Times m r) (Cat (Times k r) q)))" using Suc.IH by simp
  also have "\<dots> = lang (Cat (Times (Suc m) r) (Cat (Times k r) q))"
    by (simp only: Times.simps lang_Cat_assoc)
  finally show ?case .
qed

lemma lang_Between_Cat:
  assumes "m \<le> n"
  shows "s \<in> lang (Cat (Between m n r) q) \<longleftrightarrow> (\<exists>k. m \<le> k \<and> k \<le> n \<and> s \<in> lang (Cat (Times k r) q))"
proof -
  have "s \<in> lang (Cat (Between m n r) q) \<longleftrightarrow> s \<in> lang (Cat (Times m r) (Cat (UpTo (n - m) r) q))"
    unfolding Between_def lang_Cat_assoc ..
  also have "\<dots> \<longleftrightarrow> (\<exists>k \<le> n - m. s \<in> lang (Cat (Times m r) (Cat (Times k r) q)))"
    unfolding lang_Cat [of _ "Times m r"] lang_UpTo_Times by blast
  also have "\<dots> \<longleftrightarrow> (\<exists>k \<le> n - m. s \<in> lang (Cat (Times (m + k) r) q))"
    unfolding lang_Times_add ..
  also have "\<dots> \<longleftrightarrow> (\<exists>k. m \<le> k \<and> k \<le> n \<and> s \<in> lang (Cat (Times k r) q))"
  proof
    assume "\<exists>k \<le> n - m. s \<in> lang (Cat (Times (m + k) r) q)"
    then show "\<exists>k. m \<le> k \<and> k \<le> n \<and> s \<in> lang (Cat (Times k r) q)"
      using assms by (metis add_leD1 le_add1 le_add_diff_inverse nat_add_left_cancel_le)
  next
    assume "\<exists>k. m \<le> k \<and> k \<le> n \<and> s \<in> lang (Cat (Times k r) q)"
    then obtain k where "m \<le> k" "k \<le> n" "s \<in> lang (Cat (Times k r) q)" by blast
    then show "\<exists>k \<le> n - m. s \<in> lang (Cat (Times (m + k) r) q)"
      by (intro exI [of _ "k - m"]) auto
  qed
  finally show ?thesis .
qed

text \<open>\<open>r(c r)*\<close>: any number of separated parts, at least one.\<close>

lemma lang_sep_Star:
  assumes "sep_free c r"
  shows "s \<in> lang (Cat r (Star (Cat (Chr c) r))) \<longleftrightarrow> (\<forall>p \<in> set (split_char c s). p \<in> lang r)"
proof
  have gen: "a \<in> lang r \<Longrightarrow> \<forall>p \<in> set (split_char c (a @ b)). p \<in> lang r"
    if "b \<in> star (lang (Cat (Chr c) r))" for a b
    using that
  proof (induction b arbitrary: a rule: star.induct)
    case star_Nil
    then have "c \<notin> set a" using assms by (auto simp: sep_free_def)
    with star_Nil show ?case by (simp add: split_char_id)
  next
    case (star_app x s)
    then have "x \<in> lang (Cat (Cls (\<lambda>d. d = c)) r)" by (simp add: Chr_def)
    then obtain y where y: "x = c # y" "y \<in> lang r" unfolding lang_Cls_Cat by blast
    have "c \<notin> set a" using star_app assms by (auto simp: sep_free_def)
    then have "split_char c (a @ x @ s) = a # split_char c (y @ s)"
      using y(1) by (simp add: split_char_append)
    with star_app.IH [OF y(2)] star_app.prems show ?case by simp
  qed
  assume "s \<in> lang (Cat r (Star (Cat (Chr c) r)))"
  then obtain a b where "s = a @ b" "a \<in> lang r" "b \<in> star (lang (Cat (Chr c) r))"
    unfolding lang_Cat lang.simps(6) by blast
  with gen show "\<forall>p \<in> set (split_char c s). p \<in> lang r" by blast
next
  have gen: "\<forall>p \<in> set ps. p \<in> lang r \<Longrightarrow> concat (map (\<lambda>p. c # p) ps) \<in> star (lang (Cat (Chr c) r))" for ps
  proof (induction ps)
    case (Cons p ps)
    have "c # p \<in> lang (Cat (Chr c) r)" using Cons.prems unfolding lang_Cat lang_Chr by force
    then have "(c # p) @ concat (map (\<lambda>p. c # p) ps) \<in> star (lang (Cat (Chr c) r))"
      using Cons by (intro star.star_app) auto
    then show ?case by simp
  qed (simp add: star.star_Nil)
  have joined: "join [c] (p # ps) = p @ concat (map (\<lambda>p. c # p) ps)" for p ps
    by (induction ps arbitrary: p) auto
  assume h: "\<forall>p \<in> set (split_char c s). p \<in> lang r"
  obtain p ps where ps: "split_char c s = p # ps" by (cases "split_char c s") auto
  have "s = p @ concat (map (\<lambda>p. c # p) ps)"
    using join_split [of c s] ps joined by simp
  moreover have "p \<in> lang r" "\<forall>p \<in> set ps. p \<in> lang r" using h ps by auto
  ultimately show "s \<in> lang (Cat r (Star (Cat (Chr c) r)))"
    using gen unfolding lang_Cat lang.simps(6) by blast
qed

end
