(* ===== verification/Errors.thy ===== *)
theory Errors
  imports RustStd
begin

text \<open>
  The error types: \<^verbatim>\<open>SegwireError\<close>, \<^verbatim>\<open>ConfigError\<close>, \<^verbatim>\<open>ErrorContext\<close>
  (\<^verbatim>\<open>segwire-common/src/error.rs\<close>), \<^verbatim>\<open>NetlinkError\<close> (\<^verbatim>\<open>netlink.rs\<close>) and \<^verbatim>\<open>DbusError\<close>
  (\<^verbatim>\<open>dbus.rs\<close>), their messages and the conversions between them.  An I/O error and a TOML
  error are values of other crates that the source only prints: they are their text.
\<close>

datatype config_error =
    InvalidToml string
  | MissingField string
  | InvalidValue string string
  | FileNotFound string
  | EnvSubstitution string

datatype segwire_error =
    Config config_error
  | Network string
  | DBus string
  | Permission string
  | System string
  | Validation string

type_synonym 'a sres = "(segwire_error, 'a) res"

abbreviation config_err :: "config_error \<Rightarrow> 'a sres" where "config_err e \<equiv> Inl (Config e)"

section \<open>Messages\<close>

fun show_config_error :: "config_error \<Rightarrow> string" where
  "show_config_error (InvalidToml e) = ''Invalid TOML syntax: '' @ e"
| "show_config_error (MissingField f) = ''Missing required field: '' @ f"
| "show_config_error (InvalidValue f v) = ''Invalid value for field '' @ [CHR 0x27] @ f @ [CHR 0x27] @ '': '' @ v"
| "show_config_error (FileNotFound p) = ''Configuration file not found: '' @ p"
| "show_config_error (EnvSubstitution m) = ''Environment variable substitution failed: '' @ m"

fun show_segwire_error :: "segwire_error \<Rightarrow> string" where
  "show_segwire_error (Config e) = ''Configuration error: '' @ show_config_error e"
| "show_segwire_error (Network m) = ''Network operation failed: '' @ m"
| "show_segwire_error (DBus m) = ''D-Bus error: '' @ m"
| "show_segwire_error (Permission m) = ''Permission denied: '' @ m"
| "show_segwire_error (System m) = ''System error: '' @ m"
| "show_segwire_error (Validation m) = ''Validation error: '' @ m"

section \<open>Categories, recoverability, user messages\<close>

fun is_recoverable :: "segwire_error \<Rightarrow> bool" where
  "is_recoverable (Config _) = True"
| "is_recoverable (Network _) = True"
| "is_recoverable (Permission _) = False"
| "is_recoverable (System _) = False"
| "is_recoverable (DBus _) = True"
| "is_recoverable (Validation _) = True"

fun user_message :: "segwire_error \<Rightarrow> string" where
  "user_message (Config e) = ''Configuration problem: '' @ show_config_error e"
| "user_message (Network e) = ''Network operation failed: '' @ e"
| "user_message (DBus _) = ''Communication error with daemon''"
| "user_message (Permission m) = ''Permission denied: '' @ m"
| "user_message (System e) = ''System error: '' @ e"
| "user_message (Validation m) = ''Validation failed: '' @ m"

fun category :: "segwire_error \<Rightarrow> string" where
  "category (Config _) = ''configuration''"
| "category (Network _) = ''network''"
| "category (DBus _) = ''dbus''"
| "category (Permission _) = ''permission''"
| "category (System _) = ''system''"
| "category (Validation _) = ''validation''"

fun remediation_steps :: "segwire_error \<Rightarrow> string list" where
  "remediation_steps (Config (InvalidToml _)) =
     [''Check TOML syntax using a validator'', ''Ensure all required fields are present'',
      ''Verify file encoding is UTF-8'']"
| "remediation_steps (Config (MissingField f)) =
     [''Add the required field '' @ [CHR 0x27] @ f @ [CHR 0x27] @ '' to your configuration'',
      ''Refer to the configuration documentation for field requirements'']"
| "remediation_steps (Network _) =
     [''Check network interface availability'',
      ''Verify namespace doesn'' @ [CHR 0x27] @ ''t already exist'',
      ''Ensure sufficient network privileges'']"
| "remediation_steps (Permission _) =
     [''Run with appropriate privileges (CAP_SYS_ADMIN)'', ''Check PolicyKit configuration'',
      ''Verify user is in required groups'']"
| "remediation_steps (System _) =
     [''Check system resources and limits'',
      ''Verify kernel support for network namespaces'',
      ''Check system logs for additional details'']"
| "remediation_steps _ = [''Check logs for additional details'']"

section \<open>Error contexts\<close>

record error_context =
  ec_operation :: string
  ec_namespace :: "string option"
  ec_config_path :: "string option"
  ec_fields :: "(string \<times> string) list"
  ec_remediation :: "string list"

definition new_context :: "string \<Rightarrow> error_context" where
  "new_context op = \<lparr>ec_operation = op, ec_namespace = None, ec_config_path = None,
                     ec_fields = [], ec_remediation = []\<rparr>"

definition with_namespace :: "string \<Rightarrow> error_context \<Rightarrow> error_context" where
  "with_namespace n c = c\<lparr>ec_namespace := Some n\<rparr>"

definition with_config_path :: "string \<Rightarrow> error_context \<Rightarrow> error_context" where
  "with_config_path p c = c\<lparr>ec_config_path := Some p\<rparr>"

definition with_field :: "string \<Rightarrow> string \<Rightarrow> error_context \<Rightarrow> error_context" where
  "with_field k v c = c\<lparr>ec_fields := insertM k v (ec_fields c)\<rparr>"

definition with_remediation :: "string \<Rightarrow> error_context \<Rightarrow> error_context" where
  "with_remediation s c = c\<lparr>ec_remediation := ec_remediation c @ [s]\<rparr>"

fun number_steps :: "nat \<Rightarrow> string list \<Rightarrow> string list" where
  "number_steps i [] = []"
| "number_steps i (s # ss) = (''  '' @ show_nat (i + 1) @ ''. '' @ s) # number_steps (Suc i) ss"

text \<open>The lines \<^verbatim>\<open>log_with_context\<close> writes, in order.\<close>

definition log_with_context :: "segwire_error \<Rightarrow> error_context \<Rightarrow> string list" where
  "log_with_context e c =
     [''Operation failed: '' @ show_segwire_error e, ''User message: '' @ user_message e]
     @ map (\<lambda>(k, v). ''Context '' @ k @ '': '' @ v) (ec_fields c)
     @ (if ec_remediation c \<noteq> []
        then ''Custom remediation steps:'' # number_steps 0 (ec_remediation c)
        else (let steps = remediation_steps e
              in if steps \<noteq> [] then ''Suggested remediation steps:'' # number_steps 0 steps else []))"

lemma length_number_steps [simp]: "length (number_steps i ss) = length ss"
  by (induction ss arbitrary: i) simp_all

lemma remediation_steps_ne [simp]: "remediation_steps e \<noteq> []"
  by (induction e rule: remediation_steps.induct) simp_all

section \<open>Netlink errors\<close>

datatype netlink_error =
    NamespaceNotFound string
  | NamespaceExists string
  | CreateFailed string string
  | DeleteFailed string string
  | InsufficientPrivileges
  | InvalidName string
  | InterfaceNotFound string
  | InterfaceMoveFailed string string string
  | VirtualInterfaceCreateFailed string string
  | InterfaceNotAvailable string
  | RouteConfigFailed string string
  | DnsConfigFailed string string
  | InvalidRoute string
  | InvalidDns string
  | SocketError string
  | ProtocolError string

definition quoted :: "string \<Rightarrow> string" where "quoted s = [CHR 0x27] @ s @ [CHR 0x27]"

fun show_netlink_error :: "netlink_error \<Rightarrow> string" where
  "show_netlink_error (NamespaceNotFound n) = ''Namespace '' @ quoted n @ '' not found''"
| "show_netlink_error (NamespaceExists n) = ''Namespace '' @ quoted n @ '' already exists''"
| "show_netlink_error (CreateFailed n m) = ''Failed to create namespace '' @ quoted n @ '': '' @ m"
| "show_netlink_error (DeleteFailed n m) = ''Failed to delete namespace '' @ quoted n @ '': '' @ m"
| "show_netlink_error InsufficientPrivileges = ''Insufficient privileges for namespace operations''"
| "show_netlink_error (InvalidName n) = ''Invalid namespace name: '' @ n"
| "show_netlink_error (InterfaceNotFound n) = ''Network interface '' @ quoted n @ '' not found''"
| "show_netlink_error (InterfaceMoveFailed i n m) =
     ''Failed to move interface '' @ quoted i @ '' to namespace '' @ quoted n @ '': '' @ m"
| "show_netlink_error (VirtualInterfaceCreateFailed n m) =
     ''Failed to create virtual interface '' @ quoted n @ '': '' @ m"
| "show_netlink_error (InterfaceNotAvailable n) =
     ''Interface '' @ quoted n @ '' is not available for namespace assignment''"
| "show_netlink_error (RouteConfigFailed n m) =
     ''Failed to configure route in namespace '' @ quoted n @ '': '' @ m"
| "show_netlink_error (DnsConfigFailed n m) =
     ''Failed to configure DNS in namespace '' @ quoted n @ '': '' @ m"
| "show_netlink_error (InvalidRoute m) = ''Invalid route configuration: '' @ m"
| "show_netlink_error (InvalidDns m) = ''Invalid DNS configuration: '' @ m"
| "show_netlink_error (SocketError m) = ''Netlink socket error: '' @ m"
| "show_netlink_error (ProtocolError m) = ''Netlink protocol error: '' @ m"

definition from_netlink :: "netlink_error \<Rightarrow> segwire_error" where
  "from_netlink e = Network (show_netlink_error e)"

section \<open>D-Bus errors\<close>

datatype dbus_error =
    ConfigurationError string
  | NetworkErr string
  | PermissionDenied string
  | DbusNamespaceNotFound string
  | InvalidState string
  | SystemError string
  | InternalError string

fun error_name :: "dbus_error \<Rightarrow> string" where
  "error_name (ConfigurationError _) = ''org.segwire.Error.Configuration''"
| "error_name (NetworkErr _) = ''org.segwire.Error.Network''"
| "error_name (PermissionDenied _) = ''org.segwire.Error.PermissionDenied''"
| "error_name (DbusNamespaceNotFound _) = ''org.segwire.Error.NamespaceNotFound''"
| "error_name (InvalidState _) = ''org.segwire.Error.InvalidState''"
| "error_name (SystemError _) = ''org.segwire.Error.System''"
| "error_name (InternalError _) = ''org.segwire.Error.Internal''"

fun dbus_message :: "dbus_error \<Rightarrow> string" where
  "dbus_message (ConfigurationError m) = m"
| "dbus_message (NetworkErr m) = m"
| "dbus_message (PermissionDenied m) = m"
| "dbus_message (DbusNamespaceNotFound m) = m"
| "dbus_message (InvalidState m) = m"
| "dbus_message (SystemError m) = m"
| "dbus_message (InternalError m) = m"

fun to_dbus :: "segwire_error \<Rightarrow> dbus_error" where
  "to_dbus (Config e) = ConfigurationError (show_config_error e)"
| "to_dbus (Network m) = NetworkErr m"
| "to_dbus (Permission m) = PermissionDenied m"
| "to_dbus (System m) = SystemError m"
| "to_dbus (DBus m) = InternalError m"
| "to_dbus (Validation m) = ConfigurationError m"

fun from_dbus :: "dbus_error \<Rightarrow> segwire_error" where
  "from_dbus (ConfigurationError m) = Validation m"
| "from_dbus (NetworkErr m) = Network m"
| "from_dbus (PermissionDenied m) = Permission m"
| "from_dbus (DbusNamespaceNotFound m) = Network m"
| "from_dbus (InvalidState m) = Validation m"
| "from_dbus (SystemError m) = System m"
| "from_dbus (InternalError m) = Network m"

lemma dbus_message_round [simp]: "dbus_message (to_dbus (from_dbus e)) = dbus_message e"
  by (cases e) simp_all

lemma recoverable_round: "is_recoverable (from_dbus (to_dbus e)) = is_recoverable e"
  by (cases e) simp_all

section \<open>Network errors\<close>

text \<open>\<^verbatim>\<open>NetworkError\<close> is declared, and no code makes one.\<close>

datatype network_error =
    NetInterfaceNotFound string
  | NetNamespaceExists string
  | NetNamespaceNotFound string
  | NetNamespaceCreationFailed string
  | NetInvalidRoute string
  | NetDnsError string

fun show_network_error :: "network_error \<Rightarrow> string" where
  "show_network_error (NetInterfaceNotFound n) = ''Network interface '' @ quoted n @ '' not found''"
| "show_network_error (NetNamespaceExists n) = ''Namespace '' @ quoted n @ '' already exists''"
| "show_network_error (NetNamespaceNotFound n) = ''Namespace '' @ quoted n @ '' not found''"
| "show_network_error (NetNamespaceCreationFailed m) = ''Failed to create namespace: '' @ m"
| "show_network_error (NetInvalidRoute m) = ''Invalid routing configuration: '' @ m"
| "show_network_error (NetDnsError m) = ''DNS configuration error: '' @ m"

section \<open>Errors with a context\<close>

record contextual_error =
  cx_error :: segwire_error
  cx_context :: error_context

definition with_context :: "error_context \<Rightarrow> segwire_error \<Rightarrow> contextual_error" where
  "with_context c e = \<lparr>cx_error = e, cx_context = c\<rparr>"

definition show_contextual :: "contextual_error \<Rightarrow> string" where
  "show_contextual x = show_segwire_error (cx_error x) @ '' (operation: '' @ ec_operation (cx_context x) @ '')''"

definition cx_source :: "contextual_error \<Rightarrow> segwire_error" where
  "cx_source x = cx_error x"

text \<open>\<^verbatim>\<open>log_and_return\<close>: the lines logged, and the inner error.\<close>

definition log_and_return :: "contextual_error \<Rightarrow> string list \<times> segwire_error" where
  "log_and_return x = (log_with_context (cx_error x) (cx_context x), cx_error x)"

end
