(* ===== verification/Validate.thy ===== *)
theory Validate
  imports Regex Errors
begin

text \<open>
  The validators of \<^verbatim>\<open>segwire-common/src/utils.rs\<close>, with their regular expressions written
  as in the source, and what each accepts, as a predicate on the text: \<open>if_name_ok\<close>,
  \<open>ns_name_ok\<close>, \<open>ip_text_ok\<close>, \<open>cidr_text_ok\<close>, \<open>domain_text_ok\<close>.  The lemmas
  \<open>validate_..._iff\<close> (collection \<open>validate_simps\<close>) are the functional specifications the
  configuration proofs use.  A digit is an ASCII digit; the pattern \<^verbatim>\<open>\d\<close> of the source also
  admits other decimal digits, which the octet parser after it rejects, so only the error text
  of such an input differs.
\<close>

named_theorems validate_simps \<open>what the validators accept\<close>

abbreviation invalid :: "string \<Rightarrow> 'a sres" where "invalid m \<equiv> Inl (Validation m)"

section \<open>Names\<close>

definition if_char :: "char \<Rightarrow> bool" where
  "if_char c = (is_alnum c \<or> c = CHR ''_'' \<or> c = CHR ''-'')"

definition ns_char :: "char \<Rightarrow> bool" where
  "ns_char c = (is_alnum c \<or> c = CHR ''-'')"

text \<open>\<^verbatim>\<open>^[a-zA-Z0-9_-]+$\<close> and \<^verbatim>\<open>^[a-zA-Z][a-zA-Z0-9-]*$\<close>\<close>

definition re_interface :: rx where "re_interface = Plus (Cls if_char)"
definition re_namespace :: rx where "re_namespace = Cat (Cls is_alpha) (Star (Cls ns_char))"

definition validate_interface_name :: "string \<Rightarrow> unit sres" where
  "validate_interface_name name =
     (if name = [] then invalid ''Interface name cannot be empty''
      else if length name > 15 then invalid ''Interface name cannot exceed 15 characters''
      else if \<not> is_match re_interface name
        then invalid ''Interface name contains invalid characters''
      else Ok ())"

definition validate_namespace_name :: "string \<Rightarrow> unit sres" where
  "validate_namespace_name name =
     (if name = [] then invalid ''Namespace name cannot be empty''
      else if length name > 63 then invalid ''Namespace name cannot exceed 63 characters''
      else if \<not> is_match re_namespace name
        then invalid ''Namespace name must start with a letter and contain only alphanumeric characters and hyphens''
      else Ok ())"

definition validate_namespace_prefix :: "string \<Rightarrow> unit sres" where
  "validate_namespace_prefix p =
     (if p = [] then invalid ''Namespace prefix cannot be empty''
      else if length p > 32 then invalid ''Namespace prefix cannot exceed 32 characters''
      else if \<not> is_match re_namespace p
        then invalid ''Namespace prefix must start with a letter and contain only alphanumeric characters and hyphens''
      else Ok ())"

definition if_name_ok :: "string \<Rightarrow> bool" where
  "if_name_ok s = (s \<noteq> [] \<and> length s \<le> 15 \<and> list_all if_char s)"

definition name_shape :: "string \<Rightarrow> bool" where
  "name_shape s = (s \<noteq> [] \<and> is_alpha (hd s) \<and> list_all ns_char s)"

lemma alpha_ns_char [simp]: "is_alpha c \<Longrightarrow> ns_char c"
  by (simp add: ns_char_def)

lemma is_match_interface: "is_match re_interface s \<longleftrightarrow> s \<noteq> [] \<and> list_all if_char s"
  unfolding is_match_iff re_interface_def lang_Plus_Cls ..

lemma is_match_namespace: "is_match re_namespace s \<longleftrightarrow> name_shape s"
  unfolding is_match_iff re_namespace_def lang_Cls_Cat lang_Star_Cls name_shape_def
  by (cases s) auto

lemma validate_interface_name_iff [validate_simps]:
  "validate_interface_name s = Ok u \<longleftrightarrow> if_name_ok s"
  by (auto simp: validate_interface_name_def is_match_interface if_name_ok_def)

lemma validate_namespace_name_iff [validate_simps]:
  "validate_namespace_name s = Ok u \<longleftrightarrow> name_shape s \<and> length s \<le> 63"
  by (auto simp: validate_namespace_name_def is_match_namespace name_shape_def)

lemma validate_namespace_prefix_iff [validate_simps]:
  "validate_namespace_prefix s = Ok u \<longleftrightarrow> name_shape s \<and> length s \<le> 32"
  by (auto simp: validate_namespace_prefix_def is_match_namespace name_shape_def)

lemma ns_char_neq: "ns_char c \<Longrightarrow> c \<noteq> CHR ''/'' \<and> c \<noteq> CHR ''.'' \<and> c \<noteq> CHR ''_'' \<and> c \<noteq> CHR '' '' \<and> c \<noteq> nul"
  by (auto simp: ns_char_def)

lemma if_char_neq: "if_char c \<Longrightarrow> c \<noteq> CHR ''/'' \<and> c \<noteq> CHR ''.'' \<and> c \<noteq> CHR '' '' \<and> c \<noteq> nul"
  by (auto simp: if_char_def)

section \<open>IP addresses\<close>

text \<open>\<^verbatim>\<open>^(\d{1,3}\.){3}\d{1,3}$\<close> and \<^verbatim>\<open>^([0-9a-fA-F]{0,4}:){2,7}[0-9a-fA-F]{0,4}$\<close>\<close>

definition re_octet :: rx where "re_octet = Between 1 3 (Cls is_digit)"
definition re_ipv4 :: rx where
  "re_ipv4 = Cat (Times 3 (Cat re_octet (Chr (CHR ''.'')))) re_octet"
definition re_group :: rx where "re_group = Between 0 4 (Cls is_hex)"
definition re_ipv6 :: rx where
  "re_ipv6 = Cat (Between 2 7 (Cat re_group (Chr (CHR '':'')))) re_group"

definition validate_ip_address :: "string \<Rightarrow> unit sres" where
  "validate_ip_address ip =
     (if is_match re_ipv4 ip
      then eachR (\<lambda>octet. map_err (\<lambda>_. Validation (''Invalid IP address: '' @ ip))
                   (case parse_u8 octet of None \<Rightarrow> Inl () | Some _ \<Rightarrow> Ok ()))
             (split_char (CHR ''.'') ip)
      else if is_match re_ipv6 ip then Ok ()
      else invalid (''Invalid IP address format: '' @ ip))"

text \<open>The accepted texts.\<close>

definition octet_ok :: "string \<Rightarrow> bool" where
  "octet_ok s = (1 \<le> length s \<and> length s \<le> 3 \<and> list_all is_digit s \<and> digits_val s \<le> 255)"

definition ipv4_shape :: "string \<Rightarrow> bool" where
  "ipv4_shape s = (length (split_char (CHR ''.'') s) = 4 \<and>
     (\<forall>p \<in> set (split_char (CHR ''.'') s). 1 \<le> length p \<and> length p \<le> 3 \<and> list_all is_digit p))"

definition ipv4_text_ok :: "string \<Rightarrow> bool" where
  "ipv4_text_ok s = (length (split_char (CHR ''.'') s) = 4 \<and>
     (\<forall>p \<in> set (split_char (CHR ''.'') s). octet_ok p))"

definition ipv6_text_ok :: "string \<Rightarrow> bool" where
  "ipv6_text_ok s = (3 \<le> length (split_char (CHR '':'') s) \<and> length (split_char (CHR '':'') s) \<le> 8 \<and>
     (\<forall>p \<in> set (split_char (CHR '':'') s). length p \<le> 4 \<and> list_all is_hex p))"

definition ip_text_ok :: "string \<Rightarrow> bool" where
  "ip_text_ok s = (ipv4_text_ok s \<or> ipv6_text_ok s)"

lemma lang_octet: "s \<in> lang re_octet \<longleftrightarrow> 1 \<le> length s \<and> length s \<le> 3 \<and> list_all is_digit s"
  unfolding re_octet_def by (rule lang_Between_Cls) simp

lemma lang_group: "s \<in> lang re_group \<longleftrightarrow> length s \<le> 4 \<and> list_all is_hex s"
  unfolding re_group_def using lang_Between_Cls [of 0 4 s is_hex] by simp

lemma sep_free_octet: "sep_free (CHR ''.'') re_octet"
  unfolding sep_free_def Ball_def lang_octet by (auto simp: list_all_iff)

lemma sep_free_group: "sep_free (CHR '':'') re_group"
  unfolding sep_free_def Ball_def lang_group by (auto simp: list_all_iff)

lemma is_match_ipv4: "is_match re_ipv4 s \<longleftrightarrow> ipv4_shape s"
  unfolding is_match_iff re_ipv4_def lang_sep_Times [OF sep_free_octet] ipv4_shape_def
  by (simp add: lang_octet)

lemma is_match_ipv6: "is_match re_ipv6 s \<longleftrightarrow> ipv6_text_ok s"
proof -
  have "is_match re_ipv6 s \<longleftrightarrow> (\<exists>k. 2 \<le> k \<and> k \<le> 7 \<and>
      s \<in> lang (Cat (Times k (Cat re_group (Chr (CHR '':'')))) re_group))"
    unfolding is_match_iff re_ipv6_def by (rule lang_Between_Cat) simp
  also have "\<dots> \<longleftrightarrow> ipv6_text_ok s"
    unfolding lang_sep_Times [OF sep_free_group] ipv6_text_ok_def lang_group
    by (auto intro!: exI [of _ "length (split_char (CHR '':'') s) - 1"])
  finally show ?thesis .
qed

lemma parse_u8_digits: "list_all is_digit s \<Longrightarrow> s \<noteq> [] \<Longrightarrow>
    parse_u8 s = (if digits_val s \<le> 255 then Some (digits_val s) else None)"
  by (cases s) (auto simp: parse_u8_def parse_uint_def Let_def is_digit_def code_def)

section \<open>CIDR notation\<close>

definition validate_cidr :: "string \<Rightarrow> unit sres" where
  "validate_cidr cidr =
     (let parts = split_char (CHR ''/'') cidr
      in if length parts \<noteq> 2
         then invalid (''CIDR notation must contain exactly one '' @ quoted ''/'' @ '' character'')
         else thenR (validate_ip_address (parts ! 0))
           (tryR (ok_or (Validation ''Invalid prefix length in CIDR'') (parse_u8 (parts ! 1)))
             (\<lambda>pfx. let max_prefix = (if is_match re_ipv4 (parts ! 0) then 32 else 128)
                in if pfx > max_prefix
                   then invalid (''Prefix length cannot exceed '' @ show_nat max_prefix
                                 @ '' for this IP version'')
                   else Ok ())))"

definition cidr_text_ok :: "string \<Rightarrow> bool" where
  "cidr_text_ok s = (\<exists>ip pfx n. s = ip @ ''/'' @ pfx \<and> parse_u8 pfx = Some n \<and>
     (ipv4_text_ok ip \<and> n \<le> 32 \<or> ipv6_text_ok ip \<and> n \<le> 128))"

lemma ipv4_not_ipv6: "ipv4_shape s \<Longrightarrow> \<not> ipv6_text_ok s"
proof
  assume h: "ipv4_shape s" "ipv6_text_ok s"
  then have "split_char (CHR '':'') s \<noteq> [s]" by (auto simp: ipv6_text_ok_def)
  then have colon: "CHR '':'' \<in> set s" using split_char_id by metis
  have "set (join [c] ps) \<subseteq> \<Union> (set ` set ps) \<union> {c}" for c and ps :: "string list"
    by (induction "[c]" ps rule: join.induct) auto
  then have "set s \<subseteq> \<Union> (set ` set (split_char (CHR ''.'') s)) \<union> {CHR ''.''}"
    using join_split by metis
  with colon obtain p where "p \<in> set (split_char (CHR ''.'') s)" "CHR '':'' \<in> set p" by auto
  with h(1) show False by (fastforce simp: ipv4_shape_def list_all_iff)
qed

lemma ipv4_text_shape: "ipv4_text_ok s \<Longrightarrow> ipv4_shape s"
  by (auto simp: ipv4_text_ok_def ipv4_shape_def octet_ok_def)

lemma validate_ip_address_iff [validate_simps]:
  "validate_ip_address s = Ok u \<longleftrightarrow> ip_text_ok s"
proof (cases "ipv4_shape s")
  case True
  then have one: "p \<in> set (split_char (CHR ''.'') s) \<Longrightarrow> p \<noteq> [] \<and> list_all is_digit p" for p
    by (auto simp: ipv4_shape_def)
  have "validate_ip_address s = Ok u \<longleftrightarrow>
      (\<forall>p \<in> set (split_char (CHR ''.'') s). digits_val p \<le> 255)"
    using True one unfolding validate_ip_address_def is_match_ipv4
    by (auto simp: eachR_Inr_iff map_err_Inr_iff parse_u8_digits split: option.splits if_splits)
  also have "\<dots> \<longleftrightarrow> ipv4_text_ok s"
    using True by (auto simp: ipv4_text_ok_def ipv4_shape_def octet_ok_def)
  finally show ?thesis using ipv4_not_ipv6 [OF True] by (simp add: ip_text_ok_def)
next
  case False
  then have "\<not> ipv4_text_ok s" using ipv4_text_shape by blast
  with False show ?thesis
    by (simp add: validate_ip_address_def is_match_ipv4 is_match_ipv6 ip_text_ok_def)
qed

lemma split_two: "split_char c s = [a, b] \<longleftrightarrow> s = a @ c # b \<and> c \<notin> set a \<and> c \<notin> set b"
proof
  assume h: "split_char c s = [a, b]"
  then have "s = join [c] [a, b]" using join_split [of c s] by simp
  with h show "s = a @ c # b \<and> c \<notin> set a \<and> c \<notin> set b"
    using split_char_nosep [of _ c s] by auto
qed (auto simp: split_char_append split_char_id)

lemma parse_u8_chars: "parse_u8 s = Some n \<Longrightarrow> c \<in> set s \<Longrightarrow> is_digit c \<or> c = CHR ''+''"
  by (cases s) (auto simp: parse_u8_def parse_uint_def Let_def list_all_iff split: if_splits)

lemma ip_text_chars: "ip_text_ok s \<Longrightarrow> c \<in> set s \<Longrightarrow> is_hex c \<or> c = CHR ''.'' \<or> c = CHR '':''"
proof -
  assume h: "ip_text_ok s" "c \<in> set s"
  have gen: "set t \<subseteq> \<Union> (set ` set (split_char d t)) \<union> {d}" for d t
  proof -
    have "set (join [d] ps) \<subseteq> \<Union> (set ` set ps) \<union> {d}" for ps :: "string list"
      by (induction "[d]" ps rule: join.induct) auto
    then show ?thesis using join_split by metis
  qed
  show ?thesis
    using h gen [of s "CHR ''.''"] gen [of s "CHR '':''"]
    by (fastforce simp: ip_text_ok_def ipv4_text_ok_def ipv6_text_ok_def octet_ok_def list_all_iff is_hex_def)
qed

lemma ip_text_no_slash: "ip_text_ok s \<Longrightarrow> CHR ''/'' \<notin> set s"
  using ip_text_chars [of s "CHR ''/''"] by auto

lemma validate_cidr_iff [validate_simps]: "validate_cidr s = Ok u \<longleftrightarrow> cidr_text_ok s"
proof
  assume h: "validate_cidr s = Ok u"
  then have "length (split_char (CHR ''/'') s) = 2" by (auto simp: validate_cidr_def Let_def split: if_splits)
  then obtain a b where ab: "split_char (CHR ''/'') s = [a, b]" by (auto simp: length_Suc_conv numeral_2_eq_2)
  then have s: "s = a @ ''/'' @ b" by (simp add: split_two)
  from h ab obtain n where n: "ip_text_ok a" "parse_u8 b = Some n"
      "n \<le> (if is_match re_ipv4 a then 32 else 128)"
    by (auto simp: validate_cidr_def Let_def result_simps validate_simps split: if_splits)
  moreover have "is_match re_ipv4 a \<longleftrightarrow> ipv4_text_ok a" if "ip_text_ok a"
    using that ipv4_not_ipv6 ipv4_text_shape unfolding is_match_ipv4 ip_text_ok_def by blast
  ultimately show "cidr_text_ok s"
    using s unfolding cidr_text_ok_def ip_text_ok_def by (metis (full_types))
next
  assume "cidr_text_ok s"
  then obtain a b n where ab: "s = a @ ''/'' @ b" "parse_u8 b = Some n"
      "ipv4_text_ok a \<and> n \<le> 32 \<or> ipv6_text_ok a \<and> n \<le> 128"
    unfolding cidr_text_ok_def by blast
  then have ip: "ip_text_ok a" by (auto simp: ip_text_ok_def)
  have "CHR ''/'' \<notin> set b"
    using parse_u8_chars [OF ab(2), of "CHR ''/''"] by auto
  with ab(1) ip_text_no_slash [OF ip] have "split_char (CHR ''/'') s = [a, b]"
    by (simp add: split_two)
  moreover have "is_match re_ipv4 a \<Longrightarrow> n \<le> 32"
    using ab(3) ipv4_not_ipv6 unfolding is_match_ipv4 by blast
  moreover have "n \<le> 128" using ab(3) by auto
  moreover have "validate_ip_address a = Ok ()" using ip by (simp add: validate_simps)
  ultimately show "validate_cidr s = Ok u" using ab(2) by (auto simp: validate_cidr_def)
qed

section \<open>Domain names\<close>

text \<open>\<^verbatim>\<open>^[a-zA-Z0-9]([a-zA-Z0-9-]*[a-zA-Z0-9])?(\.[a-zA-Z0-9]([a-zA-Z0-9-]*[a-zA-Z0-9])?)*$\<close>\<close>

definition re_label :: rx where
  "re_label = Cat (Cls is_alnum) (Opt (Cat (Star (Cls ns_char)) (Cls is_alnum)))"
definition re_domain :: rx where
  "re_domain = Cat re_label (Star (Cat (Chr (CHR ''.'')) re_label))"

definition validate_domain_name :: "string \<Rightarrow> unit sres" where
  "validate_domain_name domain =
     (if domain = [] then invalid ''Domain name cannot be empty''
      else if length domain > 253 then invalid ''Domain name cannot exceed 253 characters''
      else let d = (case strip_suffix ''.'' domain of Some t \<Rightarrow> t | None \<Rightarrow> domain)
        in if \<not> is_match re_domain d then invalid (''Invalid domain name format: '' @ domain)
           else eachR (\<lambda>label. failIf (length label > 63)
                  (Validation ''Domain label cannot exceed 63 characters''))
                (split_char (CHR ''.'') d))"

definition label_ok :: "string \<Rightarrow> bool" where
  "label_ok s = (s \<noteq> [] \<and> is_alnum (hd s) \<and> is_alnum (last s) \<and> list_all ns_char s)"

definition undot :: "string \<Rightarrow> string" where
  "undot s = (if s \<noteq> [] \<and> last s = CHR ''.'' then butlast s else s)"

definition domain_text_ok :: "string \<Rightarrow> bool" where
  "domain_text_ok s = (s \<noteq> [] \<and> length s \<le> 253 \<and>
     (\<forall>l \<in> set (split_char (CHR ''.'') (undot s)). label_ok l \<and> length l \<le> 63))"

lemma alnum_ns_char [simp]: "is_alnum c \<Longrightarrow> ns_char c"
  by (simp add: ns_char_def)

lemma lang_label: "s \<in> lang re_label \<longleftrightarrow> label_ok s"
proof -
  have "s \<in> lang re_label \<longleftrightarrow> (\<exists>c t. s = c # t \<and> is_alnum c \<and>
      (t = [] \<or> (\<exists>a d. t = a @ [d] \<and> list_all ns_char a \<and> is_alnum d)))"
    unfolding re_label_def lang_Cls_Cat lang_Opt lang_Cat [of _ "Star _"] lang_Star_Cls lang_Cls
    by blast
  also have "\<dots> \<longleftrightarrow> label_ok s"
  proof
    assume "\<exists>c t. s = c # t \<and> is_alnum c \<and>
        (t = [] \<or> (\<exists>a d. t = a @ [d] \<and> list_all ns_char a \<and> is_alnum d))"
    then show "label_ok s" by (auto simp: label_ok_def)
  next
    assume h: "label_ok s"
    then obtain c t where s: "s = c # t" "is_alnum c" by (cases s) (auto simp: label_ok_def)
    show "\<exists>c t. s = c # t \<and> is_alnum c \<and>
        (t = [] \<or> (\<exists>a d. t = a @ [d] \<and> list_all ns_char a \<and> is_alnum d))"
      using h s by (cases t rule: rev_cases) (auto simp: label_ok_def)
  qed
  finally show ?thesis .
qed

lemma sep_free_label: "sep_free (CHR ''.'') re_label"
  unfolding sep_free_def Ball_def lang_label
  by (auto simp: label_ok_def list_all_iff dest: ns_char_neq)

lemma is_match_domain: "is_match re_domain s \<longleftrightarrow> (\<forall>l \<in> set (split_char (CHR ''.'') s). label_ok l)"
  unfolding is_match_iff re_domain_def lang_sep_Star [OF sep_free_label] lang_label ..

lemma strip_dot: "(case strip_suffix ''.'' s of Some t \<Rightarrow> t | None \<Rightarrow> s) = undot s"
proof (cases s rule: rev_cases)
  case (snoc t c)
  then show ?thesis
    by (cases "c = CHR ''.''") (simp_all add: strip_suffix_def ends_with_def undot_def)
qed (simp add: strip_suffix_def ends_with_def undot_def)

lemma validate_domain_name_iff [validate_simps]: "validate_domain_name s = Ok u \<longleftrightarrow> domain_text_ok s"
  unfolding validate_domain_name_def strip_dot Let_def is_match_domain domain_text_ok_def
  by (auto simp: result_simps)

section \<open>Routes and DNS settings of a namespace\<close>

text \<open>\<^verbatim>\<open>netlink::RouteConfig\<close> and \<^verbatim>\<open>netlink::DnsConfig\<close>, which the daemon checks before use.\<close>

record route_config =
  rc_destination :: string
  rc_gateway :: string
  rc_interface :: "string option"
  rc_metric :: "nat option"

record nl_dns_config =
  nd_servers :: "string list"
  nd_search_domains :: "string list"
  nd_options :: "string list"

definition validate_route_config :: "route_config \<Rightarrow> unit sres" where
  "validate_route_config r =
     thenR (failIf (rc_destination r = []) (from_netlink (InvalidRoute ''destination cannot be empty'')))
    (thenR (if rc_destination r \<noteq> ''default'' then validate_cidr (rc_destination r) else Ok ())
    (thenR (validate_ip_address (rc_gateway r))
           (whenSome (rc_interface r) validate_interface_name)))"

definition validate_nl_dns :: "nl_dns_config \<Rightarrow> unit sres" where
  "validate_nl_dns d =
     thenR (failIf (nd_servers d = []) (from_netlink (InvalidDns ''at least one DNS server required'')))
    (thenR (eachR validate_ip_address (nd_servers d))
           (eachR validate_domain_name (nd_search_domains d)))"

lemma validate_route_config_iff [validate_simps]:
  "validate_route_config r = Ok u \<longleftrightarrow>
     (rc_destination r = ''default'' \<or> cidr_text_ok (rc_destination r)) \<and>
     ip_text_ok (rc_gateway r) \<and> (\<forall>i. rc_interface r = Some i \<longrightarrow> if_name_ok i)"
proof -
  have "\<not> cidr_text_ok []" by (simp add: cidr_text_ok_def)
  then show ?thesis
    by (auto simp: validate_route_config_def result_simps validate_simps)
qed

lemma validate_nl_dns_iff [validate_simps]:
  "validate_nl_dns d = Ok u \<longleftrightarrow> nd_servers d \<noteq> [] \<and>
     (\<forall>s \<in> set (nd_servers d). ip_text_ok s) \<and> (\<forall>s \<in> set (nd_search_domains d). domain_text_ok s)"
  by (auto simp: validate_nl_dns_def result_simps validate_simps)

section \<open>Names at the D-Bus and command line boundary\<close>

text \<open>
  \<^verbatim>\<open>interface_helpers::validate_namespace_name\<close> looks at characters: \<open>ua\<close> says which code
  points above the ASCII range are alphanumeric.
\<close>

definition cp_ascii_alnum :: "nat \<Rightarrow> bool" where
  "cp_ascii_alnum n = ((48 \<le> n \<and> n \<le> 57) \<or> (65 \<le> n \<and> n \<le> 90) \<or> (97 \<le> n \<and> n \<le> 122))"

definition dbus_name_char :: "(nat \<Rightarrow> bool) \<Rightarrow> nat \<Rightarrow> bool" where
  "dbus_name_char ua n = ((if n < 128 then cp_ascii_alnum n else ua n) \<or> n = 45 \<or> n = 95)"

definition dbus_validate_namespace_name :: "(nat \<Rightarrow> bool) \<Rightarrow> string \<Rightarrow> (dbus_error, unit) res" where
  "dbus_validate_namespace_name ua name =
     (if name = [] then Inl (ConfigurationError ''Namespace name cannot be empty'')
      else if length name > 255 then Inl (ConfigurationError ''Namespace name too long'')
      else if \<not> list_all (dbus_name_char ua) (chars name)
        then Inl (ConfigurationError ''Namespace name contains invalid characters'')
      else Ok ())"

definition dbus_validate_config_path :: "string \<Rightarrow> (dbus_error, unit) res" where
  "dbus_validate_config_path path =
     (if path = [] then Inl (ConfigurationError ''Configuration path cannot be empty'')
      else if \<not> ends_with ''.toml'' path
        then Inl (ConfigurationError ''Configuration file must have .toml extension'')
      else if contains_str ''..'' path then Inl (ConfigurationError ''Path traversal not allowed'')
      else Ok ())"

text \<open>\<^verbatim>\<open>is_valid_namespace_name\<close> of the \<^verbatim>\<open>status\<close> and \<^verbatim>\<open>restart\<close> commands.\<close>

definition cli_valid_namespace_name :: "string \<Rightarrow> bool" where
  "cli_valid_namespace_name name =
     (if name = [] \<or> length name > 255 then False
      else if \<not> is_alpha (hd name) \<and> hd name \<noteq> CHR ''_'' then False
      else list_all if_char name)"

lemma cp_alnum_code: "cp_ascii_alnum (code c) \<longleftrightarrow> is_alnum c"
  by (auto simp: cp_ascii_alnum_def class_defs)

lemma dbus_name_char_ascii: "if_char c \<Longrightarrow> is_ascii c \<and> dbus_name_char ua (code c)"
  by (auto simp: dbus_name_char_def if_char_def cp_alnum_code [symmetric] is_ascii_def cp_ascii_alnum_def code_def)

text \<open>
  A namespace name the command line accepts is one the D-Bus boundary accepts.
\<close>

lemma cli_name_dbus: "cli_valid_namespace_name s \<Longrightarrow> dbus_validate_namespace_name ua s = Ok ()"
proof -
  assume h: "cli_valid_namespace_name s"
  then have c: "list_all if_char s" "s \<noteq> []" "length s \<le> 255"
    by (auto simp: cli_valid_namespace_name_def split: if_splits)
  then have "chars s = map code s"
    by (intro chars_ascii) (auto simp: list_all_iff dest: dbus_name_char_ascii)
  with c show ?thesis
    by (auto simp: dbus_validate_namespace_name_def list_all_iff dest: dbus_name_char_ascii)
qed

section \<open>Properties\<close>

text \<open>
  A text is accepted as CIDR notation exactly when it is an address, one slash and a decimal
  prefix length that fits the address family (32 for dotted quads of octets up to 255, 128 for
  the IPv6 shape).
\<close>

lemma cidr_accepted:
  "validate_cidr s = Ok u \<longleftrightarrow>
     (\<exists>ip pfx n. s = ip @ ''/'' @ pfx \<and> parse_u8 pfx = Some n \<and> validate_ip_address ip = Ok () \<and>
        (ipv4_text_ok ip \<and> n \<le> 32 \<or> ipv6_text_ok ip \<and> n \<le> 128))"
  unfolding validate_simps cidr_text_ok_def ip_text_ok_def by blast

text \<open>
  A domain name is accepted exactly when it has 1 to 253 characters and, without a final dot,
  consists of labels of 1 to 63 letters, digits and inner hyphens.
\<close>

lemma domain_accepted:
  "validate_domain_name s = Ok u \<longleftrightarrow> s \<noteq> [] \<and> length s \<le> 253 \<and>
     list_all (\<lambda>l. label_ok l \<and> length l \<le> 63) (split_char (CHR ''.'') (undot s))"
  by (simp add: validate_simps domain_text_ok_def list_all_iff)

lemma cli_name_dbus_witness:
  "cli_valid_namespace_name ''_web-1'' \<and> dbus_validate_namespace_name (\<lambda>_. False) ''_web-1'' = Ok ()"
proof
  show "cli_valid_namespace_name ''_web-1''"
    by (simp add: cli_valid_namespace_name_def if_char_def class_defs code_def)
  then show "dbus_validate_namespace_name (\<lambda>_. False) ''_web-1'' = Ok ()" by (rule cli_name_dbus)
qed

end
