(* ===== verification/NetAddr.thy ===== *)
theory NetAddr
  imports Validate
begin

text \<open>
  IP and socket addresses as the daemon reads them: the parsers of \<^verbatim>\<open>IpAddr\<close> and
  \<^verbatim>\<open>SocketAddr\<close> of the standard library, which the source calls on the addresses, routes,
  allowed IPs and endpoints of a validated configuration.  They are stricter than the
  validators of \<^verbatim>\<open>utils.rs\<close>: some texts validate and do not parse.
  A parser takes the text and gives the value with the text left over.
\<close>

datatype ip_addr = V4 "nat list" | V6 "nat list"

datatype socket_addr = SockAddr ip_addr nat nat

text \<open>The last two are the port and the scope of an IPv6 address (0 when there is none).\<close>

type_synonym 'a parser = "string \<Rightarrow> ('a \<times> string) option"

definition read_char :: "char \<Rightarrow> unit parser" where
  "read_char c s = (case s of d # t \<Rightarrow> if d = c then Some ((), t) else None | [] \<Rightarrow> None)"

definition andThen :: "'a parser \<Rightarrow> ('a \<Rightarrow> 'b parser) \<Rightarrow> 'b parser" where
  "andThen p f s = (case p s of None \<Rightarrow> None | Some (a, t) \<Rightarrow> f a t)"

text \<open>\<^verbatim>\<open>read_number\<close>: all digits that follow, at most \<open>mx\<close> of them if there is a bound.\<close>

definition read_number :: "bool \<Rightarrow> nat option \<Rightarrow> bool \<Rightarrow> nat \<Rightarrow> nat parser" where
  "read_number hex mx zero_prefix limit s =
     (let is_d = (if hex then is_hex else is_digit);
          ds = takeWhile is_d s; v = (if hex then hex_digits_val ds else digits_val ds) in
      if ds = [] \<or> (case mx of Some m \<Rightarrow> length ds > m | None \<Rightarrow> False) \<or>
         (\<not> zero_prefix \<and> hd ds = CHR ''0'' \<and> length ds > 1) \<or> v > limit
      then None else Some (v, dropWhile is_d s))"

definition read_octet :: "nat parser" where "read_octet = read_number False (Some 3) False 255"

definition read_ipv4 :: "nat list parser" where
  "read_ipv4 =
     andThen read_octet (\<lambda>a. andThen (read_char (CHR ''.'')) (\<lambda>_.
     andThen read_octet (\<lambda>b. andThen (read_char (CHR ''.'')) (\<lambda>_.
     andThen read_octet (\<lambda>c. andThen (read_char (CHR ''.'')) (\<lambda>_.
     andThen read_octet (\<lambda>d s. Some ([a, b, c, d], s))))))))"

definition read_sep :: "nat \<Rightarrow> 'a parser \<Rightarrow> 'a parser" where
  "read_sep i p = (if i = 0 then p else andThen (read_char (CHR '':'')) (\<lambda>_. p))"

definition read_group :: "nat parser" where "read_group = read_number True (Some 4) True 65535"

text \<open>
  \<^verbatim>\<open>read_groups\<close> from position \<open>i\<close> with \<open>n\<close> slots left: the groups read, whether they end in an
  embedded IPv4 address, and the text left.
\<close>

fun read_groups :: "nat \<Rightarrow> nat \<Rightarrow> string \<Rightarrow> nat list \<times> bool \<times> string" where
  "read_groups i 0 s = ([], False, s)"
| "read_groups i (Suc n) s =
     (case (if n > 0 then read_sep i read_ipv4 s else None) of
        Some (v4, t) \<Rightarrow> ([v4 ! 0 * 256 + v4 ! 1, v4 ! 2 * 256 + v4 ! 3], True, t)
      | None \<Rightarrow>
        (case read_sep i read_group s of
           None \<Rightarrow> ([], False, s)
         | Some (g, t) \<Rightarrow> (case read_groups (Suc i) n t of (gs, b, u) \<Rightarrow> (g # gs, b, u))))"

definition read_ipv6 :: "nat list parser" where
  "read_ipv6 s =
     (case read_groups 0 8 s of (hd_gs, v4, t) \<Rightarrow>
        if length hd_gs = 8 then Some (hd_gs, t)
        else if v4 then None
        else (case t of a # b # u \<Rightarrow>
            if a = CHR '':'' \<and> b = CHR '':'' then
              (case read_groups 0 (8 - (length hd_gs + 1)) u of (tl_gs, _, w) \<Rightarrow>
                 Some (hd_gs @ replicate (8 - (length hd_gs + length tl_gs)) 0 @ tl_gs, w))
            else None
          | _ \<Rightarrow> None))"

definition read_ip :: "ip_addr parser" where
  "read_ip s = (case read_ipv4 s of Some (a, t) \<Rightarrow> Some (V4 a, t)
     | None \<Rightarrow> (case read_ipv6 s of Some (g, t) \<Rightarrow> Some (V6 g, t) | None \<Rightarrow> None))"

definition whole :: "'a parser \<Rightarrow> string \<Rightarrow> 'a option" where
  "whole p s = (case p s of Some (a, []) \<Rightarrow> Some a | _ \<Rightarrow> None)"

definition parse_ip :: "string \<Rightarrow> ip_addr option" where "parse_ip = whole read_ip"

definition read_port :: "nat parser" where
  "read_port = andThen (read_char (CHR '':'')) (\<lambda>_. read_number False None True 65535)"

definition read_scope :: "nat parser" where
  "read_scope s =
     (case andThen (read_char (CHR ''%'')) (\<lambda>_. read_number False None True 4294967295) s of
        Some r \<Rightarrow> Some r | None \<Rightarrow> Some (0, s))"

definition read_socket_v4 :: "socket_addr parser" where
  "read_socket_v4 = andThen read_ipv4 (\<lambda>a. andThen read_port (\<lambda>p s. Some (SockAddr (V4 a) p 0, s)))"

definition read_socket_v6 :: "socket_addr parser" where
  "read_socket_v6 = andThen (read_char (CHR ''['')) (\<lambda>_. andThen read_ipv6 (\<lambda>g.
     andThen read_scope (\<lambda>sc. andThen (read_char (CHR '']'')) (\<lambda>_.
     andThen read_port (\<lambda>p s. Some (SockAddr (V6 g) p sc, s))))))"

definition parse_socket_addr :: "string \<Rightarrow> socket_addr option" where
  "parse_socket_addr = whole (\<lambda>s. case read_socket_v4 s of Some r \<Rightarrow> Some r | None \<Rightarrow> read_socket_v6 s)"

definition is_v4 :: "ip_addr \<Rightarrow> bool" where "is_v4 a = (case a of V4 _ \<Rightarrow> True | V6 _ \<Rightarrow> False)"

section \<open>Values\<close>

definition ip_wf :: "ip_addr \<Rightarrow> bool" where
  "ip_wf a = (case a of V4 bs \<Rightarrow> length bs = 4 \<and> (\<forall>b \<in> set bs. b \<le> 255)
                      | V6 gs \<Rightarrow> length gs = 8 \<and> (\<forall>g \<in> set gs. g \<le> 65535))"

lemma andThen_Some: "andThen p f s = Some r \<longleftrightarrow> (\<exists>a t. p s = Some (a, t) \<and> f a t = Some r)"
  by (auto simp: andThen_def split: option.splits)

lemma read_char_Some [simp]: "read_char c s = Some (u, t) \<longleftrightarrow> s = c # t"
  by (auto simp: read_char_def split: list.splits)

lemma read_number_bound: "read_number h mx z l s = Some (v, t) \<Longrightarrow> v \<le> l"
  by (auto simp: read_number_def Let_def split: if_splits option.splits)

lemma read_ipv4_wf: "read_ipv4 s = Some (a, t) \<Longrightarrow> length a = 4 \<and> (\<forall>b \<in> set a. b \<le> 255)"
  by (auto simp: read_ipv4_def andThen_Some read_octet_def dest: read_number_bound)

lemma read_sep_Some: "read_sep i p s = Some r \<Longrightarrow> \<exists>t. p t = Some r"
  by (auto simp: read_sep_def andThen_Some split: if_splits)

lemma read_groups_wf: "read_groups i n s = (gs, b, t) \<Longrightarrow> length gs \<le> n \<and> (\<forall>g \<in> set gs. g \<le> 65535)"
proof (induction i n s arbitrary: gs b t rule: read_groups.induct)
  case (2 i n s)
  show ?case
  proof (cases "if n > 0 then read_sep i read_ipv4 s else None")
    case (Some p)
    obtain v4 u where p: "p = (v4, u)" by force
    then have n: "0 < n" "read_sep i read_ipv4 s = Some (v4, u)" using Some by (auto split: if_splits)
    then have "length v4 = 4" "\<forall>b \<in> set v4. b \<le> 255"
      using read_sep_Some read_ipv4_wf by blast+
    then have "\<forall>k < 4. v4 ! k \<le> 255" by (metis nth_mem)
    then have "v4 ! 0 \<le> 255" "v4 ! 1 \<le> 255" "v4 ! 2 \<le> 255" "v4 ! 3 \<le> 255" by simp_all
    then show ?thesis using 2(2) n p by auto
  next
    case None
    show ?thesis
    proof (cases "read_sep i read_group s")
      case None
      then show ?thesis using 2(2) \<open>(if n > 0 then _ else _) = None\<close> by auto
    next
      case (Some q)
      obtain g u where q: "q = (g, u)" by force
      obtain gs' b' t' where r: "read_groups (Suc i) n u = (gs', b', t')" by (metis prod_cases3)
      have "g \<le> 65535" using Some q read_sep_Some [of i read_group s] read_number_bound
        by (auto simp: read_group_def)
      then show ?thesis using 2(1) [OF None Some q [symmetric] r] 2(2) None Some q r by auto
    qed
  qed
qed simp

lemma read_ipv6_wf: "read_ipv6 s = Some (g, t) \<Longrightarrow> length g = 8 \<and> (\<forall>x \<in> set g. x \<le> 65535)"
proof -
  assume h: "read_ipv6 s = Some (g, t)"
  obtain hs b u where r: "read_groups 0 8 s = (hs, b, u)" by (metis prod_cases3)
  have hs: "length hs \<le> 8" "\<forall>x \<in> set hs. x \<le> 65535" using read_groups_wf [OF r] by auto
  show ?thesis
  proof (cases "length hs = 8")
    case True
    then show ?thesis using h r hs by (simp add: read_ipv6_def)
  next
    case False
    obtain w where w: "u = CHR '':'' # CHR '':'' # w"
      using h r False by (auto simp: read_ipv6_def split: if_splits list.splits)
    obtain ts b' v where q: "read_groups 0 (8 - (length hs + 1)) w = (ts, b', v)" by (metis prod_cases3)
    have "length ts \<le> 8 - (length hs + 1)" "\<forall>x \<in> set ts. x \<le> 65535" using read_groups_wf [OF q] by auto
    moreover have "g = hs @ replicate (8 - (length hs + length ts)) 0 @ ts"
      using h r False w q by (auto simp: read_ipv6_def split: if_splits)
    ultimately show ?thesis using hs False by auto
  qed
qed

lemma parse_ip_wf: "parse_ip s = Some a \<Longrightarrow> ip_wf a"
  by (auto simp: parse_ip_def whole_def read_ip_def ip_wf_def dest: read_ipv4_wf read_ipv6_wf
      split: option.splits list.splits prod.splits)

section \<open>Against the validators\<close>

text \<open>\<open>octet_strict\<close>: what the address parser asks of an octet beyond the validator's check.\<close>

definition octet_strict :: "string \<Rightarrow> bool" where
  "octet_strict p = (octet_ok p \<and> (hd p = CHR ''0'' \<longrightarrow> length p = 1))"

lemma read_octet_Some:
  "read_octet s = Some (v, t) \<longleftrightarrow>
     (\<exists>p. s = p @ t \<and> octet_strict p \<and> v = digits_val p \<and> (t \<noteq> [] \<longrightarrow> \<not> is_digit (hd t)))"
proof
  assume h: "read_octet s = Some (v, t)"
  let ?p = "takeWhile is_digit s"
  have "?p \<noteq> []" "length ?p \<le> 3" "hd ?p = CHR ''0'' \<longrightarrow> length ?p \<le> 1" "digits_val ?p \<le> 255"
    "v = digits_val ?p" "t = dropWhile is_digit s"
    using h by (auto simp: read_octet_def read_number_def Let_def split: if_splits)
  moreover have "list_all is_digit ?p" by (auto simp: list_all_iff dest: set_takeWhileD)
  moreover have "1 \<le> length ?p" using \<open>?p \<noteq> []\<close> by (cases ?p) auto
  ultimately have "s = ?p @ t \<and> octet_strict ?p \<and> v = digits_val ?p \<and> (t \<noteq> [] \<longrightarrow> \<not> is_digit (hd t))"
    using hd_dropWhile [of is_digit s] by (auto simp: octet_strict_def octet_ok_def)
  then show "\<exists>p. s = p @ t \<and> octet_strict p \<and> v = digits_val p \<and> (t \<noteq> [] \<longrightarrow> \<not> is_digit (hd t))"
    by blast
next
  assume "\<exists>p. s = p @ t \<and> octet_strict p \<and> v = digits_val p \<and> (t \<noteq> [] \<longrightarrow> \<not> is_digit (hd t))"
  then obtain p where p: "s = p @ t" "octet_strict p" "v = digits_val p" "t \<noteq> [] \<longrightarrow> \<not> is_digit (hd t)" by blast
  have "takeWhile is_digit (p @ t) = p" "dropWhile is_digit (p @ t) = t"
    using p(2,4) by (auto simp: octet_strict_def octet_ok_def list_all_iff takeWhile_append dropWhile_append
        takeWhile_eq_Nil_iff dropWhile_eq_self_iff)
  then show "read_octet s = Some (v, t)"
    using p by (auto simp: read_octet_def read_number_def Let_def octet_strict_def octet_ok_def)
qed

lemma octet_no_dot: "octet_strict p \<Longrightarrow> CHR ''.'' \<notin> set p"
  by (auto simp: octet_strict_def octet_ok_def list_all_iff)

lemma read_ipv4_Some:
  "read_ipv4 s = Some (a, []) \<longleftrightarrow>
     (\<exists>p q r u. split_char (CHR ''.'') s = [p, q, r, u] \<and> octet_strict p \<and> octet_strict q \<and>
        octet_strict r \<and> octet_strict u \<and> a = map digits_val [p, q, r, u])" (is "?L \<longleftrightarrow> ?R")
proof
  assume ?L
  then obtain p q r u where "s = p @ CHR ''.'' # q @ CHR ''.'' # r @ CHR ''.'' # u"
    "octet_strict p" "octet_strict q" "octet_strict r" "octet_strict u" "a = map digits_val [p, q, r, u]"
    unfolding read_ipv4_def andThen_Some read_char_Some read_octet_Some by auto
  then have "split_char (CHR ''.'') s = [p, q, r, u] \<and> octet_strict p \<and> octet_strict q \<and>
        octet_strict r \<and> octet_strict u \<and> a = map digits_val [p, q, r, u]"
    by (simp add: split_char_append split_char_id octet_no_dot)
  then show ?R by blast
next
  assume ?R
  then obtain p q r u where h: "split_char (CHR ''.'') s = [p, q, r, u]" "octet_strict p" "octet_strict q"
    "octet_strict r" "octet_strict u" "a = map digits_val [p, q, r, u]" by blast
  have "s = p @ CHR ''.'' # q @ CHR ''.'' # r @ CHR ''.'' # u"
    using join_split [of "CHR ''.''" s] h(1) by simp
  moreover have "read_octet (x @ CHR ''.'' # t) = Some (digits_val x, CHR ''.'' # t)"
    if "octet_strict x" for x t
    unfolding read_octet_Some using that by (intro exI [of _ x]) simp
  moreover have "read_octet u = Some (digits_val u, [])"
    unfolding read_octet_Some using h(5) by (intro exI [of _ u]) simp
  ultimately show ?L using h by (simp add: read_ipv4_def andThen_def read_char_def)
qed

lemma length_4: "length xs = 4 \<longleftrightarrow> (\<exists>p q r u. xs = [p, q, r, u])"
  by (auto simp: length_Suc_conv eval_nat_numeral)

text \<open>
  A text whose four octets have no leading zeros is an IPv4 address with those octets; every
  IPv4 text that parses is one, and validates.
\<close>

lemma parse_ip_v4_iff:
  "parse_ip s = Some (V4 a) \<longleftrightarrow> (let ps = split_char (CHR ''.'') s in
     length ps = 4 \<and> list_all octet_strict ps \<and> a = map digits_val ps)"
proof -
  have "parse_ip s = Some (V4 a) \<longleftrightarrow> read_ipv4 s = Some (a, [])"
    by (auto simp: parse_ip_def whole_def read_ip_def split: option.splits list.splits)
  also have "\<dots> \<longleftrightarrow> (\<exists>p q r u. split_char (CHR ''.'') s = [p, q, r, u] \<and> list_all octet_strict [p, q, r, u] \<and>
      a = map digits_val [p, q, r, u])"
    unfolding read_ipv4_Some by simp
  also have "\<dots> \<longleftrightarrow> (\<exists>p q r u. split_char (CHR ''.'') s = [p, q, r, u]) \<and>
      list_all octet_strict (split_char (CHR ''.'') s) \<and> a = map digits_val (split_char (CHR ''.'') s)"
    by (metis (no_types))
  finally show ?thesis by (simp only: length_4 Let_def)
qed

lemma parse_ip_v4_validates: "parse_ip s = Some (V4 a) \<Longrightarrow> validate_ip_address s = Ok ()"
  unfolding parse_ip_v4_iff validate_ip_address_iff ip_text_ok_def ipv4_text_ok_def octet_strict_def
    list_all_iff Let_def by blast

section \<open>Properties\<close>

text \<open>
  The address parser reads a text as an IPv4 address exactly when it is four dotted octets
  without leading zeros, and gives their values; such a text validates.
\<close>

lemma ipv4_parse:
  "parse_ip s = Some (V4 a) \<longleftrightarrow> validate_ip_address s = Ok () \<and>
     list_all octet_strict (split_char (CHR ''.'') s) \<and> a = map digits_val (split_char (CHR ''.'') s) \<and>
     length (split_char (CHR ''.'') s) = 4"
  using parse_ip_v4_validates [of s a] by (auto simp: parse_ip_v4_iff Let_def)

text \<open>
  What the address parser returns is well formed: four octets or eight 16-bit groups.
\<close>

lemma parsed_ip_bounds:
  "pred_option (\<lambda>a. case a of V4 bs \<Rightarrow> length bs = 4 \<and> list_all (\<lambda>b. b < 2 ^ 8) bs
      | V6 gs \<Rightarrow> length gs = 8 \<and> list_all (\<lambda>g. g < 2 ^ 16) gs) (parse_ip s)"
  using parse_ip_wf [of s]
  by (cases "parse_ip s") (auto simp: ip_wf_def list_all_iff less_Suc_eq_le split: ip_addr.splits)

text \<open>
  Validation accepts addresses that the daemon then cannot parse: leading zeros in an octet, and
  three groups without a double colon.
\<close>

lemma validated_not_parsed:
  "validate_ip_address ''010.0.0.1'' = Ok () \<and> parse_ip ''010.0.0.1'' = None \<and>
   validate_ip_address ''1:2:3'' = Ok () \<and> parse_ip ''1:2:3'' = None"
  by (intro conjI; code_simp)

section \<open>Display\<close>

text \<open>\<^verbatim>\<open>Display\<close> of \<^verbatim>\<open>Ipv4Addr\<close> and \<^verbatim>\<open>Ipv6Addr\<close>: the longest run of zero groups is \<^verbatim>\<open>::\<close>.\<close>

definition hex_lower :: "nat \<Rightarrow> char" where
  "hex_lower d = char_of (if d < 10 then 48 + d else 87 + d)"

fun show_hex :: "nat \<Rightarrow> string" where
  "show_hex n = (if n < 16 then [hex_lower n] else show_hex (n div 16) @ [hex_lower (n mod 16)])"

declare show_hex.simps [simp del]

definition show_ipv4 :: "nat list \<Rightarrow> string" where "show_ipv4 bs = join ''.'' (map show_nat bs)"
definition show_groups :: "nat list \<Rightarrow> string" where "show_groups gs = join '':'' (map show_hex gs)"

text \<open>Start and length of the longest run so far and of the current run, from position \<open>i\<close>.\<close>

fun zero_run :: "nat \<Rightarrow> nat \<times> nat \<Rightarrow> nat \<times> nat \<Rightarrow> nat list \<Rightarrow> nat \<times> nat" where
  "zero_run i best cur [] = best"
| "zero_run i best cur (g # gs) =
     (if g = 0
      then let c = (if snd cur = 0 then (i, 1) else (fst cur, snd cur + 1)) in
           zero_run (Suc i) (if snd c > snd best then c else best) c gs
      else zero_run (Suc i) best (0, 0) gs)"

definition show_ipv6 :: "nat list \<Rightarrow> string" where
  "show_ipv6 gs =
     (if take 6 gs = [0, 0, 0, 0, 0, 65535]
      then ''::ffff:'' @ show_ipv4 [gs ! 6 div 256, gs ! 6 mod 256, gs ! 7 div 256, gs ! 7 mod 256]
      else case zero_run 0 (0, 0) (0, 0) gs of (i, n) \<Rightarrow>
        if n > 1 then show_groups (take i gs) @ ''::'' @ show_groups (drop (i + n) gs) else show_groups gs)"

fun show_ip :: "ip_addr \<Rightarrow> string" where
  "show_ip (V4 bs) = show_ipv4 bs"
| "show_ip (V6 gs) = show_ipv6 gs"

lemma show_nat_head: "n \<noteq> 0 \<Longrightarrow> hd (show_nat n) \<noteq> CHR ''0''"
proof (induction n rule: show_nat.induct)
  case (1 n)
  show ?case
  proof (cases "n < 10")
    case True
    then have "code (hd (show_nat n)) = 48 + n" by (simp add: show_nat.simps [of n])
    moreover have "code (CHR ''0'') = 48" by (simp add: code_def)
    ultimately show ?thesis using 1(2) by auto
  next
    case False
    then have "show_nat n = show_nat (n div 10) @ [char_of (48 + n mod 10)]" by (simp add: show_nat.simps [of n])
    with 1(1) False show ?thesis by simp
  qed
qed

lemma show_nat_octet: "n \<le> 255 \<Longrightarrow> octet_strict (show_nat n)"
proof -
  assume n: "n \<le> 255"
  have s: "show_nat n = (if n < 10 then [char_of (48 + n)]
      else if n < 100 then [char_of (48 + n div 10), char_of (48 + n mod 10)]
      else [char_of (48 + n div 100), char_of (48 + n div 10 mod 10), char_of (48 + n mod 10)])"
    using n by (simp add: show_nat.simps [of n] show_nat.simps [of "n div 10"] show_nat.simps [of "n div 100"]
        div_mult2_eq [symmetric] div_less_iff_less_mult)
  then have "length (show_nat n) \<le> 3" by simp
  moreover have "hd (show_nat n) = CHR ''0'' \<Longrightarrow> length (show_nat n) = 1"
    using show_nat_head [of n] by (cases "n = 0") (auto simp: show_nat.simps)
  ultimately show ?thesis using n show_nat_props [of n]
    by (simp add: octet_strict_def octet_ok_def Suc_le_eq)
qed

lemma parse_show_ipv4:
  assumes "length bs = 4" "\<forall>b \<in> set bs. b \<le> 255"
  shows "parse_ip (show_ipv4 bs) = Some (V4 bs)"
proof -
  have d: "CHR ''.'' \<notin> set (show_nat b)" for b
    using show_nat_set [of "CHR ''.''" b] by auto
  have "split_char (CHR ''.'') (show_ipv4 bs) = map show_nat bs"
    unfolding show_ipv4_def using assms(1) d by (intro split_join) auto
  with assms show ?thesis by (auto simp: parse_ip_v4_iff Let_def list_all_iff show_nat_octet intro!: map_idI [symmetric])
qed

text \<open>Digits without a leading zero are the display of their value.\<close>

lemma digit_char: "is_digit c \<Longrightarrow> char_of (48 + digit_val c) = c \<and> digit_val c < 10"
  by (auto simp: is_digit_def digit_val_def code_def)

lemma show_digits:
  "p \<noteq> [] \<Longrightarrow> list_all is_digit p \<Longrightarrow> (hd p = CHR ''0'' \<longrightarrow> length p = 1) \<Longrightarrow>
   show_nat (digits_val p) = p \<and> (hd p \<noteq> CHR ''0'' \<longrightarrow> digits_val p > 0)"
proof (induction p rule: rev_induct)
  case (snoc c q)
  have c: "char_of (48 + digit_val c) = c" "digit_val c < 10" using digit_char [of c] snoc(3) by auto
  show ?case
  proof (cases "q = []")
    case True
    have "char_of (48 :: nat) = CHR ''0''" by code_simp
    then have "digit_val c = 0 \<Longrightarrow> c = CHR ''0''" using c(1) by simp
    with True c show ?thesis by (auto simp: show_nat.simps digits_val_def)
  next
    case False
    with snoc(4) have "hd q \<noteq> CHR ''0''" by (cases q) auto
    with snoc False have "show_nat (digits_val q) = q" "digits_val q > 0" by auto
    with c show ?thesis by (simp add: show_nat.simps [of "10 * digits_val q + digit_val c"])
  qed
qed simp

lemma show_octet: "octet_strict p \<Longrightarrow> show_nat (digits_val p) = p"
  using show_digits [of p] by (cases p) (auto simp: octet_strict_def octet_ok_def)

lemma show_parsed_ipv4: "parse_ip s = Some (V4 a) \<Longrightarrow> show_ipv4 a = s"
proof -
  assume "parse_ip s = Some (V4 a)"
  then have "map show_nat a = split_char (CHR ''.'') s"
    by (auto simp: parse_ip_v4_iff Let_def list_all_iff show_octet intro: map_idI)
  then show ?thesis by (simp add: show_ipv4_def)
qed

lemma set_join: "c \<in> set (join sep ps) \<Longrightarrow> c \<in> set sep \<or> (\<exists>p \<in> set ps. c \<in> set p)"
  by (induction sep ps rule: join.induct) auto

lemma show_ipv4_set: "c \<in> set (show_ipv4 bs) \<Longrightarrow> is_digit c \<or> c = CHR ''.''"
  unfolding show_ipv4_def by (drule set_join) (auto dest: show_nat_set)

end
