(* ===== verification/Netns.thy ===== *)
theory Netns
  imports NetAddr "HOL-Library.Word"
begin

text \<open>
  The kernel as the daemon uses it, and \<^verbatim>\<open>segwire-daemon/src/netns_raw.rs\<close> on top of it.  The
  record \<open>sys\<close> holds the system calls as operations on a kernel state \<open>'k\<close>; a network namespace,
  a descriptor and a socket are numbers.  The namespace of the calling thread is an argument:
  \<open>unshare\<close> and \<open>setns\<close> give the new one, which only the rest of that thread sees.  A thread
  the source spawns and joins is the sequence of its steps (its closures do not panic).
  The messages of \<^verbatim>\<open>netlink-packet-route\<close> and \<^verbatim>\<open>netlink-packet-wireguard\<close> are the fields and
  attributes the source sets.
\<close>

section \<open>Messages\<close>

datatype addr_family = Inet | Inet6

datatype info_kind = KVeth | KDummy | KBridge | KMacVlan | KIpVlan | KWireguard

datatype link_attr = IfName string | NetNsFd nat | LinkInfoKind info_kind | LinkInfoVethPeer "link_attr list"

record link_msg =
  lm_index :: nat
  lm_flags_up :: bool
  lm_change_up :: bool
  lm_attrs :: "link_attr list"

definition default_link_msg :: link_msg where
  "default_link_msg = \<lparr>lm_index = 0, lm_flags_up = False, lm_change_up = False, lm_attrs = []\<rparr>"

datatype route_attr = RDestination ip_addr | RGateway ip_addr | ROif nat | RPriority nat

datatype route_protocol = ProtoUnspec | ProtoStatic
datatype route_table = TableUnspec | TableMain

text \<open>Scope and type are \<^verbatim>\<open>Universe\<close> and \<^verbatim>\<open>Unicast\<close> in every route the source builds.\<close>

record route_msg =
  rm_family :: addr_family
  rm_prefix_len :: nat
  rm_table :: route_table
  rm_protocol :: route_protocol
  rm_attrs :: "route_attr list"

datatype addr_attr = ALocal ip_addr | AAddress ip_addr

record addr_msg =
  am_family :: addr_family
  am_prefix_len :: nat
  am_index :: nat
  am_attrs :: "addr_attr list"

datatype rt_message = GetLink | NewLink link_msg | SetLink link_msg | NewRoute route_msg |
  GetRoute addr_family | NewAddress addr_msg

datatype nl_flag = F_ACK | F_CREATE | F_EXCL | F_DUMP

record rt_request =
  rq_message :: rt_message
  rq_flags :: "nl_flag list"

datatype rt_response = RspLink link_msg | RspRoute route_msg | RspOther

datatype wg_allowed_ip = WgAllowedIp addr_family ip_addr nat

datatype wg_peer_attr = WpPublicKey string | WpPresharedKey string | WpEndpoint socket_addr |
  WpKeepalive nat | WpAllowedIps "wg_allowed_ip list"

datatype wg_attr = WaIfName string | WaPrivateKey string | WaListenPort nat | WaFwmark nat |
  WaPeers "wg_peer_attr list list"

section \<open>System calls\<close>

record 'k sys =
  sys_host_ns :: nat
  sys_euid :: "'k \<Rightarrow> nat"
  sys_exists :: "string \<Rightarrow> 'k \<Rightarrow> bool"
  sys_mkdir_all :: "string \<Rightarrow> ('k, string, unit) op"
  sys_create :: "string \<Rightarrow> ('k, string, unit) op"
  sys_write :: "string \<Rightarrow> string \<Rightarrow> ('k, string, unit) op"
  sys_remove :: "string \<Rightarrow> ('k, string, unit) op"
  sys_read :: "string \<Rightarrow> 'k \<Rightarrow> string option"
  sys_ino :: "string \<Rightarrow> 'k \<Rightarrow> nat option"
  sys_readdir :: "string \<Rightarrow> 'k \<Rightarrow> (string, string option list) res"
  sys_unshare :: "('k, string, nat) op"
  sys_mount :: "nat \<Rightarrow> string \<Rightarrow> string \<Rightarrow> ('k, string, unit) op"
  sys_umount :: "string \<Rightarrow> ('k, string, unit) op"
  sys_open :: "nat \<Rightarrow> string \<Rightarrow> ('k, string, nat) op"
  sys_close :: "nat \<Rightarrow> 'k \<Rightarrow> 'k"
  sys_setns :: "nat \<Rightarrow> ('k, string, nat) op"
  sys_nl_open :: "nat \<Rightarrow> ('k, netlink_error, nat) op"
  sys_nl_request :: "nat \<Rightarrow> rt_request \<Rightarrow> ('k, netlink_error, rt_response list) op"
  sys_genl_family :: "nat \<Rightarrow> string \<Rightarrow> ('k, netlink_error, nat) op"
  sys_genl_wireguard :: "nat \<Rightarrow> nat \<Rightarrow> nat \<Rightarrow> wg_attr list \<Rightarrow> ('k, netlink_error, unit) op"

text \<open>
  \<open>sys_readdir\<close> lists file names, \<open>None\<close> for an entry that cannot be read; a socket and a
  generic netlink request are of the thread's namespace, their first argument.
\<close>

section \<open>Namespace lifecycle\<close>

definition is_root :: "'k sys \<Rightarrow> 'k \<Rightarrow> bool" where "is_root y k = (sys_euid y k = 0)"

definition create_netns :: "'k sys \<Rightarrow> string \<Rightarrow> ('k, string, unit) op" where
  "create_netns y ns_path =
     bindS (mapErrS (\<lambda>e. ''unshare(CLONE_NEWNET) failed: '' @ e) (sys_unshare y)) (\<lambda>ns.
     mapErrS (\<lambda>e. ''bind mount failed: '' @ e) (sys_mount y ns ''/proc/self/ns/net'' ns_path))"

definition delete_netns :: "'k sys \<Rightarrow> string \<Rightarrow> ('k, string, unit) op" where
  "delete_netns y ns_path =
     thenS (mapErrS (\<lambda>e. ''umount2 failed: '' @ e) (sys_umount y ns_path))
           (mapErrS (\<lambda>e. ''remove file: '' @ e) (sys_remove y ns_path))"

text \<open>\<^verbatim>\<open>ino() as u32\<close> keeps the low 32 bits.\<close>

definition ns_inode :: "'k sys \<Rightarrow> string \<Rightarrow> 'k \<Rightarrow> 32 word" where
  "ns_inode y path k = (case sys_ino y path k of Some i \<Rightarrow> word_of_nat i | None \<Rightarrow> 0)"

definition open_ns_fd :: "'k sys \<Rightarrow> nat \<Rightarrow> string \<Rightarrow> ('k, string, nat) op" where
  "open_ns_fd y ns path = mapErrS (\<lambda>e. ''open ns fd '' @ path @ '': '' @ e) (sys_open y ns path)"

definition close_fd :: "'k sys \<Rightarrow> nat \<Rightarrow> ('k, 'e, unit) op" where
  "close_fd y fd k = (Ok (), sys_close y fd k)"

text \<open>
  The closure gets the namespace it runs in and returns a value; a failed restore is only
  logged, the thread ends.
\<close>

definition run_in_namespace :: "'k sys \<Rightarrow> string \<Rightarrow> (nat \<Rightarrow> 'k \<Rightarrow> 'a \<times> 'k) \<Rightarrow> ('k, string, 'a) op" where
  "run_in_namespace y ns_path f =
     bindS (mapErrS (\<lambda>e. ''open current ns: '' @ e) (open_ns_fd y (sys_host_ns y) ''/proc/self/ns/net'')) (\<lambda>orig.
     bindS (mapErrS (\<lambda>e. ''open target ns: '' @ e) (open_ns_fd y (sys_host_ns y) ns_path)) (\<lambda>target.
     bindS (mapErrS (\<lambda>e. ''setns to target: '' @ e) (sys_setns y target)) (\<lambda>ns.
     thenS (close_fd y target) (\<lambda>k.
       case f ns k of (a, k') \<Rightarrow> (Ok a, sys_close y orig (snd (sys_setns y orig k')))))))"

section \<open>Descriptors\<close>

text \<open>
  What the kernel documents about descriptors: \<open>open\<close> returns one not in use, \<open>close\<close> frees it,
  \<open>setns\<close> and a failed \<open>open\<close> keep them.
\<close>

definition fd_laws :: "'k sys \<Rightarrow> ('k \<Rightarrow> nat set) \<Rightarrow> bool" where
  "fd_laws y fds =
     ((\<forall>ns p k fd k'. sys_open y ns p k = (Ok fd, k') \<longrightarrow> fd \<notin> fds k \<and> fds k' = insert fd (fds k)) \<and>
      (\<forall>ns p k e k'. sys_open y ns p k = (Err e, k') \<longrightarrow> fds k' = fds k) \<and>
      (\<forall>fd k. fds (sys_close y fd k) = fds k - {fd}) \<and>
      (\<forall>fd k. fds (snd (sys_setns y fd k)) = fds k))"

lemma fd_laws_open:
  assumes "fd_laws y fds"
  shows "open_ns_fd y ns p k = (Ok fd, k') \<Longrightarrow> fd \<notin> fds k \<and> fds k' = insert fd (fds k)"
    and "open_ns_fd y ns p k = (Err e, k') \<Longrightarrow> fds k' = fds k"
proof -
  have l: "sys_open y ns p k = (Ok fd, k') \<Longrightarrow> fd \<notin> fds k \<and> fds k' = insert fd (fds k)"
    "sys_open y ns p k = (Err d, k') \<Longrightarrow> fds k' = fds k" for d
    using assms by (simp_all add: fd_laws_def)
  show "open_ns_fd y ns p k = (Ok fd, k') \<Longrightarrow> fd \<notin> fds k \<and> fds k' = insert fd (fds k)"
    unfolding open_ns_fd_def mapErrS_Ok by (rule l(1))
  show "open_ns_fd y ns p k = (Err e, k') \<Longrightarrow> fds k' = fds k"
    unfolding open_ns_fd_def mapErrS_Err using l(2) by blast
qed

text \<open>
  A run that returns a value leaves the descriptors as the closure left them; one that fails
  after the first descriptor was opened leaves it open.
\<close>

lemma run_in_namespace_Ok:
  assumes "run_in_namespace y p f k = (Ok a, k')"
  shows "\<exists>orig target ns k1 k2 k3 k4. open_ns_fd y (sys_host_ns y) ''/proc/self/ns/net'' k = (Ok orig, k1) \<and>
    open_ns_fd y (sys_host_ns y) p k1 = (Ok target, k2) \<and> sys_setns y target k2 = (Ok ns, k3) \<and>
    f ns (sys_close y target k3) = (a, k4) \<and> k' = sys_close y orig (snd (sys_setns y orig k4))"
proof -
  obtain orig target ns k1 k2 k3 where s: "open_ns_fd y (sys_host_ns y) ''/proc/self/ns/net'' k = (Ok orig, k1)"
    "open_ns_fd y (sys_host_ns y) p k1 = (Ok target, k2)" "sys_setns y target k2 = (Ok ns, k3)"
    "(case f ns (sys_close y target k3) of (a, k') \<Rightarrow> (Ok a, sys_close y orig (snd (sys_setns y orig k')))) = ((Ok a :: (string, _) res), k')"
    using assms unfolding run_in_namespace_def bindS_Ok mapErrS_Ok thenS_def close_fd_def prod.inject by blast
  then show ?thesis by (cases "f ns (sys_close y target k3)") auto
qed

text \<open>
  C34: running a closure in a namespace leaks no descriptor: when the run returns a value and the
  closure keeps the descriptors, the open descriptors are those from before.
\<close>

lemma run_in_namespace_fds:
  assumes "fd_laws y fds" "run_in_namespace y p f k = (Ok a, k')"
    and closure: "\<And>ns k. fds (snd (f ns k)) = fds k"
  shows "fds k' = fds k"
proof -
  obtain orig target ns k1 k2 k3 k4 where s: "open_ns_fd y (sys_host_ns y) ''/proc/self/ns/net'' k = (Ok orig, k1)"
    "open_ns_fd y (sys_host_ns y) p k1 = (Ok target, k2)" "sys_setns y target k2 = (Ok ns, k3)"
    "f ns (sys_close y target k3) = (a, k4)" "k' = sys_close y orig (snd (sys_setns y orig k4))"
    using run_in_namespace_Ok [OF assms(2)] by blast
  have o: "orig \<notin> fds k" "fds k1 = insert orig (fds k)" using fd_laws_open(1) [OF assms(1) s(1)] by auto
  have t: "target \<notin> fds k1" "fds k2 = insert target (fds k1)" using fd_laws_open(1) [OF assms(1) s(2)] by auto
  have "fds k3 = fds k2" using assms(1) s(3) unfolding fd_laws_def by (metis snd_conv)
  moreover have "fds k4 = fds (sys_close y target k3)" using closure [of ns "sys_close y target k3"] s(4) by simp
  moreover have "fds (sys_close y target k3) = fds k3 - {target}" "fds k' = fds (snd (sys_setns y orig k4)) - {orig}"
    "fds (snd (sys_setns y orig k4)) = fds k4"
    using assms(1) s(5) unfolding fd_laws_def by blast+
  ultimately show ?thesis using o t by auto
qed

text \<open>
  When the target namespace cannot be opened, the run fails and the descriptor of the original
  namespace stays open.
\<close>

lemma run_in_namespace_leak:
  assumes "fd_laws y fds" "open_ns_fd y (sys_host_ns y) ''/proc/self/ns/net'' k = (Ok orig, k1)"
    and "open_ns_fd y (sys_host_ns y) p k1 = (Err e, k2)"
  shows "run_in_namespace y p f k = (Err (''open target ns: '' @ e), k2) \<and> fds k2 = insert orig (fds k) \<and> orig \<notin> fds k"
  using assms fd_laws_open(1) [OF assms(1,2)] fd_laws_open(2) [OF assms(1,3)]
  by (simp add: run_in_namespace_def bindS_def mapErrS_def)

section \<open>Properties\<close>

text \<open>A kernel that only keeps descriptors; paths other than those of the two namespaces cannot be opened.\<close>

definition fd_sys :: "nat list sys" where
  "fd_sys = \<lparr>sys_host_ns = 0, sys_euid = (\<lambda>_. 0), sys_exists = (\<lambda>_ _. True), sys_mkdir_all = (\<lambda>_. returnS ()),
     sys_create = (\<lambda>_. returnS ()), sys_write = (\<lambda>_ _. returnS ()), sys_remove = (\<lambda>_. returnS ()),
     sys_read = (\<lambda>_ _. None), sys_ino = (\<lambda>_ _. None), sys_readdir = (\<lambda>_ _. Ok []), sys_unshare = returnS 1,
     sys_mount = (\<lambda>_ _ _. returnS ()), sys_umount = (\<lambda>_. returnS ()),
     sys_open = (\<lambda>_ p k. if p = ''/missing'' then (Inl ''No such file'', k)
                 else (Ok (Suc (sum_list k)), Suc (sum_list k) # k)),
     sys_close = (\<lambda>fd k. filter (\<lambda>x. x \<noteq> fd) k), sys_setns = (\<lambda>_. returnS 1),
     sys_nl_open = (\<lambda>_. returnS 0), sys_nl_request = (\<lambda>_ _. returnS []), sys_genl_family = (\<lambda>_ _. returnS 0),
     sys_genl_wireguard = (\<lambda>_ _ _ _. returnS ())\<rparr>"

lemma fd_sys_laws: "fd_laws fd_sys set"
  using member_le_sum_list [of _ "_ :: nat list"]
  by (fastforce simp: fd_laws_def fd_sys_def returnS_def Suc_n_not_le_n split: if_splits)

lemma run_in_namespace_fds_witness:
  "set (snd (run_in_namespace fd_sys ''/ns'' (\<lambda>ns k. ((), k)) [3])) = {3}"
proof -
  have r: "run_in_namespace fd_sys ''/ns'' (\<lambda>ns k. ((), k)) [3] = (Ok (), [3])" by code_simp
  show ?thesis using run_in_namespace_fds [OF fd_sys_laws r] by (simp add: r)
qed

lemma run_in_namespace_leak_witness:
  "set (snd (run_in_namespace fd_sys ''/missing'' (\<lambda>ns k. ((), k)) [])) = {1}"
proof -
  have o: "open_ns_fd fd_sys (sys_host_ns fd_sys) ''/proc/self/ns/net'' [] = (Ok 1, [1])"
    "open_ns_fd fd_sys (sys_host_ns fd_sys) ''/missing'' [1] = (Err ''open ns fd /missing: No such file'', [1])"
    by code_simp+
  show ?thesis using run_in_namespace_leak [OF fd_sys_laws o, of "\<lambda>ns k. ((), k)"] by simp
qed

end
