(* ===== verification/EnvSubst.thy ===== *)
theory EnvSubst
  imports Validate
begin

text \<open>
  \<^verbatim>\<open>substitute_env_vars\<close> of \<^verbatim>\<open>segwire-common/src/utils.rs\<close>.  A round finds the leftmost,
  non-overlapping matches of the pattern \<^verbatim>\<open>\$\{([^}]+)\}\<close> and replaces each by what
  \<open>resolve_variable_spec\<close> makes of its inside; rounds repeat while something was replaced,
  at most ten.  The matches of a round are found before the first is replaced and are
  replaced from the last to the first, so each replacement leaves the earlier positions
  unchanged: a round replaces the segments of the text, last first, which decides whose
  error is returned when several fail.  The system environment is a map argument \<open>sysenv\<close>.
\<close>

type_synonym env = "(string \<times> string) list"

section \<open>Variable references\<close>

text \<open>
  A text is scanned into literal stretches and references.  At a position the pattern
  matches when \<^verbatim>\<open>${\<close> stands there, a closing brace follows and at least one character is
  in between; the match then ends at the first closing brace after the first inside
  character.
\<close>

datatype seg = Lit char | Ref string

abbreviation dollar :: char where "dollar \<equiv> CHR ''$''"
abbreviation lbrace :: char where "lbrace \<equiv> CHR 0x7B"
abbreviation rbrace :: char where "rbrace \<equiv> CHR 0x7D"

definition match_ref :: "string \<Rightarrow> (string \<times> string) option" where
  "match_ref s =
     (case s of
        d # b # c # r \<Rightarrow>
          (if d = dollar \<and> b = lbrace \<and> c \<noteq> rbrace
           then map_option (\<lambda>(x, y). (c # x, y)) (split_once rbrace r)
           else None)
      | _ \<Rightarrow> None)"

lemma match_ref_Some: "match_ref s = Some (v, r) \<longleftrightarrow>
    s = dollar # lbrace # v @ rbrace # r \<and> v \<noteq> [] \<and> rbrace \<notin> set v"
proof (cases "\<exists>d b c q. s = d # b # c # q")
  case True
  then obtain d b c q where s: "s = d # b # c # q" by blast
  have eq: "match_ref s = (if d = dollar \<and> b = lbrace \<and> c \<noteq> rbrace
      then map_option (\<lambda>(x, y). (c # x, y)) (split_once rbrace q) else None)"
    by (simp add: s match_ref_def)
  show ?thesis
  proof (cases v)
    case Nil
    then show ?thesis by (auto simp: eq)
  next
    case (Cons e w)
    have "match_ref s = Some (v, r) \<longleftrightarrow>
        d = dollar \<and> b = lbrace \<and> c \<noteq> rbrace \<and> e = c \<and> split_once rbrace q = Some (w, r)"
      using Cons by (auto simp: eq)
    then show ?thesis using Cons by (auto simp: s split_once_Some)
  qed
next
  case False
  then have "match_ref s = None" by (auto simp: match_ref_def split: list.splits)
  moreover have "s = dollar # lbrace # v @ rbrace # r \<Longrightarrow> v = []" using False by (cases v) auto
  ultimately show ?thesis by auto
qed

lemma match_ref_length: "match_ref s = Some (v, r) \<Longrightarrow> length r < length s"
  by (simp add: match_ref_Some)

function scan :: "string \<Rightarrow> seg list" where
  "scan s = (case s of [] \<Rightarrow> []
     | c # t \<Rightarrow> (case match_ref s of Some (v, r) \<Rightarrow> Ref v # scan r | None \<Rightarrow> Lit c # scan t))"
  by pat_completeness auto
termination
  by (relation "measure length") (auto dest: match_ref_length)

declare scan.simps [simp del]

lemma scan_Nil [simp]: "scan [] = []"
  by (simp add: scan.simps)

lemma scan_Cons: "scan (c # t) =
    (case match_ref (c # t) of Some (v, r) \<Rightarrow> Ref v # scan r | None \<Rightarrow> Lit c # scan t)"
  by (subst scan.simps) simp

fun unscan :: "seg list \<Rightarrow> string" where
  "unscan [] = []"
| "unscan (Lit c # ss) = c # unscan ss"
| "unscan (Ref v # ss) = (dollar # lbrace # v @ [rbrace]) @ unscan ss"

lemma unscan_scan [simp]: "unscan (scan s) = s"
proof (induction s rule: length_induct)
  case (1 s)
  show ?case
  proof (cases s)
    case (Cons c t)
    show ?thesis
    proof (cases "match_ref s")
      case None
      then show ?thesis using 1 Cons by (simp add: scan_Cons)
    next
      case (Some p)
      obtain v r where p: "p = (v, r)" by force
      with Some have "s = dollar # lbrace # v @ rbrace # r" "length r < length s"
        by (auto simp: match_ref_Some)
      with 1 Some p Cons show ?thesis by (auto simp: scan_Cons)
    qed
  qed simp
qed

section \<open>Resolving a reference\<close>

definition get_variable_value :: "env \<Rightarrow> env \<Rightarrow> string \<Rightarrow> string option" where
  "get_variable_value sysenv config_env var_name =
     (case map_of config_env var_name of Some v \<Rightarrow> Some v | None \<Rightarrow> map_of sysenv var_name)"

definition resolve_variable_spec :: "env \<Rightarrow> env \<Rightarrow> string \<Rightarrow> string sres" where
  "resolve_variable_spec sysenv config_env spec =
     (case find_str '':-'' spec of
        Some i \<Rightarrow>
          (case get_variable_value sysenv config_env (take i spec) of
             Some v \<Rightarrow> if v = [] then Ok (drop (i + 2) spec) else Ok v
           | None \<Rightarrow> Ok (drop (i + 2) spec))
      | None \<Rightarrow>
        (case find_str '':+'' spec of
           Some i \<Rightarrow>
             (case get_variable_value sysenv config_env (take i spec) of
                Some v \<Rightarrow> if v \<noteq> [] then Ok (drop (i + 2) spec) else Ok []
              | None \<Rightarrow> Ok [])
         | None \<Rightarrow>
             (case get_variable_value sysenv config_env spec of
                Some v \<Rightarrow> Ok v
              | None \<Rightarrow> config_err (EnvSubstitution
                  (''Environment variable '' @ quoted spec @ '' not found'')))))"

section \<open>Rounds\<close>

text \<open>One round: the segments are resolved from the last to the first.\<close>

fun subst_segs :: "(string \<Rightarrow> string sres) \<Rightarrow> seg list \<Rightarrow> string sres" where
  "subst_segs f [] = Ok []"
| "subst_segs f (Lit c # ss) = tryR (subst_segs f ss) (\<lambda>t. Ok (c # t))"
| "subst_segs f (Ref v # ss) = tryR (subst_segs f ss) (\<lambda>t. tryR (f v) (\<lambda>u. Ok (u @ t)))"

definition refs :: "string \<Rightarrow> string list" where
  "refs s = List.map_filter (\<lambda>g. case g of Ref v \<Rightarrow> Some v | Lit _ \<Rightarrow> None) (scan s)"

definition MAX_ITERATIONS :: nat where "MAX_ITERATIONS = 10"

definition too_many :: "'a sres" where
  "too_many = config_err (EnvSubstitution
     ''Maximum substitution iterations exceeded - possible circular reference'')"

text \<open>
  The loop, from its state (\<^verbatim>\<open>changed\<close>, \<^verbatim>\<open>iteration_count\<close>, \<^verbatim>\<open>result\<close>) at the head.
\<close>

function subst_loop :: "(string \<Rightarrow> string sres) \<Rightarrow> bool \<Rightarrow> nat \<Rightarrow> string \<Rightarrow> (nat \<times> string) sres" where
  "subst_loop f changed count result =
     (if changed \<and> count < MAX_ITERATIONS
      then tryR (subst_segs f (scan result))
             (\<lambda>r. subst_loop f (refs result \<noteq> []) (count + 1) r)
      else Ok (count, result))"
  by pat_completeness auto
termination
  by (relation "measure (\<lambda>(f, changed, count, result). MAX_ITERATIONS - count)") auto

declare subst_loop.simps [simp del]

definition substitute_env_vars :: "env \<Rightarrow> env \<Rightarrow> string \<Rightarrow> string sres" where
  "substitute_env_vars sysenv config_env input =
     tryR (subst_loop (resolve_variable_spec sysenv config_env) True 0 input)
       (\<lambda>(count, result). if count \<ge> MAX_ITERATIONS then too_many else Ok result)"

section \<open>Texts without references\<close>

lemma refs_Nil [simp]: "refs [] = []"
  by (simp add: refs_def List.map_filter_def)

lemma refs_scan: "refs s = [] \<longleftrightarrow> (\<forall>g \<in> set (scan s). \<exists>c. g = Lit c)"
proof -
  have "refs s = [] \<longleftrightarrow> (\<forall>g \<in> set (scan s). \<forall>v. g \<noteq> Ref v)"
    by (auto simp: refs_def List.map_filter_def filter_empty_conv split: seg.splits)
  also have "\<dots> \<longleftrightarrow> (\<forall>g \<in> set (scan s). \<exists>c. g = Lit c)"
    by (metis seg.distinct(1) seg.exhaust)
  finally show ?thesis .
qed

lemma subst_segs_lits: "\<forall>g \<in> set ss. \<exists>c. g = Lit c \<Longrightarrow> subst_segs f ss = Ok (unscan ss)"
  by (induction f ss rule: subst_segs.induct) auto

lemma subst_round_plain: "refs s = [] \<Longrightarrow> subst_segs f (scan s) = Ok s"
  using subst_segs_lits [of "scan s" f] by (simp add: refs_scan)

lemma refs_no_dollar: "dollar \<notin> set s \<Longrightarrow> refs s = []"
proof -
  have "g \<in> set (scan s) \<Longrightarrow> dollar \<notin> set s \<Longrightarrow> \<exists>c. g = Lit c" for g
  proof (induction s rule: length_induct)
    case (1 s)
    then show ?case
    proof (cases s)
      case (Cons c t)
      then have "match_ref s = None" using 1(3) by (auto simp: match_ref_def split: list.splits)
      with 1 Cons show ?thesis by (auto simp: scan_Cons)
    qed simp
  qed
  then show "dollar \<notin> set s \<Longrightarrow> refs s = []" unfolding refs_scan by blast
qed

text \<open>
  When the loop ends before the limit, the last round changed nothing: the result has no
  reference left, and it is reached within nine replacing rounds.
\<close>

text \<open>The texts reached after each replacing round.\<close>

fun rounds :: "(string \<Rightarrow> string sres) \<Rightarrow> nat \<Rightarrow> string \<Rightarrow> string sres" where
  "rounds f 0 s = Ok s"
| "rounds f (Suc n) s = tryR (subst_segs f (scan s)) (rounds f n)"

lemma rounds_plain: "refs s = [] \<Longrightarrow> rounds f n s = Ok s"
  by (induction n) (simp_all add: subst_round_plain)

lemma subst_loop_stop: "subst_loop f False count s = Ok (count, s)"
  by (subst subst_loop.simps) simp

lemma subst_loop_end: "count \<ge> MAX_ITERATIONS \<Longrightarrow> subst_loop f c count s = Ok (count, s)"
  by (subst subst_loop.simps) simp

lemma subst_loop_step: "count < MAX_ITERATIONS \<Longrightarrow> subst_loop f True count s =
    tryR (subst_segs f (scan s)) (subst_loop f (refs s \<noteq> []) (count + 1))"
  by (subst subst_loop.simps) simp

lemma subst_loop_spec:
  assumes "count + n = MAX_ITERATIONS"
  shows "subst_loop f True count s = Ok (k, r) \<and> k < MAX_ITERATIONS \<longleftrightarrow>
    (\<exists>m. m + 1 < n \<and> k = count + m + 1 \<and> rounds f m s = Ok r \<and> refs r = [] \<and>
         (\<forall>j < m. \<forall>t. rounds f j s = Ok t \<longrightarrow> refs t \<noteq> []))"
  using assms
proof (induction n arbitrary: count s)
  case 0
  then show ?case by (auto simp: subst_loop_end)
next
  case (Suc n)
  then have step: "subst_loop f True count s =
      tryR (subst_segs f (scan s)) (subst_loop f (refs s \<noteq> []) (count + 1))"
    by (intro subst_loop_step) simp
  show ?case
  proof (cases "refs s = []")
    case True
    then have "subst_loop f True count s = Ok (count + 1, s)"
      by (simp add: step subst_round_plain subst_loop_stop)
    moreover have "(\<exists>m. m + 1 < Suc n \<and> k = count + m + 1 \<and> rounds f m s = Ok r \<and> refs r = [] \<and>
         (\<forall>j < m. \<forall>t. rounds f j s = Ok t \<longrightarrow> refs t \<noteq> [])) \<longleftrightarrow> 1 < Suc n \<and> k = count + 1 \<and> r = s"
    proof
      assume "\<exists>m. m + 1 < Suc n \<and> k = count + m + 1 \<and> rounds f m s = Ok r \<and> refs r = [] \<and>
         (\<forall>j < m. \<forall>t. rounds f j s = Ok t \<longrightarrow> refs t \<noteq> [])"
      then obtain m where m: "m + 1 < Suc n" "k = count + m + 1" "rounds f m s = Ok r"
        "\<forall>j < m. \<forall>t. rounds f j s = Ok t \<longrightarrow> refs t \<noteq> []" by blast
      have "m = 0" using m(4) True rounds.simps(1) [of f s] by (metis gr0I)
      with m show "1 < Suc n \<and> k = count + 1 \<and> r = s" by simp
    next
      assume "1 < Suc n \<and> k = count + 1 \<and> r = s"
      then show "\<exists>m. m + 1 < Suc n \<and> k = count + m + 1 \<and> rounds f m s = Ok r \<and> refs r = [] \<and>
         (\<forall>j < m. \<forall>t. rounds f j s = Ok t \<longrightarrow> refs t \<noteq> [])"
        using True by (intro exI [of _ 0]) simp
    qed
    ultimately show ?thesis using Suc.prems by auto
  next
    case False
    then have "subst_loop f True count s = Ok (k, r) \<and> k < MAX_ITERATIONS \<longleftrightarrow>
        (\<exists>u. subst_segs f (scan s) = Ok u \<and> subst_loop f True (count + 1) u = Ok (k, r) \<and> k < MAX_ITERATIONS)"
      by (auto simp: step tryR_Inr_iff)
    also have "\<dots> \<longleftrightarrow> (\<exists>u m. subst_segs f (scan s) = Ok u \<and> m + 1 < n \<and> k = count + m + 2 \<and>
        rounds f m u = Ok r \<and> refs r = [] \<and> (\<forall>j < m. \<forall>t. rounds f j u = Ok t \<longrightarrow> refs t \<noteq> []))"
      using Suc.IH [of "count + 1"] Suc.prems by (simp add: ac_simps) blast
    also have "\<dots> \<longleftrightarrow> (\<exists>m. m + 1 < Suc n \<and> k = count + m + 1 \<and> rounds f m s = Ok r \<and> refs r = [] \<and>
         (\<forall>j < m. \<forall>t. rounds f j s = Ok t \<longrightarrow> refs t \<noteq> []))" (is "?L \<longleftrightarrow> ?R")
    proof
      assume ?L
      then obtain u m where um: "subst_segs f (scan s) = Ok u" "m + 1 < n" "k = count + m + 2"
        "rounds f m u = Ok r" "refs r = []" "\<forall>j < m. \<forall>t. rounds f j u = Ok t \<longrightarrow> refs t \<noteq> []"
        by blast
      have "\<forall>j < Suc m. \<forall>t. rounds f j s = Ok t \<longrightarrow> refs t \<noteq> []"
        using um(1,6) False by (auto simp: less_Suc_eq_0_disj)
      then show ?R using um by (intro exI [of _ "Suc m"]) simp
    next
      assume ?R
      then obtain m where m: "m + 1 < Suc n" "k = count + m + 1" "rounds f m s = Ok r" "refs r = []"
        "\<forall>j < m. \<forall>t. rounds f j s = Ok t \<longrightarrow> refs t \<noteq> []" by blast
      then obtain p where p: "m = Suc p" using False by (cases m) auto
      with m(3) obtain u where u: "subst_segs f (scan s) = Ok u" "rounds f p u = Ok r"
        by (auto simp: tryR_Inr_iff)
      have "\<forall>j < p. \<forall>t. rounds f j u = Ok t \<longrightarrow> refs t \<noteq> []"
        using m(5) p u(1) by (metis Suc_less_eq rounds.simps(2) tryR_simps(2))
      then show ?L using u m p by auto
    qed
    finally show ?thesis by blast
  qed
qed

lemma substitute_Ok_iff:
  "substitute_env_vars se ce s = Ok r \<longleftrightarrow>
     (\<exists>m \<le> 8. rounds (resolve_variable_spec se ce) m s = Ok r \<and> refs r = [] \<and>
        (\<forall>j < m. \<forall>t. rounds (resolve_variable_spec se ce) j s = Ok t \<longrightarrow> refs t \<noteq> []))"
proof -
  let ?f = "resolve_variable_spec se ce"
  have "substitute_env_vars se ce s = Ok r \<longleftrightarrow>
      (\<exists>k. subst_loop ?f True 0 s = Ok (k, r) \<and> k < MAX_ITERATIONS)"
    by (cases "subst_loop ?f True 0 s")
       (auto simp: substitute_env_vars_def too_many_def not_le split: if_splits)
  also have "\<dots> \<longleftrightarrow> (\<exists>m. m + 1 < MAX_ITERATIONS \<and> rounds ?f m s = Ok r \<and> refs r = [] \<and>
        (\<forall>j < m. \<forall>t. rounds ?f j s = Ok t \<longrightarrow> refs t \<noteq> []))"
    using subst_loop_spec [of 0 MAX_ITERATIONS ?f s] by auto
  finally have eq: "substitute_env_vars se ce s = Ok r \<longleftrightarrow>
      (\<exists>m. m + 1 < MAX_ITERATIONS \<and> rounds ?f m s = Ok r \<and> refs r = [] \<and>
        (\<forall>j < m. \<forall>t. rounds ?f j s = Ok t \<longrightarrow> refs t \<noteq> []))" .
  have le: "m + 1 < MAX_ITERATIONS \<longleftrightarrow> m \<le> 8" for m by (auto simp: MAX_ITERATIONS_def)
  show ?thesis unfolding eq le ..
qed

lemma substitute_no_refs: "substitute_env_vars se ce s = Ok r \<Longrightarrow> refs r = []"
  by (auto simp: substitute_Ok_iff)

lemma substitute_plain [simp]: "refs s = [] \<Longrightarrow> substitute_env_vars se ce s = Ok s"
  unfolding substitute_Ok_iff by (rule exI [of _ 0]) simp

lemma substitute_idem: "substitute_env_vars se ce s = Ok r \<Longrightarrow> substitute_env_vars se' ce' r = Ok r"
  by (drule substitute_no_refs) simp

section \<open>Properties\<close>

text \<open>
  C17: substitution returns a text exactly when at most eight replacing rounds reach a text without
  references, and then it returns the first such text.
\<close>

lemma substitution_result:
  "substitute_env_vars se ce s = Ok r \<longleftrightarrow>
     (\<exists>m \<le> 8. rounds (resolve_variable_spec se ce) m s = Ok r \<and> refs r = [] \<and>
        (\<forall>j < m. \<forall>t. rounds (resolve_variable_spec se ce) j s = Ok t \<longrightarrow> refs t \<noteq> []))"
  by (rule substitute_Ok_iff)

lemma substitution_result_witness:
  "\<exists>m \<le> 8. rounds (resolve_variable_spec [] [(''A'', ''x'')]) m ''${A}${B:-y}'' = Ok ''xy''"
proof -
  have "substitute_env_vars [] [(''A'', ''x'')] ''${A}${B:-y}'' = Ok ''xy''" by code_simp
  then show ?thesis unfolding substitution_result by blast
qed

text \<open>
  What substitution returns is closed: it holds no reference, so substituting again, under any
  environment, changes nothing.
\<close>

lemma substitution_closed:
  assumes "substitute_env_vars se ce s = Ok r"
  shows "refs r = [] \<and> substitute_env_vars se' ce' r = Ok r"
  using substitute_no_refs [OF assms] by simp

lemma substitution_closed_witness:
  "refs ''a$b'' = [] \<and> substitute_env_vars [(''b'', ''c'')] [] ''a$b'' = Ok ''a$b''"
proof (rule substitution_closed)
  show "substitute_env_vars [] [] ''a$b'' = Ok ''a$b''" by code_simp
qed

definition chain_env :: env where
  "chain_env = [(''A'', ''${B}''), (''B'', ''${C}''), (''C'', ''${D}''), (''D'', ''${E}''), (''E'', ''${F}''),
     (''F'', ''${G}''), (''G'', ''${H}''), (''H'', ''${I}''), (''I'', ''x'')]"

text \<open>
  The iteration limit rejects a chain of nine variables that is not circular: nine replacing
  rounds reach a text without references, and the result is the error about circular references.
\<close>

lemma deep_chain_rejected:
  "rounds (resolve_variable_spec [] chain_env) 9 ''${A}'' = Ok ''x'' \<and> refs ''x'' = [] \<and>
   substitute_env_vars [] chain_env ''${A}'' = too_many \<and>
   substitute_env_vars [] chain_env ''${B}'' = Ok ''x''"
  by code_simp

end
