(* ===== verification/Config.thy ===== *)
theory Config
  imports EnvSubst "HOL-Library.Char_ord" "HOL-Library.List_Lexorder"
begin

text \<open>
  The configuration structures of \<^verbatim>\<open>segwire-common/src/config.rs\<close>: their default values,
  their validation with the error of every branch, the substitution of environment variables
  in every text field, and loading from a file.  Parameters stand for what is not under
  \<^verbatim>\<open>src/\<close>: \<open>b64\<close> decodes base64 (or gives the text of its error), \<open>toml\<close> parses a document
  into the structure, \<open>fs\<close> gives the text of a readable file, \<open>ex\<close> says which paths exist.
  \<open>namespace_config_ok\<close> is what a validated configuration promises; the daemon's theories
  rely on it through \<open>validate_config_iff\<close>.
\<close>

named_theorems config_simps \<open>what the validation of a configuration accepts\<close>

type_synonym base64 = "string \<Rightarrow> (string, string) res"

section \<open>Structures\<close>

record logging_config =
  level :: string
  with_timestamps :: bool
  with_thread_names :: bool
  with_file_line :: bool
  with_spans :: bool

record daemon_settings =
  namespace_prefix :: string
  config_dir :: string
  cleanup_on_shutdown :: bool
  logging :: logging_config

record dbus_settings =
  service_name :: string
  object_path :: string

record daemon_config =
  daemon :: daemon_settings
  dbus :: dbus_settings

record namespace_settings =
  ns_name :: string
  ns_description :: string

record virtual_interface =
  vif_name :: string
  interface_type :: string
  vif_peer :: "string option"
  vif_addresses :: "string list"

record interface_config =
  move_interfaces :: "string list"
  virtual_interfaces :: "virtual_interface list"

record route =
  destination :: string
  gateway :: string
  metric :: "nat option"

record routing_config =
  default_gateway :: "string option"
  routes :: "route list"

record dns_config =
  servers :: "string list"
  search :: "string list"

record wireguard_peer_config =
  public_key :: string
  preshared_key :: "string option"
  endpoint :: "string option"
  allowed_ips :: "string list"
  persistent_keepalive :: nat

record wireguard_config =
  private_key :: string
  listen_port :: nat
  fwmark :: nat
  wg_peers :: "wireguard_peer_config list"

record namespace_config =
  namespace :: namespace_settings
  interfaces :: interface_config
  routing :: routing_config
  dns :: dns_config
  wireguard :: "wireguard_config option"
  environment :: env

definition default_logging_config :: logging_config where
  "default_logging_config = \<lparr>level = ''info'', with_timestamps = True, with_thread_names = True,
     with_file_line = False, with_spans = False\<rparr>"

definition default_dbus_settings :: dbus_settings where
  "default_dbus_settings = \<lparr>service_name = ''org.segwire.NamespaceManager'',
     object_path = ''/org/segwire/NamespaceManager''\<rparr>"

definition default_interface_config :: interface_config where
  "default_interface_config = \<lparr>move_interfaces = [], virtual_interfaces = []\<rparr>"

definition default_routing_config :: routing_config where
  "default_routing_config = \<lparr>default_gateway = None, routes = []\<rparr>"

definition default_dns_config :: dns_config where
  "default_dns_config = \<lparr>servers = [], search = []\<rparr>"

lemmas config_defaults = default_logging_config_def default_dbus_settings_def
  default_interface_config_def default_routing_config_def default_dns_config_def

section \<open>Repeated elements\<close>

text \<open>
  The source sorts a copy and looks for equal neighbours: \<open>sort\<close> with \<open>remdups_adj\<close> where it
  calls \<^verbatim>\<open>dedup\<close>, \<open>equal_window\<close> where it looks at \<^verbatim>\<open>windows(2)\<close>.
\<close>

definition has_duplicates :: "string list \<Rightarrow> bool" where
  "has_duplicates xs = (length (remdups_adj (sort xs)) \<noteq> length xs)"

fun equal_window :: "string list \<Rightarrow> string option" where
  "equal_window (a # b # xs) = (if a = b then Some a else equal_window (b # xs))"
| "equal_window xs = None"

lemma length_remdups_adj_le: "length (remdups_adj xs) \<le> length xs"
  by (induction xs rule: remdups_adj.induct) auto

lemma remdups_adj_full: "length (remdups_adj xs) = length xs \<longleftrightarrow> distinct_adj xs"
proof (induction xs rule: remdups_adj.induct)
  case (3 x y xs)
  have "length (remdups_adj (y # xs)) \<le> length (y # xs)" by (rule length_remdups_adj_le)
  with 3 show ?case by auto
qed simp_all

lemma sorted_distinct_adj: "sorted xs \<Longrightarrow> distinct_adj xs \<longleftrightarrow> distinct (xs :: string list)"
proof (induction xs rule: remdups_adj.induct)
  case (3 x y xs)
  have "x \<notin> set (y # xs)" if "x \<noteq> y"
    using 3(3) that by (auto simp: not_le [symmetric] dest: order_antisym)
  with 3 show ?case by auto
qed simp_all

lemma has_duplicates_iff [simp]: "has_duplicates xs \<longleftrightarrow> \<not> distinct xs"
proof -
  have "length (remdups_adj (sort xs)) = length (sort xs) \<longleftrightarrow> distinct (sort xs)"
    using sorted_distinct_adj [OF sorted_sort] by (simp only: remdups_adj_full)
  then show ?thesis by (simp add: has_duplicates_def)
qed

lemma equal_window_None: "equal_window xs = None \<longleftrightarrow> distinct_adj xs"
  by (induction xs rule: equal_window.induct) auto

lemma equal_window_sort: "equal_window (sort xs) = None \<longleftrightarrow> distinct xs"
  unfolding equal_window_None sorted_distinct_adj [OF sorted_sort] by simp

lemma equal_window_Some: "equal_window xs = Some d \<Longrightarrow> d \<in> set xs"
  by (induction xs rule: equal_window.induct) (auto split: if_splits)

section \<open>Validation\<close>

abbreviation bad_value :: "string \<Rightarrow> string \<Rightarrow> 'a sres" where
  "bad_value f v \<equiv> Inl (Config (InvalidValue f v))"

text \<open>\<^verbatim>\<open>map_err(|_| ConfigError::InvalidValue { field, value })\<close>\<close>

abbreviation as_field :: "string \<Rightarrow> string \<Rightarrow> unit sres \<Rightarrow> unit sres" where
  "as_field f v \<equiv> map_err (\<lambda>_. Config (InvalidValue f v))"

definition indexed :: "string \<Rightarrow> nat \<Rightarrow> string" where
  "indexed f i = f @ ''['' @ show_nat i @ '']''"

definition valid_interface_types :: "string list" where
  "valid_interface_types = [''veth'', ''bridge'', ''dummy'', ''macvlan'', ''ipvlan'', ''wireguard'']"

definition validate_virtual_interface :: "virtual_interface \<Rightarrow> unit sres" where
  "validate_virtual_interface v =
     thenR (as_field ''interfaces.virtual.name'' (vif_name v) (validate_interface_name (vif_name v)))
    (thenR (failIf (interface_type v \<notin> set valid_interface_types)
              (Config (InvalidValue ''interfaces.virtual.type'' (interface_type v))))
    (thenR (whenSome (vif_peer v) (\<lambda>peer.
              thenR (as_field ''interfaces.virtual.peer'' peer (validate_interface_name peer))
                    (failIf (peer = vif_name v) (Config (InvalidValue ''interfaces.virtual.peer''
                       ''Peer name cannot be the same as interface name'')))))
    (thenR (failIf (interface_type v = ''veth'' \<and> vif_peer v = None)
              (Config (MissingField ''interfaces.virtual.peer'')))
           (eachIR (\<lambda>i a. as_field (indexed ''interfaces.virtual.addresses'' i) a (validate_cidr a))
              0 (vif_addresses v)))))"

text \<open>The names the duplicate check collects: moved, then each virtual one with its peer.\<close>

definition all_interfaces :: "interface_config \<Rightarrow> string list" where
  "all_interfaces c = move_interfaces c @
     concat (map (\<lambda>v. vif_name v # (case vif_peer v of None \<Rightarrow> [] | Some p \<Rightarrow> [p]))
       (virtual_interfaces c))"

definition validate_interface_config :: "interface_config \<Rightarrow> unit sres" where
  "validate_interface_config c =
     thenR (eachR (\<lambda>i. as_field ''interfaces.move_interfaces'' i (validate_interface_name i))
              (move_interfaces c))
    (thenR (eachR validate_virtual_interface (virtual_interfaces c))
           (failIf (has_duplicates (all_interfaces c))
              (Config (InvalidValue ''interfaces'' ''Duplicate interface names found''))))"

definition validate_route :: "route \<Rightarrow> unit sres" where
  "validate_route r =
     thenR (as_field ''destination'' (destination r) (validate_cidr (destination r)))
    (thenR (as_field ''gateway'' (gateway r) (validate_ip_address (gateway r)))
           (whenSome (metric r) (\<lambda>m. failIf (m = 0)
              (Config (InvalidValue ''metric'' ''Route metric cannot be zero'')))))"

text \<open>The error of an element gets the element's position in front of the field.\<close>

fun at_index :: "string \<Rightarrow> nat \<Rightarrow> segwire_error \<Rightarrow> segwire_error" where
  "at_index p i (Config (InvalidValue f v)) = Config (InvalidValue (indexed p i @ ''.'' @ f) v)"
| "at_index p i e = e"

definition validate_routing_config :: "routing_config \<Rightarrow> unit sres" where
  "validate_routing_config c =
     thenR (whenSome (default_gateway c) (\<lambda>g.
              as_field ''routing.default_gateway'' g (validate_ip_address g)))
    (thenR (eachIR (\<lambda>i r. map_err (at_index ''routing.routes'' i) (validate_route r)) 0 (routes c))
           (case equal_window (sort (map destination (routes c))) of
              Some d \<Rightarrow> bad_value ''routing.routes'' (''Duplicate route destination: '' @ d)
            | None \<Rightarrow> Ok ()))"

definition validate_dns_config :: "dns_config \<Rightarrow> unit sres" where
  "validate_dns_config c =
     thenR (eachIR (\<lambda>i s. as_field (indexed ''dns.servers'' i) s (validate_ip_address s)) 0 (servers c))
    (thenR (eachIR (\<lambda>i d. as_field (indexed ''dns.search'' i) d (validate_domain_name d)) 0 (search c))
    (thenR (failIf (has_duplicates (servers c))
              (Config (InvalidValue ''dns.servers'' ''Duplicate DNS servers found'')))
           (failIf (has_duplicates (search c))
              (Config (InvalidValue ''dns.search'' ''Duplicate search domains found'')))))"

definition validate_wg_key :: "base64 \<Rightarrow> string \<Rightarrow> string \<Rightarrow> unit sres" where
  "validate_wg_key b64 key field =
     (if key = [] then config_err (MissingField field)
      else case b64 key of
        Inl _ \<Rightarrow> bad_value field ''invalid base64 encoding''
      | Inr d \<Rightarrow> failIf (length d \<noteq> 32) (Config (InvalidValue field
          (''key must be 32 bytes (got '' @ show_nat (length d) @ '' bytes after base64 decode)''))))"

definition validate_endpoint :: "string \<Rightarrow> unit sres" where
  "validate_endpoint ep =
     tryR (ok_or (Config (InvalidValue ''endpoint'' (''expected host:port format, got '' @ quoted ep)))
        (rfind_char (CHR '':'') ep)) (\<lambda>i.
     tryR (ok_or (Config (InvalidValue ''endpoint''
          (''invalid port '' @ quoted (drop (i + 1) ep) @ '' in endpoint '' @ quoted ep)))
        (parse_u16 (drop (i + 1) ep))) (\<lambda>port.
     thenR (failIf (port = 0) (Config (InvalidValue ''endpoint'' ''port cannot be 0'')))
           (failIf (take i ep = []) (Config (InvalidValue ''endpoint'' ''host part of endpoint is empty'')))))"

definition validate_wg_peer :: "base64 \<Rightarrow> wireguard_peer_config \<Rightarrow> unit sres" where
  "validate_wg_peer b64 p =
     thenR (validate_wg_key b64 (public_key p) ''public_key'')
    (thenR (whenSome (preshared_key p) (\<lambda>k. validate_wg_key b64 k ''preshared_key''))
    (thenR (whenSome (endpoint p) validate_endpoint)
           (eachIR (\<lambda>i a. as_field (indexed ''allowed_ips'' i) a (validate_cidr a)) 0 (allowed_ips p))))"

definition validate_wireguard_config :: "base64 \<Rightarrow> wireguard_config \<Rightarrow> unit sres" where
  "validate_wireguard_config b64 w =
     thenR (validate_wg_key b64 (private_key w) ''wireguard.private_key'')
           (eachIR (\<lambda>i p. map_err (at_index ''wireguard.peers'' i) (validate_wg_peer b64 p)) 0 (wg_peers w))"

definition validate_namespace_config :: "base64 \<Rightarrow> namespace_config \<Rightarrow> unit sres" where
  "validate_namespace_config b64 c =
     thenR (validate_namespace_name (ns_name (namespace c)))
    (thenR (validate_interface_config (interfaces c))
    (thenR (validate_routing_config (routing c))
    (thenR (validate_dns_config (dns c))
           (whenSome (wireguard c) (validate_wireguard_config b64)))))"

definition validate_logging_config :: "logging_config \<Rightarrow> unit sres" where
  "validate_logging_config l =
     failIf (level l \<notin> set [''error'', ''warn'', ''info'', ''debug'', ''trace''])
       (Config (InvalidValue ''logging.level'' (level l)))"

definition validate_daemon_config :: "(string \<Rightarrow> bool) \<Rightarrow> daemon_config \<Rightarrow> unit sres" where
  "validate_daemon_config ex c =
     thenR (validate_namespace_prefix (namespace_prefix (daemon c)))
    (thenR (failIf (\<not> ex (config_dir (daemon c)))
              (Config (InvalidValue ''config_dir'' (config_dir (daemon c)))))
    (thenR (validate_logging_config (logging (daemon c)))
    (thenR (failIf (\<not> contains_char (CHR ''.'') (service_name (dbus c)) \<or> starts_with ''.'' (service_name (dbus c)))
              (Config (InvalidValue ''service_name'' (service_name (dbus c)))))
           (failIf (\<not> starts_with ''/'' (object_path (dbus c)))
              (Config (InvalidValue ''object_path'' (object_path (dbus c))))))))"

section \<open>What validation accepts\<close>

definition virtual_interface_ok :: "virtual_interface \<Rightarrow> bool" where
  "virtual_interface_ok v =
     (if_name_ok (vif_name v) \<and> interface_type v \<in> set valid_interface_types \<and>
      (\<forall>p. vif_peer v = Some p \<longrightarrow> if_name_ok p \<and> p \<noteq> vif_name v) \<and>
      (interface_type v = ''veth'' \<longrightarrow> vif_peer v \<noteq> None) \<and>
      (\<forall>a \<in> set (vif_addresses v). cidr_text_ok a))"

definition interface_config_ok :: "interface_config \<Rightarrow> bool" where
  "interface_config_ok c =
     ((\<forall>i \<in> set (move_interfaces c). if_name_ok i) \<and>
      (\<forall>v \<in> set (virtual_interfaces c). virtual_interface_ok v) \<and> distinct (all_interfaces c))"

definition route_ok :: "route \<Rightarrow> bool" where
  "route_ok r = (cidr_text_ok (destination r) \<and> ip_text_ok (gateway r) \<and> metric r \<noteq> Some 0)"

definition routing_config_ok :: "routing_config \<Rightarrow> bool" where
  "routing_config_ok c =
     ((\<forall>g. default_gateway c = Some g \<longrightarrow> ip_text_ok g) \<and> (\<forall>r \<in> set (routes c). route_ok r) \<and>
      distinct (map destination (routes c)))"

definition dns_config_ok :: "dns_config \<Rightarrow> bool" where
  "dns_config_ok c =
     ((\<forall>s \<in> set (servers c). ip_text_ok s) \<and> (\<forall>d \<in> set (search c). domain_text_ok d) \<and>
      distinct (servers c) \<and> distinct (search c))"

definition wg_key_ok :: "base64 \<Rightarrow> string \<Rightarrow> bool" where
  "wg_key_ok b64 k = (k \<noteq> [] \<and> (\<exists>d. b64 k = Ok d \<and> length d = 32))"

definition endpoint_ok :: "string \<Rightarrow> bool" where
  "endpoint_ok ep = (\<exists>host port n. ep = host @ '':'' @ port \<and> CHR '':'' \<notin> set port \<and> host \<noteq> [] \<and>
     parse_u16 port = Some n \<and> n \<noteq> 0)"

definition wg_peer_ok :: "base64 \<Rightarrow> wireguard_peer_config \<Rightarrow> bool" where
  "wg_peer_ok b64 p =
     (wg_key_ok b64 (public_key p) \<and> (\<forall>k. preshared_key p = Some k \<longrightarrow> wg_key_ok b64 k) \<and>
      (\<forall>e. endpoint p = Some e \<longrightarrow> endpoint_ok e) \<and> (\<forall>a \<in> set (allowed_ips p). cidr_text_ok a))"

definition wireguard_config_ok :: "base64 \<Rightarrow> wireguard_config \<Rightarrow> bool" where
  "wireguard_config_ok b64 w =
     (wg_key_ok b64 (private_key w) \<and> (\<forall>p \<in> set (wg_peers w). wg_peer_ok b64 p))"

definition namespace_config_ok :: "base64 \<Rightarrow> namespace_config \<Rightarrow> bool" where
  "namespace_config_ok b64 c =
     (name_shape (ns_name (namespace c)) \<and> length (ns_name (namespace c)) \<le> 63 \<and>
      interface_config_ok (interfaces c) \<and> routing_config_ok (routing c) \<and> dns_config_ok (dns c) \<and>
      (\<forall>w. wireguard c = Some w \<longrightarrow> wireguard_config_ok b64 w))"

lemma validate_virtual_interface_iff [config_simps]:
  "validate_virtual_interface v = Ok u \<longleftrightarrow> virtual_interface_ok v"
  unfolding validate_virtual_interface_def virtual_interface_ok_def result_simps validate_simps
  by (auto simp: all_set_conv_all_nth)

lemma validate_interface_config_iff [config_simps]:
  "validate_interface_config c = Ok u \<longleftrightarrow> interface_config_ok c"
  unfolding validate_interface_config_def interface_config_ok_def result_simps validate_simps config_simps
  by simp

lemma validate_route_iff [config_simps]: "validate_route r = Ok u \<longleftrightarrow> route_ok r"
  unfolding validate_route_def route_ok_def result_simps validate_simps by auto

lemma validate_routing_config_iff [config_simps]:
  "validate_routing_config c = Ok u \<longleftrightarrow> routing_config_ok c"
proof -
  have "(case equal_window (sort (map destination (routes c))) of
          Some d \<Rightarrow> bad_value ''routing.routes'' (''Duplicate route destination: '' @ d)
        | None \<Rightarrow> Ok ()) = Ok u \<longleftrightarrow> distinct (map destination (routes c))"
    unfolding equal_window_sort [symmetric] by (simp split: option.split)
  then show ?thesis
    unfolding validate_routing_config_def routing_config_ok_def result_simps validate_simps config_simps
    by (simp add: all_set_conv_all_nth)
qed

lemma validate_dns_config_iff [config_simps]: "validate_dns_config c = Ok u \<longleftrightarrow> dns_config_ok c"
  unfolding validate_dns_config_def dns_config_ok_def result_simps validate_simps
  by (auto simp: all_set_conv_all_nth)

lemma validate_wg_key_iff [config_simps]: "validate_wg_key b64 k f = Ok u \<longleftrightarrow> wg_key_ok b64 k"
  unfolding validate_wg_key_def wg_key_ok_def by (auto simp: result_simps split: sum.split)

lemma validate_endpoint_iff [config_simps]: "validate_endpoint ep = Ok u \<longleftrightarrow> endpoint_ok ep"
proof -
  have "validate_endpoint ep = Ok u \<longleftrightarrow> (\<exists>i n. rfind_char (CHR '':'') ep = Some i \<and>
      parse_u16 (drop (i + 1) ep) = Some n \<and> n \<noteq> 0 \<and> take i ep \<noteq> [])"
    unfolding validate_endpoint_def result_simps by blast
  also have "\<dots> \<longleftrightarrow> endpoint_ok ep"
  proof
    assume "\<exists>i n. rfind_char (CHR '':'') ep = Some i \<and>
      parse_u16 (drop (i + 1) ep) = Some n \<and> n \<noteq> 0 \<and> take i ep \<noteq> []"
    then obtain i n where i: "rfind_char (CHR '':'') ep = Some i"
      "parse_u16 (drop (i + 1) ep) = Some n" "n \<noteq> 0" "take i ep \<noteq> []" by blast
    obtain a b where "ep = a @ CHR '':'' # b" "length a = i" "CHR '':'' \<notin> set b"
      using i(1) unfolding rfind_char_Some by blast
    with i show "endpoint_ok ep" unfolding endpoint_ok_def
      by (intro exI [of _ a] exI [of _ b] exI [of _ n]) simp
  next
    assume "endpoint_ok ep"
    then obtain a b n where e: "ep = a @ '':'' @ b" "CHR '':'' \<notin> set b" "a \<noteq> []"
      "parse_u16 b = Some n" "n \<noteq> 0" unfolding endpoint_ok_def by blast
    then have "rfind_char (CHR '':'') ep = Some (length a)" by (simp add: rfind_char_last)
    with e show "\<exists>i n. rfind_char (CHR '':'') ep = Some i \<and>
      parse_u16 (drop (i + 1) ep) = Some n \<and> n \<noteq> 0 \<and> take i ep \<noteq> []"
      by (intro exI [of _ "length a"] exI [of _ n]) simp
  qed
  finally show ?thesis .
qed

lemma validate_wg_peer_iff [config_simps]: "validate_wg_peer b64 p = Ok u \<longleftrightarrow> wg_peer_ok b64 p"
  unfolding validate_wg_peer_def wg_peer_ok_def result_simps validate_simps config_simps
  by (simp add: all_set_conv_all_nth)

lemma validate_wireguard_config_iff [config_simps]:
  "validate_wireguard_config b64 w = Ok u \<longleftrightarrow> wireguard_config_ok b64 w"
  unfolding validate_wireguard_config_def wireguard_config_ok_def result_simps config_simps
  by (simp add: all_set_conv_all_nth)

lemma validate_namespace_config_iff [config_simps]:
  "validate_namespace_config b64 c = Ok u \<longleftrightarrow> namespace_config_ok b64 c"
  unfolding validate_namespace_config_def namespace_config_ok_def result_simps validate_simps config_simps
  by auto

section \<open>Variable substitution in every field\<close>

text \<open>
  The source overwrites the fields one after the other and stops at the first error, after
  which its only caller drops the structure; \<open>s\<close> is \<open>substitute_env_vars\<close> with the
  environments filled in.
\<close>

definition subst_virtual_interface :: "(string \<Rightarrow> string sres) \<Rightarrow> virtual_interface \<Rightarrow> virtual_interface sres" where
  "subst_virtual_interface s v =
     tryR (s (vif_name v)) (\<lambda>n. tryR (s (interface_type v)) (\<lambda>t.
     tryR (mapOptR s (vif_peer v)) (\<lambda>p. tryR (mapR s (vif_addresses v)) (\<lambda>a.
     Ok (v\<lparr>vif_name := n, interface_type := t, vif_peer := p, vif_addresses := a\<rparr>)))))"

definition subst_route :: "(string \<Rightarrow> string sres) \<Rightarrow> route \<Rightarrow> route sres" where
  "subst_route s r =
     tryR (s (destination r)) (\<lambda>d. tryR (s (gateway r)) (\<lambda>g.
     Ok (r\<lparr>destination := d, gateway := g\<rparr>)))"

definition subst_wg_peer :: "(string \<Rightarrow> string sres) \<Rightarrow> wireguard_peer_config \<Rightarrow> wireguard_peer_config sres" where
  "subst_wg_peer s p =
     tryR (s (public_key p)) (\<lambda>k. tryR (mapOptR s (preshared_key p)) (\<lambda>psk.
     tryR (mapOptR s (endpoint p)) (\<lambda>e. tryR (mapR s (allowed_ips p)) (\<lambda>a.
     Ok (p\<lparr>public_key := k, preshared_key := psk, endpoint := e, allowed_ips := a\<rparr>)))))"

definition subst_wireguard :: "(string \<Rightarrow> string sres) \<Rightarrow> wireguard_config \<Rightarrow> wireguard_config sres" where
  "subst_wireguard s w =
     tryR (s (private_key w)) (\<lambda>k. tryR (mapR (subst_wg_peer s) (wg_peers w)) (\<lambda>ps.
     Ok (w\<lparr>private_key := k, wg_peers := ps\<rparr>)))"

definition substitute_environment_variables :: "env \<Rightarrow> namespace_config \<Rightarrow> namespace_config sres" where
  "substitute_environment_variables sysenv c =
     (let s = substitute_env_vars sysenv (environment c) in
      tryR (s (ns_name (namespace c))) (\<lambda>n.
      tryR (s (ns_description (namespace c))) (\<lambda>d.
      tryR (mapR s (move_interfaces (interfaces c))) (\<lambda>ms.
      tryR (mapR (subst_virtual_interface s) (virtual_interfaces (interfaces c))) (\<lambda>vs.
      tryR (mapOptR s (default_gateway (routing c))) (\<lambda>g.
      tryR (mapR (subst_route s) (routes (routing c))) (\<lambda>rs.
      tryR (mapR s (servers (dns c))) (\<lambda>ss.
      tryR (mapR s (search (dns c))) (\<lambda>sd.
      tryR (mapOptR (subst_wireguard s) (wireguard c)) (\<lambda>w.
      Ok (c\<lparr>namespace := (namespace c)\<lparr>ns_name := n, ns_description := d\<rparr>,
            interfaces := (interfaces c)\<lparr>move_interfaces := ms, virtual_interfaces := vs\<rparr>,
            routing := (routing c)\<lparr>default_gateway := g, routes := rs\<rparr>,
            dns := (dns c)\<lparr>servers := ss, search := sd\<rparr>,
            wireguard := w\<rparr>)))))))))))"

text \<open>
  The texts the substitution works on, for the specification: every text of a configuration but those
  of the environment table, which holds the values of the variables and stays as it is in the file.
\<close>

definition peer_texts :: "wireguard_peer_config \<Rightarrow> string list" where
  "peer_texts p = public_key p # case_option [] (\<lambda>x. [x]) (preshared_key p) @
     case_option [] (\<lambda>x. [x]) (endpoint p) @ allowed_ips p"

definition vif_texts :: "virtual_interface \<Rightarrow> string list" where
  "vif_texts v = vif_name v # interface_type v # case_option [] (\<lambda>x. [x]) (vif_peer v) @ vif_addresses v"

definition config_texts :: "namespace_config \<Rightarrow> string list" where
  "config_texts c = ns_name (namespace c) # ns_description (namespace c) #
     move_interfaces (interfaces c) @ concat (map vif_texts (virtual_interfaces (interfaces c))) @
     case_option [] (\<lambda>x. [x]) (default_gateway (routing c)) @
     concat (map (\<lambda>r. [destination r, gateway r]) (routes (routing c))) @
     servers (dns c) @ search (dns c) @
     (case wireguard c of None \<Rightarrow> [] | Some w \<Rightarrow> private_key w # concat (map peer_texts (wg_peers w)))"

lemma rel_list_texts:
  assumes "list_all2 (\<lambda>x y. f x = Inr y) xs ys" "\<And>x y t. f x = Inr y \<Longrightarrow> t \<in> T y \<Longrightarrow> P t"
  shows "\<forall>y \<in> set ys. \<forall>t \<in> T y. P t"
  using assms by (induction rule: list_all2_induct) auto

lemma subst_route_texts:
  assumes "subst_route (substitute_env_vars se ce) r = Ok r'" "t \<in> {destination r', gateway r'}"
  shows "refs t = []"
  using assms by (auto simp: subst_route_def result_simps dest: substitute_no_refs)

lemma subst_vif_texts:
  assumes "subst_virtual_interface (substitute_env_vars se ce) v = Ok v'" "t \<in> set (vif_texts v')"
  shows "refs t = []"
proof -
  let ?s = "substitute_env_vars se ce"
  from assms(1) obtain n ty p a where n: "?s (vif_name v) = Ok n" "?s (interface_type v) = Ok ty"
     "mapOptR ?s (vif_peer v) = Ok p" "mapR ?s (vif_addresses v) = Ok a"
     "v' = v\<lparr>vif_name := n, interface_type := ty, vif_peer := p, vif_addresses := a\<rparr>"
    by (auto simp: subst_virtual_interface_def tryR_Inr_iff)
  moreover have "refs x = []" if "p = Some x" for x
    using n(3) that by (cases "vif_peer v") (auto simp: tryR_Inr_iff dest: substitute_no_refs)
  moreover have "refs x = []" if "x \<in> set a" for x
    using n(4) that by (auto dest!: mapR_set substitute_no_refs)
  ultimately show ?thesis using assms(2)
    by (auto simp: vif_texts_def dest: substitute_no_refs split: option.splits)
qed

lemma subst_peer_texts:
  assumes "subst_wg_peer (substitute_env_vars se ce) v = Ok v'" "t \<in> set (peer_texts v')"
  shows "refs t = []"
proof -
  let ?s = "substitute_env_vars se ce"
  from assms(1) obtain k q p a where n: "?s (public_key v) = Ok k" "mapOptR ?s (preshared_key v) = Ok q"
     "mapOptR ?s (endpoint v) = Ok p" "mapR ?s (allowed_ips v) = Ok a"
     "v' = v\<lparr>public_key := k, preshared_key := q, endpoint := p, allowed_ips := a\<rparr>"
    by (auto simp: subst_wg_peer_def tryR_Inr_iff)
  moreover have "refs x = []" if "mapOptR ?s o1 = Ok (Some x)" for x o1
    using that by (cases o1) (auto simp: tryR_Inr_iff dest: substitute_no_refs)
  moreover have "refs x = []" if "x \<in> set a" for x
    using n(4) that by (auto dest!: mapR_set substitute_no_refs)
  ultimately show ?thesis using assms(2)
    by (auto simp: peer_texts_def dest: substitute_no_refs split: option.splits)
qed

lemma subst_wireguard_texts:
  assumes "subst_wireguard (substitute_env_vars se ce) w = Ok w'"
    "t \<in> set (private_key w' # concat (map peer_texts (wg_peers w')))"
  shows "refs t = []"
proof -
  from assms(1) obtain k ps where n: "substitute_env_vars se ce (private_key w) = Ok k"
     "mapR (subst_wg_peer (substitute_env_vars se ce)) (wg_peers w) = Ok ps"
     "w' = w\<lparr>private_key := k, wg_peers := ps\<rparr>"
    by (auto simp: subst_wireguard_def tryR_Inr_iff)
  then show ?thesis using assms(2)
    by (auto dest: substitute_no_refs mapR_set subst_peer_texts)
qed

lemma mapOptR_Some_D: "mapOptR f x = Ok (Some y) \<Longrightarrow> \<exists>a. x = Some a \<and> f a = Ok y"
  by (cases x) (auto simp: tryR_Inr_iff)

lemma substituted_texts:
  assumes "substitute_environment_variables se c = Ok c'" "t \<in> set (config_texts c')"
  shows "refs t = []"
proof -
  let ?s = "substitute_env_vars se (environment c)"
  from assms(1) obtain n d ms vs g rs ss sd w where n:
    "?s (ns_name (namespace c)) = Ok n" "?s (ns_description (namespace c)) = Ok d"
    "mapR ?s (move_interfaces (interfaces c)) = Ok ms"
    "mapR (subst_virtual_interface ?s) (virtual_interfaces (interfaces c)) = Ok vs"
    "mapOptR ?s (default_gateway (routing c)) = Ok g" "mapR (subst_route ?s) (routes (routing c)) = Ok rs"
    "mapR ?s (servers (dns c)) = Ok ss" "mapR ?s (search (dns c)) = Ok sd"
    "mapOptR (subst_wireguard ?s) (wireguard c) = Ok w"
    and c': "c' = c\<lparr>namespace := (namespace c)\<lparr>ns_name := n, ns_description := d\<rparr>,
            interfaces := (interfaces c)\<lparr>move_interfaces := ms, virtual_interfaces := vs\<rparr>,
            routing := (routing c)\<lparr>default_gateway := g, routes := rs\<rparr>,
            dns := (dns c)\<lparr>servers := ss, search := sd\<rparr>, wireguard := w\<rparr>"
    by (auto simp: substitute_environment_variables_def Let_def tryR_Inr_iff)
  have "refs x = []" if "x \<in> {n, d}" for x using n(1,2) that by (auto dest: substitute_no_refs)
  moreover have "refs x = []" if "x \<in> set ms \<union> set ss \<union> set sd" for x
    using n(3,7,8) that by (auto dest!: mapR_set substitute_no_refs)
  moreover have "refs x = []" if "x \<in> set (concat (map vif_texts vs))" for x
    using n(4) that by (auto dest!: mapR_set dest: subst_vif_texts)
  moreover have "refs x = []" if "g = Some x" for x
    using n(5) that by (auto dest!: mapOptR_Some_D dest: substitute_no_refs)
  moreover have "refs x = []" if "x \<in> set (concat (map (\<lambda>r. [destination r, gateway r]) rs))" for x
    using n(6) that by (auto dest!: mapR_set dest: subst_route_texts)
  moreover have "refs x = []"
    if "w = Some v" "x \<in> set (private_key v # concat (map peer_texts (wg_peers v)))" for v x
  proof -
    have "\<exists>u. subst_wireguard ?s u = Ok v" using mapOptR_Some_D n(9) that(1) by fast
    then show ?thesis using that(2) subst_wireguard_texts by fast
  qed
  moreover have "t \<in> {n, d} \<or> t \<in> set ms \<union> set ss \<union> set sd \<or> t \<in> set (concat (map vif_texts vs)) \<or>
      g = Some t \<or> t \<in> set (concat (map (\<lambda>r. [destination r, gateway r]) rs)) \<or>
      (\<exists>v. w = Some v \<and> t \<in> set (private_key v # concat (map peer_texts (wg_peers v))))"
    using assms(2) unfolding c' config_texts_def by (auto split: option.splits)
  ultimately show ?thesis by blast
qed

lemma mapOptR_id: "(\<And>a. x = Some a \<Longrightarrow> f a = Inr a) \<Longrightarrow> mapOptR f x = Inr x"
  by (cases x) simp_all

lemma subst_fixpoint:
  assumes "\<And>t. t \<in> set (config_texts c) \<Longrightarrow> refs t = []"
  shows "substitute_environment_variables se c = Ok c"
proof -
  let ?s = "substitute_env_vars se (environment c)"
  have p: "?s t = Ok t" if "t \<in> set (config_texts c)" for t using assms [OF that] by simp
  have "subst_virtual_interface ?s v = Ok v" if "v \<in> set (virtual_interfaces (interfaces c))" for v
  proof -
    have "?s t = Ok t" if "t \<in> set (vif_texts v)" for t
      by (rule p) (use \<open>v \<in> _\<close> that in \<open>force simp: config_texts_def\<close>)
    then show ?thesis by (simp add: subst_virtual_interface_def vif_texts_def mapR_id mapOptR_id)
  qed
  moreover have "subst_route ?s r = Ok r" if "r \<in> set (routes (routing c))" for r
  proof -
    have "destination r \<in> set (config_texts c)" "gateway r \<in> set (config_texts c)"
      using that by (auto simp: config_texts_def)
    then show ?thesis by (simp add: subst_route_def p)
  qed
  moreover have "subst_wireguard ?s w = Ok w" if w: "wireguard c = Some w" for w
  proof -
    have "subst_wg_peer ?s q = Ok q" if "q \<in> set (wg_peers w)" for q
    proof -
      have "?s t = Ok t" if "t \<in> set (peer_texts q)" for t
        by (rule p) (use w \<open>q \<in> _\<close> that in \<open>force simp: config_texts_def\<close>)
      then show ?thesis by (simp add: subst_wg_peer_def peer_texts_def mapR_id mapOptR_id)
    qed
    moreover have "?s (private_key w) = Ok (private_key w)"
      by (rule p) (use w in \<open>simp add: config_texts_def\<close>)
    ultimately show ?thesis by (simp add: subst_wireguard_def mapR_id)
  qed
  ultimately show ?thesis using p
    by (simp add: substitute_environment_variables_def mapR_id mapOptR_id config_texts_def)
qed

lemma substitute_config_environment:
  "substitute_environment_variables se c = Ok c' \<Longrightarrow> environment c' = environment c"
  by (auto simp: substitute_environment_variables_def Let_def tryR_Inr_iff)

section \<open>Loading\<close>

type_synonym 'c toml = "string \<Rightarrow> (string, 'c) res"

definition namespace_config_from_file ::
  "base64 \<Rightarrow> namespace_config toml \<Rightarrow> (string \<Rightarrow> string option) \<Rightarrow> env \<Rightarrow>
   string \<Rightarrow> namespace_config sres" where
  "namespace_config_from_file b64 toml fs sysenv path =
     tryR (ok_or (Config (FileNotFound path)) (fs path)) (\<lambda>content.
     tryR (map_err (\<lambda>e. Config (InvalidToml e)) (toml content)) (\<lambda>c.
     tryR (substitute_environment_variables sysenv c) (\<lambda>c'.
     thenR (validate_namespace_config b64 c') (Ok c'))))"

definition daemon_config_from_file ::
  "daemon_config toml \<Rightarrow> (string \<Rightarrow> string option) \<Rightarrow> (string \<Rightarrow> bool) \<Rightarrow> string \<Rightarrow> daemon_config sres" where
  "daemon_config_from_file toml fs ex path =
     tryR (ok_or (Config (FileNotFound path)) (fs path)) (\<lambda>content.
     tryR (map_err (\<lambda>e. Config (InvalidToml e)) (toml content)) (\<lambda>c.
     thenR (validate_daemon_config ex c) (Ok c)))"

lemma from_file_iff:
  "namespace_config_from_file b64 toml fs se path = Ok c \<longleftrightarrow>
     (\<exists>content c0. fs path = Some content \<and> toml content = Ok c0 \<and>
        substitute_environment_variables se c0 = Ok c \<and> namespace_config_ok b64 c)"
  unfolding namespace_config_from_file_def result_simps config_simps by auto

lemma from_file_ok: "namespace_config_from_file b64 toml fs se path = Ok c \<Longrightarrow> namespace_config_ok b64 c"
  by (auto simp: from_file_iff)

lemma from_file_texts:
  "namespace_config_from_file b64 toml fs se path = Ok c \<Longrightarrow> t \<in> set (config_texts c) \<Longrightarrow> refs t = []"
  by (auto simp: from_file_iff dest: substituted_texts)

lemma config_ok_name: "namespace_config_ok b64 c \<Longrightarrow> name_shape (ns_name (namespace c)) \<and> ns_name (namespace c) \<noteq> []"
  by (auto simp: namespace_config_ok_def name_shape_def)

definition daemon_config_ok :: "(string \<Rightarrow> bool) \<Rightarrow> daemon_config \<Rightarrow> bool" where
  "daemon_config_ok ex c =
     (name_shape (namespace_prefix (daemon c)) \<and> length (namespace_prefix (daemon c)) \<le> 32 \<and>
      ex (config_dir (daemon c)) \<and>
      level (logging (daemon c)) \<in> {''error'', ''warn'', ''info'', ''debug'', ''trace''} \<and>
      (\<exists>a b. service_name (dbus c) = a @ ''.'' @ b \<and> a \<noteq> [] \<and> hd a \<noteq> CHR ''.'') \<and>
      (\<exists>a. object_path (dbus c) = ''/'' @ a))"

lemma dotted_iff: "CHR ''.'' \<in> set s \<and> \<not> prefix ''.'' s \<longleftrightarrow> (\<exists>a b. s = a @ ''.'' @ b \<and> a \<noteq> [] \<and> hd a \<noteq> CHR ''.'')"
proof
  assume h: "CHR ''.'' \<in> set s \<and> \<not> prefix ''.'' s"
  then obtain a b where ab: "s = a @ CHR ''.'' # b" "CHR ''.'' \<notin> set a" by (meson split_list_first)
  with h have "a \<noteq> []" by (cases a) auto
  with ab have "s = a @ ''.'' @ b \<and> a \<noteq> [] \<and> hd a \<noteq> CHR ''.''" by (cases a) auto
  then show "\<exists>a b. s = a @ ''.'' @ b \<and> a \<noteq> [] \<and> hd a \<noteq> CHR ''.''" by blast
next
  assume "\<exists>a b. s = a @ ''.'' @ b \<and> a \<noteq> [] \<and> hd a \<noteq> CHR ''.''"
  then obtain a b where ab: "s = a @ ''.'' @ b" "a \<noteq> []" "hd a \<noteq> CHR ''.''" by blast
  then show "CHR ''.'' \<in> set s \<and> \<not> prefix ''.'' s" by (cases a) auto
qed

lemma validate_daemon_config_iff [config_simps]:
  "validate_daemon_config ex c = Ok u \<longleftrightarrow> daemon_config_ok ex c"
  unfolding validate_daemon_config_def daemon_config_ok_def dotted_iff [symmetric]
    validate_logging_config_def contains_char_def starts_with_def result_simps validate_simps
  by (auto simp: prefix_def)

lemma daemon_from_file_ok: "daemon_config_from_file toml fs ex path = Ok c \<Longrightarrow> daemon_config_ok ex c"
  by (auto simp: daemon_config_from_file_def result_simps config_simps)

section \<open>Properties\<close>

text \<open>
  C12: validation accepts a namespace configuration exactly when it is well formed: names, the
  interface table with its types, peers and addresses, routes, DNS and WireGuard settings all
  valid, and no interface, destination, server or search domain twice.
\<close>

lemma namespace_config_accepted:
  "validate_namespace_config b64 c = Ok u \<longleftrightarrow>
     validate_namespace_name (ns_name (namespace c)) = Ok () \<and> interface_config_ok (interfaces c) \<and>
     routing_config_ok (routing c) \<and> dns_config_ok (dns c) \<and>
     pred_option (wireguard_config_ok b64) (wireguard c)"
  by (auto simp: config_simps validate_simps namespace_config_ok_def pred_option_def split: option.splits)

text \<open>
  C9: a configuration that loads is valid, holds no variable reference in any text outside its
  environment table, and is a fixed point of the substitution under every system environment.  The
  environment table is the one written in the file: its own texts are not substituted and may hold
  references.
\<close>

lemma loaded_config_closed:
  assumes "namespace_config_from_file b64 toml fs se path = Ok c"
  shows "validate_namespace_config b64 c = Ok () \<and> list_all (\<lambda>t. refs t = []) (config_texts c) \<and>
    substitute_environment_variables se' c = Ok c \<and>
    (\<exists>content c0. fs path = Some content \<and> toml content = Ok c0 \<and> environment c = environment c0)"
proof -
  obtain content c0 where c0: "fs path = Some content" "toml content = Ok c0"
    "substitute_environment_variables se c0 = Ok c"
    using assms by (auto simp: from_file_iff)
  then have "\<exists>content c0. fs path = Some content \<and> toml content = Ok c0 \<and> environment c = environment c0"
    using substitute_config_environment [OF c0(3)] by blast
  then show ?thesis
    using from_file_ok [OF assms] from_file_texts [OF assms] subst_fixpoint [of c se']
    by (simp add: config_simps list_all_iff)
qed

definition sample_config :: "string \<Rightarrow> namespace_config" where
  "sample_config n = \<lparr>namespace = \<lparr>ns_name = n, ns_description = []\<rparr>,
     interfaces = \<lparr>move_interfaces = [], virtual_interfaces = [\<lparr>vif_name = ''veth0'', interface_type = ''veth'',
       vif_peer = Some ''veth1'', vif_addresses = [''10.0.0.2/24'']\<rparr>]\<rparr>,
     routing = \<lparr>default_gateway = Some ''10.0.0.1'', routes = []\<rparr>,
     dns = \<lparr>servers = [''1.1.1.1''], search = [''example.org'']\<rparr>,
     wireguard = None, environment = [(''N'', ''web'')]\<rparr>"

definition no_base64 :: base64 where "no_base64 s = Inl ''no base64''"

lemma sample_config_valid: "validate_namespace_config no_base64 (sample_config ''web'') = Ok ()"
  by code_simp

lemma loaded_config_closed_witness:
  "list_all (\<lambda>t. refs t = []) (config_texts (sample_config ''web'')) \<and>
   substitute_environment_variables [] (sample_config ''web'') = Ok (sample_config ''web'') \<and>
   environment (sample_config ''web'') = environment (sample_config ''${N}'')"
proof -
  have "namespace_config_from_file no_base64 (\<lambda>t. Ok (sample_config t)) (\<lambda>p. Some ''${N}'') [] ''w.toml'' =
      Ok (sample_config ''web'')" by code_simp
  from loaded_config_closed [OF this, of "[]"] show ?thesis by simp
qed

text \<open>A reference in the environment table stays, and the configuration is valid.\<close>

lemma environment_reference_stays:
  "map_sum id environment (namespace_config_from_file no_base64
     (\<lambda>t. Ok ((sample_config ''web'')\<lparr>environment := [(''A'', t)]\<rparr>)) (\<lambda>p. Some ''${B}'') [] ''w.toml'') =
   Ok [(''A'', ''${B}'')]"
  by code_simp

text \<open>
  When the routes before it are valid, a route with an invalid destination is reported with its
  position and the offending text, whatever follows it.
\<close>

lemma bad_route_located:
  assumes "default_gateway c = None" "routes c = rs @ r # rs'" "list_all route_ok rs"
    and "validate_cidr (destination r) \<noteq> Ok ()"
  shows "validate_routing_config c =
    bad_value (''routing.routes['' @ show_nat (length rs) @ ''].destination'') (destination r)"
proof -
  have "eachIR (\<lambda>i r. map_err (at_index ''routing.routes'' i) (validate_route r)) k (rs @ r # rs') =
      bad_value (''routing.routes['' @ show_nat (k + length rs) @ ''].destination'') (destination r)" for k
    using assms(3)
  proof (induction rs arbitrary: k)
    case Nil
    then show ?case using assms(4)
      by (cases "validate_cidr (destination r)") (simp_all add: validate_route_def indexed_def)
  next
    case (Cons q rs)
    then have "validate_route q = Ok ()" by (simp add: config_simps)
    then show ?case using Cons by simp
  qed
  then show ?thesis using assms(1,2) by (simp add: validate_routing_config_def)
qed

lemma bad_route_located_witness:
  "validate_routing_config \<lparr>default_gateway = None, routes =
     [\<lparr>destination = ''10.1.0.0/16'', gateway = ''10.0.0.1'', metric = None\<rparr>,
      \<lparr>destination = ''10.2.0.0/33'', gateway = ''10.0.0.1'', metric = Some 0\<rparr>]\<rparr> =
   bad_value ''routing.routes[1].destination'' ''10.2.0.0/33''"
proof -
  let ?q = "\<lparr>destination = ''10.1.0.0/16'', gateway = ''10.0.0.1'', metric = None\<rparr> :: route"
  let ?r = "\<lparr>destination = ''10.2.0.0/33'', gateway = ''10.0.0.1'', metric = Some 0\<rparr> :: route"
  have "validate_route ?q = Ok ()" by code_simp
  then have "list_all route_ok [?q]" by (simp add: config_simps)
  moreover have "validate_cidr (destination ?r) \<noteq> Ok ()" by code_simp
  ultimately have v: "validate_routing_config \<lparr>default_gateway = None, routes = [?q, ?r]\<rparr> =
      bad_value (''routing.routes['' @ show_nat (length [?q]) @ ''].destination'') (destination ?r)"
    by (intro bad_route_located [where rs' = "[]"]) simp_all
  have n: "show_nat (length [?q]) = ''1''" by code_simp
  show ?thesis using v unfolding n by simp
qed

text \<open>
  The daemon's configuration is accepted exactly when the prefix is a name of at most 32
  characters, the configuration directory exists, the log level is one of the five, the bus name
  has a dot that is not its first character, and the object path is absolute.
\<close>

lemma daemon_config_accepted:
  "validate_daemon_config ex c = Ok u \<longleftrightarrow> daemon_config_ok ex c"
  by (rule validate_daemon_config_iff)

end
