(* ===== verification/RouteNetlink.thy ===== *)
theory RouteNetlink
  imports Netns Config
begin

text \<open>
  \<^verbatim>\<open>segwire-daemon/src/netlink_raw.rs\<close> and \<^verbatim>\<open>wireguard_raw.rs\<close>: the messages the daemon sends
  on a fresh socket of the thread's namespace \<open>ns\<close>, and how it reads the answers.  Building a
  message is a pure function of the parameters (\<open>route_message\<close>, \<open>wireguard_attrs\<close>), so that a
  message is never sent when a part of it does not parse.
\<close>

section \<open>Texts of parse errors\<close>

definition int_error :: "string \<Rightarrow> string" where
  "int_error s =
     (if s = [] then ''cannot parse integer from empty string''
      else let d = (if hd s = CHR ''+'' then tl s else s) in
        if d \<noteq> [] \<and> list_all is_digit d then ''number too large to fit in target type''
        else ''invalid digit found in string'')"

definition ip_error :: string where "ip_error = ''invalid IP address syntax''"
definition socket_error :: string where "socket_error = ''invalid socket address syntax''"

definition parse_ip_err :: "string \<Rightarrow> string \<Rightarrow> (string, ip_addr) res" where
  "parse_ip_err pre s = ok_or (pre @ ip_error) (parse_ip s)"

definition parse_u8_err :: "string \<Rightarrow> string \<Rightarrow> (string, nat) res" where
  "parse_u8_err pre s = ok_or (pre @ int_error s) (parse_u8 s)"

definition family_for :: "ip_addr \<Rightarrow> addr_family" where
  "family_for a = (if is_v4 a then Inet else Inet6)"

section \<open>Links\<close>

definition ack_request :: "rt_message \<Rightarrow> rt_request" where
  "ack_request m = \<lparr>rq_message = m, rq_flags = [F_ACK]\<rparr>"

definition create_request :: "rt_message \<Rightarrow> rt_request" where
  "create_request m = \<lparr>rq_message = m, rq_flags = [F_ACK, F_CREATE, F_EXCL]\<rparr>"

definition dump_request :: "rt_message \<Rightarrow> rt_request" where
  "dump_request m = \<lparr>rq_message = m, rq_flags = [F_DUMP]\<rparr>"

text \<open>Open a socket in the thread's namespace and send one request.\<close>

definition rt_send :: "'k sys \<Rightarrow> nat \<Rightarrow> rt_request \<Rightarrow> ('k, netlink_error, rt_response list) op" where
  "rt_send y ns q = bindS (sys_nl_open y ns) (\<lambda>sock. sys_nl_request y sock q)"

definition dump_links :: "'k sys \<Rightarrow> nat \<Rightarrow> ('k, netlink_error, rt_response list) op" where
  "dump_links y ns = rt_send y ns (dump_request GetLink)"

definition link_names :: "link_msg \<Rightarrow> string list" where
  "link_names l = concat (map (\<lambda>a. case a of IfName n \<Rightarrow> [n] | _ \<Rightarrow> []) (lm_attrs l))"

definition extract_interface_names :: "rt_response list \<Rightarrow> string list" where
  "extract_interface_names rs = concat (map (\<lambda>r. case r of RspLink l \<Rightarrow> link_names l | _ \<Rightarrow> []) rs)"

fun extract_interface_index :: "rt_response list \<Rightarrow> string \<Rightarrow> (netlink_error, nat) res" where
  "extract_interface_index [] name = Err (InterfaceNotFound name)"
| "extract_interface_index (r # rs) name =
     (case r of RspLink l \<Rightarrow> if name \<in> set (link_names l) then Ok (lm_index l)
                             else extract_interface_index rs name
      | _ \<Rightarrow> extract_interface_index rs name)"

definition dump_interface_names_fresh :: "'k sys \<Rightarrow> nat \<Rightarrow> ('k, string, string list) op" where
  "dump_interface_names_fresh y ns =
     bindS (mapErrS show_netlink_error (dump_links y ns)) (\<lambda>rs. returnS (extract_interface_names rs))"

definition get_interface_index_fresh :: "'k sys \<Rightarrow> nat \<Rightarrow> string \<Rightarrow> ('k, string, nat) op" where
  "get_interface_index_fresh y ns name =
     bindS (mapErrS show_netlink_error (dump_links y ns)) (\<lambda>rs.
     liftS (map_err show_netlink_error (extract_interface_index rs name)))"

text \<open>
  The socket is opened after the descriptor: when it cannot be, the early return leaves the
  descriptor open.
\<close>

definition set_netns :: "'k sys \<Rightarrow> nat \<Rightarrow> nat \<Rightarrow> nat \<Rightarrow> ('k, string, unit) op" where
  "set_netns y ns ifindex fd =
     bindS (mapErrS show_netlink_error (sys_nl_open y ns)) (\<lambda>sock k.
       case mapErrS show_netlink_error (sys_nl_request y sock (ack_request (SetLink
              (default_link_msg\<lparr>lm_index := ifindex, lm_attrs := [NetNsFd fd]\<rparr>)))) k of
         (r, k') \<Rightarrow> (tryR r (\<lambda>_. Ok ()), sys_close y fd k'))"

definition move_interface_to_default_ns :: "'k sys \<Rightarrow> nat \<Rightarrow> string \<Rightarrow> ('k, string, unit) op" where
  "move_interface_to_default_ns y ns name =
     bindS (get_interface_index_fresh y ns name) (\<lambda>ifindex.
     bindS (mapErrS (\<lambda>e. ''open default ns fd: '' @ e) (open_ns_fd y ns ''/proc/1/ns/net'')) (\<lambda>fd.
     set_netns y ns ifindex fd))"

definition move_interface_to_ns :: "'k sys \<Rightarrow> nat \<Rightarrow> nat \<Rightarrow> string \<Rightarrow> ('k, string, unit) op" where
  "move_interface_to_ns y ns ifindex path =
     bindS (open_ns_fd y ns path) (\<lambda>fd. set_netns y ns ifindex fd)"

definition raw_create_veth_pair :: "'k sys \<Rightarrow> nat \<Rightarrow> string \<Rightarrow> string \<Rightarrow> ('k, netlink_error, unit) op" where
  "raw_create_veth_pair y ns veth peer =
     thenS (rt_send y ns (create_request (NewLink (default_link_msg\<lparr>lm_attrs :=
        [IfName veth, LinkInfoKind KVeth, LinkInfoVethPeer [IfName peer]]\<rparr>)))) (returnS ())"

definition vif_kind :: "string \<Rightarrow> info_kind option" where
  "vif_kind s = (if s = ''dummy'' then Some KDummy else if s = ''bridge'' then Some KBridge
     else if s = ''macvlan'' then Some KMacVlan else if s = ''ipvlan'' then Some KIpVlan else None)"

definition raw_create_virtual_interface :: "'k sys \<Rightarrow> nat \<Rightarrow> string \<Rightarrow> string \<Rightarrow> ('k, netlink_error, unit) op" where
  "raw_create_virtual_interface y ns name kind =
     (case vif_kind kind of
        None \<Rightarrow> errS (ProtocolError (''unsupported virtual interface type: '' @ kind))
      | Some kd \<Rightarrow> thenS (rt_send y ns (create_request (NewLink
          (default_link_msg\<lparr>lm_attrs := [IfName name, LinkInfoKind kd]\<rparr>)))) (returnS ()))"

definition raw_create_wireguard_interface :: "'k sys \<Rightarrow> nat \<Rightarrow> string \<Rightarrow> ('k, netlink_error, unit) op" where
  "raw_create_wireguard_interface y ns name =
     mapErrS (\<lambda>e. VirtualInterfaceCreateFailed name (show_netlink_error e))
      (thenS (rt_send y ns (create_request (NewLink
          (default_link_msg\<lparr>lm_attrs := [IfName name, LinkInfoKind KWireguard]\<rparr>)))) (returnS ()))"

definition set_link_up_fresh :: "'k sys \<Rightarrow> nat \<Rightarrow> string \<Rightarrow> ('k, string, unit) op" where
  "set_link_up_fresh y ns name =
     bindS (get_interface_index_fresh y ns name) (\<lambda>ifindex.
     thenS (mapErrS show_netlink_error (rt_send y ns (ack_request (SetLink
        (default_link_msg\<lparr>lm_index := ifindex, lm_flags_up := True, lm_change_up := True\<rparr>)))))
     (returnS ()))"

section \<open>Addresses\<close>

definition add_address_fresh :: "'k sys \<Rightarrow> nat \<Rightarrow> string \<Rightarrow> ip_addr \<Rightarrow> nat \<Rightarrow> ('k, string, unit) op" where
  "add_address_fresh y ns name addr len =
     bindS (get_interface_index_fresh y ns name) (\<lambda>ifindex.
     thenS (mapErrS show_netlink_error (rt_send y ns (create_request (NewAddress
        \<lparr>am_family = family_for addr, am_prefix_len = len, am_index = ifindex,
         am_attrs = [ALocal addr, AAddress addr]\<rparr>))))
     (returnS ()))"

section \<open>Routes\<close>

record raw_route_params =
  rp_destination :: string
  rp_gateway :: string
  rp_interface :: "string option"
  rp_metric :: "nat option"

text \<open>The destination: its prefix length, its family and attribute (none for the default route).\<close>

definition route_destination :: "string \<Rightarrow> (string, nat \<times> ip_addr option) res" where
  "route_destination d =
     (if d = ''default'' then Ok (0, None)
      else case split_once (CHR ''/'') d of
        Some (ip, len) \<Rightarrow>
          tryR (parse_u8_err ''invalid prefix length: '' len) (\<lambda>n.
          tryR (parse_ip_err ''invalid destination IP: '' ip) (\<lambda>a. Ok (n, Some a)))
      | None \<Rightarrow>
          tryR (parse_ip_err ''invalid destination IP: '' d) (\<lambda>a.
          Ok (if is_v4 a then 32 else 128, Some a)))"

definition route_gateway :: "string \<Rightarrow> (string, ip_addr option) res" where
  "route_gateway g = (if g = [] then Ok None
     else tryR (parse_ip_err ''invalid gateway IP: '' g) (\<lambda>a. Ok (Some a)))"

text \<open>The message without the output interface, which is looked up in the kernel.\<close>

definition route_message :: "raw_route_params \<Rightarrow> (string, route_msg) res" where
  "route_message p =
     tryR (route_destination (rp_destination p)) (\<lambda>(len, dst).
     tryR (route_gateway (rp_gateway p)) (\<lambda>gw.
     Ok \<lparr>rm_family = (case dst of Some a \<Rightarrow> family_for a
           | None \<Rightarrow> (case gw of Some a \<Rightarrow> family_for a | None \<Rightarrow> Inet)),
         rm_prefix_len = len, rm_table = TableMain, rm_protocol = ProtoStatic,
         rm_attrs = (case dst of Some a \<Rightarrow> [RDestination a] | None \<Rightarrow> []) @
           (case gw of Some a \<Rightarrow> [RGateway a] | None \<Rightarrow> []) @
           (case rp_metric p of Some m \<Rightarrow> [RPriority m] | None \<Rightarrow> [])\<rparr>))"

definition add_route_fresh :: "'k sys \<Rightarrow> nat \<Rightarrow> raw_route_params \<Rightarrow> ('k, string, unit) op" where
  "add_route_fresh y ns p =
     bindS (liftS (route_message p)) (\<lambda>m.
     bindS (case rp_interface p of None \<Rightarrow> returnS []
            | Some i \<Rightarrow> bindS (get_interface_index_fresh y ns i) (\<lambda>x. returnS [ROif x])) (\<lambda>oif.
     thenS (mapErrS show_netlink_error (rt_send y ns (create_request (NewRoute
        (m\<lparr>rm_attrs := rm_attrs m @ oif\<rparr>)))))
     (returnS ())))"

section \<open>WireGuard\<close>

definition decode_key :: "base64 \<Rightarrow> string \<Rightarrow> string \<Rightarrow> string \<Rightarrow> (string, string) res" where
  "decode_key b64 what kind key =
     tryR (map_err (\<lambda>e. ''invalid '' @ what @ '' base64: '' @ e) (b64 key)) (\<lambda>d.
     if length d = 32 then Ok d
     else Err (kind @ '' must be 32 bytes, got '' @ show_nat (length d)))"

definition parse_allowed_ip :: "string \<Rightarrow> (string, wg_allowed_ip) res" where
  "parse_allowed_ip cidr =
     tryR (ok_or (''allowed_ip '' @ quoted cidr @ '' must be in CIDR notation'')
       (split_once (CHR ''/'') cidr)) (\<lambda>(ip, len).
     tryR (parse_ip_err (''invalid IP in allowed_ip '' @ quoted cidr @ '': '') ip) (\<lambda>a.
     tryR (parse_u8_err (''invalid prefix length in '' @ quoted cidr @ '': '') len) (\<lambda>n.
     Ok (WgAllowedIp (family_for a) a n))))"

definition build_wireguard_peer :: "base64 \<Rightarrow> wireguard_peer_config \<Rightarrow> (string, wg_peer_attr list) res" where
  "build_wireguard_peer b64 p =
     tryR (decode_key b64 ''peer public key'' ''peer public key'' (public_key p)) (\<lambda>k.
     tryR (mapOptR (decode_key b64 ''preshared key'' ''preshared key'') (preshared_key p)) (\<lambda>psk.
     tryR (mapOptR (\<lambda>e. ok_or (''invalid endpoint '' @ quoted e @ '': '' @ socket_error)
        (parse_socket_addr e)) (endpoint p)) (\<lambda>ep.
     tryR (mapR parse_allowed_ip (allowed_ips p)) (\<lambda>ips.
     Ok ([WpPublicKey k] @ (case psk of Some x \<Rightarrow> [WpPresharedKey x] | None \<Rightarrow> []) @
         (case ep of Some x \<Rightarrow> [WpEndpoint x] | None \<Rightarrow> []) @
         (if persistent_keepalive p \<noteq> 0 then [WpKeepalive (persistent_keepalive p)] else []) @
         (if allowed_ips p \<noteq> [] then [WpAllowedIps ips] else []))))))"

definition wireguard_attrs :: "base64 \<Rightarrow> string \<Rightarrow> wireguard_config \<Rightarrow> (string, wg_attr list) res" where
  "wireguard_attrs b64 ifname c =
     tryR (decode_key b64 ''private key'' ''private key'' (private_key c)) (\<lambda>k.
     tryR (mapR (build_wireguard_peer b64) (wg_peers c)) (\<lambda>ps.
     Ok ([WaIfName ifname, WaPrivateKey k] @
         (if listen_port c \<noteq> 0 then [WaListenPort (listen_port c)] else []) @
         (if fwmark c \<noteq> 0 then [WaFwmark (fwmark c)] else []) @
         (if wg_peers c \<noteq> [] then [WaPeers ps] else []))))"

text \<open>Command 1 is \<^verbatim>\<open>SetDevice\<close>.\<close>

definition configure_wireguard_device ::
  "'k sys \<Rightarrow> base64 \<Rightarrow> nat \<Rightarrow> string \<Rightarrow> wireguard_config \<Rightarrow> ('k, string, unit) op" where
  "configure_wireguard_device y b64 ns ifname c =
     bindS (mapErrS show_netlink_error (sys_genl_family y ns ''wireguard'')) (\<lambda>fam.
     bindS (liftS (wireguard_attrs b64 ifname c)) (\<lambda>attrs.
     mapErrS show_netlink_error (sys_genl_wireguard y ns fam 1 attrs)))"

section \<open>What a validated configuration needs to be applied\<close>

text \<open>A key that validates decodes; what can still fail is the address syntax of the library.\<close>

lemma decode_key_ok: "wg_key_ok b64 k \<Longrightarrow> \<exists>d. decode_key b64 w n k = Ok d \<and> b64 k = Ok d \<and> length d = 32"
  by (auto simp: wg_key_ok_def decode_key_def)

lemma split_once_cidr: "cidr_text_ok s \<Longrightarrow> \<exists>a b n. split_once (CHR ''/'') s = Some (a, b) \<and> ip_text_ok a \<and>
    parse_u8 b = Some n"
proof -
  assume "cidr_text_ok s"
  then obtain a b n where "s = a @ ''/'' @ b" "parse_u8 b = Some n" "ip_text_ok a"
    unfolding cidr_text_ok_def ip_text_ok_def by blast
  then show ?thesis using ip_text_no_slash [of a] by (intro exI [of _ a] exI [of _ b] exI [of _ n]) simp
qed

lemma parse_allowed_ip_iff:
  assumes "cidr_text_ok s"
  shows "is_ok (parse_allowed_ip s) \<longleftrightarrow> (\<exists>a b. split_once (CHR ''/'') s = Some (a, b) \<and> parse_ip a \<noteq> None)"
proof -
  obtain a b n where s: "split_once (CHR ''/'') s = Some (a, b)" "parse_u8 b = Some n"
    using split_once_cidr [OF assms] by blast
  then show ?thesis
    by (cases "parse_ip a") (auto simp: parse_allowed_ip_def parse_ip_err_def parse_u8_err_def)
qed

lemma is_ok_tryR: "is_ok (tryR r f) \<longleftrightarrow> (\<exists>a. r = Ok a \<and> is_ok (f a))"
  by (cases r) simp_all

lemma is_ok_mapR: "is_ok (mapR f xs) \<longleftrightarrow> (\<forall>x \<in> set xs. is_ok (f x))"
proof (induction xs)
  case (Cons x xs)
  then show ?case by (cases "f x"; cases "mapR f xs") simp_all
qed simp

lemma is_ok_tryR_Ok [simp]: "is_ok (tryR r (\<lambda>a. Ok (f a))) = is_ok r"
  by (cases r) simp_all

lemma is_ok_ok_or [simp]: "is_ok (ok_or e x) \<longleftrightarrow> x \<noteq> None"
  by (cases x) simp_all

text \<open>
  A peer of a validated configuration is built exactly when its endpoint is an address and
  port, not a host name, and its allowed IPs are addresses of the library.
\<close>

lemma build_peer_iff:
  assumes "wg_peer_ok b64 p"
  shows "is_ok (build_wireguard_peer b64 p) \<longleftrightarrow>
    (\<forall>e. endpoint p = Some e \<longrightarrow> parse_socket_addr e \<noteq> None) \<and>
    (\<forall>s \<in> set (allowed_ips p). is_ok (parse_allowed_ip s))"
proof -
  obtain d where d: "decode_key b64 ''peer public key'' ''peer public key'' (public_key p) = Ok d"
    using assms decode_key_ok unfolding wg_peer_ok_def by blast
  obtain q where q: "mapOptR (decode_key b64 ''preshared key'' ''preshared key'') (preshared_key p) = Ok q"
  proof (cases "preshared_key p")
    case (Some k)
    then have "wg_key_ok b64 k" using assms by (simp add: wg_peer_ok_def)
    then obtain d where "decode_key b64 ''preshared key'' ''preshared key'' k = Ok d"
      using decode_key_ok by blast
    then show thesis using that Some by simp
  qed (use that in simp)
  show ?thesis
    unfolding build_wireguard_peer_def d q tryR_simps
    by (cases "endpoint p"; cases "parse_socket_addr (the (endpoint p))") (simp_all add: is_ok_mapR)
qed

lemma wireguard_attrs_iff:
  assumes "wireguard_config_ok b64 c"
  shows "is_ok (wireguard_attrs b64 i c) \<longleftrightarrow> (\<forall>p \<in> set (wg_peers c). is_ok (build_wireguard_peer b64 p))"
proof -
  obtain d where d: "decode_key b64 ''private key'' ''private key'' (private_key c) = Ok d"
    using assms decode_key_ok unfolding wireguard_config_ok_def by blast
  show ?thesis unfolding wireguard_attrs_def d tryR_simps
    by (simp add: is_ok_mapR)
qed

section \<open>Properties\<close>

text \<open>
  C20: the netlink attributes of a validated WireGuard configuration can be built exactly when every
  endpoint is an address and port, not a host name, and every allowed IP is an address for the
  library's parser: keys and prefix lengths never fail after validation.
\<close>

lemma wireguard_applicable:
  assumes "validate_wireguard_config b64 c = Ok ()"
  shows "is_ok (wireguard_attrs b64 i c) \<longleftrightarrow> list_all (\<lambda>p.
    pred_option (\<lambda>e. parse_socket_addr e \<noteq> None) (endpoint p) \<and>
    list_all (\<lambda>s. \<exists>a b. split_once (CHR ''/'') s = Some (a, b) \<and> parse_ip a \<noteq> None) (allowed_ips p)) (wg_peers c)"
proof -
  have ok: "wireguard_config_ok b64 c" using assms by (simp add: config_simps)
  have "is_ok (build_wireguard_peer b64 p) \<longleftrightarrow> pred_option (\<lambda>e. parse_socket_addr e \<noteq> None) (endpoint p) \<and>
    list_all (\<lambda>s. \<exists>a b. split_once (CHR ''/'') s = Some (a, b) \<and> parse_ip a \<noteq> None) (allowed_ips p)"
    if "p \<in> set (wg_peers c)" for p
  proof -
    have p: "wg_peer_ok b64 p" using ok that by (simp add: wireguard_config_ok_def)
    then have "\<forall>s \<in> set (allowed_ips p). cidr_text_ok s" by (simp add: wg_peer_ok_def)
    then show ?thesis unfolding build_peer_iff [OF p]
      by (simp add: list_all_iff parse_allowed_ip_iff pred_option_def) (cases "endpoint p"; simp)
  qed
  then show ?thesis unfolding wireguard_attrs_iff [OF ok] by (simp add: list_all_iff)
qed

definition key_base64 :: base64 where "key_base64 _ = Ok (replicate 32 (CHR ''k''))"

definition sample_wireguard :: "string \<Rightarrow> wireguard_config" where
  "sample_wireguard ep = \<lparr>private_key = ''k='', listen_port = 0, fwmark = 0, wg_peers =
     [\<lparr>public_key = ''p='', preshared_key = None, endpoint = Some ep, allowed_ips = [''0.0.0.0/0''],
       persistent_keepalive = 25\<rparr>]\<rparr>"

lemma wireguard_applicable_witness:
  "\<not> is_ok (wireguard_attrs key_base64 ''wg0'' (sample_wireguard ''vpn.example.org:1''))"
proof -
  have v: "validate_wireguard_config key_base64 (sample_wireguard ''vpn.example.org:1'') = Ok ()" by code_simp
  have "parse_socket_addr ''vpn.example.org:1'' = None" by code_simp
  then show ?thesis unfolding wireguard_applicable [OF v] by (simp add: sample_wireguard_def)
qed

section \<open>Listing routes\<close>

text \<open>
  The loop over the attributes: destination, gateway, output interface and metrics read so far.
  The addresses of the messages are IPv4 or IPv6; the source passes over the other kinds.
\<close>

fun format_attr :: "nat \<Rightarrow> route_attr \<Rightarrow> string \<times> string \<times> nat \<times> string list \<Rightarrow> string \<times> string \<times> nat \<times> string list" where
  "format_attr len (RDestination a) (dest, gw, oif, parts) = (show_ip a @ ''/'' @ show_nat len, gw, oif, parts)"
| "format_attr len (RGateway a) (dest, gw, oif, parts) = (dest, ''via '' @ show_ip a, oif, parts)"
| "format_attr len (ROif i) (dest, gw, oif, parts) = (dest, gw, i, parts)"
| "format_attr len (RPriority m) (dest, gw, oif, parts) = (dest, gw, oif, parts @ [''metric '' @ show_nat m])"

definition format_route :: "route_msg \<Rightarrow> string" where
  "format_route r =
     (case foldl (\<lambda>s a. format_attr (rm_prefix_len r) a s) (''default'', [], 0, []) (rm_attrs r) of
        (dest, gw, oif, parts) \<Rightarrow>
          dest @ (if gw \<noteq> [] then '' '' @ gw else []) @
          (if oif \<noteq> 0 then '' dev ifindex:'' @ show_nat oif else []) @
          concat (map (\<lambda>p. '' '' @ p) parts))"

definition get_route :: "addr_family \<Rightarrow> rt_request" where
  "get_route f = dump_request (GetRoute f)"

definition route_lines :: "rt_response list \<Rightarrow> string list" where
  "route_lines rs = concat (map (\<lambda>r. case r of RspRoute m \<Rightarrow> [format_route m] | _ \<Rightarrow> []) rs)"

definition dump_routes_fresh :: "'k sys \<Rightarrow> nat \<Rightarrow> ('k, string, string list) op" where
  "dump_routes_fresh y ns =
     bindS (mapErrS show_netlink_error (sys_nl_open y ns)) (\<lambda>sock.
     bindS (mapErrS show_netlink_error (sys_nl_request y sock (get_route Inet))) (\<lambda>r4.
     bindS (mapErrS show_netlink_error (sys_nl_request y sock (get_route Inet6))) (\<lambda>r6.
     returnS (route_lines r4 @ route_lines r6))))"

lemma parse_u8_show [simp]: "n \<le> 255 \<Longrightarrow> parse_u8 (show_nat n) = Some n"
  by (simp add: parse_u8_def parse_uint_show)

text \<open>
  An IPv4 route the daemon sends is listed as it was configured: its destination, gateway and
  metric are those of the configuration, character by character.
\<close>

lemma listed_route:
  assumes "route_message p = Ok m" "rp_destination p = ip @ ''/'' @ show_nat n" "n \<le> 255"
    "parse_ip ip = Some (V4 a)" "parse_ip (rp_gateway p) = Some (V4 g)"
  shows "format_route m = rp_destination p @ '' via '' @ rp_gateway p @
     (case rp_metric p of Some k \<Rightarrow> '' metric '' @ show_nat k | None \<Rightarrow> [])"
proof -
  have ip: "show_ipv4 a = ip" "show_ipv4 g = rp_gateway p" using assms(4,5) show_parsed_ipv4 by auto
  have "CHR ''/'' \<notin> set ip" using show_ipv4_set [of "CHR ''/''" a] ip(1) by auto
  then have sp: "split_once (CHR ''/'') (rp_destination p) = Some (ip, show_nat n)"
    using assms(2) by (simp add: split_once_append)
  have "split_once (CHR ''/'') ''default'' = None" by code_simp
  with sp have "rp_destination p \<noteq> ''default''" by auto
  moreover have "parse_ip [] = None" by code_simp
  then have "rp_gateway p \<noteq> []" using assms(5) by auto
  ultimately have "m = \<lparr>rm_family = Inet, rm_prefix_len = n, rm_table = TableMain, rm_protocol = ProtoStatic,
      rm_attrs = [RDestination (V4 a), RGateway (V4 g)] @
        (case rp_metric p of Some k \<Rightarrow> [RPriority k] | None \<Rightarrow> [])\<rparr>"
    using assms sp by (auto simp: route_message_def route_destination_def route_gateway_def parse_u8_err_def
        parse_ip_err_def family_for_def is_v4_def)
  then show ?thesis using assms(2) ip by (simp add: format_route_def split: option.split)
qed

lemma listed_route_witness:
  "format_route \<lparr>rm_family = Inet, rm_prefix_len = 24, rm_table = TableMain, rm_protocol = ProtoStatic,
     rm_attrs = [RDestination (V4 [10, 0, 1, 0]), RGateway (V4 [10, 0, 0, 1]), RPriority 7]\<rparr> =
   ''10.0.1.0/24 via 10.0.0.1 metric 7''"
proof -
  let ?p = "\<lparr>rp_destination = ''10.0.1.0/24'', rp_gateway = ''10.0.0.1'', rp_interface = None, rp_metric = Some 7\<rparr>"
  have "route_message ?p = Ok \<lparr>rm_family = Inet, rm_prefix_len = 24, rm_table = TableMain,
      rm_protocol = ProtoStatic, rm_attrs = [RDestination (V4 [10, 0, 1, 0]), RGateway (V4 [10, 0, 0, 1]),
      RPriority 7]\<rparr>" (is "_ = Ok ?m")
    by code_simp
  moreover have "rp_destination ?p = ''10.0.1.0'' @ ''/'' @ show_nat 24" "(24 :: nat) \<le> 255"
    "parse_ip ''10.0.1.0'' = Some (V4 [10, 0, 1, 0])" "parse_ip (rp_gateway ?p) = Some (V4 [10, 0, 0, 1])"
    by code_simp+
  ultimately have "format_route ?m = rp_destination ?p @ '' via '' @ rp_gateway ?p @
      (case rp_metric ?p of Some k \<Rightarrow> '' metric '' @ show_nat k | None \<Rightarrow> [])"
    by (rule listed_route)
  moreover have "show_nat 7 = ''7''" by code_simp
  ultimately show ?thesis by simp
qed

end
