(* ===== verification/NetlinkManager.thy ===== *)
theory NetlinkManager
  imports RouteNetlink
begin

text \<open>
  \<^verbatim>\<open>NetlinkManager\<close> (\<^verbatim>\<open>segwire-daemon/src/netlink.rs\<close>): the operations on namespaces, links,
  addresses, routes and DNS, on the kernel or on the in-memory simulation.  The state is the
  backend with the kernel, \<open>'k netlink\<close>; in simulation the kernel is never touched
  (\<open>sim_kernel\<close>).  The simulated namespaces satisfy the laws the state manager relies on, which
  \<^verbatim>\<open>NamespaceState\<close> states as a locale.
\<close>

record namespace_info =
  nsi_name :: string
  nsi_id :: "32 word"
  nsi_path :: string
  nsi_active :: bool

record sim_state =
  sim_namespaces :: "(string \<times> namespace_info) list"
  sim_next_id :: "32 word"

definition new_sim :: sim_state where "new_sim = \<lparr>sim_namespaces = [], sim_next_id = 1000\<rparr>"

datatype backend = Real | Simulated sim_state

record 'k netlink =
  nl_backend :: backend
  nl_kernel :: 'k

type_synonym ('k, 'a) nl_op = "('k netlink, segwire_error, 'a) op"

definition NETNS_RUN_DIR :: string where "NETNS_RUN_DIR = ''/var/run/netns''"

definition ns_path :: "string \<Rightarrow> string" where "ns_path name = NETNS_RUN_DIR @ ''/'' @ name"

definition is_simulated :: "'k netlink \<Rightarrow> bool" where
  "is_simulated s = (case nl_backend s of Simulated _ \<Rightarrow> True | Real \<Rightarrow> False)"

text \<open>An operation on the kernel.\<close>

definition onK :: "('k, segwire_error, 'a) op \<Rightarrow> ('k, 'a) nl_op" where
  "onK m s = (case m (nl_kernel s) of (r, k) \<Rightarrow> (r, s\<lparr>nl_kernel := k\<rparr>))"

text \<open>\<^verbatim>\<open>if self.is_simulated() { return Ok(r); }\<close>\<close>

definition sim_or :: "'a \<Rightarrow> ('k, 'a) nl_op \<Rightarrow> ('k, 'a) nl_op" where
  "sim_or r m s = (if is_simulated s then (Ok r, s) else m s)"

definition nl_err :: "netlink_error \<Rightarrow> ('s, segwire_error, 'a) op" where "nl_err e = errS (from_netlink e)"

definition fail_when :: "bool \<Rightarrow> netlink_error \<Rightarrow> ('s, segwire_error, unit) op" where
  "fail_when b e = (if b then nl_err e else returnS ())"

definition netS :: "('s, string, 'a) op \<Rightarrow> ('s, segwire_error, 'a) op" where "netS = mapErrS Network"

definition nlS :: "(string \<Rightarrow> netlink_error) \<Rightarrow> ('s, string, 'a) op \<Rightarrow> ('s, segwire_error, 'a) op" where
  "nlS h = mapErrS (\<lambda>e. from_netlink (h e))"

section \<open>Creating the manager\<close>

definition netlink_new :: "'k sys \<Rightarrow> ('k, segwire_error, backend) op" where
  "netlink_new y k =
     (if \<not> is_root y k then (Err (from_netlink InsufficientPrivileges), k)
      else if sys_exists y NETNS_RUN_DIR k then (Ok Real, k)
      else bindS (nlS (\<lambda>e. CreateFailed ''netns directory'' (''failed to create '' @ NETNS_RUN_DIR @ '': '' @ e))
             (sys_mkdir_all y NETNS_RUN_DIR)) (\<lambda>_. returnS Real) k)"

definition netlink_new_simulated :: "('k, segwire_error, backend) op" where
  "netlink_new_simulated = returnS (Simulated new_sim)"

definition netlink_new_auto :: "'k sys \<Rightarrow> env \<Rightarrow> ('k, segwire_error, backend) op" where
  "netlink_new_auto y sysenv =
     (if map_of sysenv ''SEGWIRE_SIMULATION'' \<noteq> None then netlink_new_simulated else netlink_new y)"

section \<open>Namespace lifecycle\<close>

definition info_of :: "'k sys \<Rightarrow> string \<Rightarrow> 'k \<Rightarrow> namespace_info" where
  "info_of y name k = \<lparr>nsi_name = name, nsi_id = ns_inode y (ns_path name) k, nsi_path = ns_path name,
     nsi_active = True\<rparr>"

definition create_namespace_real :: "'k sys \<Rightarrow> string \<Rightarrow> ('k, segwire_error, namespace_info) op" where
  "create_namespace_real y name =
     bindS (getS (sys_exists y (ns_path name))) (\<lambda>ex.
     thenS (fail_when ex (NamespaceExists name))
    (thenS (nlS (\<lambda>e. CreateFailed name (''create file: '' @ e)) (sys_create y (ns_path name)))
     (\<lambda>k. case create_netns y (ns_path name) k of
        (Inl msg, k') \<Rightarrow> (Err (from_netlink (CreateFailed name msg)), snd (sys_remove y (ns_path name) k'))
      | (Inr _, k') \<Rightarrow> (Ok (info_of y name k'), k'))))"

definition sim_create :: "string \<Rightarrow> sim_state \<Rightarrow> namespace_info sres \<times> sim_state" where
  "sim_create name st =
     (if containsM name (sim_namespaces st) then (Err (from_netlink (NamespaceExists name)), st)
      else let info = \<lparr>nsi_name = name, nsi_id = sim_next_id st, nsi_path = ''/sim/netns/'' @ name,
                       nsi_active = True\<rparr>
        in (Ok info, st\<lparr>sim_namespaces := insertM name info (sim_namespaces st),
                       sim_next_id := sim_next_id st + 1\<rparr>))"

definition on_sim :: "sim_state \<Rightarrow> (sim_state \<Rightarrow> 'a sres \<times> sim_state) \<Rightarrow> ('k, 'a) nl_op" where
  "on_sim st f s = (case f st of (r, st') \<Rightarrow> (r, s\<lparr>nl_backend := Simulated st'\<rparr>))"

definition create_namespace :: "'k sys \<Rightarrow> string \<Rightarrow> ('k, namespace_info) nl_op" where
  "create_namespace y name =
     thenS (liftS (validate_namespace_name name))
     (\<lambda>s. case nl_backend s of
        Simulated st \<Rightarrow> on_sim st (sim_create name) s
      | Real \<Rightarrow> onK (create_namespace_real y name) s)"

definition sim_delete :: "string \<Rightarrow> sim_state \<Rightarrow> unit sres \<times> sim_state" where
  "sim_delete name st =
     (if containsM name (sim_namespaces st)
      then (Ok (), st\<lparr>sim_namespaces := removeM name (sim_namespaces st)\<rparr>)
      else (Err (from_netlink (NamespaceNotFound name)), st))"

definition delete_namespace_real :: "'k sys \<Rightarrow> string \<Rightarrow> ('k, segwire_error, unit) op" where
  "delete_namespace_real y name =
     bindS (getS (sys_exists y (ns_path name))) (\<lambda>ex.
     thenS (fail_when (\<not> ex) (NamespaceNotFound name))
           (nlS (DeleteFailed name) (delete_netns y (ns_path name))))"

definition delete_namespace :: "'k sys \<Rightarrow> string \<Rightarrow> ('k, unit) nl_op" where
  "delete_namespace y name =
     thenS (liftS (validate_namespace_name name))
     (\<lambda>s. case nl_backend s of
        Simulated st \<Rightarrow> on_sim st (sim_delete name) s
      | Real \<Rightarrow> onK (delete_namespace_real y name) s)"

definition namespace_exists :: "'k sys \<Rightarrow> string \<Rightarrow> 'k netlink \<Rightarrow> bool" where
  "namespace_exists y name s =
     (case nl_backend s of
        Simulated st \<Rightarrow> containsM name (sim_namespaces st)
      | Real \<Rightarrow> sys_exists y (ns_path name) (nl_kernel s))"

fun insert_infos :: "'k sys \<Rightarrow> 'k \<Rightarrow> string option list \<Rightarrow> (string \<times> namespace_info) list \<Rightarrow>
    (string \<times> namespace_info) list" where
  "insert_infos y k [] m = m"
| "insert_infos y k (None # es) m = insert_infos y k es m"
| "insert_infos y k (Some n # es) m = insert_infos y k es (insertM n (info_of y n k) m)"

definition list_namespaces :: "'k sys \<Rightarrow> ('k, (string \<times> namespace_info) list) nl_op" where
  "list_namespaces y s =
     (case nl_backend s of
        Simulated st \<Rightarrow> (Ok (sim_namespaces st), s)
      | Real \<Rightarrow>
        (if \<not> sys_exists y NETNS_RUN_DIR (nl_kernel s) then (Ok [], s)
         else (tryR (map_err (\<lambda>e. from_netlink (CreateFailed ''list'' (''read_dir failed: '' @ e)))
                 (sys_readdir y NETNS_RUN_DIR (nl_kernel s)))
               (\<lambda>es. Ok (insert_infos y (nl_kernel s) es [])), s)))"

definition get_namespace_info :: "'k sys \<Rightarrow> string \<Rightarrow> ('k, namespace_info) nl_op" where
  "get_namespace_info y name =
     thenS (liftS (validate_namespace_name name))
     (\<lambda>s. case nl_backend s of
        Simulated st \<Rightarrow> (ok_or (from_netlink (NamespaceNotFound name)) (map_of (sim_namespaces st) name), s)
      | Real \<Rightarrow> (if sys_exists y (ns_path name) (nl_kernel s) then (Ok (info_of y name (nl_kernel s)), s)
                 else (Err (from_netlink (NamespaceNotFound name)), s)))"

section \<open>Links\<close>

definition list_interfaces :: "'k sys \<Rightarrow> ('k, string list) nl_op" where
  "list_interfaces y = sim_or [''lo'', ''eth0'']
     (onK (nlS SocketError (dump_interface_names_fresh y (sys_host_ns y))))"

definition interface_exists :: "'k sys \<Rightarrow> string \<Rightarrow> ('k, bool) nl_op" where
  "interface_exists y n = bindS (list_interfaces y) (\<lambda>ns. returnS (n \<in> set ns))"

definition interface_available :: "'k sys \<Rightarrow> string \<Rightarrow> ('k, bool) nl_op" where
  "interface_available y n = (if n = ''lo'' then returnS False else interface_exists y n)"

text \<open>Run an operation of the raw layer inside a namespace; both errors become network errors.\<close>

definition in_namespace :: "'k sys \<Rightarrow> string \<Rightarrow> ('e \<Rightarrow> segwire_error) \<Rightarrow> (nat \<Rightarrow> ('k, 'e, 'a) op) \<Rightarrow> ('k, 'a) nl_op" where
  "in_namespace y name h f =
     bindS (onK (netS (run_in_namespace y (ns_path name) f))) (\<lambda>r. liftS (map_err h r))"

definition require_namespace :: "'k sys \<Rightarrow> string \<Rightarrow> ('k, unit) nl_op" where
  "require_namespace y name = bindS (getS (namespace_exists y name)) (\<lambda>ex.
     fail_when (\<not> ex) (NamespaceNotFound name))"

definition list_namespace_interfaces :: "'k sys \<Rightarrow> string \<Rightarrow> ('k, string list) nl_op" where
  "list_namespace_interfaces y name = sim_or [''lo'']
     (thenS (liftS (validate_namespace_name name))
     (thenS (require_namespace y name)
            (in_namespace y name Network (dump_interface_names_fresh y))))"

definition move_interface_to_namespace :: "'k sys \<Rightarrow> string \<Rightarrow> string \<Rightarrow> ('k, unit) nl_op" where
  "move_interface_to_namespace y ifn name = sim_or ()
     (thenS (liftS (validate_namespace_name name))
     (thenS (liftS (validate_interface_name ifn))
     (bindS (interface_exists y ifn) (\<lambda>ex.
      thenS (fail_when (\<not> ex) (InterfaceNotFound ifn))
     (bindS (interface_available y ifn) (\<lambda>av.
      thenS (fail_when (\<not> av) (InterfaceNotAvailable ifn))
     (thenS (require_namespace y name)
     (bindS (onK (nlS SocketError (get_interface_index_fresh y (sys_host_ns y) ifn))) (\<lambda>ix.
      onK (nlS (InterfaceMoveFailed ifn name)
        (move_interface_to_ns y (sys_host_ns y) ix (ns_path name))))))))))))"

definition move_interface_to_default :: "'k sys \<Rightarrow> string \<Rightarrow> string \<Rightarrow> ('k, unit) nl_op" where
  "move_interface_to_default y name ifn = sim_or ()
     (thenS (liftS (validate_namespace_name name))
     (thenS (liftS (validate_interface_name ifn))
     (thenS (require_namespace y name)
     (bindS (list_namespace_interfaces y name) (\<lambda>ifs.
      if ifn \<notin> set ifs then returnS ()
      else in_namespace y name (\<lambda>e. from_netlink (InterfaceMoveFailed ifn ''default'' e))
             (\<lambda>ns. move_interface_to_default_ns y ns ifn))))))"

definition create_virtual_interface :: "'k sys \<Rightarrow> string \<Rightarrow> string \<Rightarrow> string \<Rightarrow> ('k, unit) nl_op" where
  "create_virtual_interface y name vif kind = sim_or ()
     (thenS (liftS (validate_namespace_name name))
     (thenS (liftS (validate_interface_name vif))
     (thenS (require_namespace y name)
     (bindS (list_namespace_interfaces y name) (\<lambda>ifs.
      thenS (fail_when (vif \<in> set ifs)
               (VirtualInterfaceCreateFailed vif ''Interface already exists in namespace''))
            (in_namespace y name from_netlink (\<lambda>ns. raw_create_virtual_interface y ns vif kind)))))))"

definition create_wireguard_interface :: "'k sys \<Rightarrow> string \<Rightarrow> string \<Rightarrow> ('k, unit) nl_op" where
  "create_wireguard_interface y name wg = sim_or ()
     (thenS (liftS (validate_namespace_name name))
     (thenS (liftS (validate_interface_name wg))
     (thenS (require_namespace y name)
            (in_namespace y name from_netlink (\<lambda>ns. raw_create_wireguard_interface y ns wg)))))"

definition configure_wireguard :: "'k sys \<Rightarrow> base64 \<Rightarrow> string \<Rightarrow> string \<Rightarrow> wireguard_config \<Rightarrow> ('k, unit) nl_op" where
  "configure_wireguard y b64 name wg c = sim_or ()
     (thenS (liftS (validate_namespace_name name))
            (in_namespace y name Network (\<lambda>ns. configure_wireguard_device y b64 ns wg c)))"

definition create_veth_pair :: "'k sys \<Rightarrow> string \<Rightarrow> string \<Rightarrow> ('k, unit) nl_op" where
  "create_veth_pair y veth peer = sim_or ()
     (thenS (liftS (validate_interface_name veth))
     (thenS (liftS (validate_interface_name peer))
     (bindS (interface_exists y veth) (\<lambda>ex1.
      thenS (fail_when ex1 (VirtualInterfaceCreateFailed veth ''Interface already exists''))
     (bindS (interface_exists y peer) (\<lambda>ex2.
      thenS (fail_when ex2 (VirtualInterfaceCreateFailed peer ''Peer interface already exists''))
      (onK (mapErrS (\<lambda>e. from_netlink (VirtualInterfaceCreateFailed veth (show_netlink_error e)))
        (raw_create_veth_pair y (sys_host_ns y) veth peer)))))))))"

definition add_address_in_namespace :: "'k sys \<Rightarrow> string \<Rightarrow> string \<Rightarrow> ip_addr \<Rightarrow> nat \<Rightarrow> ('k, unit) nl_op" where
  "add_address_in_namespace y name ifn a len = sim_or ()
     (thenS (liftS (validate_namespace_name name))
            (in_namespace y name Network (\<lambda>ns. add_address_fresh y ns ifn a len)))"

definition set_link_up_in_namespace :: "'k sys \<Rightarrow> string \<Rightarrow> string \<Rightarrow> ('k, unit) nl_op" where
  "set_link_up_in_namespace y name ifn = sim_or ()
     (thenS (liftS (validate_namespace_name name))
            (in_namespace y name Network (\<lambda>ns. set_link_up_fresh y ns ifn)))"

definition set_link_up :: "'k sys \<Rightarrow> string \<Rightarrow> ('k, unit) nl_op" where
  "set_link_up y ifn = sim_or () (onK (netS (set_link_up_fresh y (sys_host_ns y) ifn)))"

definition add_address :: "'k sys \<Rightarrow> string \<Rightarrow> ip_addr \<Rightarrow> nat \<Rightarrow> ('k, unit) nl_op" where
  "add_address y ifn a len = sim_or () (onK (netS (add_address_fresh y (sys_host_ns y) ifn a len)))"

section \<open>Routes\<close>

definition add_route_to_namespace :: "'k sys \<Rightarrow> string \<Rightarrow> route_config \<Rightarrow> ('k, unit) nl_op" where
  "add_route_to_namespace y name r = sim_or ()
     (thenS (liftS (validate_route_config r))
            (in_namespace y name (\<lambda>e. from_netlink (RouteConfigFailed name e))
               (\<lambda>ns. add_route_fresh y ns \<lparr>rp_destination = rc_destination r, rp_gateway = rc_gateway r,
                  rp_interface = rc_interface r, rp_metric = rc_metric r\<rparr>)))"

fun each_route :: "'k sys \<Rightarrow> string \<Rightarrow> route_config list \<Rightarrow> ('k, unit) nl_op" where
  "each_route y name [] = returnS ()"
| "each_route y name (r # rs) = thenS (add_route_to_namespace y name r) (each_route y name rs)"

definition configure_namespace_routes :: "'k sys \<Rightarrow> string \<Rightarrow> route_config list \<Rightarrow> ('k, unit) nl_op" where
  "configure_namespace_routes y name rs = sim_or ()
     (thenS (liftS (validate_namespace_name name)) (each_route y name rs))"

section \<open>DNS\<close>

definition unline :: "string \<Rightarrow> string" where "unline l = l @ [newline]"

definition render_resolv :: "nl_dns_config \<Rightarrow> string" where
  "render_resolv d =
     concat (map (\<lambda>s. unline (''nameserver '' @ s)) (nd_servers d)) @
     (if nd_search_domains d \<noteq> [] then unline (''search '' @ join '' '' (nd_search_domains d)) else []) @
     concat (map (\<lambda>o'. unline (''options '' @ o')) (nd_options d))"

definition configure_namespace_dns :: "'k sys \<Rightarrow> string \<Rightarrow> nl_dns_config \<Rightarrow> ('k, unit) nl_op" where
  "configure_namespace_dns y name d = sim_or ()
     (thenS (liftS (validate_namespace_name name))
     (thenS (liftS (validate_nl_dns d))
     (thenS (require_namespace y name)
     (let etc = ''/etc/netns/'' @ name; resolv = etc @ ''/resolv.conf'' in
      thenS (onK (nlS (\<lambda>e. DnsConfigFailed name (''mkdir '' @ etc @ '': '' @ e)) (sys_mkdir_all y etc)))
     (thenS (onK (nlS (\<lambda>e. DnsConfigFailed name (''create resolv.conf: '' @ e)) (sys_create y resolv)))
            (onK (nlS (\<lambda>e. DnsConfigFailed name (''write resolv.conf: '' @ e))
               (sys_write y resolv (render_resolv d)))))))))"

definition resolv_line :: "nl_dns_config \<Rightarrow> string \<Rightarrow> nl_dns_config" where
  "resolv_line d raw =
     (let line = trim raw in
      case strip_prefix ''nameserver '' line of
        Some v \<Rightarrow> d\<lparr>nd_servers := nd_servers d @ [trim v]\<rparr>
      | None \<Rightarrow> (case strip_prefix ''search '' line of
          Some v \<Rightarrow> d\<lparr>nd_search_domains := split_whitespace v\<rparr>
        | None \<Rightarrow> (case strip_prefix ''options '' line of
            Some v \<Rightarrow> d\<lparr>nd_options := nd_options d @ [trim v]\<rparr>
          | None \<Rightarrow> d)))"

definition no_dns :: nl_dns_config where
  "no_dns = \<lparr>nd_servers = [], nd_search_domains = [], nd_options = []\<rparr>"

definition parse_resolv :: "string \<Rightarrow> nl_dns_config" where
  "parse_resolv content = foldl resolv_line no_dns (rlines content)"

definition get_namespace_dns_config :: "'k sys \<Rightarrow> string \<Rightarrow> ('k, nl_dns_config) nl_op" where
  "get_namespace_dns_config y name = sim_or no_dns
     (thenS (liftS (validate_namespace_name name))
     (thenS (require_namespace y name)
     (getS (\<lambda>s. case sys_read y (''/etc/netns/'' @ name @ ''/resolv.conf'') (nl_kernel s) of
        Some c \<Rightarrow> parse_resolv c | None \<Rightarrow> no_dns))))"

lemma strip_literal: "strip_prefix p (p @ v) = Some v" "\<not> prefix p s \<Longrightarrow> strip_prefix p s = None"
  by (simp_all add: strip_prefix_def starts_with_def)

lemma trim_line: "text_ok (l @ CHR '' '' # v) \<Longrightarrow> trim (l @ CHR '' '' # v) = l @ CHR '' '' # v"
  by (simp add: text_ok_def)

lemma keyword_solid: "list_all solid ''nameserver''" "list_all solid ''search''" "list_all solid ''options''"
  by (simp_all add: solid_def code_def)

lemma resolv_server:
  assumes "text_ok v"
  shows "resolv_line d (''nameserver '' @ v) = d\<lparr>nd_servers := nd_servers d @ [v]\<rparr>"
proof -
  have "trim (''nameserver '' @ v) = ''nameserver '' @ v"
    using trim_line [OF text_ok_prefix [OF assms keyword_solid(1)]] by simp
  then show ?thesis unfolding resolv_line_def Let_def using assms by (simp only: strip_literal option.case) (simp add: text_ok_def)
qed

lemma resolv_search:
  assumes "ws \<noteq> []" "\<And>w. w \<in> set ws \<Longrightarrow> w \<noteq> [] \<and> list_all solid w"
  shows "resolv_line d (''search '' @ join '' '' ws) = d\<lparr>nd_search_domains := ws\<rparr>"
proof -
  have "trim (''search '' @ join '' '' ws) = ''search '' @ join '' '' ws"
    using trim_line [OF text_ok_prefix [OF text_ok_words [OF assms] keyword_solid(2)]] by simp
  moreover have "strip_prefix ''nameserver '' (''search '' @ join '' '' ws) = None"
    by (rule strip_literal) simp
  ultimately show ?thesis unfolding resolv_line_def Let_def
    using split_whitespace_join [OF assms(2)] by (simp only: strip_literal(1) option.case)
qed

lemma resolv_option:
  assumes "text_ok v"
  shows "resolv_line d (''options '' @ v) = d\<lparr>nd_options := nd_options d @ [v]\<rparr>"
proof -
  have "trim (''options '' @ v) = ''options '' @ v"
    using trim_line [OF text_ok_prefix [OF assms keyword_solid(3)]] by simp
  moreover have "strip_prefix ''nameserver '' (''options '' @ v) = None" "strip_prefix ''search '' (''options '' @ v) = None"
    by (rule strip_literal, simp)+
  ultimately show ?thesis unfolding resolv_line_def Let_def using assms
    by (simp only: strip_literal(1) option.case) (simp add: text_ok_def)
qed

definition dns_carried :: "nl_dns_config \<Rightarrow> bool" where
  "dns_carried d = ((\<forall>s \<in> set (nd_servers d). text_ok s) \<and>
     (\<forall>s \<in> set (nd_search_domains d). s \<noteq> [] \<and> list_all solid s) \<and> (\<forall>s \<in> set (nd_options d). text_ok s))"

lemma foldl_servers: "(\<And>s. s \<in> set ss \<Longrightarrow> text_ok s) \<Longrightarrow>
    foldl resolv_line d (map (\<lambda>s. ''nameserver '' @ s) ss) = d\<lparr>nd_servers := nd_servers d @ ss\<rparr>"
proof (induction ss arbitrary: d)
  case (Cons s ss)
  then show ?case using resolv_server [of s d] by simp
qed simp

lemma foldl_options: "(\<And>s. s \<in> set ss \<Longrightarrow> text_ok s) \<Longrightarrow>
    foldl resolv_line d (map (\<lambda>s. ''options '' @ s) ss) = d\<lparr>nd_options := nd_options d @ ss\<rparr>"
proof (induction ss arbitrary: d)
  case (Cons s ss)
  then show ?case using resolv_option [of s d] by simp
qed simp

lemma resolv_round:
  assumes "dns_carried d"
  shows "parse_resolv (render_resolv d) = d"
proof -
  let ?sl = "if nd_search_domains d \<noteq> [] then [''search '' @ join '' '' (nd_search_domains d)] else []"
  let ?ls = "map (\<lambda>s. ''nameserver '' @ s) (nd_servers d) @ ?sl @ map (\<lambda>s. ''options '' @ s) (nd_options d)"
  have render: "render_resolv d = unlines ?ls"
    by (simp add: render_resolv_def unlines_def unline_def comp_def)
  have ok: "text_ok l" if l: "l \<in> set ?ls" for l
  proof -
    have "text_ok (''search'' @ CHR '' '' # join '' '' (nd_search_domains d))" if "nd_search_domains d \<noteq> []"
      using that assms by (intro text_ok_prefix text_ok_words keyword_solid) (auto simp: dns_carried_def)
    moreover have "text_ok (''nameserver'' @ CHR '' '' # s)" if "s \<in> set (nd_servers d)" for s
      using that assms by (intro text_ok_prefix keyword_solid) (auto simp: dns_carried_def)
    moreover have "text_ok (''options'' @ CHR '' '' # s)" if "s \<in> set (nd_options d)" for s
      using that assms by (intro text_ok_prefix keyword_solid) (auto simp: dns_carried_def)
    ultimately show ?thesis using l by (auto split: if_splits)
  qed
  have "rlines (render_resolv d) = ?ls" unfolding render by (rule rlines_unlines) (rule ok)
  moreover have "foldl resolv_line no_dns (map (\<lambda>s. ''nameserver '' @ s) (nd_servers d)) =
      no_dns\<lparr>nd_servers := nd_servers d\<rparr>"
    using assms foldl_servers [of "nd_servers d" no_dns] by (simp add: dns_carried_def no_dns_def)
  moreover have "foldl resolv_line e ?sl = e\<lparr>nd_search_domains := nd_search_domains d\<rparr>"
    if "nd_search_domains e = []" for e
    using that assms resolv_search [of "nd_search_domains d" e] by (simp add: dns_carried_def)
  moreover have "foldl resolv_line e (map (\<lambda>s. ''options '' @ s) (nd_options d)) =
      e\<lparr>nd_options := nd_options e @ nd_options d\<rparr>" for e
    using assms by (intro foldl_options) (simp add: dns_carried_def)
  ultimately show ?thesis by (simp add: parse_resolv_def no_dns_def)
qed

interpretation resolver: codec render_resolv parse_resolv "\<lambda>d. d" dns_carried
  by unfold_locales (simp_all add: resolv_round)

lemma ip_text_carried: "ip_text_ok s \<Longrightarrow> text_ok s"
proof (rule solid_text_ok)
  assume h: "ip_text_ok s"
  have "ipv4_text_ok [] \<Longrightarrow> False" "ipv6_text_ok [] \<Longrightarrow> False" by (simp_all add: ipv4_text_ok_def ipv6_text_ok_def)
  then show "s \<noteq> []" using h by (auto simp: ip_text_ok_def)
  have "solid c" if "c \<in> set s" for c
    using ip_text_chars [OF h that] by (auto simp: solid_def class_defs code_def)
  then show "list_all solid s" by (simp add: list_all_iff)
qed

lemma domain_solid: "domain_text_ok s \<Longrightarrow> s \<noteq> [] \<and> list_all solid s"
proof -
  assume h: "domain_text_ok s"
  have l: "list_all solid l" if "l \<in> set (split_char (CHR ''.'') (undot s))" for l
  proof -
    have "list_all ns_char l" using h that by (auto simp: domain_text_ok_def label_ok_def)
    then show ?thesis by (auto simp: list_all_iff ns_char_def class_defs solid_def code_def)
  qed
  have dot: "solid (CHR ''.'')" by (simp add: solid_def code_def)
  have "list_all solid (join ''.'' ls)" if "\<And>l. l \<in> set ls \<Longrightarrow> list_all solid l" for ls
    using that dot by (induction "''.''" ls rule: join.induct) auto
  then have u: "list_all solid (undot s)" using l join_split [of "CHR ''.''" "undot s"] by metis
  have "list_all solid s"
  proof (cases "s \<noteq> [] \<and> last s = CHR ''.''")
    case True
    then have "s = undot s @ ''.''" by (simp add: undot_def) (metis append_butlast_last_id)
    then show ?thesis using u dot by (metis list_all_append list.pred_inject)
  qed (use u in \<open>auto simp: undot_def\<close>)
  then show ?thesis using h by (simp add: domain_text_ok_def)
qed

lemma validated_dns_carried: "validate_nl_dns d = Ok () \<Longrightarrow> list_all text_ok (nd_options d) \<Longrightarrow> dns_carried d"
  using ip_text_carried domain_solid by (auto simp: validate_nl_dns_iff dns_carried_def list_all_iff)

section \<open>The simulation\<close>

text \<open>In simulation no operation touches the kernel, and the backend stays simulated.\<close>

definition sim_frame :: "'k netlink \<Rightarrow> 'k netlink \<Rightarrow> bool" where
  "sim_frame s s' = (is_simulated s \<longrightarrow> is_simulated s' \<and> nl_kernel s' = nl_kernel s)"

definition sim_same :: "'k netlink \<Rightarrow> 'k netlink \<Rightarrow> bool" where
  "sim_same s s' = (is_simulated s \<longrightarrow> s' = s)"

lemma sim_frame_rt: "reflp sim_frame" "transp sim_frame" "reflp sim_same" "transp sim_same"
  by (auto simp: sim_frame_def sim_same_def intro!: reflpI transpI)

lemma sim_same_frame: "sim_same s s' \<Longrightarrow> sim_frame s s'"
  by (auto simp: sim_same_def sim_frame_def)

lemma keeps_sim_or [keeps_intros]: "keeps sim_same (sim_or r m)"
  by (auto simp: keeps_def sim_same_def sim_or_def)

lemmas sim_or_defs = list_interfaces_def list_namespace_interfaces_def move_interface_to_namespace_def
  move_interface_to_default_def create_virtual_interface_def create_wireguard_interface_def
  configure_wireguard_def create_veth_pair_def add_address_in_namespace_def set_link_up_in_namespace_def
  set_link_up_def add_address_def add_route_to_namespace_def configure_namespace_routes_def
  configure_namespace_dns_def get_namespace_dns_config_def

lemma sim_config_ops:
  "keeps sim_same (move_interface_to_namespace y a n)" "keeps sim_same (move_interface_to_default y n a)"
  "keeps sim_same (create_virtual_interface y n a t)" "keeps sim_same (create_wireguard_interface y n a)"
  "keeps sim_same (configure_wireguard y b64 n a w)" "keeps sim_same (create_veth_pair y a p)"
  "keeps sim_same (add_address_in_namespace y n a ip l)" "keeps sim_same (set_link_up_in_namespace y n a)"
  "keeps sim_same (set_link_up y a)" "keeps sim_same (add_address y a ip l)"
  "keeps sim_same (add_route_to_namespace y n r)" "keeps sim_same (configure_namespace_routes y n rs)"
  "keeps sim_same (configure_namespace_dns y n d)"
  unfolding sim_or_defs by (rule keeps_sim_or)+

text \<open>The names the simulation holds; creation and deletion in terms of them.\<close>

definition sim_names :: "'k netlink \<Rightarrow> string set" where
  "sim_names s = (case nl_backend s of Simulated st \<Rightarrow> set (keys (sim_namespaces st)) | Real \<Rightarrow> {})"

definition sim_ok :: "'k netlink \<Rightarrow> bool" where
  "sim_ok s = (case nl_backend s of
     Simulated st \<Rightarrow> distinct (keys (sim_namespaces st)) \<and>
        (\<forall>(n, i) \<in> set (sim_namespaces st). nsi_name i = n \<and> nsi_active i)
   | Real \<Rightarrow> False)"

lemma sim_list: "sim_ok s \<Longrightarrow> \<exists>m. list_namespaces y s = (Ok m, s) \<and> set (keys m) = sim_names s \<and> distinct (keys m) \<and>
    (\<forall>(n, i) \<in> set m. nsi_active i)"
  by (auto simp: sim_ok_def list_namespaces_def sim_names_def split: backend.splits)

lemma sim_create_Ok:
  assumes "sim_ok s" "create_namespace y n s = (Ok i, s')"
  shows "n \<notin> sim_names s \<and> sim_names s' = insert n (sim_names s) \<and> sim_ok s' \<and> nsi_active i \<and>
    validate_namespace_name n = Ok ()"
proof -
  obtain st where st: "nl_backend s = Simulated st" using assms(1) by (auto simp: sim_ok_def split: backend.splits)
  have "validate_namespace_name n = Ok ()" "\<not> containsM n (sim_namespaces st)"
    using assms(2) st by (auto simp: create_namespace_def thenS_def bindS_Ok on_sim_def sim_create_def split: if_splits)
  then show ?thesis using assms st
    by (auto simp: create_namespace_def thenS_def on_sim_def sim_create_def sim_ok_def sim_names_def
        containsM_def set_insertM bindS_def Let_def dest: fst_in_keys)
qed

lemma sim_create_Err:
  assumes "sim_ok s" "create_namespace y n s = (Err e, s')"
  shows "s' = s \<and> (n \<in> sim_names s \<or> \<not> is_ok (validate_namespace_name n))"
proof -
  obtain st where st: "nl_backend s = Simulated st" using assms(1) by (auto simp: sim_ok_def split: backend.splits)
  show ?thesis using assms st
    by (auto simp: create_namespace_def thenS_def bindS_Err on_sim_def sim_create_def sim_names_def
        containsM_def Let_def split: if_splits)
qed

lemma sim_delete_Ok:
  assumes "sim_ok s" "delete_namespace y n s = (Ok u, s')"
  shows "n \<in> sim_names s \<and> sim_names s' = sim_names s - {n} \<and> sim_ok s'"
proof -
  obtain st where st: "nl_backend s = Simulated st" using assms(1) by (auto simp: sim_ok_def split: backend.splits)
  show ?thesis using assms st
    by (auto simp: delete_namespace_def thenS_def bindS_Ok on_sim_def sim_delete_def sim_ok_def sim_names_def
        containsM_def dest: fst_in_keys split: if_splits)
qed

lemma sim_delete_Err:
  assumes "sim_ok s" "delete_namespace y n s = (Err e, s')"
  shows "s' = s \<and> (n \<notin> sim_names s \<or> \<not> is_ok (validate_namespace_name n))"
proof -
  obtain st where st: "nl_backend s = Simulated st" using assms(1) by (auto simp: sim_ok_def split: backend.splits)
  show ?thesis using assms st
    by (auto simp: delete_namespace_def thenS_def bindS_Err on_sim_def sim_delete_def sim_names_def
        containsM_def split: if_splits)
qed

section \<open>Properties\<close>

text \<open>
  C19: the resolver file of a namespace is faithful: reading back what is written for validated DNS
  settings, whose options are each a line of text without surrounding white space, gives the same
  servers, search domains and options, in order.  The validation does not look at the options, so that
  condition is one on the caller.
\<close>

lemma dns_round_trip:
  assumes "validate_nl_dns d = Ok ()" "list_all text_ok (nd_options d)"
  shows "parse_resolv (render_resolv d) = d"
  by (rule resolver.read_back [OF validated_dns_carried [OF assms]])

definition sample_dns :: "string list \<Rightarrow> nl_dns_config" where
  "sample_dns os = \<lparr>nd_servers = [''1.1.1.1'', ''2606:4700::1111''], nd_search_domains = [''a.org'', ''b.net.''],
     nd_options = os\<rparr>"

lemma dns_round_trip_witness:
  "parse_resolv (render_resolv (sample_dns [''ndots:2'', ''timeout:1 rotate''])) = sample_dns [''ndots:2'', ''timeout:1 rotate'']"
proof (rule dns_round_trip)
  show "validate_nl_dns (sample_dns [''ndots:2'', ''timeout:1 rotate'']) = Ok ()" by code_simp
  show "list_all text_ok (nd_options (sample_dns [''ndots:2'', ''timeout:1 rotate'']))" by code_simp
qed

text \<open>
  The condition on the options is needed: an option with a line break is accepted by the validation
  and read back as another server.  The daemon passes no options.
\<close>

lemma unchecked_option_injects:
  "validate_nl_dns (sample_dns [''ndots:2'' @ [newline] @ ''nameserver 9.9.9.9'']) = Ok () \<and>
   nd_servers (parse_resolv (render_resolv (sample_dns [''ndots:2'' @ [newline] @ ''nameserver 9.9.9.9'']))) =
     [''1.1.1.1'', ''2606:4700::1111'', ''9.9.9.9'']"
proof
  show "validate_nl_dns (sample_dns [''ndots:2'' @ [newline] @ ''nameserver 9.9.9.9'']) = Ok ()" by code_simp
  show "nd_servers (parse_resolv (render_resolv (sample_dns [''ndots:2'' @ [newline] @ ''nameserver 9.9.9.9'']))) =
      [''1.1.1.1'', ''2606:4700::1111'', ''9.9.9.9'']" by code_simp
qed

section \<open>Listing routes\<close>

definition list_namespace_routes :: "'k sys \<Rightarrow> string \<Rightarrow> ('k, string list) nl_op" where
  "list_namespace_routes y name = sim_or []
     (thenS (liftS (validate_namespace_name name))
     (thenS (require_namespace y name)
            (in_namespace y name Network (dump_routes_fresh y))))"

section \<open>Which namespace a file names\<close>

text \<open>
  What the kernel documents about the files of namespaces: \<^verbatim>\<open>/proc/self\<close> is the process, so its namespace is
  that of the main thread whichever thread looks; a bind mount gives the target what the source
  names; a descriptor keeps what its file named, and \<^verbatim>\<open>setns\<close> enters it.
\<close>

definition ns_file_laws :: "'k sys \<Rightarrow> ('k \<Rightarrow> string \<Rightarrow> nat option) \<Rightarrow> ('k \<Rightarrow> nat \<Rightarrow> nat option) \<Rightarrow> bool" where
  "ns_file_laws y names held =
     ((\<forall>k. names k ''/proc/self/ns/net'' = Some (sys_host_ns y)) \<and>
      (\<forall>ns src dst k k'. sys_mount y ns src dst k = (Ok (), k') \<longrightarrow> names k' dst = names k src) \<and>
      (\<forall>ns p k fd k'. sys_open y ns p k = (Ok fd, k') \<longrightarrow> held k' fd = names k p \<and> names k' = names k) \<and>
      (\<forall>fd k ns k'. sys_setns y fd k = (Ok ns, k') \<longrightarrow> held k fd = Some ns))"

lemma created_by_mount:
  assumes "create_namespace_real y name k = (Ok i, k')"
  shows "\<exists>ns k2. sys_mount y ns ''/proc/self/ns/net'' (ns_path name) k2 = (Ok (), k')"
proof -
  obtain k1 where "(case create_netns y (ns_path name) k1 of
      (Inl msg, k') \<Rightarrow> (Err (from_netlink (CreateFailed name msg)), snd (sys_remove y (ns_path name) k'))
    | (Inr _, k') \<Rightarrow> (Ok (info_of y name k'), k')) = (Ok i, k')"
    using assms unfolding create_namespace_real_def thenS_def bindS_Ok by blast
  then obtain u where "create_netns y (ns_path name) k1 = (Ok u, k')" by (auto split: prod.splits sum.splits)
  then show ?thesis unfolding create_netns_def bindS_Ok by auto
qed

lemma created_names_host:
  assumes "ns_file_laws y names held" "nl_backend s = Real" "create_namespace y name s = (Ok i, s')"
  shows "names (nl_kernel s') (ns_path name) = Some (sys_host_ns y)"
proof -
  have "create_namespace_real y name (nl_kernel s) = (Ok i, nl_kernel s')"
    using assms(2,3) by (auto simp: create_namespace_def thenS_def bindS_Ok onK_def split: prod.splits)
  then obtain ns k where "sys_mount y ns ''/proc/self/ns/net'' (ns_path name) k = (Ok (), nl_kernel s')"
    using created_by_mount [of y name "nl_kernel s" i] by metis
  then show ?thesis using assms(1) unfolding ns_file_laws_def by metis
qed

lemma run_in_named:
  assumes "ns_file_laws y names held" "names k p = Some n" "run_in_namespace y p f k = (Ok a, k')"
  shows "\<exists>k1. a = fst (f n k1)"
proof -
  obtain orig target ns k1 k2 k3 k4 where s: "sys_open y (sys_host_ns y) ''/proc/self/ns/net'' k = (Ok orig, k1)"
    "sys_open y (sys_host_ns y) p k1 = (Ok target, k2)" "sys_setns y target k2 = (Ok ns, k3)"
    "f ns (sys_close y target k3) = (a, k4)"
    using run_in_namespace_Ok [OF assms(3)] by (auto simp: open_ns_fd_def)
  have "names k1 = names k" "held k2 target = names k1 p" "held k2 target = Some ns"
    using assms(1) s(1-3) unfolding ns_file_laws_def by metis+
  then have "ns = n" using assms(2) by simp
  then show ?thesis using s(4) by (metis fst_conv)
qed

text \<open>
  C4: a namespace the daemon creates on the kernel is the host's: create_netns unshares in a thread of
  its own but mounts the namespace of the process, so whatever is run in the new namespace runs in the
  namespace of the daemon.
\<close>

lemma created_namespace_is_host:
  assumes "ns_file_laws y names held" "nl_backend s = Real" "create_namespace y name s = (Ok i, s')"
    "run_in_namespace y (ns_path name) f (nl_kernel s') = (Ok a, k)"
  shows "\<exists>k1. a = fst (f (sys_host_ns y) k1)"
  by (rule run_in_named [OF assms(1) created_names_host [OF assms(1-3)] assms(4)])

text \<open>A kernel of files that name namespaces; a descriptor is the number of its namespace.\<close>

definition names_of_files :: "(string \<times> nat) list \<Rightarrow> string \<Rightarrow> nat option" where
  "names_of_files k p = (if p = ''/proc/self/ns/net'' then Some 0 else map_of k p)"

definition mount_sys :: "(string \<times> nat) list sys" where
  "mount_sys = \<lparr>sys_host_ns = 0, sys_euid = (\<lambda>_. 0), sys_exists = (\<lambda>p k. map_of k p \<noteq> None), sys_mkdir_all = (\<lambda>_. returnS ()),
     sys_create = (\<lambda>_. returnS ()), sys_write = (\<lambda>_ _. returnS ()), sys_remove = (\<lambda>p k. (Ok (), removeM p k)),
     sys_read = (\<lambda>_ _. None), sys_ino = (\<lambda>p k. names_of_files k p), sys_readdir = (\<lambda>_ k. Ok (map (\<lambda>x. Some (fst x)) k)),
     sys_unshare = returnS 1,
     sys_mount = (\<lambda>_ src dst k. case names_of_files k src of None \<Rightarrow> (Err ''No such file'', k) | Some n \<Rightarrow>
       if dst = ''/proc/self/ns/net'' then (Err ''Permission denied'', k) else (Ok (), insertM dst n k)),
     sys_umount = (\<lambda>_. returnS ()),
     sys_open = (\<lambda>_ p k. case names_of_files k p of None \<Rightarrow> (Err ''No such file'', k) | Some n \<Rightarrow> (Ok n, k)),
     sys_close = (\<lambda>_ k. k), sys_setns = (\<lambda>fd k. (Ok fd, k)),
     sys_nl_open = (\<lambda>_. returnS 0), sys_nl_request = (\<lambda>_ _. returnS []), sys_genl_family = (\<lambda>_ _. returnS 0),
     sys_genl_wireguard = (\<lambda>_ _ _ _. returnS ())\<rparr>"

lemma mount_sys_laws: "ns_file_laws mount_sys names_of_files (\<lambda>_. Some)"
  by (auto simp: ns_file_laws_def mount_sys_def names_of_files_def split: option.splits if_splits)

lemma created_namespace_is_host_witness:
  "fst (run_in_namespace mount_sys (ns_path ''sw-web'') (\<lambda>ns k. (ns, k))
     (nl_kernel (snd (create_namespace mount_sys ''sw-web'' \<lparr>nl_backend = Real, nl_kernel = []\<rparr>)))) = Ok 0"
proof -
  let ?s = "\<lparr>nl_backend = Real, nl_kernel = []\<rparr> :: (string \<times> nat) list netlink"
  have "is_ok (fst (create_namespace mount_sys ''sw-web'' ?s))" by code_simp
  then obtain i s' where c: "create_namespace mount_sys ''sw-web'' ?s = (Ok i, s')"
    by (cases "create_namespace mount_sys ''sw-web'' ?s") (auto simp: is_ok_iff)
  have "is_ok (fst (run_in_namespace mount_sys (ns_path ''sw-web'') (\<lambda>ns k. (ns, k))
      (nl_kernel (snd (create_namespace mount_sys ''sw-web'' ?s)))))" by code_simp
  then obtain a k where r: "run_in_namespace mount_sys (ns_path ''sw-web'') (\<lambda>ns k. (ns, k)) (nl_kernel s') = (Ok a, k)"
    unfolding c by (cases "run_in_namespace mount_sys (ns_path ''sw-web'') (\<lambda>ns k. (ns, k)) (nl_kernel s')") (auto simp: is_ok_iff)
  have "a = 0" using created_namespace_is_host [OF mount_sys_laws _ c r] by (simp add: mount_sys_def)
  then show ?thesis using c r by simp
qed

end
