(* ===== verification/Security.thy ===== *)
theory Security
  imports Config "HOL-Library.Word"
begin

text \<open>
  \<^verbatim>\<open>segwire-common/src/security.rs\<close>: the checks of configuration files and directories, of
  paths and of values, with \<^verbatim>\<open>check_file_permissions\<close> and the name helpers of \<^verbatim>\<open>utils.rs\<close>.
  The file system is a parameter: \<open>canon\<close> is \<^verbatim>\<open>canonicalize\<close>, \<open>stat\<close> is \<^verbatim>\<open>metadata\<close>.  A path is
  its text; \<open>components\<close> is \<^verbatim>\<open>Path::components\<close>, on which \<^verbatim>\<open>Path::starts_with\<close> compares.  A file
  mode is a 32-bit word.
\<close>

unbundle bit_operations_syntax

section \<open>Paths\<close>

datatype component = RootDir | CurDir | ParentDir | Normal string

definition is_absolute :: "string \<Rightarrow> bool" where "is_absolute p = starts_with ''/'' p"

definition component_of :: "string \<Rightarrow> component" where
  "component_of s = (if s = ''..'' then ParentDir else Normal s)"

text \<open>Empty parts and \<^verbatim>\<open>.\<close> are dropped, except a \<^verbatim>\<open>.\<close> at the start of a relative path.\<close>

definition components :: "string \<Rightarrow> component list" where
  "components p =
     (let ps = split_char (CHR ''/'') p;
          rest = map component_of (filter (\<lambda>s. s \<noteq> [] \<and> s \<noteq> ''.'') ps)
      in if is_absolute p then RootDir # rest
         else if hd ps = ''.'' then CurDir # rest else rest)"

definition path_starts_with :: "string \<Rightarrow> string \<Rightarrow> bool" where
  "path_starts_with p q = prefix (components q) (components p)"

definition file_name :: "string \<Rightarrow> string option" where
  "file_name p = (case rev (components p) of Normal s # _ \<Rightarrow> Some s | _ \<Rightarrow> None)"

definition extension :: "string \<Rightarrow> string option" where
  "extension p = (case file_name p of None \<Rightarrow> None
     | Some f \<Rightarrow> (case rfind_char (CHR ''.'') f of
           Some i \<Rightarrow> if i = 0 then None else Some (drop (i + 1) f) | None \<Rightarrow> None))"

definition check_path_traversal :: "string \<Rightarrow> (string, unit) res" where
  "check_path_traversal p =
     (if ParentDir \<in> set (components p)
      then Err (''Path contains '' @ quoted ''..'' @ '' component which is not allowed: '' @ p) else Ok ())"

definition sanitize_config_path :: "(string \<Rightarrow> (string, string) res) \<Rightarrow> string \<Rightarrow> string \<Rightarrow> string sres" where
  "sanitize_config_path canon path root =
     (if path = [] then invalid ''Configuration path cannot be empty''
      else if contains_char nul path then invalid ''Configuration path contains null byte''
      else thenR (map_err Validation (check_path_traversal path))
       (let resolved = (if is_absolute path then path else path_join root path) in
        tryR (map_err (\<lambda>e. Validation (''Cannot resolve path: '' @ e)) (canon resolved)) (\<lambda>c.
        tryR (map_err (\<lambda>e. Validation (''Cannot resolve allowed root: '' @ e)) (canon root)) (\<lambda>r.
        if path_starts_with c r then Ok c
        else invalid (''Path '' @ quoted path @ '' resolves to '' @ quoted c @
               '' which is outside allowed directory '' @ quoted r)))))"

lemma parent_component: "ParentDir \<in> set (components p) \<longleftrightarrow> ''..'' \<in> set (split_char (CHR ''/'') p)"
  by (auto simp: components_def Let_def component_of_def split: if_splits)

lemma sanitized_path_iff:
  "sanitize_config_path canon path root = Ok c \<longleftrightarrow>
     path \<noteq> [] \<and> nul \<notin> set path \<and> ''..'' \<notin> set (split_char (CHR ''/'') path) \<and>
     canon (if is_absolute path then path else path_join root path) = Ok c \<and>
     (\<exists>r. canon root = Ok r \<and> prefix (components r) (components c))"
  by (auto simp: sanitize_config_path_def check_path_traversal_def parent_component contains_char_def
      path_starts_with_def Let_def result_simps split: if_splits)

text \<open>
  C18: a configuration path is accepted exactly when it is not empty, has no null byte and no parent
  component, and its canonical form, which is what is returned, lies under the canonical form of the allowed root,
  component by component.
\<close>

lemma sanitize_config_path_iff:
  "sanitize_config_path canon path root = Ok c \<longleftrightarrow>
     path \<noteq> [] \<and> nul \<notin> set path \<and> ''..'' \<notin> set (split_char (CHR ''/'') path) \<and>
     canon (if is_absolute path then path else path_join root path) = Ok c \<and>
     (\<exists>r. canon root = Ok r \<and> prefix (components r) (components c))"
  by (rule sanitized_path_iff)

section \<open>Files and directories\<close>

record security_check_result =
  scr_path :: string
  passed :: bool
  scr_errors :: "string list"
  warnings :: "string list"

record file_metadata =
  md_is_file :: bool
  md_is_dir :: bool
  md_mode :: "32 word"
  md_uid :: nat

definition new_check :: "string \<Rightarrow> security_check_result" where
  "new_check p = \<lparr>scr_path = p, passed = True, scr_errors = [], warnings = []\<rparr>"

definition add_error :: "string \<Rightarrow> security_check_result \<Rightarrow> security_check_result" where
  "add_error m r = r\<lparr>passed := False, scr_errors := scr_errors r @ [m]\<rparr>"

definition add_warning :: "string \<Rightarrow> security_check_result \<Rightarrow> security_check_result" where
  "add_warning m r = r\<lparr>warnings := warnings r @ [m]\<rparr>"

definition show_check :: "security_check_result \<Rightarrow> string" where
  "show_check r = (if passed r then ''PASS: '' else ''FAIL: '') @ scr_path r @
     concat (map (\<lambda>e. newline # ''  error: '' @ e) (scr_errors r)) @
     concat (map (\<lambda>w. newline # ''  warning: '' @ w) (warnings r))"

definition show_digit :: "nat \<Rightarrow> char" where
  "show_digit d = char_of (if d < 10 then 48 + d else 55 + d)"

fun show_base :: "nat \<Rightarrow> nat \<Rightarrow> nat \<Rightarrow> string" where
  "show_base b 0 n = []"
| "show_base b (Suc k) n = (if n < b then [show_digit n] else show_base b k (n div b) @ [show_digit (n mod b)])"

definition pad4 :: "string \<Rightarrow> string" where "pad4 s = replicate (4 - length s) (CHR ''0'') @ s"

text \<open>\<^verbatim>\<open>{:04o}\<close> and \<^verbatim>\<open>{:04X}\<close> of a value of at most 32 bits.\<close>

definition show_oct4 :: "nat \<Rightarrow> string" where "show_oct4 n = pad4 (show_base 8 11 n)"
definition show_hex4 :: "nat \<Rightarrow> string" where "show_hex4 n = pad4 (show_base 16 8 n)"

definition perm_bits :: "32 word \<Rightarrow> 32 word" where "perm_bits m = m AND 0xFFF"

definition add_if :: "bool \<Rightarrow> (security_check_result \<Rightarrow> security_check_result) \<Rightarrow>
    security_check_result \<Rightarrow> security_check_result" where
  "add_if b f r = (if b then f r else r)"

definition check_unix_permissions :: "nat \<Rightarrow> file_metadata \<Rightarrow> string \<Rightarrow> security_check_result \<Rightarrow> security_check_result" where
  "check_unix_permissions euid md path r =
     (let mode = md_mode md; uid = md_uid md; perms = show_oct4 (unat (perm_bits mode));
       r1 = add_if (mode AND 0x2 \<noteq> 0) (add_error (''File is world-writable (mode '' @ perms @
              ''); configuration files must not be writable by all users'')) r;
       r2 = add_if (uid \<noteq> 0 \<and> uid \<noteq> euid) (add_warning (''File '' @ quoted path @
              '' is owned by UID '' @ show_nat uid @ '' (not root, not current user UID '' @
              show_nat euid @ '')'')) r1
      in add_if (perm_bits mode \<notin> {0x1A4, 0x1A0, 0x180}) (add_warning (''File permissions '' @ perms @
              '' are non-standard; recommended: 0644 or 0640'')) r2)"

definition check_config_file_security ::
  "(string \<Rightarrow> (string, string) res) \<Rightarrow> (string \<Rightarrow> (string, file_metadata) res) \<Rightarrow> nat \<Rightarrow> string \<Rightarrow>
   security_check_result" where
  "check_config_file_security canon stat euid path =
     (case canon path of
        Inl e \<Rightarrow> add_error (''Cannot resolve path: '' @ e) (new_check path)
      | Inr c \<Rightarrow>
        (let r1 = (case check_path_traversal path of Inl m \<Rightarrow> add_error m (new_check path)
                   | Inr _ \<Rightarrow> new_check path) in
         case stat c of
           Inl e \<Rightarrow> add_error (''Cannot stat file: '' @ e) r1
         | Inr md \<Rightarrow>
           if \<not> md_is_file md then add_error ''Path is not a regular file'' r1
           else
           (let r2 = add_if (c \<noteq> (case canon path of Inl _ \<Rightarrow> [] | Inr d \<Rightarrow> d))
                       (add_warning ''Path involves symlinks; resolved path may differ'') r1;
                r3 = check_unix_permissions euid md path r2
            in case extension path of
                 Some ext \<Rightarrow> add_if (ext \<noteq> ''toml'')
                   (add_warning (''Expected .toml extension, got .'' @ ext)) r3
               | None \<Rightarrow> add_warning ''File has no extension; expected .toml'' r3)))"

definition check_config_directory_security ::
  "(string \<Rightarrow> bool) \<Rightarrow> (string \<Rightarrow> bool) \<Rightarrow> (string \<Rightarrow> (string, file_metadata) res) \<Rightarrow> string \<Rightarrow>
   security_check_result" where
  "check_config_directory_security ex isdir stat d =
     (if \<not> ex d then add_error ''Directory does not exist'' (new_check d)
      else if \<not> isdir d then add_error ''Path is not a directory'' (new_check d)
      else case stat d of
        Inl _ \<Rightarrow> new_check d
      | Inr md \<Rightarrow>
        (let mode = md_mode md; uid = md_uid md; perms = show_oct4 (unat (perm_bits mode));
           r1 = add_if (mode AND 0x2 \<noteq> 0) (add_error (''Directory is world-writable (mode '' @ perms @
                  ''); this allows anyone to inject configuration files'')) (new_check d);
           r2 = add_if (uid \<noteq> 0) (add_warning (''Directory owned by UID '' @ show_nat uid @
                  '' rather than root (UID 0); consider chown root:root'')) r1
         in add_if (mode AND 0x10 \<noteq> 0) (add_warning (''Directory is group-writable (mode '' @ perms @
                  ''); consider restricting to 755'')) r2))"

text \<open>\<^verbatim>\<open>check_file_permissions\<close> of \<^verbatim>\<open>utils.rs\<close>: an insecure mode is one with bits for group or
  others and no read bit among them.\<close>

definition check_file_permissions :: "(string \<Rightarrow> (string, file_metadata) res) \<Rightarrow> string \<Rightarrow> unit sres" where
  "check_file_permissions stat path =
     tryR (map_err System (stat path)) (\<lambda>md.
     if md_mode md AND 0x3F \<noteq> 0 \<and> md_mode md AND 0x24 = 0
     then invalid (''Configuration file '' @ path @ '' has insecure permissions'') else Ok ())"

definition check_consistent :: "security_check_result \<Rightarrow> bool" where
  "check_consistent r = (passed r \<longleftrightarrow> scr_errors r = [])"

lemma passed_simps [simp]:
  "passed (new_check p)" "\<not> passed (add_error m r)" "passed (add_warning m r) = passed r"
  "passed (add_if b (add_error m) r) \<longleftrightarrow> \<not> b \<and> passed r" "passed (add_if b (add_warning m) r) = passed r"
  "check_consistent (new_check p)" "check_consistent (add_error m r)"
  "check_consistent (add_warning m r) = check_consistent r"
  "check_consistent r \<Longrightarrow> check_consistent (add_if b (add_error m) r)"
  "check_consistent (add_if b (add_warning m) r) = check_consistent r"
  by (simp_all add: new_check_def add_error_def add_warning_def add_if_def check_consistent_def)

lemma check_unix_passed [simp]:
  "passed (check_unix_permissions euid md p r) \<longleftrightarrow> md_mode md AND 0x2 = 0 \<and> passed r"
  "check_consistent r \<Longrightarrow> check_consistent (check_unix_permissions euid md p r)"
  by (auto simp: check_unix_permissions_def Let_def)

text \<open>
  A configuration file passes the security check exactly when its path resolves and has no parent
  component, and what it resolves to is a regular file that is not world writable.
\<close>

lemma config_file_passed_iff:
  "passed (check_config_file_security canon stat euid path) \<longleftrightarrow>
     (\<exists>c md. canon path = Ok c \<and> stat c = Ok md \<and> md_is_file md \<and> md_mode md AND 0x2 = 0 \<and>
        ''..'' \<notin> set (split_char (CHR ''/'') path))"
  by (auto simp: check_config_file_security_def check_path_traversal_def parent_component Let_def
      split: sum.split option.split)

lemma config_file_consistent: "check_consistent (check_config_file_security canon stat euid path)"
  by (auto simp: check_config_file_security_def Let_def split: sum.split option.split)

lemma directory_passed_iff:
  "passed (check_config_directory_security ex isdir stat d) \<longleftrightarrow>
     ex d \<and> isdir d \<and> (\<forall>md. stat d = Ok md \<longrightarrow> md_mode md AND 0x2 = 0)"
  by (auto simp: check_config_directory_security_def Let_def split: sum.split)

section \<open>Values\<close>

definition is_control :: "nat \<Rightarrow> bool" where "is_control n = (n < 32 \<or> (127 \<le> n \<and> n < 160))"

definition max_value_length :: nat where "max_value_length = 4096"

definition sanitize_config_value :: "string \<Rightarrow> string \<Rightarrow> unit sres" where
  "sanitize_config_value v field =
     (if contains_char nul v then invalid (''Field '' @ quoted field @ '' contains null byte'')
      else case find (\<lambda>n. is_control n \<and> n \<noteq> 9 \<and> n \<noteq> 10 \<and> n \<noteq> 13) (chars v) of
        Some n \<Rightarrow> invalid (''Field '' @ quoted field @ '' contains control character U+'' @ show_hex4 n)
      | None \<Rightarrow>
          if length v > max_value_length
          then invalid (''Field '' @ quoted field @ '' exceeds maximum length of '' @
                 show_nat max_value_length @ '' characters ('' @ show_nat (length v) @ '' given)'')
          else Ok ())"

definition sanitize_namespace_name :: "string \<Rightarrow> unit sres" where
  "sanitize_namespace_name name =
     thenR (sanitize_config_value name ''namespace_name'')
    (thenR (failIf (contains_char (CHR ''/'') name \<or> contains_char (CHR 0x5C) name)
       (Validation (''Namespace name '' @ quoted name @ '' contains path separator characters'')))
    (thenR (failIf (starts_with ''.'' name)
       (Validation (''Namespace name '' @ quoted name @ '' starts with a dot, which is not allowed'')))
       (failIf (starts_with ''-'' name)
       (Validation (''Namespace name '' @ quoted name @ '' starts with a hyphen, which is not allowed'')))))"

definition sanitize_interface_name :: "string \<Rightarrow> unit sres" where
  "sanitize_interface_name name =
     thenR (sanitize_config_value name ''interface_name'')
    (thenR (failIf (length name > 15)
       (Validation (''Interface name '' @ quoted name @ '' exceeds Linux maximum of 15 characters'')))
       (failIf (contains_char (CHR ''/'') name \<or> contains_char (CHR '' '') name)
       (Validation (''Interface name '' @ quoted name @ '' contains invalid characters''))))"

lemma sanitize_config_value_iff:
  "sanitize_config_value v f = Ok u \<longleftrightarrow> nul \<notin> set v \<and> length v \<le> 4096 \<and>
     (\<forall>n \<in> set (chars v). is_control n \<longrightarrow> n \<in> {9, 10, 13})"
  by (auto simp: sanitize_config_value_def contains_char_def find_None_iff max_value_length_def
      dest: find_SomeD split: option.split)

lemma graphic_value:
  assumes "list_all (\<lambda>c. 32 \<le> code c \<and> code c < 127) v" "length v \<le> 4096"
  shows "sanitize_config_value v f = Ok ()"
proof -
  have c: "chars v = map code v"
    using assms(1) by (intro chars_ascii) (auto simp: list_all_iff is_ascii_def)
  show ?thesis unfolding sanitize_config_value_iff c
    using assms by (auto simp: list_all_iff is_control_def nul_def code_def)
qed

lemma if_char_graphic: "if_char c \<Longrightarrow> 32 \<le> code c \<and> code c < 127"
  by (auto simp: if_char_def class_defs code_def)

lemma ns_char_if_char: "ns_char c \<Longrightarrow> if_char c"
  by (auto simp: ns_char_def if_char_def)

lemma sanitize_valid_namespace:
  assumes "name_shape s" "length s \<le> 4096"
  shows "sanitize_namespace_name s = Ok ()"
proof -
  obtain c t where s: "s = c # t" using assms by (cases s) (auto simp: name_shape_def)
  have all: "list_all ns_char s" "is_alpha c" using assms s by (auto simp: name_shape_def)
  have "sanitize_config_value s ''namespace_name'' = Ok ()"
    using all(1) assms(2) by (intro graphic_value)
      (auto simp: list_all_iff dest!: ns_char_if_char dest: if_char_graphic)
  moreover have "CHR ''/'' \<notin> set s" "CHR 0x5C \<notin> set s"
    using all(1) by (auto simp: list_all_iff ns_char_def class_defs code_def)
  moreover have "CHR ''.'' \<noteq> c" "CHR ''-'' \<noteq> c" using all(2) by auto
  ultimately show ?thesis using s
    by (simp add: sanitize_namespace_name_def contains_char_def starts_with_def)
qed

lemma sanitize_valid_interface:
  assumes "if_name_ok s"
  shows "sanitize_interface_name s = Ok ()"
proof -
  have all: "list_all if_char s" "length s \<le> 15" using assms by (auto simp: if_name_ok_def)
  have "sanitize_config_value s ''interface_name'' = Ok ()"
    using all by (intro graphic_value) (auto simp: list_all_iff dest: if_char_graphic)
  moreover have "CHR ''/'' \<notin> set s" "CHR '' '' \<notin> set s"
    using all(1) if_char_neq unfolding list_all_iff by blast+
  ultimately show ?thesis using all(2)
    by (simp add: sanitize_interface_name_def contains_char_def)
qed

section \<open>Prefixed names\<close>

definition generate_full_namespace_name :: "string \<Rightarrow> string \<Rightarrow> string" where
  "generate_full_namespace_name pre name = pre @ ''-'' @ name"

definition extract_namespace_name :: "string \<Rightarrow> string \<Rightarrow> string option" where
  "extract_namespace_name pre full =
     (let e = pre @ ''-'' in if starts_with e full then Some (drop (length e) full) else None)"

definition namespace_matches_prefix :: "string \<Rightarrow> string \<Rightarrow> bool" where
  "namespace_matches_prefix pre full = starts_with (pre @ ''-'') full"

lemma extract_iff: "extract_namespace_name pre full = Some name \<longleftrightarrow> full = generate_full_namespace_name pre name"
  by (auto simp: extract_namespace_name_def generate_full_namespace_name_def starts_with_def Let_def prefix_def)

lemma matches_iff: "namespace_matches_prefix pre full \<longleftrightarrow> (\<exists>name. full = generate_full_namespace_name pre name)"
  by (auto simp: namespace_matches_prefix_def generate_full_namespace_name_def starts_with_def prefix_def)

lemma full_name_shape: "name_shape p \<Longrightarrow> name_shape n \<Longrightarrow> name_shape (generate_full_namespace_name p n)"
  by (cases p) (auto simp: generate_full_namespace_name_def name_shape_def ns_char_def)

lemma full_name_inj [simp]:
  "generate_full_namespace_name p n = generate_full_namespace_name p m \<longleftrightarrow> n = m"
  by (simp add: generate_full_namespace_name_def)

section \<open>Properties\<close>

text \<open>
  The two layers of name checks agree: a name that configuration validation accepts passes the
  sanitizer of its kind.
\<close>

lemma validated_names_sanitized:
  "(validate_namespace_name n = Ok () \<longrightarrow> sanitize_namespace_name n = Ok ()) \<and>
   (validate_interface_name i = Ok () \<longrightarrow> sanitize_interface_name i = Ok ())"
  by (simp add: validate_simps sanitize_valid_namespace sanitize_valid_interface)

lemma validated_names_sanitized_witness:
  "sanitize_namespace_name ''web-1'' = Ok () \<and> sanitize_interface_name ''eth_0'' = Ok ()"
proof -
  have "validate_namespace_name ''web-1'' = Ok ()" "validate_interface_name ''eth_0'' = Ok ()" by code_simp+
  then show ?thesis using validated_names_sanitized [of "''web-1''" "''eth_0''"] by blast
qed

end
