(* ===== verification/ConfigManager.thy ===== *)
theory ConfigManager
  imports Security
begin

text \<open>
  The configuration manager of \<^verbatim>\<open>segwire-daemon/src/config.rs\<close>: which namespaces this daemon
  manages and under which name, loading and scanning the configuration directory, the handling
  of a file event, and the inotify watcher with its debouncing.  What the file system, the
  environment and the parsers answer is the record \<open>config_io\<close>, read once per operation.  An
  operation on \<^verbatim>\<open>&mut self\<close> returns the new manager with its result.
\<close>

record config_io =
  cio_read :: "string \<Rightarrow> string option"
  cio_meta :: "string \<Rightarrow> (string, nat) res option"
  cio_exists :: "string \<Rightarrow> bool"
  cio_is_file :: "string \<Rightarrow> bool"
  cio_dir :: "string \<Rightarrow> (string, (string, string) res list) res"
  cio_toml_ns :: "namespace_config toml"
  cio_toml_daemon :: "daemon_config toml"
  cio_b64 :: base64
  cio_env :: env

text \<open>\<open>cio_meta p\<close> is \<open>None\<close> when \<^verbatim>\<open>metadata\<close> fails, else what \<^verbatim>\<open>modified\<close> gives.\<close>

record config_entry =
  ce_config :: namespace_config
  file_path :: string
  full_name :: string
  last_modified :: nat

record config_manager =
  daemon_config :: daemon_config
  config_file_path :: string
  namespace_configs :: "(string \<times> config_entry) list"

section \<open>Names\<close>

definition prefix_of :: "config_manager \<Rightarrow> string" where
  "prefix_of cm = namespace_prefix (daemon (daemon_config cm))"

definition config_directory :: "config_manager \<Rightarrow> string" where
  "config_directory cm = config_dir (daemon (daemon_config cm))"

abbreviation dbus_service_name :: "config_manager \<Rightarrow> string" where
  "dbus_service_name cm \<equiv> service_name (dbus (daemon_config cm))"

definition get_namespace_config :: "config_manager \<Rightarrow> string \<Rightarrow> config_entry option" where
  "get_namespace_config cm n = map_of (namespace_configs cm) n"

definition should_cleanup_on_shutdown :: "config_manager \<Rightarrow> bool" where
  "should_cleanup_on_shutdown cm = cleanup_on_shutdown (daemon (daemon_config cm))"

definition matches_prefix :: "string \<Rightarrow> string \<Rightarrow> bool" where
  "matches_prefix pre name =
     (if starts_with pre name
      then if length name = length pre then True
           else let r = drop (length pre) name in starts_with ''-'' r \<or> starts_with ''_'' r
      else False)"

definition full_name_for :: "string \<Rightarrow> string \<Rightarrow> string" where
  "full_name_for pre name = (if matches_prefix pre name then name else pre @ ''-'' @ name)"

text \<open>A name with a separator must carry the prefix; one without gets it.\<close>

definition should_manage :: "string \<Rightarrow> string \<Rightarrow> bool" where
  "should_manage pre name =
     (if contains_char (CHR ''-'') name \<or> contains_char (CHR ''_'') name
      then matches_prefix pre name else True)"

definition matches_namespace_prefix_cm :: "config_manager \<Rightarrow> string \<Rightarrow> bool" where
  "matches_namespace_prefix_cm cm n = matches_prefix (prefix_of cm) n"

definition generate_full_name_cm :: "config_manager \<Rightarrow> string \<Rightarrow> string" where
  "generate_full_name_cm cm n = full_name_for (prefix_of cm) n"

lemma matches_prefix_iff:
  "matches_prefix pre name \<longleftrightarrow> name = pre \<or> (\<exists>r. name = pre @ ''-'' @ r) \<or> (\<exists>r. name = pre @ ''_'' @ r)"
  by (auto simp: matches_prefix_def starts_with_def Let_def prefix_def)

lemma matches_full_name [simp]: "matches_prefix pre (full_name_for pre name)"
  by (auto simp: full_name_for_def matches_prefix_iff)

lemma full_name_idem [simp]: "full_name_for pre (full_name_for pre name) = full_name_for pre name"
  by (simp add: full_name_for_def [of pre "full_name_for pre name"])

lemma full_name_for_shape: "name_shape pre \<Longrightarrow> name_shape name \<Longrightarrow> name_shape (full_name_for pre name)"
  using full_name_shape [of pre name] by (auto simp: full_name_for_def generate_full_namespace_name_def)

lemma full_name_for_length: "length (full_name_for pre name) \<le> length pre + 1 + length name"
  by (simp add: full_name_for_def)

text \<open>
  Two managed names that give the same full name are equal, except that \<open>n\<close> and the prefixed
  \<open>pre-n\<close> both give \<open>pre-n\<close>.
\<close>

text \<open>
  Two namespace names get the same full name only when one is the prefixed form of the other.
\<close>

lemma full_name_collision:
  assumes "full_name_for pre a = full_name_for pre b" "a \<noteq> b"
  shows "a = pre @ ''-'' @ b \<or> b = pre @ ''-'' @ a"
  using assms by (auto simp: full_name_for_def split: if_splits)

section \<open>Loading\<close>

definition load_namespace_config :: "config_io \<Rightarrow> string \<Rightarrow> string \<Rightarrow> config_entry option sres" where
  "load_namespace_config io pre path =
     tryR (ok_or (Config (FileNotFound path)) (cio_meta io path)) (\<lambda>m.
     tryR (map_err (\<lambda>e. Config (InvalidValue ''file_metadata'' (''Cannot get modification time: '' @ e))) m) (\<lambda>t.
     tryR (namespace_config_from_file (cio_b64 io) (cio_toml_ns io) (cio_read io) (cio_env io) path) (\<lambda>c.
     if \<not> should_manage pre (ns_name (namespace c)) then Ok None
     else Ok (Some \<lparr>ce_config = c, file_path = path, full_name = full_name_for pre (ns_name (namespace c)),
                    last_modified = t\<rparr>))))"

definition load_master_config :: "config_io \<Rightarrow> string \<Rightarrow> daemon_config sres" where
  "load_master_config io path =
     thenR (failIf (\<not> cio_exists io path \<or> cio_meta io path = None) (Config (FileNotFound path)))
    (tryR (daemon_config_from_file (cio_toml_daemon io) (cio_read io) (cio_exists io) path) (\<lambda>c.
     thenR (failIf (\<not> cio_exists io (config_dir (daemon c)))
        (Config (InvalidValue ''daemon.config_dir'' (config_dir (daemon c)))))
    (tryR (map_err (\<lambda>e. Config (InvalidValue ''daemon.config_dir'' (''Directory not readable: '' @ e)))
        (cio_dir io (config_dir (daemon c)))) (\<lambda>_. Ok c))))"

definition manager_new :: "config_io \<Rightarrow> string \<Rightarrow> config_manager sres" where
  "manager_new io path = tryR (load_master_config io path) (\<lambda>c.
     Ok \<lparr>daemon_config = c, config_file_path = path, namespace_configs = []\<rparr>)"

definition manager_from_config :: "daemon_config \<Rightarrow> string \<Rightarrow> config_manager" where
  "manager_from_config c path = \<lparr>daemon_config = c, config_file_path = path, namespace_configs = []\<rparr>"

text \<open>The scan: a directory entry that cannot be read ends it, a file that cannot be loaded does not.\<close>

fun scan_entries :: "config_io \<Rightarrow> string \<Rightarrow> (string, string) res list \<Rightarrow> string list \<Rightarrow>
    (string \<times> config_entry) list \<Rightarrow> (string list \<times> (string \<times> config_entry) list) sres" where
  "scan_entries io pre [] names m = Ok (names, m)"
| "scan_entries io pre (Inl e # es) names m =
     config_err (InvalidValue ''config_dir'' (''Cannot read directory entry: '' @ e))"
| "scan_entries io pre (Inr path # es) names m =
     (if \<not> cio_is_file io path \<or> extension path \<noteq> Some ''toml'' then scan_entries io pre es names m
      else case load_namespace_config io pre path of
        Inr (Some e) \<Rightarrow> scan_entries io pre es (names @ [full_name e]) (insertM (full_name e) e m)
      | Inr None \<Rightarrow> scan_entries io pre es names m
      | Inl _ \<Rightarrow> scan_entries io pre es names m)"

definition scan_namespace_configs :: "config_io \<Rightarrow> config_manager \<Rightarrow> config_manager \<times> string list sres" where
  "scan_namespace_configs io cm =
     (case cio_dir io (config_directory cm) of
        Inl e \<Rightarrow> (cm, config_err (InvalidValue ''config_dir'' (''Cannot read directory: '' @ e)))
      | Inr es \<Rightarrow>
        (case scan_entries io (prefix_of cm) es [] [] of
           Inl e \<Rightarrow> (cm, Inl e)
         | Inr (names, m) \<Rightarrow> (cm\<lparr>namespace_configs := m\<rparr>, Ok names)))"

definition reload_namespace_config ::
  "config_io \<Rightarrow> string \<Rightarrow> config_manager \<Rightarrow> config_manager \<times> string option sres" where
  "reload_namespace_config io path cm =
     (case load_namespace_config io (prefix_of cm) path of
        Inl e \<Rightarrow> (cm, Inl e)
      | Inr None \<Rightarrow> (cm, Ok None)
      | Inr (Some e) \<Rightarrow>
          (cm\<lparr>namespace_configs := insertM (full_name e) e (namespace_configs cm)\<rparr>, Ok (Some (full_name e))))"

definition reload_master_config :: "config_io \<Rightarrow> config_manager \<Rightarrow> config_manager \<times> unit sres" where
  "reload_master_config io cm =
     (case load_master_config io (config_file_path cm) of
        Inl e \<Rightarrow> (cm, Inl e)
      | Inr c \<Rightarrow> (cm\<lparr>daemon_config := c\<rparr>, Ok ()))"

text \<open>\<^verbatim>\<open>PathBuf\<close> equality compares components.\<close>

definition same_path :: "string \<Rightarrow> string \<Rightarrow> bool" where
  "same_path p q = (components p = components q)"

text \<open>\<^verbatim>\<open>retain\<close> visits the entries in map order; the last one dropped names the result.\<close>

definition remove_namespace_config :: "string \<Rightarrow> config_manager \<Rightarrow> config_manager \<times> string option" where
  "remove_namespace_config path cm =
     (let gone = filter (\<lambda>(n, e). same_path (file_path e) path) (namespace_configs cm) in
      (cm\<lparr>namespace_configs := filter (\<lambda>(n, e). \<not> same_path (file_path e) path) (namespace_configs cm)\<rparr>,
       if gone = [] then None else Some (fst (last gone))))"

datatype config_file_event = FileCreated string | FileModified string | FileDeleted string

definition names_of :: "string option sres \<Rightarrow> string list sres" where
  "names_of r = tryR r (\<lambda>n. Ok (case n of Some x \<Rightarrow> [x] | None \<Rightarrow> []))"

fun handle_file_event ::
  "config_io \<Rightarrow> config_file_event \<Rightarrow> config_manager \<Rightarrow> config_manager \<times> string list sres" where
  "handle_file_event io (FileCreated path) cm = apsnd names_of (reload_namespace_config io path cm)"
| "handle_file_event io (FileModified path) cm =
     (if same_path path (config_file_path cm)
      then case reload_master_config io cm of
             (cm', Inl e) \<Rightarrow> (cm', Inl e)
           | (cm', Inr _) \<Rightarrow> scan_namespace_configs io cm'
      else apsnd names_of (reload_namespace_config io path cm))"
| "handle_file_event io (FileDeleted path) cm =
     (case remove_namespace_config path cm of
        (cm', n) \<Rightarrow> (cm', Ok (case n of Some x \<Rightarrow> [x] | None \<Rightarrow> [])))"

section \<open>The manager's invariant\<close>

definition entry_ok :: "base64 \<Rightarrow> string \<Rightarrow> config_entry \<Rightarrow> bool" where
  "entry_ok b64 pre e =
     (namespace_config_ok b64 (ce_config e) \<and> should_manage pre (ns_name (namespace (ce_config e))) \<and>
      full_name e = full_name_for pre (ns_name (namespace (ce_config e))))"

definition configs_ok :: "base64 \<Rightarrow> string \<Rightarrow> (string \<times> config_entry) list \<Rightarrow> bool" where
  "configs_ok b64 pre m =
     (distinct (keys m) \<and> (\<forall>(k, e) \<in> set m. k = full_name e \<and> entry_ok b64 pre e))"

definition manager_ok :: "base64 \<Rightarrow> config_manager \<Rightarrow> bool" where
  "manager_ok b64 cm = configs_ok b64 (prefix_of cm) (namespace_configs cm)"

lemma load_entry_ok:
  "load_namespace_config io pre path = Ok (Some e) \<Longrightarrow> entry_ok (cio_b64 io) pre e \<and> file_path e = path"
  by (auto simp: load_namespace_config_def result_simps entry_ok_def dest: from_file_ok split: if_splits)

lemma configs_ok_Nil [simp]: "configs_ok b64 pre []"
  by (simp add: configs_ok_def)

lemma configs_ok_insert:
  "configs_ok b64 pre m \<Longrightarrow> entry_ok b64 pre e \<Longrightarrow> configs_ok b64 pre (insertM (full_name e) e m)"
  by (auto simp: configs_ok_def set_insertM)

lemma configs_ok_filter: "configs_ok b64 pre m \<Longrightarrow> configs_ok b64 pre (filter P m)"
  by (auto simp: configs_ok_def distinct_map_filter)

lemma scan_entries_ok:
  "scan_entries io pre es names m = Ok (names', m') \<Longrightarrow> configs_ok (cio_b64 io) pre m \<Longrightarrow>
   configs_ok (cio_b64 io) pre m'"
  by (induction io pre es names m rule: scan_entries.induct)
     (auto split: if_splits sum.splits option.splits intro: configs_ok_insert dest: load_entry_ok)

lemma scan_entries_names:
  "scan_entries io pre es names m = Ok (names', m') \<Longrightarrow> set names = set (keys m) \<Longrightarrow>
   set names' = set (keys m')"
  by (induction io pre es names m rule: scan_entries.induct)
     (auto split: if_splits sum.splits option.splits)

lemma scan_ok:
  assumes "scan_namespace_configs io cm = (cm', Ok names)"
  shows "manager_ok (cio_b64 io) cm' \<and> set names = set (keys (namespace_configs cm')) \<and> prefix_of cm' = prefix_of cm"
proof -
  obtain es m where m: "scan_entries io (prefix_of cm) es [] [] = Ok (names, m)"
    "cm' = cm\<lparr>namespace_configs := m\<rparr>"
    using assms by (auto simp: scan_namespace_configs_def split: sum.splits)
  then show ?thesis using scan_entries_ok [OF m(1)] scan_entries_names [OF m(1)]
    by (simp add: manager_ok_def prefix_of_def)
qed

lemma reload_ok:
  "manager_ok (cio_b64 io) cm \<Longrightarrow> manager_ok (cio_b64 io) (fst (reload_namespace_config io path cm))"
  using load_entry_ok [of io "prefix_of cm" path]
  by (auto simp: reload_namespace_config_def manager_ok_def prefix_of_def intro!: configs_ok_insert
      split: sum.split option.split)

lemma remove_ok:
  "manager_ok b64 cm \<Longrightarrow> manager_ok b64 (fst (remove_namespace_config path cm))"
  by (simp add: remove_namespace_config_def manager_ok_def Let_def configs_ok_filter prefix_of_def)

lemma reload_result:
  assumes "reload_namespace_config io path cm = (cm', Ok (Some n))"
  shows "\<exists>e. map_of (namespace_configs cm') n = Some e \<and> file_path e = path \<and> full_name e = n"
  using assms load_entry_ok [of io "prefix_of cm" path]
  by (auto simp: reload_namespace_config_def split: sum.splits option.splits)

text \<open>
  A file event that succeeds keeps the manager's invariant: every entry is a valid configuration
  of a namespace this daemon manages, keyed by its own full name under the prefix, no name twice.
\<close>

lemma handle_file_event_ok:
  assumes "manager_ok (cio_b64 io) cm" "handle_file_event io ev cm = (cm', Ok names)"
  shows "manager_ok (cio_b64 io) cm'"
proof (cases ev)
  case (FileCreated path)
  then show ?thesis using assms reload_ok [OF assms(1), of path]
    by (cases "reload_namespace_config io path cm") auto
next
  case (FileModified path)
  then show ?thesis using assms reload_ok [OF assms(1), of path] scan_ok [of io]
    by (cases "reload_namespace_config io path cm")
       (auto split: if_splits prod.splits sum.splits)
next
  case (FileDeleted path)
  then show ?thesis using assms remove_ok [OF assms(1), of path]
    by (cases "remove_namespace_config path cm") auto
qed

text \<open>A failed event leaves the table of configurations as it was.\<close>

lemma handle_file_event_error:
  assumes "handle_file_event io ev cm = (cm', Inl e)"
  shows "namespace_configs cm' = namespace_configs cm"
proof (cases ev)
  case (FileCreated path)
  with assms show ?thesis
    by (auto simp: reload_namespace_config_def names_of_def split: sum.splits option.splits)
next
  case (FileModified path)
  with assms show ?thesis
    by (auto simp: reload_namespace_config_def reload_master_config_def scan_namespace_configs_def names_of_def
        split: sum.splits option.splits if_splits prod.splits)
next
  case (FileDeleted path)
  with assms show ?thesis by (auto split: prod.splits)
qed

lemma remove_gone:
  assumes "remove_namespace_config path cm = (cm', r)"
  shows "set (namespace_configs cm') = {(n, e) \<in> set (namespace_configs cm). \<not> same_path (file_path e) path}"
    "r = None \<longleftrightarrow> namespace_configs cm' = namespace_configs cm"
    "r = Some n \<Longrightarrow> \<exists>e. (n, e) \<in> set (namespace_configs cm) \<and> same_path (file_path e) path"
proof -
  let ?P = "\<lambda>(n, e). same_path (file_path e) path"
  have cm': "namespace_configs cm' = filter (\<lambda>(n, e). \<not> same_path (file_path e) path) (namespace_configs cm)"
    and r: "r = (if filter ?P (namespace_configs cm) = [] then None
      else Some (fst (last (filter ?P (namespace_configs cm)))))"
    using assms by (auto simp: remove_namespace_config_def Let_def)
  show "set (namespace_configs cm') = {(n, e) \<in> set (namespace_configs cm). \<not> same_path (file_path e) path}"
    using cm' by auto
  show "r = None \<longleftrightarrow> namespace_configs cm' = namespace_configs cm"
    unfolding r cm' filter_id_conv by (auto simp: filter_empty_conv)
  assume "r = Some n"
  then have ne: "filter ?P (namespace_configs cm) \<noteq> []" and n: "n = fst (last (filter ?P (namespace_configs cm)))"
    using r by (auto split: if_splits)
  obtain e where e: "last (filter ?P (namespace_configs cm)) = (n, e)" using n by (metis prod.collapse)
  have "(n, e) \<in> set (filter ?P (namespace_configs cm))"
    using last_in_set [OF ne] e by simp
  then show "\<exists>e. (n, e) \<in> set (namespace_configs cm) \<and> same_path (file_path e) path"
    by auto
qed

text \<open>
  A file that changes its namespace's name keeps the entry of the old name: reloading only
  inserts under the new one.
\<close>

text \<open>
  When a file now names another namespace, reloading it keeps the entry of the old name, which
  then has no file that defines it.
\<close>

lemma reload_keeps_old_name:
  assumes "reload_namespace_config io path cm = (cm', Ok (Some n))" "map_of (namespace_configs cm) k = Some e" "k \<noteq> n"
  shows "map_of (namespace_configs cm') k = Some e"
  using assms by (auto simp: reload_namespace_config_def split: sum.splits option.splits)

section \<open>Sequences of events\<close>

text \<open>
  The monitoring thread handles the events one after the other and goes on after an error; each
  event sees the file system of its time.
\<close>

fun run_file_events :: "(config_io \<times> config_file_event) list \<Rightarrow> config_manager \<Rightarrow> config_manager" where
  "run_file_events [] cm = cm"
| "run_file_events ((io, ev) # evs) cm = run_file_events evs (fst (handle_file_event io ev cm))"

definition entries_ok :: "base64 \<Rightarrow> (string \<times> config_entry) list \<Rightarrow> bool" where
  "entries_ok b64 m = (distinct (keys m) \<and> (\<forall>(k, e) \<in> set m. k = full_name e \<and> (\<exists>pre. entry_ok b64 pre e)))"

lemma entries_ok_insert:
  "entries_ok b64 m \<Longrightarrow> entry_ok b64 pre e \<Longrightarrow> entries_ok b64 (insertM (full_name e) e m)"
  by (auto simp: entries_ok_def set_insertM)

lemma configs_entries_ok: "configs_ok b64 pre m \<Longrightarrow> entries_ok b64 m"
  by (auto simp: configs_ok_def entries_ok_def)

lemma reload_entries_ok:
  "entries_ok (cio_b64 io) (namespace_configs cm) \<Longrightarrow>
   entries_ok (cio_b64 io) (namespace_configs (fst (reload_namespace_config io path cm)))"
  using load_entry_ok [of io "prefix_of cm" path]
  by (auto simp: reload_namespace_config_def intro!: entries_ok_insert split: sum.split option.split)

text \<open>Any event, failed or not, keeps the table keyed by the full names of valid configurations.\<close>

lemma handle_entries_ok:
  assumes "entries_ok (cio_b64 io) (namespace_configs cm)"
  shows "entries_ok (cio_b64 io) (namespace_configs (fst (handle_file_event io ev cm)))"
proof (cases "handle_file_event io ev cm")
  case (Pair cm' r)
  show ?thesis
  proof (cases r)
    case (Inl e)
    then show ?thesis using assms handle_file_event_error [of io ev cm cm' e] Pair by simp
  next
    case (Inr names)
    show ?thesis
    proof (cases ev)
      case (FileCreated path)
      then show ?thesis using reload_entries_ok [OF assms, of path] by simp
    next
      case (FileModified path)
      show ?thesis
      proof (cases "same_path path (config_file_path cm)")
        case True
        obtain cm1 u where m: "reload_master_config io cm = (cm1, u)" by force
        then have "scan_namespace_configs io cm1 = (cm', Ok names)"
          using Pair Inr FileModified True by (cases u) simp_all
        then have "configs_ok (cio_b64 io) (prefix_of cm') (namespace_configs cm')"
          using scan_ok manager_ok_def by blast
        then show ?thesis using Pair configs_entries_ok by simp
      next
        case False
        then show ?thesis using FileModified reload_entries_ok [OF assms, of path] by simp
      qed
    next
      case (FileDeleted path)
      then have "namespace_configs cm' = filter (\<lambda>(n, e). \<not> same_path (file_path e) path) (namespace_configs cm)"
        using Pair by (auto simp: remove_namespace_config_def Let_def)
      then show ?thesis using assms Pair by (auto simp: entries_ok_def distinct_map_filter)
    qed
  qed
qed

text \<open>
  C11: over any sequence of file events, failed ones included and whatever the file system answers at
  each, the table stays keyed by the full names of valid configurations, each name once.
\<close>

lemma run_entries_ok:
  "entries_ok b64 (namespace_configs cm) \<Longrightarrow> (\<forall>(io, ev) \<in> set evs. cio_b64 io = b64) \<Longrightarrow>
   entries_ok b64 (namespace_configs (run_file_events evs cm))"
proof (induction evs cm rule: run_file_events.induct)
  case (2 io ev evs cm)
  then show ?case using handle_entries_ok [of io cm ev] by auto
qed simp

section \<open>The inotify watcher\<close>

text \<open>
  One raw event: the flags of its mask that the watcher tests, and its name, \<open>None\<close> when there
  is none, \<open>Some None\<close> when it is not UTF-8.  An \<^verbatim>\<open>Instant\<close> is a number of nanoseconds;
  \<^verbatim>\<open>duration_since\<close> saturates at zero, as subtraction on natural numbers does.
\<close>

datatype event_flag = CREATE | MODIFY | DELETE | MOVED_FROM | MOVED_TO | CLOSE_WRITE

record raw_event =
  re_mask :: "event_flag list"
  re_name :: "string option option"

definition classify :: "event_flag list \<Rightarrow> string \<Rightarrow> config_file_event option" where
  "classify msk path =
     (if CREATE \<in> set msk \<or> MOVED_TO \<in> set msk then Some (FileCreated path)
      else if MODIFY \<in> set msk \<or> CLOSE_WRITE \<in> set msk then Some (FileModified path)
      else if DELETE \<in> set msk \<or> MOVED_FROM \<in> set msk then Some (FileDeleted path)
      else None)"

definition toml_name :: "raw_event \<Rightarrow> string option" where
  "toml_name ev = (case re_name ev of
     Some (Some n) \<Rightarrow> if ends_with ''.toml'' n then Some n else None | _ \<Rightarrow> None)"

definition debounced :: "nat \<Rightarrow> nat \<Rightarrow> string \<Rightarrow> (string \<times> nat) list \<Rightarrow> bool" where
  "debounced d now path last_events =
     (case map_of last_events path of Some t \<Rightarrow> now - t < d | None \<Rightarrow> False)"

definition prune :: "nat \<Rightarrow> nat \<Rightarrow> (string \<times> nat) list \<Rightarrow> (string \<times> nat) list" where
  "prune d now m = filter (\<lambda>(p, t). now - t < d * 10) m"

text \<open>
  \<open>watch_event\<close> gives the table of last events and the event to send, if any;
  \<open>watch_events\<close> runs the loop over events with the time each is handled at and collects what
  is sent, with the times.  The receiver is alive; when it is gone the loop returns.
\<close>

definition watch_event ::
  "string \<Rightarrow> nat \<Rightarrow> nat \<Rightarrow> raw_event \<Rightarrow> (string \<times> nat) list \<Rightarrow>
   (string \<times> nat) list \<times> config_file_event option" where
  "watch_event dir d now ev m =
     (case toml_name ev of
        None \<Rightarrow> (m, None)
      | Some n \<Rightarrow>
        let path = path_join dir n in
        if debounced d now path m then (m, None)
        else (prune d now (insertM path now m), classify (re_mask ev) path))"

fun watch_events :: "string \<Rightarrow> nat \<Rightarrow> (nat \<times> raw_event) list \<Rightarrow> (string \<times> nat) list \<Rightarrow>
    (nat \<times> config_file_event) list" where
  "watch_events dir d [] m = []"
| "watch_events dir d ((now, ev) # evs) m =
     (case watch_event dir d now ev m of
        (m', r) \<Rightarrow> (case r of Some e \<Rightarrow> [(now, e)] | None \<Rightarrow> []) @ watch_events dir d evs m')"

definition debounce_ns :: nat where "debounce_ns = 1000000000"

fun event_path :: "config_file_event \<Rightarrow> string" where
  "event_path (FileCreated p) = p" | "event_path (FileModified p) = p" | "event_path (FileDeleted p) = p"

lemma classify_path: "classify msk path = Some e \<Longrightarrow> event_path e = path"
  by (auto simp: classify_def split: if_splits)

text \<open>What is sent later about a path the table has is at least the debounce window after it.\<close>

lemma map_of_filter_const:
  "distinct (keys m) \<Longrightarrow> map_of (filter (\<lambda>(p, t). P t) m) k =
     (case map_of m k of Some t \<Rightarrow> if P t then Some t else None | None \<Rightarrow> None)"
  by (induction m) (auto split: option.split simp: map_of_eq_None_iff rev_image_eqI dest: map_of_SomeD)

lemma map_of_prune: "distinct (keys m) \<Longrightarrow> map_of (prune d now m) k =
     (case map_of m k of Some t \<Rightarrow> if now - t < d * 10 then Some t else None | None \<Rightarrow> None)"
  unfolding prune_def by (rule map_of_filter_const)

lemma distinct_prune: "distinct (keys m) \<Longrightarrow> distinct (keys (prune d now m))"
  by (simp add: prune_def distinct_map_filter)

lemma watch_time: "(t, e) \<in> set (watch_events dir d evs m) \<Longrightarrow> t \<in> fst ` set evs"
  by (induction dir d evs m rule: watch_events.induct) (auto split: prod.splits option.splits)

lemma watch_later:
  assumes "sorted (map fst evs)" "distinct (keys m)"
    and "\<forall>(t, ev) \<in> set evs. t0 \<le> t"
    and "map_of m p = Some t1 \<and> t1 \<le> t0 \<or> map_of m p = None \<and> t1 + d \<le> t0"
    and "(t2, e) \<in> set (watch_events dir d evs m)" "event_path e = p"
  shows "t1 + d \<le> t2"
  using assms
proof (induction evs arbitrary: m t0)
  case (Cons x evs)
  obtain now ev where x: "x = (now, ev)" by force
  obtain m' r where w: "watch_event dir d now ev m = (m', r)" by force
  have le: "t0 \<le> now" "\<forall>(t, ev) \<in> set evs. now \<le> t" "sorted (map fst evs)"
    using Cons.prems(1,3) by (auto simp: x)
  show ?case
  proof (cases "toml_name ev")
    case None
    then have "m' = m" "r = None" using w by (auto simp: watch_event_def)
    then show ?thesis using Cons.IH [of m t0] Cons.prems w le by (auto simp: x)
  next
    case (Some n)
    let ?q = "path_join dir n"
    show ?thesis
    proof (cases "debounced d now ?q m")
      case True
      then have "m' = m" "r = None" using w Some by (auto simp: watch_event_def)
      then show ?thesis using Cons.IH [of m t0] Cons.prems w le by (auto simp: x)
    next
      case False
      then have m': "m' = prune d now (insertM ?q now m)" "r = classify (re_mask ev) ?q"
        using w Some by (auto simp: watch_event_def Let_def)
      have dist: "distinct (keys m')" using Cons.prems(2) by (simp add: m' distinct_prune)
      have gap: "t1 + d \<le> now" if "?q = p"
        using False that Cons.prems(4) le(1) by (auto simp: debounced_def)
      show ?thesis
      proof (cases "(t2, e) \<in> set (watch_events dir d evs m')")
        case False
        then have "t2 = now" "?q = p"
          using Cons.prems(5,6) w m' classify_path [of "re_mask ev" ?q e] by (auto simp: x split: option.splits)
        then show ?thesis using gap by simp
      next
        case True
        show ?thesis
        proof (cases "?q = p")
          case True
          then show ?thesis using gap \<open>(t2, e) \<in> set (watch_events dir d evs m')\<close>
            watch_time [of t2 e dir d evs m'] le by auto
        next
          case neq: False
          have "map_of m' p = Some t1 \<and> t1 \<le> now \<or> map_of m' p = None \<and> t1 + d \<le> now"
          proof (cases "map_of m p")
            case None
            then show ?thesis using Cons.prems(2,4) le(1) neq by (simp add: m' map_of_prune)
          next
            case (Some t)
            then show ?thesis using Cons.prems(2,4) le(1) neq by (auto simp: m' map_of_prune)
          qed
          then show ?thesis using Cons.IH [of m' now] le dist True Cons.prems(6) by auto
        qed
      qed
    qed
  qed
qed simp

text \<open>Two events about one path are sent at least the debounce window apart.\<close>

lemma watch_gap_step:
  assumes "watch_event dir d now ev m = (m', Some e)" "distinct (keys m)" "0 < d"
  shows "map_of m' (event_path e) = Some now \<and> distinct (keys m')"
  using assms classify_path
  by (auto simp: watch_event_def Let_def map_of_prune distinct_prune split: option.splits if_splits)

lemma watch_distinct: "watch_event dir d now ev m = (m', r) \<Longrightarrow> distinct (keys m) \<Longrightarrow> distinct (keys m')"
  by (auto simp: watch_event_def Let_def distinct_prune split: option.splits if_splits)

text \<open>
  Events the watcher sends about one path are at least the debounce window apart.
\<close>

lemma watch_spaced:
  assumes "sorted (map fst evs)" "distinct (keys m)" "0 < d"
  shows "sorted_wrt (\<lambda>(t1, e1) (t2, e2). event_path e1 = event_path e2 \<longrightarrow> t1 + d \<le> t2) (watch_events dir d evs m)"
  using assms
proof (induction evs arbitrary: m)
  case (Cons x evs)
  obtain now ev where x: "x = (now, ev)" by force
  obtain m' r where w: "watch_event dir d now ev m = (m', r)" by force
  have m': "distinct (keys m')" using watch_distinct [OF w Cons.prems(2)] .
  have le: "\<forall>(t, ev) \<in> set evs. now \<le> t" "sorted (map fst evs)" using Cons.prems(1) by (auto simp: x)
  note IH = Cons.IH [OF le(2) m' Cons.prems(3)]
  show ?case
  proof (cases r)
    case None
    then show ?thesis using IH w by (simp add: x)
  next
    case (Some e)
    have "map_of m' (event_path e) = Some now"
      using watch_gap_step [of dir d now ev m m' e] w Some Cons.prems(2,3) by simp
    then have "now + d \<le> t2" if "(t2, e2) \<in> set (watch_events dir d evs m')" "event_path e2 = event_path e" for t2 e2
      using watch_later [OF le(2) m' le(1), of "event_path e" now d t2 e2 dir] that by blast
    then show ?thesis using IH w Some by (auto simp: x)
  qed
qed simp

text \<open>
  Inside the window of an event the watcher drops every further event of the path, a deletion
  included.
\<close>

lemma watch_dropped:
  assumes "toml_name ev = Some n" "map_of m (path_join dir n) = Some t" "now < t + d" "0 < d"
  shows "watch_event dir d now ev m = (m, None)"
  using assms by (simp add: watch_event_def debounced_def Let_def less_diff_conv2) arith

section \<open>Scans and deletions, and the properties at concrete inputs\<close>

lemma scan_entries_exact:
  "scan_entries io pre es names m = Ok (names', m') \<Longrightarrow>
   set (keys m') = set (keys m) \<union> {full_name e |e path. Inr path \<in> set es \<and> cio_is_file io path \<and>
      extension path = Some ''toml'' \<and> load_namespace_config io pre path = Ok (Some e)}"
  by (induction io pre es names m rule: scan_entries.induct)
     (auto split: if_splits sum.splits option.splits)

definition sample_io_with :: "(string \<Rightarrow> string option) \<Rightarrow> config_io" where
  "sample_io_with fs = \<lparr>cio_read = fs, cio_meta = (\<lambda>_. Some (Ok 0)), cio_exists = (\<lambda>_. True), cio_is_file = (\<lambda>_. True),
     cio_dir = (\<lambda>_. Ok [Ok ''a.toml'', Ok ''b.toml'', Ok ''c.txt'']),
     cio_toml_ns = (\<lambda>t. Ok (sample_config t)), cio_toml_daemon = (\<lambda>_. Inl ''none''),
     cio_b64 = no_base64, cio_env = []\<rparr>"

definition sample_files :: "string \<Rightarrow> string option" where
  "sample_files p = (if p = ''a.toml'' then Some ''web'' else if p = ''b.toml'' then Some ''1bad'' else None)"

definition sample_manager :: config_manager where
  "sample_manager = manager_from_config
     \<lparr>daemon = \<lparr>namespace_prefix = ''sw'', config_dir = ''/etc'', cleanup_on_shutdown = False, logging = default_logging_config\<rparr>,
      dbus = default_dbus_settings\<rparr> ''/etc/segwire.toml''"

definition sample_entry :: "string \<Rightarrow> config_entry" where
  "sample_entry n = \<lparr>ce_config = sample_config n, file_path = ''a.toml'', full_name = ''sw-'' @ n, last_modified = 0\<rparr>"

lemma scan_entries_is_ok: "is_ok (scan_entries io pre es names m) \<longleftrightarrow> (\<forall>e \<in> set es. is_ok e)"
  by (induction io pre es names m rule: scan_entries.induct) (auto split: sum.split option.split)

text \<open>
  C36: a scan succeeds exactly when every entry of the directory can be read, whatever the files hold,
  and otherwise changes nothing; a successful scan finds exactly the loadable files: a name is in the
  table, and among the names returned, exactly when some TOML file of the directory loads as a managed
  namespace of that full name; and every entry of the table is a valid configuration under its own
  full name.
\<close>

lemma scan_finds_exactly:
  assumes "cio_dir io (config_directory cm) = Ok es" "scan_namespace_configs io cm = (cm', r)"
  shows "(is_ok r \<longleftrightarrow> (\<forall>e \<in> set es. is_ok e)) \<and> (\<not> is_ok r \<longrightarrow> cm' = cm) \<and>
    (\<forall>names. r = Ok names \<longrightarrow> set names = set (keys (namespace_configs cm')) \<and> manager_ok (cio_b64 io) cm' \<and>
      set names = {full_name e |e path. Inr path \<in> set es \<and> cio_is_file io path \<and>
        extension path = Some ''toml'' \<and> load_namespace_config io (prefix_of cm) path = Ok (Some e)})"
proof (cases "scan_entries io (prefix_of cm) es [] []")
  case (Inl d)
  then show ?thesis using assms scan_entries_is_ok [of io "prefix_of cm" es "[]" "[]"]
    by (auto simp: scan_namespace_configs_def)
next
  case (Inr x)
  obtain names m where x: "x = (names, m)" by fastforce
  have r: "r = Ok names" "cm' = cm\<lparr>namespace_configs := m\<rparr>" using assms Inr x by (auto simp: scan_namespace_configs_def)
  show ?thesis
    using scan_ok [OF assms(2) [unfolded r(1)]] scan_entries_exact [OF Inr [unfolded x]] r
      scan_entries_is_ok [of io "prefix_of cm" es "[]" "[]"] Inr by simp
qed

lemma scan_finds_exactly_witness:
  "manager_ok no_base64 (sample_manager\<lparr>namespace_configs := [(''sw-web'', sample_entry ''web'')]\<rparr>)"
proof -
  have dir: "cio_dir (sample_io_with sample_files) (config_directory sample_manager) = Ok [Ok ''a.toml'', Ok ''b.toml'', Ok ''c.txt'']"
    by (simp add: sample_io_with_def)
  have scan: "scan_namespace_configs (sample_io_with sample_files) sample_manager =
      (sample_manager\<lparr>namespace_configs := [(''sw-web'', sample_entry ''web'')]\<rparr>, Ok [''sw-web''])"
    by code_simp
  have "cio_b64 (sample_io_with sample_files) = no_base64" by (simp add: sample_io_with_def)
  with scan_finds_exactly [OF dir scan] show ?thesis by (simp only:)
qed

text \<open>
  After a file was deleted, or moved away, no entry of the table comes from its path, and every
  entry of another path is still there.
\<close>

lemma deleted_file_forgotten:
  assumes "handle_file_event io (FileDeleted path) cm = (cm', r)"
  shows "set (namespace_configs cm') = {(n, e) \<in> set (namespace_configs cm). \<not> same_path (file_path e) path} \<and>
   (\<exists>names. r = Ok names \<and> (names = [] \<longleftrightarrow> namespace_configs cm' = namespace_configs cm))"
proof -
  obtain n where n: "remove_namespace_config path cm = (cm', n)" using assms by (auto split: prod.splits)
  then have "r = Ok (case n of Some x \<Rightarrow> [x] | None \<Rightarrow> [])" using assms by simp
  then show ?thesis using remove_gone(1,2) [OF n] by (cases n) simp_all
qed

lemma deleted_file_forgotten_witness:
  "set (namespace_configs sample_manager) = {(n, e) \<in> set [(''sw-web'', sample_entry ''web'')]. \<not> same_path (file_path e) ''a.toml/.''}"
proof -
  have "handle_file_event (sample_io_with sample_files) (FileDeleted ''a.toml/.'')
      (sample_manager\<lparr>namespace_configs := [(''sw-web'', sample_entry ''web'')]\<rparr>) = (sample_manager, Ok [''sw-web''])"
    by code_simp
  from deleted_file_forgotten [OF this] show ?thesis by simp
qed

lemma handle_file_event_ok_witness:
  "manager_ok no_base64 (sample_manager\<lparr>namespace_configs := [(''sw-web'', sample_entry ''web'')]\<rparr>)"
proof -
  have ok: "manager_ok (cio_b64 (sample_io_with sample_files)) sample_manager"
    by (simp add: manager_ok_def sample_manager_def manager_from_config_def)
  have ev: "handle_file_event (sample_io_with sample_files) (FileCreated ''a.toml'') sample_manager =
      (sample_manager\<lparr>namespace_configs := [(''sw-web'', sample_entry ''web'')]\<rparr>, Ok [''sw-web''])"
    by code_simp
  have "cio_b64 (sample_io_with sample_files) = no_base64" by (simp add: sample_io_with_def)
  with handle_file_event_ok [OF ok ev] show ?thesis by (simp only:)
qed

lemma run_entries_ok_witness:
  "entries_ok no_base64 (namespace_configs (run_file_events
     [(sample_io_with sample_files, FileCreated ''a.toml''), (sample_io_with sample_files, FileModified ''b.toml''),
      (sample_io_with (\<lambda>_. Some ''db''), FileModified ''a.toml'')] sample_manager))"
  by (rule run_entries_ok)
     (simp_all add: entries_ok_def sample_manager_def manager_from_config_def sample_io_with_def)

lemma full_name_collision_witness: "''sw-web'' = ''sw'' @ ''-'' @ ''web''"
proof -
  have "full_name_for ''sw'' ''web'' = full_name_for ''sw'' ''sw-web''" by code_simp
  then show ?thesis using full_name_collision [of "''sw''" "''web''" "''sw-web''"] by simp
qed

lemma reload_keeps_old_name_witness:
  "map_of (namespace_configs (fst (reload_namespace_config (sample_io_with (\<lambda>_. Some ''db'')) ''a.toml''
     (sample_manager\<lparr>namespace_configs := [(''sw-web'', sample_entry ''web'')]\<rparr>)))) ''sw-web'' = Some (sample_entry ''web'')"
proof -
  let ?cm = "sample_manager\<lparr>namespace_configs := [(''sw-web'', sample_entry ''web'')]\<rparr>"
  have r: "reload_namespace_config (sample_io_with (\<lambda>_. Some ''db'')) ''a.toml'' ?cm =
      (sample_manager\<lparr>namespace_configs := [(''sw-web'', sample_entry ''web''), (''sw-db'', sample_entry ''db'')]\<rparr>, Ok (Some ''sw-db''))"
    by code_simp
  from reload_keeps_old_name [OF this, of "''sw-web''"] show ?thesis by (simp add: r)
qed

definition sample_event :: "event_flag \<Rightarrow> raw_event" where
  "sample_event f = \<lparr>re_mask = [f], re_name = Some (Some ''a.toml'')\<rparr>"

lemma watch_spaced_witness:
  "sorted_wrt (\<lambda>(t1, e1) (t2, e2). event_path e1 = event_path e2 \<longrightarrow> t1 + 5 \<le> t2)
     (watch_events ''/etc'' 5 [(1, sample_event CREATE), (2, sample_event CLOSE_WRITE), (8, sample_event DELETE)] [])"
  by (rule watch_spaced) simp_all

lemma watch_dropped_witness:
  "watch_event ''/etc'' 5 4 (sample_event DELETE) [(''/etc/a.toml'', 1)] = ([(''/etc/a.toml'', 1)], None)"
proof (rule watch_dropped)
  show "toml_name (sample_event DELETE) = Some ''a.toml''" by code_simp
  show "map_of [(''/etc/a.toml'', 1)] (path_join ''/etc'' ''a.toml'') = Some (1::nat)" by code_simp
qed simp_all

section \<open>Statistics\<close>

record config_stats = total_configs :: nat

definition get_config_stats :: "config_manager \<Rightarrow> config_stats" where
  "get_config_stats cm = \<lparr>total_configs = length (namespace_configs cm)\<rparr>"

end
