(* ===== verification/DbusTypes.thy ===== *)
theory DbusTypes
  imports "HOL-Library.Word" Config
begin

text \<open>
  The data types of \<^verbatim>\<open>segwire-common/src/dbus.rs\<close>: the namespace state and its status, the
  operation result, and the tables of the interface, which the introspection text repeats
  word for word.  A \<^verbatim>\<open>SystemTime\<close> is a number of
  nanoseconds since the epoch, read by the caller and passed as \<open>now\<close>.
\<close>

section \<open>Namespace states\<close>

datatype namespace_status = Creating | Active | Failed | Deleting

record interface_info =
  ii_name :: string
  ii_type :: string
  ii_status :: string
  ii_addresses :: "string list"

record route_info =
  ri_destination :: string
  ri_gateway :: string
  ri_metric :: nat
  ri_interface :: string

record dns_info =
  di_servers :: "string list"
  di_search_domains :: "string list"

record namespace_state =
  st_name :: string
  st_full_name :: string
  status :: namespace_status
  st_config_path :: string
  st_interfaces :: "interface_info list"
  st_routes :: "route_info list"
  dns_config :: dns_info
  created_at :: nat
  last_updated :: nat

definition unix_secs :: "nat \<Rightarrow> nat" where "unix_secs now = now div 1000000000"

definition new_state :: "nat \<Rightarrow> string \<Rightarrow> string \<Rightarrow> string \<Rightarrow> namespace_state" where
  "new_state now name full path =
     \<lparr>st_name = name, st_full_name = full, status = Creating, st_config_path = path,
      st_interfaces = [], st_routes = [], dns_config = \<lparr>di_servers = [], di_search_domains = []\<rparr>,
      created_at = unix_secs now, last_updated = unix_secs now\<rparr>"

definition touch :: "nat \<Rightarrow> namespace_state \<Rightarrow> namespace_state" where
  "touch now s = s\<lparr>last_updated := unix_secs now\<rparr>"

definition is_active :: "namespace_state \<Rightarrow> bool" where "is_active s = (status s = Active)"
definition is_failed :: "namespace_state \<Rightarrow> bool" where "is_failed s = (status s = Failed)"

definition set_status :: "nat \<Rightarrow> namespace_status \<Rightarrow> namespace_state \<Rightarrow> namespace_state" where
  "set_status now x s = touch now (s\<lparr>status := x\<rparr>)"

fun status_str :: "namespace_status \<Rightarrow> string" where
  "status_str Creating = ''creating''"
| "status_str Active = ''active''"
| "status_str Failed = ''failed''"
| "status_str Deleting = ''deleting''"

definition is_error :: "namespace_status \<Rightarrow> bool" where "is_error x = (x = Failed)"

definition parse_status :: "string \<Rightarrow> (string, namespace_status) res" where
  "parse_status s =
     (if s = ''creating'' then Ok Creating
      else if s = ''active'' then Ok Active
      else if s = ''failed'' then Ok Failed
      else if s = ''deleting'' then Ok Deleting
      else Err (''unknown namespace status: '' @ s))"

lemma set_status_simps [simp]:
  "status (set_status now x s) = x" "last_updated (set_status now x s) = unix_secs now"
  "st_name (set_status now x s) = st_name s" "st_full_name (set_status now x s) = st_full_name s"
  "st_config_path (set_status now x s) = st_config_path s"
  "created_at (set_status now x s) = created_at s"
  by (simp_all add: set_status_def touch_def)

lemma new_state_simps [simp]:
  "status (new_state now n f p) = Creating" "st_name (new_state now n f p) = n"
  "st_full_name (new_state now n f p) = f" "st_config_path (new_state now n f p) = p"
  by (simp_all add: new_state_def)

lemma parse_status_iff: "parse_status s = Ok x \<longleftrightarrow> s = status_str x"
  by (cases x) (auto simp: parse_status_def)

lemma status_str_inj [simp]: "status_str x = status_str y \<longleftrightarrow> x = y"
  using parse_status_iff by (metis Inr_inject)

section \<open>Results and signals\<close>

text \<open>The results of the methods that are tuples, and the arguments of the signals but that of progress.\<close>

type_synonym list_namespaces_result = "(string \<times> string \<times> string \<times> string) list"
type_synonym get_namespace_status_result = namespace_state
type_synonym daemon_status_result = "string \<times> nat \<times> 32 word \<times> 32 word"

type_synonym namespace_created = "string \<times> string"
type_synonym namespace_deleted = "string \<times> string"
type_synonym configuration_reloaded = "32 word \<times> 32 word"
type_synonym namespace_status_changed = "string \<times> string \<times> string"
type_synonym error_occurred = "string \<times> string \<times> string"

text \<open>The list of tuples \<^verbatim>\<open>interface_helpers::namespaces_to_tuples\<close> makes; the description is empty.\<close>

definition namespaces_to_tuples :: "namespace_state list \<Rightarrow> list_namespaces_result" where
  "namespaces_to_tuples ss = map (\<lambda>s. (st_name s, status_str (status s), st_config_path s, [])) ss"

definition create_daemon_status :: "string \<Rightarrow> nat \<Rightarrow> 32 word \<Rightarrow> 32 word \<Rightarrow> daemon_status_result" where
  "create_daemon_status version uptime managed active = (version, uptime, managed, active)"

section \<open>Operation results\<close>

record operation_result =
  success :: bool
  message :: string
  details :: "(string \<times> string) list"

definition op_success :: "string \<Rightarrow> operation_result" where
  "op_success m = \<lparr>success = True, message = m, details = []\<rparr>"

definition op_failure :: "string \<Rightarrow> operation_result" where
  "op_failure m = \<lparr>success = False, message = m, details = []\<rparr>"

definition with_detail :: "string \<Rightarrow> string \<Rightarrow> operation_result \<Rightarrow> operation_result" where
  "with_detail k v r = r\<lparr>details := insertM k v (details r)\<rparr>"

record validation_result =
  valid :: bool
  vr_errors :: "string list"
  vr_warnings :: "string list"

lemma with_detail_lookup [simp]:
  "map_of (details (with_detail k v r)) j = (if j = k then Some v else map_of (details r) j)"
  "success (with_detail k v r) = success r" "message (with_detail k v r) = message r"
  by (simp_all add: with_detail_def)

section \<open>Argument and table types\<close>

datatype arg_info = ArgInfo (arg_name: string) (type_signature: string) (arg_description: string)

record method_info =
  mi_name :: string
  mi_description :: string
  input_args :: "arg_info list"
  output_args :: "arg_info list"

record signal_info =
  si_name :: string
  si_description :: string
  si_args :: "arg_info list"

section \<open>The interface tables\<close>

text \<open>The constants and tables of \<^verbatim>\<open>dbus::interface\<close>, entry by entry.\<close>

definition INTERFACE_NAME :: string where "INTERFACE_NAME = ''org.segwire.NamespaceManager''"
definition SERVICE_NAME :: string where "SERVICE_NAME = ''org.segwire.NamespaceManager''"
definition OBJECT_PATH :: string where "OBJECT_PATH = ''/org/segwire/NamespaceManager''"
definition METHOD_LIST_NAMESPACES :: string where "METHOD_LIST_NAMESPACES = ''ListNamespaces''"
definition METHOD_GET_NAMESPACE_STATUS :: string where "METHOD_GET_NAMESPACE_STATUS = ''GetNamespaceStatus''"
definition METHOD_DELETE_NAMESPACE :: string where "METHOD_DELETE_NAMESPACE = ''DeleteNamespace''"
definition METHOD_RELOAD_CONFIGURATION :: string where "METHOD_RELOAD_CONFIGURATION = ''ReloadConfiguration''"
definition METHOD_VALIDATE_CONFIGURATION :: string where "METHOD_VALIDATE_CONFIGURATION = ''ValidateConfiguration''"
definition METHOD_GET_DAEMON_STATUS :: string where "METHOD_GET_DAEMON_STATUS = ''GetDaemonStatus''"
definition METHOD_RESTART_NAMESPACE :: string where "METHOD_RESTART_NAMESPACE = ''RestartNamespace''"
definition METHOD_EXEC_AUTHORIZE :: string where "METHOD_EXEC_AUTHORIZE = ''ExecAuthorize''"
definition SIGNAL_NAMESPACE_CREATED :: string where "SIGNAL_NAMESPACE_CREATED = ''NamespaceCreated''"
definition SIGNAL_NAMESPACE_DELETED :: string where "SIGNAL_NAMESPACE_DELETED = ''NamespaceDeleted''"
definition SIGNAL_CONFIGURATION_RELOADED :: string where "SIGNAL_CONFIGURATION_RELOADED = ''ConfigurationReloaded''"
definition SIGNAL_OPERATION_PROGRESS :: string where "SIGNAL_OPERATION_PROGRESS = ''OperationProgress''"
definition SIGNAL_NAMESPACE_STATUS_CHANGED :: string where "SIGNAL_NAMESPACE_STATUS_CHANGED = ''NamespaceStatusChanged''"
definition SIGNAL_ERROR_OCCURRED :: string where "SIGNAL_ERROR_OCCURRED = ''ErrorOccurred''"

definition get_methods :: "method_info list" where
  "get_methods =
    [\<lparr>mi_name = METHOD_LIST_NAMESPACES, mi_description = ''List all managed namespaces with basic information'',
       input_args = [],
       output_args = [ArgInfo ''namespaces'' ''a(ssss)'' ''Array of (name, status, config_path, description) tuples'']\<rparr>,
     \<lparr>mi_name = METHOD_GET_NAMESPACE_STATUS, mi_description = ''Get detailed status information for a specific namespace'',
       input_args = [ArgInfo ''name'' ''s'' ''Namespace name to query''],
       output_args = [ArgInfo ''status'' ''(sssasasas)'' ''Namespace state information'']\<rparr>,
     \<lparr>mi_name = METHOD_DELETE_NAMESPACE, mi_description = ''Delete a managed namespace'',
       input_args = [ArgInfo ''name'' ''s'' ''Namespace name to delete''],
       output_args = [ArgInfo ''result'' ''(bsa{ss})'' ''Operation result with success flag, message, and details'']\<rparr>,
     \<lparr>mi_name = METHOD_RELOAD_CONFIGURATION, mi_description = ''Reload all configuration files and update namespaces'',
       input_args = [],
       output_args = [ArgInfo ''result'' ''(bsa{ss})'' ''Operation result with success flag, message, and details'']\<rparr>,
     \<lparr>mi_name = METHOD_VALIDATE_CONFIGURATION, mi_description = ''Validate a configuration file without applying it'',
       input_args = [ArgInfo ''config_path'' ''s'' ''Path to configuration file to validate''],
       output_args = [ArgInfo ''validation'' ''(basas)'' ''Validation result with valid flag, errors, and warnings'']\<rparr>,
     \<lparr>mi_name = METHOD_GET_DAEMON_STATUS, mi_description = ''Get daemon status and statistics'',
       input_args = [],
       output_args = [ArgInfo ''status'' ''(stuu)'' ''Daemon status: (version, uptime, managed_count, active_count)'']\<rparr>,
     \<lparr>mi_name = METHOD_RESTART_NAMESPACE, mi_description = ''Restart a specific namespace (delete and recreate)'',
       input_args = [ArgInfo ''name'' ''s'' ''Namespace name to restart''],
       output_args = [ArgInfo ''result'' ''(bsa{ss})'' ''Operation result with success flag, message, and details'']\<rparr>,
     \<lparr>mi_name = METHOD_EXEC_AUTHORIZE, mi_description = ''Authorize and resolve a namespace for exec entry'',
       input_args = [ArgInfo ''namespace'' ''s'' ''Namespace name to enter''],
       output_args = [ArgInfo ''ns_path'' ''s'' ''Validated namespace path under /run/netns/'']\<rparr>]"

definition get_signals :: "signal_info list" where
  "get_signals =
    [\<lparr>si_name = SIGNAL_NAMESPACE_CREATED, si_description = ''Signal emitted when a namespace is created'',
       si_args = [ArgInfo ''name'' ''s'' ''Name of the created namespace'', ArgInfo ''config_path'' ''s'' ''Path to the configuration file used'']\<rparr>,
     \<lparr>si_name = SIGNAL_NAMESPACE_DELETED, si_description = ''Signal emitted when a namespace is deleted'',
       si_args = [ArgInfo ''name'' ''s'' ''Name of the deleted namespace'', ArgInfo ''reason'' ''s'' ''Reason for deletion'']\<rparr>,
     \<lparr>si_name = SIGNAL_CONFIGURATION_RELOADED, si_description = ''Signal emitted when configuration is reloaded'',
       si_args = [ArgInfo ''count'' ''u'' ''Number of configurations processed'', ArgInfo ''errors'' ''u'' ''Number of errors encountered'']\<rparr>,
     \<lparr>si_name = SIGNAL_OPERATION_PROGRESS, si_description = ''Signal emitted for operation progress updates'',
       si_args = [ArgInfo ''operation'' ''s'' ''Name of the operation in progress'', ArgInfo ''progress'' ''d'' ''Progress as a value between 0.0 and 1.0'', ArgInfo ''message'' ''s'' ''Human-readable progress message'']\<rparr>,
     \<lparr>si_name = SIGNAL_NAMESPACE_STATUS_CHANGED, si_description = ''Signal emitted when a namespace status changes'',
       si_args = [ArgInfo ''name'' ''s'' ''Name of the namespace'', ArgInfo ''old_status'' ''s'' ''Previous status'', ArgInfo ''new_status'' ''s'' ''New status'']\<rparr>,
     \<lparr>si_name = SIGNAL_ERROR_OCCURRED, si_description = ''Signal emitted when an error occurs'',
       si_args = [ArgInfo ''error_type'' ''s'' ''Type of error that occurred'', ArgInfo ''message'' ''s'' ''Error message'', ArgInfo ''namespace'' ''s'' ''Namespace associated with the error (if any)'']\<rparr>]"

definition find_method :: "string \<Rightarrow> method_info option" where
  "find_method n = find (\<lambda>m. mi_name m = n) get_methods"

definition find_signal :: "string \<Rightarrow> signal_info option" where
  "find_signal n = find (\<lambda>s. si_name s = n) get_signals"

definition get_method_names :: "string list" where "get_method_names = map mi_name get_methods"
definition get_signal_names :: "string list" where "get_signal_names = map si_name get_signals"

lemmas method_name_defs = METHOD_LIST_NAMESPACES_def METHOD_GET_NAMESPACE_STATUS_def
  METHOD_DELETE_NAMESPACE_def METHOD_RELOAD_CONFIGURATION_def METHOD_VALIDATE_CONFIGURATION_def
  METHOD_GET_DAEMON_STATUS_def METHOD_RESTART_NAMESPACE_def METHOD_EXEC_AUTHORIZE_def

lemmas signal_name_defs = SIGNAL_NAMESPACE_CREATED_def SIGNAL_NAMESPACE_DELETED_def
  SIGNAL_CONFIGURATION_RELOADED_def SIGNAL_OPERATION_PROGRESS_def
  SIGNAL_NAMESPACE_STATUS_CHANGED_def SIGNAL_ERROR_OCCURRED_def

lemma method_names_distinct: "distinct get_method_names"
  by (simp add: get_method_names_def get_methods_def method_name_defs)

lemma signal_names_distinct: "distinct get_signal_names"
  by (simp add: get_signal_names_def get_signals_def signal_name_defs)

section \<open>The introspection text\<close>

definition introspection_xml :: string where
  \<open>introspection_xml = join [newline]
   [''<!DOCTYPE node PUBLIC "-//freedesktop//DTD D-BUS Object Introspection 1.0//EN"'',
    ''"http://www.freedesktop.org/standards/dbus/1.0/introspect.dtd">'',
    ''<node>'',
    ''  <interface name="org.segwire.NamespaceManager">'',
    ''    <!-- Methods -->'',
    ''    <method name="ListNamespaces">'',
    ''      <arg direction="out" name="namespaces" type="a(ssss)"/>'',
    ''    </method>'',
    ''    '',
    ''    <method name="GetNamespaceStatus">'',
    ''      <arg direction="in" name="name" type="s"/>'',
    ''      <arg direction="out" name="status" type="(sssasasas)"/>'',
    ''    </method>'',
    ''    '',
    ''    <method name="DeleteNamespace">'',
    ''      <arg direction="in" name="name" type="s"/>'',
    ''      <arg direction="out" name="result" type="(bsa{ss})"/>'',
    ''    </method>'',
    ''    '',
    ''    <method name="ReloadConfiguration">'',
    ''      <arg direction="out" name="result" type="(bsa{ss})"/>'',
    ''    </method>'',
    ''    '',
    ''    <method name="ValidateConfiguration">'',
    ''      <arg direction="in" name="config_path" type="s"/>'',
    ''      <arg direction="out" name="validation" type="(basas)"/>'',
    ''    </method>'',
    ''    '',
    ''    <method name="GetDaemonStatus">'',
    ''      <arg direction="out" name="status" type="(stuu)"/>'',
    ''    </method>'',
    ''    '',
    ''    <method name="RestartNamespace">'',
    ''      <arg direction="in" name="name" type="s"/>'',
    ''      <arg direction="out" name="result" type="(bsa{ss})"/>'',
    ''    </method>'',
    ''    '',
    ''    <method name="ExecAuthorize">'',
    ''      <arg direction="in" name="namespace" type="s"/>'',
    ''      <arg direction="out" name="ns_path" type="s"/>'',
    ''    </method>'',
    ''    '',
    ''    <!-- Signals -->'',
    ''    <signal name="NamespaceCreated">'',
    ''      <arg name="name" type="s"/>'',
    ''      <arg name="config_path" type="s"/>'',
    ''    </signal>'',
    ''    '',
    ''    <signal name="NamespaceDeleted">'',
    ''      <arg name="name" type="s"/>'',
    ''      <arg name="reason" type="s"/>'',
    ''    </signal>'',
    ''    '',
    ''    <signal name="ConfigurationReloaded">'',
    ''      <arg name="count" type="u"/>'',
    ''      <arg name="errors" type="u"/>'',
    ''    </signal>'',
    ''    '',
    ''    <signal name="OperationProgress">'',
    ''      <arg name="operation" type="s"/>'',
    ''      <arg name="progress" type="d"/>'',
    ''      <arg name="message" type="s"/>'',
    ''    </signal>'',
    ''    '',
    ''    <signal name="NamespaceStatusChanged">'',
    ''      <arg name="name" type="s"/>'',
    ''      <arg name="old_status" type="s"/>'',
    ''      <arg name="new_status" type="s"/>'',
    ''    </signal>'',
    ''    '',
    ''    <signal name="ErrorOccurred">'',
    ''      <arg name="error_type" type="s"/>'',
    ''      <arg name="message" type="s"/>'',
    ''      <arg name="namespace" type="s"/>'',
    ''    </signal>'',
    ''  </interface>'',
    ''</node>'']\<close>

text \<open>The text an entry of the tables has in the introspection document.\<close>

definition xml_quote :: "string \<Rightarrow> string" where "xml_quote s = [CHR 0x22] @ s @ [CHR 0x22]"

definition xml_arg :: "string \<Rightarrow> arg_info \<Rightarrow> string" where
  "xml_arg dir a = ''      <arg '' @ dir @ ''name='' @ xml_quote (arg_name a) @ '' type='' @
     xml_quote (type_signature a) @ ''/>''"

definition xml_dir :: "string \<Rightarrow> string" where "xml_dir d = ''direction='' @ xml_quote d @ '' ''"

definition xml_method :: "method_info \<Rightarrow> string list" where
  "xml_method m = [''    <method name='' @ xml_quote (mi_name m) @ ''>''] @
     map (xml_arg (xml_dir ''in'')) (input_args m) @ map (xml_arg (xml_dir ''out'')) (output_args m) @
     [''    </method>'', ''    '']"

definition xml_signal :: "signal_info \<Rightarrow> string list" where
  "xml_signal s = [''    <signal name='' @ xml_quote (si_name s) @ ''>''] @
     map (xml_arg []) (si_args s) @ [''    </signal>'', ''    '']"

definition render_introspection :: "string \<Rightarrow> method_info list \<Rightarrow> signal_info list \<Rightarrow> string" where
  "render_introspection iface ms ss = join [newline]
     ([''<!DOCTYPE node PUBLIC '' @ xml_quote ''-//freedesktop//DTD D-BUS Object Introspection 1.0//EN'',
       xml_quote ''http://www.freedesktop.org/standards/dbus/1.0/introspect.dtd'' @ ''>'', ''<node>'',
       ''  <interface name='' @ xml_quote iface @ ''>'', ''    <!-- Methods -->''] @
      concat (map xml_method ms) @ [''    <!-- Signals -->''] @
      butlast (concat (map xml_signal ss)) @ [''  </interface>'', ''</node>''])"

text \<open>
  The introspection document and the tables of methods and signals agree: rendering the tables gives
  the document.
\<close>

lemma introspection_agrees: "introspection_xml = render_introspection INTERFACE_NAME get_methods get_signals"
  unfolding introspection_xml_def render_introspection_def
  by (rule arg_cong [where f = "join [newline]"])
     (simp add: get_methods_def get_signals_def method_name_defs signal_name_defs xml_method_def
        xml_signal_def xml_arg_def xml_dir_def xml_quote_def INTERFACE_NAME_def)

end
