(* ===== verification/NamespaceState.thy ===== *)
theory NamespaceState
  imports NetlinkManager ConfigManager DbusTypes
begin

text \<open>
  The namespace state manager of \<^verbatim>\<open>segwire-daemon/src/namespace_state.rs\<close>: the table of
  namespace states and its synchronization with the configuration and the system.  It is a
  client of the network operations, the record \<open>nl_ops\<close>; \<open>netlink_ops\<close> fills it with the
  operations of \<^verbatim>\<open>NetlinkManager\<close>, which is what the daemon runs.  The locales
  \<open>namespace_store\<close> and \<open>namespace_backend\<close> state what the manager relies on; the simulation
  provides it (interpretation \<open>sim\<close>).  Time is one reading per operation, in nanoseconds.
\<close>

section \<open>The network operations\<close>

record 's nl_ops =
  o_list :: "('s, segwire_error, (string \<times> namespace_info) list) op"
  o_create :: "string \<Rightarrow> ('s, segwire_error, namespace_info) op"
  o_delete :: "string \<Rightarrow> ('s, segwire_error, unit) op"
  o_veth :: "string \<Rightarrow> string \<Rightarrow> ('s, segwire_error, unit) op"
  o_move :: "string \<Rightarrow> string \<Rightarrow> ('s, segwire_error, unit) op"
  o_addr :: "string \<Rightarrow> string \<Rightarrow> ip_addr \<Rightarrow> nat \<Rightarrow> ('s, segwire_error, unit) op"
  o_up_ns :: "string \<Rightarrow> string \<Rightarrow> ('s, segwire_error, unit) op"
  o_up :: "string \<Rightarrow> ('s, segwire_error, unit) op"
  o_wg :: "string \<Rightarrow> string \<Rightarrow> ('s, segwire_error, unit) op"
  o_wg_conf :: "string \<Rightarrow> string \<Rightarrow> wireguard_config \<Rightarrow> ('s, segwire_error, unit) op"
  o_vif :: "string \<Rightarrow> string \<Rightarrow> string \<Rightarrow> ('s, segwire_error, unit) op"
  o_route :: "string \<Rightarrow> route_config \<Rightarrow> ('s, segwire_error, unit) op"
  o_dns :: "string \<Rightarrow> nl_dns_config \<Rightarrow> ('s, segwire_error, unit) op"

definition netlink_ops :: "'k sys \<Rightarrow> base64 \<Rightarrow> 'k netlink nl_ops" where
  "netlink_ops y b64 =
     \<lparr>o_list = list_namespaces y, o_create = create_namespace y, o_delete = delete_namespace y,
      o_veth = create_veth_pair y, o_move = move_interface_to_namespace y,
      o_addr = add_address_in_namespace y, o_up_ns = set_link_up_in_namespace y, o_up = set_link_up y,
      o_wg = create_wireguard_interface y, o_wg_conf = configure_wireguard y b64,
      o_vif = create_virtual_interface y, o_route = add_route_to_namespace y,
      o_dns = configure_namespace_dns y\<rparr>"

section \<open>The manager\<close>

record 's state_manager =
  namespace_states :: "(string \<times> namespace_state) list"
  net :: 's
  last_sync :: nat
  sync_interval :: nat

definition second :: nat where "second = 1000000000"

definition state_manager_new :: "'s \<Rightarrow> 's state_manager" where
  "state_manager_new s = \<lparr>namespace_states = [], net = s, last_sync = 0, sync_interval = 30 * second\<rparr>"

text \<open>\<^verbatim>\<open>NamespaceStateManager::new\<close> and \<^verbatim>\<open>new_auto\<close>: an error of the netlink manager ends them.\<close>

definition manager_with :: "('k, segwire_error, backend) op \<Rightarrow> 'k \<Rightarrow> 'k netlink state_manager sres \<times> 'k" where
  "manager_with m k = (case m k of
     (Inl e, k') \<Rightarrow> (Inl e, k')
   | (Inr b, k') \<Rightarrow> (Ok (state_manager_new \<lparr>nl_backend = b, nl_kernel = k'\<rparr>), k'))"

definition new_state_manager :: "'k sys \<Rightarrow> 'k \<Rightarrow> 'k netlink state_manager sres \<times> 'k" where
  "new_state_manager y = manager_with (netlink_new y)"

definition new_auto_state_manager :: "'k sys \<Rightarrow> env \<Rightarrow> 'k \<Rightarrow> 'k netlink state_manager sres \<times> 'k" where
  "new_auto_state_manager y se = manager_with (netlink_new_auto y se)"

datatype conflict_resolution = CreateNamespace | DeleteNamespace

record state_conflict =
  cf_name :: string
  cf_description :: string
  cf_resolution :: conflict_resolution

record sync_result =
  sr_created :: "string list"
  sr_updated :: "string list"
  sr_deleted :: "string list"
  sr_conflicts :: "state_conflict list"
  sr_errors :: "string list"

datatype sync_action = SyncCreated | SyncUpdated | SyncConflict state_conflict | NoChange

definition get_namespace_state :: "'s state_manager \<Rightarrow> string \<Rightarrow> namespace_state option" where
  "get_namespace_state mg n = map_of (namespace_states mg) n"

definition update_namespace_state :: "namespace_state \<Rightarrow> 's state_manager \<Rightarrow> 's state_manager" where
  "update_namespace_state st mg = mg\<lparr>namespace_states := insertM (st_full_name st) st (namespace_states mg)\<rparr>"

definition remove_namespace_state :: "string \<Rightarrow> 's state_manager \<Rightarrow> 's state_manager" where
  "remove_namespace_state n mg = mg\<lparr>namespace_states := removeM n (namespace_states mg)\<rparr>"

text \<open>A clock that went back asks for a synchronization.\<close>

definition needs_sync :: "nat \<Rightarrow> 's state_manager \<Rightarrow> bool" where
  "needs_sync now mg = (if now < last_sync mg then True else now - last_sync mg \<ge> sync_interval mg)"

section \<open>Applying a configuration\<close>

text \<open>
  Each call that fails is logged and the next one runs: these are changes of the network state,
  the results dropped by \<open>execS\<close>; \<open>ifOk m f\<close> runs \<open>f\<close> only after a success.
\<close>

definition ifOk :: "('s, 'e, 'a) op \<Rightarrow> ('s \<Rightarrow> 's) \<Rightarrow> 's \<Rightarrow> 's" where
  "ifOk m f s = (case m s of (Inl e, s') \<Rightarrow> s' | (Inr a, s') \<Rightarrow> f s')"

definition apply_address :: "'s nl_ops \<Rightarrow> string \<Rightarrow> string \<Rightarrow> string \<Rightarrow> ('s, segwire_error, unit) op" where
  "apply_address ops name ifn cidr =
     bindS (liftS (ok_or (Config (InvalidValue ''addresses'' (''missing prefix length in '' @ quoted cidr)))
        (split_once (CHR ''/'') cidr))) (\<lambda>(ip, len).
     bindS (liftS (ok_or (Config (InvalidValue ''addresses''
        (''invalid IP '' @ quoted ip @ '': '' @ ip_error))) (parse_ip ip))) (\<lambda>a.
     bindS (liftS (ok_or (Config (InvalidValue ''addresses''
        (''invalid prefix length '' @ quoted len @ '': '' @ int_error len))) (parse_u8 len))) (\<lambda>n.
     o_addr ops name ifn a n)))"

definition apply_addresses :: "'s nl_ops \<Rightarrow> string \<Rightarrow> virtual_interface \<Rightarrow> 's \<Rightarrow> 's" where
  "apply_addresses ops name v s = foldl (\<lambda>s a. execS (apply_address ops name (vif_name v) a) s) s (vif_addresses v)"

definition up_in_ns :: "'s nl_ops \<Rightarrow> string \<Rightarrow> virtual_interface \<Rightarrow> 's \<Rightarrow> 's" where
  "up_in_ns ops name v s = execS (o_up_ns ops name (vif_name v)) (apply_addresses ops name v s)"

definition apply_vif :: "'s nl_ops \<Rightarrow> string \<Rightarrow> wireguard_config option \<Rightarrow> virtual_interface \<Rightarrow> 's \<Rightarrow> 's" where
  "apply_vif ops name wg v =
     (if interface_type v = ''veth'' then
        (case vif_peer v of
           None \<Rightarrow> (\<lambda>s. s)
         | Some peer \<Rightarrow> ifOk (o_veth ops (vif_name v) peer)
             (\<lambda>s. execS (o_up ops peer) (ifOk (o_move ops (vif_name v) name) (up_in_ns ops name v) s)))
      else if interface_type v = ''wireguard'' then
        ifOk (o_wg ops name (vif_name v)) (\<lambda>s. case wg of
           None \<Rightarrow> up_in_ns ops name v s
         | Some w \<Rightarrow> execS (o_wg_conf ops name (vif_name v) w) (up_in_ns ops name v s))
      else ifOk (o_vif ops name (vif_name v) (interface_type v)) (up_in_ns ops name v))"

definition to_route_config :: "route \<Rightarrow> route_config" where
  "to_route_config r = \<lparr>rc_destination = destination r, rc_gateway = gateway r, rc_interface = None,
     rc_metric = metric r\<rparr>"

definition default_route :: "string \<Rightarrow> route_config" where
  "default_route g = \<lparr>rc_destination = ''default'', rc_gateway = g, rc_interface = None, rc_metric = None\<rparr>"

definition to_nl_dns :: "dns_config \<Rightarrow> nl_dns_config" where
  "to_nl_dns d = \<lparr>nd_servers = servers d, nd_search_domains = search d, nd_options = []\<rparr>"

text \<open>Routes, default gateway, DNS: the part creation and update share.\<close>

definition apply_routes_dns :: "'s nl_ops \<Rightarrow> string \<Rightarrow> namespace_config \<Rightarrow> 's \<Rightarrow> 's" where
  "apply_routes_dns ops name c s =
     (let s1 = foldl (\<lambda>s r. execS (o_route ops name (to_route_config r)) s) s (routes (routing c));
          s2 = (case default_gateway (routing c) of
                  Some g \<Rightarrow> execS (o_route ops name (default_route g)) s1 | None \<Rightarrow> s1)
      in if servers (dns c) \<noteq> [] then execS (o_dns ops name (to_nl_dns (dns c))) s2 else s2)"

definition apply_config :: "'s nl_ops \<Rightarrow> string \<Rightarrow> namespace_config \<Rightarrow> 's \<Rightarrow> 's" where
  "apply_config ops name c s =
     (let s1 = foldl (\<lambda>s v. apply_vif ops name (wireguard c) v s) s (virtual_interfaces (interfaces c));
          s2 = foldl (\<lambda>s i. execS (o_move ops i name) s) s1 (move_interfaces (interfaces c))
      in apply_routes_dns ops name c s2)"

section \<open>States from configurations\<close>

definition interfaces_of :: "namespace_config \<Rightarrow> bool \<Rightarrow> interface_info list" where
  "interfaces_of c act =
     (let st = (if act then ''up'' else ''down'') in
      map (\<lambda>i. \<lparr>ii_name = i, ii_type = ''physical'', ii_status = st, ii_addresses = []\<rparr>)
        (move_interfaces (interfaces c)) @
      map (\<lambda>v. \<lparr>ii_name = vif_name v, ii_type = interface_type v, ii_status = st, ii_addresses = []\<rparr>)
        (virtual_interfaces (interfaces c)))"

definition routes_of :: "namespace_config \<Rightarrow> route_info list" where
  "routes_of c =
     map (\<lambda>r. \<lparr>ri_destination = destination r, ri_gateway = gateway r,
        ri_metric = (case metric r of Some m \<Rightarrow> m | None \<Rightarrow> 0), ri_interface = []\<rparr>) (routes (routing c)) @
     (case default_gateway (routing c) of
        Some g \<Rightarrow> [\<lparr>ri_destination = ''default'', ri_gateway = g, ri_metric = 0, ri_interface = []\<rparr>]
      | None \<Rightarrow> [])"

definition update_from_config :: "nat \<Rightarrow> config_entry \<Rightarrow> namespace_info \<Rightarrow> namespace_state \<Rightarrow> namespace_state" where
  "update_from_config now e i st =
     touch now (st\<lparr>st_interfaces := interfaces_of (ce_config e) (nsi_active i),
        st_routes := routes_of (ce_config e),
        dns_config := \<lparr>di_servers = servers (dns (ce_config e)), di_search_domains = search (dns (ce_config e))\<rparr>,
        status := (if nsi_active i then Active else status st)\<rparr>)"

definition initial_state :: "nat \<Rightarrow> config_entry \<Rightarrow> namespace_state" where
  "initial_state now e = new_state now (ns_name (namespace (ce_config e))) (full_name e) (file_path e)"

definition create_state_from_actual :: "nat \<Rightarrow> config_entry \<Rightarrow> namespace_info \<Rightarrow> namespace_state" where
  "create_state_from_actual now e i = update_from_config now e i (set_status now Active (initial_state now e))"

section \<open>Processing one configured namespace\<close>

text \<open>\<^verbatim>\<open>get_namespace_state_mut(name)\<close> and an update of the state in place.\<close>

definition adjust_state :: "string \<Rightarrow> (namespace_state \<Rightarrow> namespace_state) \<Rightarrow> 's state_manager \<Rightarrow> 's state_manager" where
  "adjust_state n f mg = mg\<lparr>namespace_states := adjustM n f (namespace_states mg)\<rparr>"

definition create_new_namespace ::
  "'s nl_ops \<Rightarrow> nat \<Rightarrow> config_entry \<Rightarrow> 's state_manager \<Rightarrow> sync_action sres \<times> 's state_manager" where
  "create_new_namespace ops now e mg =
     (let mg1 = update_namespace_state (set_status now Creating (initial_state now e)) mg in
      case o_create ops (full_name e) (net mg1) of
        (Inr info, s) \<Rightarrow>
          (let s' = apply_config ops (full_name e) (ce_config e) s in
           (Ok SyncCreated, adjust_state (full_name e)
              (\<lambda>st. update_from_config now e info (set_status now Active st)) (mg1\<lparr>net := s'\<rparr>)))
      | (Inl err, s) \<Rightarrow>
          (Inl err, adjust_state (full_name e) (set_status now Failed) (mg1\<lparr>net := s\<rparr>)))"

definition update_existing_namespace ::
  "'s nl_ops \<Rightarrow> nat \<Rightarrow> config_entry \<Rightarrow> namespace_info \<Rightarrow> 's state_manager \<Rightarrow> sync_action sres \<times> 's state_manager" where
  "update_existing_namespace ops now e i mg =
     (Ok SyncUpdated, adjust_state (full_name e) (update_from_config now e i)
        (mg\<lparr>net := apply_routes_dns ops (full_name e) (ce_config e) (net mg)\<rparr>))"

definition has_configuration_drift :: "namespace_info \<Rightarrow> bool" where
  "has_configuration_drift i = (\<not> nsi_active i)"

definition needs_namespace_update :: "namespace_state \<Rightarrow> config_entry \<Rightarrow> namespace_info \<Rightarrow> bool" where
  "needs_namespace_update st e i = (unix_secs (last_modified e) > last_updated st \<or> has_configuration_drift i)"

definition process_configured ::
  "'s nl_ops \<Rightarrow> nat \<Rightarrow> (string \<times> namespace_info) list \<Rightarrow> config_entry \<Rightarrow> 's state_manager \<Rightarrow>
   sync_action sres \<times> 's state_manager" where
  "process_configured ops now actual e mg =
     (case (map_of (namespace_states mg) (full_name e), map_of actual (full_name e)) of
        (Some st, Some i) \<Rightarrow>
          (if needs_namespace_update st e i then update_existing_namespace ops now e i mg
           else (Ok NoChange, adjust_state (full_name e) (touch now) mg))
      | (Some st, None) \<Rightarrow>
          (Ok (SyncConflict \<lparr>cf_name = full_name e,
             cf_description = ''Namespace '' @ quoted (full_name e) @ '' is tracked but doesn'' @ [CHR 0x27] @
               ''t exist in system'', cf_resolution = CreateNamespace\<rparr>), mg)
      | (None, Some i) \<Rightarrow> (Ok SyncUpdated, update_namespace_state (create_state_from_actual now e i) mg)
      | (None, None) \<Rightarrow> create_new_namespace ops now e mg)"

section \<open>Synchronization\<close>

definition empty_result :: sync_result where
  "empty_result = \<lparr>sr_created = [], sr_updated = [], sr_deleted = [], sr_conflicts = [], sr_errors = []\<rparr>"

definition record_action :: "string \<Rightarrow> sync_action sres \<Rightarrow> sync_result \<Rightarrow> sync_result" where
  "record_action n a r =
     (case a of
        Inl e \<Rightarrow> r\<lparr>sr_errors := sr_errors r @ [''Failed to process '' @ n @ '': '' @ show_segwire_error e]\<rparr>
      | Inr SyncCreated \<Rightarrow> r\<lparr>sr_created := sr_created r @ [n]\<rparr>
      | Inr SyncUpdated \<Rightarrow> r\<lparr>sr_updated := sr_updated r @ [n]\<rparr>
      | Inr (SyncConflict c) \<Rightarrow> r\<lparr>sr_conflicts := sr_conflicts r @ [c]\<rparr>
      | Inr NoChange \<Rightarrow> r)"

fun process_all :: "'s nl_ops \<Rightarrow> nat \<Rightarrow> (string \<times> namespace_info) list \<Rightarrow> (string \<times> config_entry) list \<Rightarrow>
    sync_result \<Rightarrow> 's state_manager \<Rightarrow> sync_result \<times> 's state_manager" where
  "process_all ops now actual [] r mg = (r, mg)"
| "process_all ops now actual ((n, e) # es) r mg =
     (case process_configured ops now actual e mg of
        (a, mg') \<Rightarrow> process_all ops now actual es (record_action n a r) mg')"

definition orphan_conflict :: "string \<Rightarrow> state_conflict" where
  "orphan_conflict n = \<lparr>cf_name = n, cf_description = ''Namespace '' @ quoted n @
     '' exists in system but has no configuration file'', cf_resolution = DeleteNamespace\<rparr>"

definition synchronize_state ::
  "'s nl_ops \<Rightarrow> nat \<Rightarrow> config_manager \<Rightarrow> 's state_manager \<Rightarrow> sync_result \<times> 's state_manager" where
  "synchronize_state ops now cm mg =
     (case o_list ops (net mg) of
        (Inl e, s) \<Rightarrow>
          (empty_result\<lparr>sr_errors := [''Failed to list system namespaces: '' @ show_segwire_error e]\<rparr>,
           mg\<lparr>net := s\<rparr>)
      | (Inr m, s) \<Rightarrow>
        (let configs = namespace_configs cm;
             actual = filter (\<lambda>(n, i). matches_namespace_prefix_cm cm n) m in
         case process_all ops now actual configs empty_result (mg\<lparr>net := s\<rparr>) of
           (r, mg1) \<Rightarrow>
             (let orphans = filter (\<lambda>n. \<not> containsM n configs) (keys actual);
                  gone = filter (\<lambda>n. \<not> containsM n configs \<and> \<not> containsM n actual) (keys (namespace_states mg1))
              in (r\<lparr>sr_conflicts := sr_conflicts r @ map orphan_conflict orphans, sr_deleted := gone\<rparr>,
                  (foldl (\<lambda>mg n. remove_namespace_state n mg) mg1 gone)\<lparr>last_sync := now\<rparr>))))"

definition force_sync ::
  "'s nl_ops \<Rightarrow> nat \<Rightarrow> config_manager \<Rightarrow> 's state_manager \<Rightarrow> sync_result \<times> 's state_manager" where
  "force_sync = synchronize_state"

section \<open>Conflicts, statistics, maintenance\<close>

definition resolve_conflict ::
  "'s nl_ops \<Rightarrow> nat \<Rightarrow> state_conflict \<Rightarrow> config_manager \<Rightarrow> 's state_manager \<Rightarrow> unit sres \<times> 's state_manager" where
  "resolve_conflict ops now cf cm mg =
     (case cf_resolution cf of
        CreateNamespace \<Rightarrow>
          (case get_namespace_config cm (cf_name cf) of
             None \<Rightarrow> (config_err (InvalidValue ''namespace_name'' (''No configuration found for '' @ cf_name cf)), mg)
           | Some e \<Rightarrow> (case create_new_namespace ops now e mg of
               (Inl err, mg') \<Rightarrow> (Inl err, mg') | (Inr _, mg') \<Rightarrow> (Ok (), mg')))
      | DeleteNamespace \<Rightarrow>
          (case o_delete ops (cf_name cf) (net mg) of
             (Inl err, s) \<Rightarrow> (Inl err, mg\<lparr>net := s\<rparr>)
           | (Inr _, s) \<Rightarrow> (Ok (), remove_namespace_state (cf_name cf) (mg\<lparr>net := s\<rparr>))))"

record state_stats =
  total_namespaces :: nat
  active_namespaces :: nat
  creating_namespaces :: nat
  failed_namespaces :: nat
  deleting_namespaces :: nat
  stats_last_sync :: nat

fun count_status :: "state_stats \<Rightarrow> namespace_status \<Rightarrow> state_stats" where
  "count_status s Active = s\<lparr>active_namespaces := active_namespaces s + 1\<rparr>"
| "count_status s Creating = s\<lparr>creating_namespaces := creating_namespaces s + 1\<rparr>"
| "count_status s Deleting = s\<lparr>deleting_namespaces := deleting_namespaces s + 1\<rparr>"
| "count_status s Failed = s\<lparr>failed_namespaces := failed_namespaces s + 1\<rparr>"

definition get_state_stats :: "'s state_manager \<Rightarrow> state_stats" where
  "get_state_stats mg = foldl count_status
     \<lparr>total_namespaces = length (namespace_states mg), active_namespaces = 0, creating_namespaces = 0,
      failed_namespaces = 0, deleting_namespaces = 0, stats_last_sync = last_sync mg\<rparr>
     (map (\<lambda>(n, st). status st) (namespace_states mg))"

definition stale_failed :: "nat \<Rightarrow> namespace_state \<Rightarrow> bool" where
  "stale_failed now st = (is_failed st \<and> last_updated st * second < now - 3600 * second)"

definition perform_maintenance :: "nat \<Rightarrow> 's state_manager \<Rightarrow> 's state_manager" where
  "perform_maintenance now mg =
     (let gone = map fst (filter (\<lambda>(n, st). stale_failed now st) (namespace_states mg))
      in foldl (\<lambda>mg n. remove_namespace_state n mg) mg gone)"

section \<open>What the manager relies on\<close>

text \<open>
  The store of namespaces: listing is faithful, a creation adds the name and a deletion removes
  it, a failure changes nothing.  The backend adds that configuring interfaces, addresses,
  routes and DNS neither creates nor deletes a namespace.
\<close>

definition frame :: "('s \<Rightarrow> bool) \<Rightarrow> ('s \<Rightarrow> string set) \<Rightarrow> 's \<Rightarrow> 's \<Rightarrow> bool" where
  "frame ok names s s' = (ok s \<longrightarrow> ok s' \<and> names s' = names s)"

lemma frame_refl [simp]: "frame ok names s s"
  by (simp add: frame_def)

lemma frame_trans: "frame ok names s t \<Longrightarrow> frame ok names t u \<Longrightarrow> frame ok names s u"
  by (simp add: frame_def)

lemma frame_rt [simp]: "reflp (frame ok names)" "transp (frame ok names)"
  by (auto simp: frame_def intro!: reflpI transpI)

definition creatable :: "string set \<Rightarrow> string \<Rightarrow> bool" where
  "creatable ns n = (n \<notin> ns \<and> is_ok (validate_namespace_name n))"

locale namespace_store =
  fixes ops :: "'s nl_ops" and ok :: "'s \<Rightarrow> bool" and names :: "'s \<Rightarrow> string set"
  assumes list_law: "ok s \<Longrightarrow> \<exists>m. o_list ops s = (Ok m, s) \<and> set (keys m) = names s \<and> distinct (keys m) \<and>
      (\<forall>(n, i) \<in> set m. nsi_active i)"
    and create_Ok: "ok s \<Longrightarrow> o_create ops n s = (Ok i, s') \<Longrightarrow>
      creatable (names s) n \<and> names s' = insert n (names s) \<and> ok s' \<and> nsi_active i"
    and create_Err: "ok s \<Longrightarrow> o_create ops n s = (Err e, s') \<Longrightarrow>
      \<not> creatable (names s) n \<and> names s' = names s \<and> ok s'"
    and delete_Ok: "ok s \<Longrightarrow> o_delete ops n s = (Ok u, s') \<Longrightarrow>
      n \<in> names s \<and> names s' = names s - {n} \<and> ok s'"
    and delete_Err: "ok s \<Longrightarrow> o_delete ops n s = (Err e, s') \<Longrightarrow> names s' = names s \<and> ok s'"
begin

lemma create_iff:
  "ok s \<Longrightarrow> is_ok (fst (o_create ops n s)) \<longleftrightarrow> creatable (names s) n"
proof -
  assume "ok s"
  obtain r s' where r: "o_create ops n s = (r, s')" by force
  show ?thesis
    using create_Ok [OF \<open>ok s\<close>, of n _ s'] create_Err [OF \<open>ok s\<close>, of n _ s'] r by (cases r) simp_all
qed

lemma create_delete:
  assumes "ok s" "o_create ops n s = (Ok i, s1)" "o_delete ops n s1 = (Ok u, s2)"
  shows "names s2 = names s"
  using create_Ok [OF assms(1,2)] delete_Ok [OF _ assms(3)] by (auto simp: creatable_def)

end

locale namespace_backend = namespace_store +
  assumes frames:
    "keeps (frame ok names) (o_veth ops a b)" "keeps (frame ok names) (o_move ops a b)"
    "keeps (frame ok names) (o_addr ops a b ip l)" "keeps (frame ok names) (o_up_ns ops a b)"
    "keeps (frame ok names) (o_up ops a)" "keeps (frame ok names) (o_wg ops a b)"
    "keeps (frame ok names) (o_wg_conf ops a b w)" "keeps (frame ok names) (o_vif ops a b c)"
    "keeps (frame ok names) (o_route ops a r)" "keeps (frame ok names) (o_dns ops a d)"

text \<open>Transformers built from such operations keep the frame.\<close>

lemma frame_exec: "keeps (frame ok names) m \<Longrightarrow> frame ok names s (execS m s)"
  by (simp add: execS_def keepsD)

lemma frame_exec_after: "keeps (frame ok names) m \<Longrightarrow> frame ok names s t \<Longrightarrow> frame ok names s (execS m t)"
  using frame_exec frame_trans by metis

lemma frame_ifOk:
  assumes "keeps (frame ok names) m" "\<And>s. frame ok names s (f s)"
  shows "frame ok names s (ifOk m f s)"
proof -
  have m: "frame ok names s (snd (m s))" using assms(1) by (rule keepsD)
  show ?thesis
  proof (cases "m s")
    case (Pair r s')
    then show ?thesis using m assms(2) [of s'] frame_trans [of ok names s s' "f s'"]
      by (cases r) (simp_all add: ifOk_def)
  qed
qed

lemma frame_foldl: "(\<And>s x. frame ok names s (g s x)) \<Longrightarrow> frame ok names s (foldl g s xs)"
proof (induction xs arbitrary: s)
  case (Cons x xs)
  then show ?case using frame_trans [of ok names s "g s x"] by simp
qed simp

lemmas frame_steps = frame_exec frame_exec_after frame_ifOk frame_foldl

context namespace_backend begin

lemma frame_address: "keeps (frame ok names) (apply_address ops n i a)"
  unfolding apply_address_def case_prod_beta
  by (intro keeps_intros frames frame_rt)

lemma frame_up_in_ns: "frame ok names s (up_in_ns ops n v s)"
  unfolding up_in_ns_def apply_addresses_def
  by (intro frame_exec_after frames frame_foldl frame_exec frame_address)

lemma frame_vif: "frame ok names s (apply_vif ops n w v s)"
proof -
  have "frame ok names t (execS (o_up ops p) (ifOk (o_move ops (vif_name v) n) (up_in_ns ops n v) t))" for t p
    by (intro frame_exec_after frame_ifOk frames frame_up_in_ns)
  moreover have "frame ok names t (case w of None \<Rightarrow> up_in_ns ops n v t
      | Some c \<Rightarrow> execS (o_wg_conf ops n (vif_name v) c) (up_in_ns ops n v t))" for t
    by (cases w) (auto intro: frame_exec_after frames frame_up_in_ns)
  ultimately show ?thesis unfolding apply_vif_def
    by (auto intro!: frame_ifOk frames frame_up_in_ns split: option.split)
qed

lemma frame_routes_dns: "frame ok names s (apply_routes_dns ops n c s)"
  unfolding apply_routes_dns_def Let_def
  by (auto intro!: frame_exec_after frame_foldl frame_exec frames split: option.split)

lemma frame_config: "frame ok names s (apply_config ops n c s)"
  unfolding apply_config_def Let_def
  by (rule frame_trans [OF frame_trans frame_routes_dns]; rule frame_foldl)
     (auto intro!: frame_vif frame_exec frames)

end

section \<open>The abstract synchronization\<close>

text \<open>
  The state a synchronization gives a configured namespace, from the state tracked before, the
  system's information, and whether the system would create it.
\<close>

fun synced :: "nat \<Rightarrow> config_entry \<Rightarrow> namespace_state option \<Rightarrow> namespace_info option \<Rightarrow> bool \<Rightarrow> namespace_state" where
  "synced now e (Some st) (Some i) cr =
     (if needs_namespace_update st e i then update_from_config now e i st else touch now st)"
| "synced now e (Some st) None cr = st"
| "synced now e None (Some i) cr = create_state_from_actual now e i"
| "synced now e None None True =
     touch now (update_from_config now e \<lparr>nsi_name = [], nsi_id = 0, nsi_path = [], nsi_active = True\<rparr>
       (set_status now Active (initial_state now e)))"
| "synced now e None None False = set_status now Failed (initial_state now e)"

lemma update_from_active: "nsi_active i \<Longrightarrow> nsi_active j \<Longrightarrow> update_from_config now e i st = update_from_config now e j st"
  by (simp add: update_from_config_def)

lemma touch_touch [simp]: "touch n (touch m st) = touch n st"
  by (simp add: touch_def)

lemma set_status_twice [simp]: "set_status n x (set_status m y st) = set_status n x st"
  by (simp add: set_status_def touch_def)

lemma touch_update [simp]: "touch now (update_from_config now e i st) = update_from_config now e i st"
  by (simp add: update_from_config_def)

lemma adjust_fields [simp]:
  "net (adjust_state n f mg) = net mg" "last_sync (adjust_state n f mg) = last_sync mg"
  "net (update_namespace_state st mg) = net mg" "last_sync (update_namespace_state st mg) = last_sync mg"
  "namespace_states (adjust_state n f mg) = adjustM n f (namespace_states mg)"
  "namespace_states (update_namespace_state st mg) = insertM (st_full_name st) st (namespace_states mg)"
  by (simp_all add: adjust_state_def update_namespace_state_def)

lemma initial_state_simps [simp]: "st_full_name (initial_state now e) = full_name e" "status (initial_state now e) = Creating"
  by (simp_all add: initial_state_def)

lemma created_full_name [simp]:
  "st_full_name (update_from_config now e i st) = st_full_name st"
  "st_full_name (create_state_from_actual now e i) = full_name e"
  by (simp_all add: update_from_config_def create_state_from_actual_def touch_def)

lemma map_of_adjustM_upd: "map_of (adjustM k f m) = (map_of m)(k := map_option f (map_of m k))"
  by (simp add: fun_eq_iff)

context namespace_backend begin

lemma process_step:
  assumes "ok (net mg)" "process_configured ops now actual e mg = (a, mg')"
  shows "map_of (namespace_states mg') = (map_of (namespace_states mg))(full_name e \<mapsto>
      synced now e (map_of (namespace_states mg) (full_name e)) (map_of actual (full_name e))
        (creatable (names (net mg)) (full_name e)))"
    and "ok (net mg')"
    and "names (net mg') = names (net mg) \<union>
      (if map_of (namespace_states mg) (full_name e) = None \<and> map_of actual (full_name e) = None \<and>
          creatable (names (net mg)) (full_name e) then {full_name e} else {})"
    and "a = Ok SyncCreated \<longleftrightarrow> map_of (namespace_states mg) (full_name e) = None \<and>
      map_of actual (full_name e) = None \<and> creatable (names (net mg)) (full_name e)"
proof -
  let ?n = "full_name e"
  have main: "map_of (namespace_states mg') = (map_of (namespace_states mg))(?n \<mapsto>
      synced now e (map_of (namespace_states mg) ?n) (map_of actual ?n) (creatable (names (net mg)) ?n)) \<and>
    ok (net mg') \<and> names (net mg') = names (net mg) \<union>
      (if map_of (namespace_states mg) ?n = None \<and> map_of actual ?n = None \<and>
          creatable (names (net mg)) ?n then {?n} else {}) \<and>
    (a = Ok SyncCreated \<longleftrightarrow> map_of (namespace_states mg) ?n = None \<and>
      map_of actual ?n = None \<and> creatable (names (net mg)) ?n)"
  proof (cases "map_of (namespace_states mg) ?n")
    case (Some st)
    note fr = frame_routes_dns [of "net mg" ?n "ce_config e"]
    show ?thesis
    proof (cases "map_of actual ?n")
      case None
      then have "mg' = mg" "a \<noteq> Ok SyncCreated" using assms(2) Some by (auto simp: process_configured_def)
      then show ?thesis using assms(1) Some None by (simp add: fun_upd_idem)
    next
      case act: (Some i)
      show ?thesis
      proof (cases "needs_namespace_update st e i")
        case True
        then have "(a, mg') = (Ok SyncUpdated, adjust_state ?n (update_from_config now e i)
            (mg\<lparr>net := apply_routes_dns ops ?n (ce_config e) (net mg)\<rparr>))"
          using assms(2) Some act by (simp add: process_configured_def update_existing_namespace_def)
        then show ?thesis using assms(1) Some act True fr by (simp add: map_of_adjustM_upd frame_def)
      next
        case False
        then have "(a, mg') = (Ok NoChange, adjust_state ?n (touch now) mg)"
          using assms(2) Some act by (simp add: process_configured_def)
        then show ?thesis using assms(1) Some act False by (simp add: map_of_adjustM_upd)
      qed
    qed
  next
    case st: None
    show ?thesis
    proof (cases "map_of actual ?n")
      case (Some i)
      then have "(a, mg') = (Ok SyncUpdated, update_namespace_state (create_state_from_actual now e i) mg)"
        using assms(2) st by (simp add: process_configured_def)
      then show ?thesis using assms(1) st Some by (simp add: update_conv')
    next
      case None
      obtain r s where r: "o_create ops ?n (net mg) = (r, s)" by force
      show ?thesis
      proof (cases r)
        case (Inl err)
        then have "(a, mg') = (Inl err, adjust_state ?n (set_status now Failed)
            ((update_namespace_state (set_status now Creating (initial_state now e)) mg)\<lparr>net := s\<rparr>))"
          using assms(2) st None r by (simp add: process_configured_def create_new_namespace_def Let_def)
        then show ?thesis using st None r Inl create_Err [OF assms(1), of ?n err s]
          by (simp add: map_of_adjustM_upd update_conv')
      next
        case (Inr info)
        note c = create_Ok [OF assms(1), of ?n info s]
        have "frame ok names s (apply_config ops ?n (ce_config e) s)" by (rule frame_config)
        moreover have "(a, mg') = (Ok SyncCreated, adjust_state ?n
            (\<lambda>st. update_from_config now e info (set_status now Active st))
            ((update_namespace_state (set_status now Creating (initial_state now e)) mg)
              \<lparr>net := apply_config ops ?n (ce_config e) s\<rparr>))"
          using assms(2) st None r Inr by (simp add: process_configured_def create_new_namespace_def Let_def)
        moreover have "update_from_config now e info st =
            update_from_config now e \<lparr>nsi_name = [], nsi_id = 0, nsi_path = [], nsi_active = True\<rparr> st" for st
          using c r Inr by (intro update_from_active) simp_all
        ultimately show ?thesis using st None r Inr c
          by (simp add: map_of_adjustM_upd update_conv' frame_def)
      qed
    qed
  qed
  then show "map_of (namespace_states mg') = (map_of (namespace_states mg))(?n \<mapsto>
      synced now e (map_of (namespace_states mg) ?n) (map_of actual ?n) (creatable (names (net mg)) ?n))"
    and "ok (net mg')" and "names (net mg') = names (net mg) \<union>
      (if map_of (namespace_states mg) ?n = None \<and> map_of actual ?n = None \<and>
          creatable (names (net mg)) ?n then {?n} else {})"
    and "a = Ok SyncCreated \<longleftrightarrow> map_of (namespace_states mg) ?n = None \<and>
      map_of actual ?n = None \<and> creatable (names (net mg)) ?n"
    by auto
qed

end

text \<open>
  The abstract manager: the namespaces of the system and the tracked states.  A
  synchronization creates the configured, untracked namespaces the system can create, gives each
  configured one its \<open>synced\<close> state, and forgets the states of names that are neither configured
  nor present (and managed) in the system.
\<close>

definition present_info :: "bool \<Rightarrow> namespace_info option" where
  "present_info b = (if b then Some \<lparr>nsi_name = [], nsi_id = 0, nsi_path = [], nsi_active = True\<rparr> else None)"

type_synonym abs_manager = "string set \<times> (string \<Rightarrow> namespace_state option)"

definition abs_sync :: "nat \<Rightarrow> (string \<Rightarrow> config_entry option) \<Rightarrow> string \<Rightarrow> abs_manager \<Rightarrow> abs_manager" where
  "abs_sync now C pre a =
     (case a of (N, S) \<Rightarrow>
       (N \<union> {k. C k \<noteq> None \<and> S k = None \<and> creatable N k},
        \<lambda>k. case C k of
              Some e \<Rightarrow> Some (synced now e (S k) (present_info (k \<in> N \<and> matches_prefix pre k)) (creatable N k))
            | None \<Rightarrow> if k \<in> N \<and> matches_prefix pre k then S k else None))"

definition abs_of :: "('s \<Rightarrow> string set) \<Rightarrow> 's state_manager \<Rightarrow> abs_manager" where
  "abs_of names mg = (names (net mg), map_of (namespace_states mg))"

definition keyed :: "(string \<times> config_entry) list \<Rightarrow> bool" where
  "keyed es = (distinct (keys es) \<and> (\<forall>(k, e) \<in> set es. k = full_name e))"

lemma keyed_Cons: "keyed ((k, e) # es) \<longleftrightarrow> k = full_name e \<and> k \<notin> set (keys es) \<and> keyed es"
  by (auto simp: keyed_def)

lemma record_created: "sr_created (record_action n a r) = sr_created r @ (if a = Ok SyncCreated then [n] else [])"
  by (auto simp: record_action_def split: sum.split sync_action.split)

lemma record_deleted: "sr_deleted (record_action n a r) = sr_deleted r"
  by (auto simp: record_action_def split: sum.split sync_action.split)

lemma remove_all_states:
  "map_of (namespace_states (foldl (\<lambda>mg n. remove_namespace_state n mg) mg ns)) k =
     (if k \<in> set ns then None else map_of (namespace_states mg) k)"
  "net (foldl (\<lambda>mg n. remove_namespace_state n mg) mg ns) = net mg"
  by (induction ns arbitrary: mg) (auto simp: remove_namespace_state_def)

lemma synced_present:
  "(\<And>i. act = Some i \<Longrightarrow> nsi_active i) \<Longrightarrow>
   synced now e s act cr = synced now e s (present_info (act \<noteq> None)) cr"
proof -
  assume h: "\<And>i. act = Some i \<Longrightarrow> nsi_active i"
  show ?thesis
  proof (cases act)
    case None
    then show ?thesis by (simp add: present_info_def)
  next
    case (Some i)
    let ?j = "\<lparr>nsi_name = [], nsi_id = 0, nsi_path = [], nsi_active = True\<rparr>"
    have u: "update_from_config now e i st = update_from_config now e ?j st" for st
      using h Some by (intro update_from_active) simp_all
    have d: "needs_namespace_update st e i = needs_namespace_update st e ?j" for st
      using h Some by (simp add: needs_namespace_update_def has_configuration_drift_def)
    show ?thesis unfolding Some present_info_def
      using u d by (cases s) (simp_all add: create_state_from_actual_def)
  qed
qed

context namespace_backend begin

lemma process_all_spec:
  assumes "keyed es" "ok (net mg)" "process_all ops now actual es r mg = (r', mg')"
  shows "ok (net mg') \<and>
    names (net mg') = names (net mg) \<union> {k \<in> set (keys es). map_of (namespace_states mg) k = None \<and>
       map_of actual k = None \<and> creatable (names (net mg)) k} \<and>
    (\<forall>k. map_of (namespace_states mg') k = (case map_of es k of None \<Rightarrow> map_of (namespace_states mg) k
       | Some e \<Rightarrow> Some (synced now e (map_of (namespace_states mg) k) (map_of actual k)
           (creatable (names (net mg)) k)))) \<and>
    set (sr_created r') = set (sr_created r) \<union> {k \<in> set (keys es). map_of (namespace_states mg) k = None \<and>
       map_of actual k = None \<and> creatable (names (net mg)) k} \<and> sr_deleted r' = sr_deleted r"
  using assms
proof (induction es arbitrary: r mg)
  case (Cons x es)
  obtain n e where x: "x = (n, e)" by force
  have n: "n = full_name e" "n \<notin> set (keys es)" "keyed es" using Cons.prems(1) by (auto simp: x keyed_Cons)
  obtain a mg1 where p: "process_configured ops now actual e mg = (a, mg1)" by force
  note st = process_step [OF Cons.prems(2) p, folded n(1)]
  have rest: "process_all ops now actual es (record_action n a r) mg1 = (r', mg')"
    using Cons.prems(3) p by (simp add: x)
  note IH = Cons.IH [OF n(3) st(2) rest]
  let ?N = "names (net mg)" and ?S = "map_of (namespace_states mg)"
  have same: "?S k = map_of (namespace_states mg1) k \<and> (creatable (names (net mg1)) k \<longleftrightarrow> creatable ?N k)"
    if "k \<noteq> n" for k
    using st(1,3) that by (auto simp: creatable_def)
  have new: "{k \<in> set (keys es). map_of (namespace_states mg1) k = None \<and> map_of actual k = None \<and>
      creatable (names (net mg1)) k} = {k \<in> set (keys es). ?S k = None \<and> map_of actual k = None \<and> creatable ?N k}"
  proof -
    have "(k \<in> set (keys es) \<and> map_of (namespace_states mg1) k = None \<and> map_of actual k = None \<and>
        creatable (names (net mg1)) k) = (k \<in> set (keys es) \<and> ?S k = None \<and> map_of actual k = None \<and> creatable ?N k)" for k
      using same [of k] n(2) by (cases "k = n") auto
    then show ?thesis by simp
  qed
  have split: "{k \<in> set (keys (x # es)). ?S k = None \<and> map_of actual k = None \<and> creatable ?N k} =
      (if ?S n = None \<and> map_of actual n = None \<and> creatable ?N n then {n} else {}) \<union>
      {k \<in> set (keys es). ?S k = None \<and> map_of actual k = None \<and> creatable ?N k}"
    by (auto simp: x)
  have states: "map_of (namespace_states mg') k = (case map_of (x # es) k of None \<Rightarrow> ?S k
       | Some e \<Rightarrow> Some (synced now e (?S k) (map_of actual k) (creatable ?N k)))" for k
  proof (cases "k = n")
    case True
    have "map_of es n = None" using n(2) by (simp add: map_of_eq_None_iff)
    then show ?thesis using IH st(1) True by (simp add: x)
  next
    case False
    then show ?thesis using IH same [of k] by (simp add: x split: option.split)
  qed
  let ?B = "{k \<in> set (keys es). ?S k = None \<and> map_of actual k = None \<and> creatable ?N k}"
  have rest_facts: "ok (net mg')" "names (net mg') = names (net mg1) \<union> ?B"
    "set (sr_created r') = set (sr_created (record_action n a r)) \<union> ?B" "sr_deleted r' = sr_deleted r"
    using IH unfolding new record_deleted by blast+
  have "names (net mg') = ?N \<union> {k \<in> set (keys (x # es)). ?S k = None \<and> map_of actual k = None \<and> creatable ?N k}"
    unfolding split rest_facts(2) st(3) by (simp only: Un_assoc)
  moreover have "set (sr_created r') = set (sr_created r) \<union>
      {k \<in> set (keys (x # es)). ?S k = None \<and> map_of actual k = None \<and> creatable ?N k}"
  proof (cases "a = Ok SyncCreated")
    case True
    with st(4) show ?thesis unfolding split rest_facts(3) record_created by auto
  next
    case False
    with st(4) show ?thesis unfolding split rest_facts(3) record_created by auto
  qed
  ultimately show ?case using rest_facts(1,4) states by blast
qed simp

text \<open>The concrete synchronization implements the abstract one.\<close>

lemma sync_refines:
  assumes ok: "ok (net mg)" and cm: "keyed (namespace_configs cm)"
    and sync: "synchronize_state ops now cm mg = (r, mg')"
  shows "abs_of names mg' = abs_sync now (map_of (namespace_configs cm)) (prefix_of cm) (abs_of names mg)"
    and "ok (net mg')" and "last_sync mg' = now"
    and "set (sr_created r) = {k \<in> set (keys (namespace_configs cm)).
      map_of (namespace_states mg) k = None \<and> (k \<in> names (net mg) \<longrightarrow> \<not> matches_prefix (prefix_of cm) k) \<and>
      creatable (names (net mg)) k}"
proof -
  let ?C = "namespace_configs cm" and ?N = "names (net mg)" and ?S = "map_of (namespace_states mg)"
  obtain m where m: "o_list ops (net mg) = (Ok m, net mg)" "set (keys m) = ?N" "distinct (keys m)"
    "\<forall>(n, i) \<in> set m. nsi_active i" using list_law [OF ok] by blast
  let ?act = "filter (\<lambda>(n, i). matches_namespace_prefix_cm cm n) m"
  obtain r1 mg1 where p: "process_all ops now ?act ?C empty_result mg = (r1, mg1)" by force
  note all = process_all_spec [OF cm ok p]
  let ?gone = "filter (\<lambda>n. \<not> containsM n ?C \<and> \<not> containsM n ?act) (keys (namespace_states mg1))"
  have mg': "mg' = (foldl (\<lambda>mg n. remove_namespace_state n mg) mg1 ?gone)\<lparr>last_sync := now\<rparr>"
    and r: "sr_created r = sr_created r1"
    using sync m(1) p by (auto simp: synchronize_state_def Let_def)
  have act: "k \<in> fst ` set ?act \<longleftrightarrow> k \<in> ?N \<and> matches_prefix (prefix_of cm) k" for k
    using m(2) by (force simp: matches_namespace_prefix_cm_def)
  have act_none: "map_of ?act k = None \<longleftrightarrow> \<not> (k \<in> ?N \<and> matches_prefix (prefix_of cm) k)" for k
    by (simp only: map_of_eq_None_iff act)
  have act_active: "nsi_active i" if "map_of ?act k = Some i" for k i
    using map_of_SomeD [OF that] m(4) by auto
  have info: "synced now e s (map_of ?act k) cr = synced now e s (present_info (k \<in> ?N \<and> matches_prefix (prefix_of cm) k)) cr"
    for k e s cr using synced_present [of "map_of ?act k" now e s cr] act_active act_none by simp
  have new: "{k \<in> set (keys ?C). ?S k = None \<and> map_of ?act k = None \<and> creatable ?N k} =
      {k. map_of ?C k \<noteq> None \<and> ?S k = None \<and> creatable ?N k}"
    unfolding act_none by (auto simp: creatable_def map_of_eq_None_iff)
  have "names (net mg') = ?N \<union> {k. map_of ?C k \<noteq> None \<and> ?S k = None \<and> creatable ?N k}"
    using all new by (simp add: mg' remove_all_states)
  moreover have "map_of (namespace_states mg') k = (case map_of ?C k of
        Some e \<Rightarrow> Some (synced now e (?S k) (present_info (k \<in> ?N \<and> matches_prefix (prefix_of cm) k)) (creatable ?N k))
      | None \<Rightarrow> if k \<in> ?N \<and> matches_prefix (prefix_of cm) k then ?S k else None)" for k
  proof (cases "map_of ?C k")
    case None
    have "containsM k ?act \<longleftrightarrow> k \<in> ?N \<and> matches_prefix (prefix_of cm) k"
      using act [of k] by (simp add: containsM_def)
    then have "k \<in> set ?gone \<longleftrightarrow> k \<in> set (keys (namespace_states mg1)) \<and> \<not> (k \<in> ?N \<and> matches_prefix (prefix_of cm) k)"
      using None by (auto simp: containsM_def map_of_eq_None_iff)
    moreover have "map_of (namespace_states mg1) k = ?S k" using all None by simp
    moreover have "k \<notin> set (keys (namespace_states mg1)) \<Longrightarrow> map_of (namespace_states mg1) k = None"
      by (simp add: map_of_eq_None_iff)
    ultimately show ?thesis using None by (auto simp: mg' remove_all_states)
  next
    case (Some e)
    have "containsM k ?C" using Some by (simp add: containsM_iff)
    then show ?thesis using all Some info by (simp add: mg' remove_all_states)
  qed
  ultimately show "abs_of names mg' = abs_sync now (map_of ?C) (prefix_of cm) (abs_of names mg)"
    by (simp add: abs_of_def abs_sync_def fun_eq_iff)
  show "ok (net mg')" using all by (simp add: mg' remove_all_states)
  show "last_sync mg' = now" by (simp add: mg')
  show "set (sr_created r) = {k \<in> set (keys ?C). ?S k = None \<and>
      (k \<in> ?N \<longrightarrow> \<not> matches_prefix (prefix_of cm) k) \<and> creatable ?N k}"
    using all new by (auto simp: r empty_result_def creatable_def map_of_eq_None_iff)
qed

end

section \<open>The simulation provides the backend\<close>

text \<open>The simulated backend on a fixed kernel \<open>k\<close>, which no operation changes.\<close>

definition sim_on :: "'k \<Rightarrow> 'k netlink \<Rightarrow> bool" where
  "sim_on k s = (sim_ok s \<and> nl_kernel s = k)"

lemma sim_same_keeps: "keeps sim_same m \<Longrightarrow> keeps (frame (sim_on k) sim_names) m"
  by (auto simp: keeps_def sim_same_def frame_def sim_on_def sim_ok_def is_simulated_def split: backend.splits)

lemma sim_kernel:
  "sim_ok s \<Longrightarrow> nl_kernel (snd (create_namespace y n s)) = nl_kernel s"
  "sim_ok s \<Longrightarrow> nl_kernel (snd (delete_namespace y n s)) = nl_kernel s"
  by (auto simp: sim_ok_def create_namespace_def delete_namespace_def thenS_def bindS_def liftS_def on_sim_def
      split: backend.splits prod.splits sum.splits)

interpretation sim: namespace_backend "netlink_ops y b64" "sim_on k" sim_names
  for y :: "'k sys" and b64 :: base64 and k :: 'k
proof unfold_locales
  fix s s' :: "'k netlink" and n i e and u :: unit
  show "sim_on k s \<Longrightarrow> \<exists>m. o_list (netlink_ops y b64) s = (Ok m, s) \<and> set (keys m) = sim_names s \<and>
      distinct (keys m) \<and> (\<forall>(n, i) \<in> set m. nsi_active i)"
    using sim_list [of s y] by (simp add: netlink_ops_def sim_on_def)
  show "sim_on k s \<Longrightarrow> o_create (netlink_ops y b64) n s = (Ok i, s') \<Longrightarrow>
      creatable (sim_names s) n \<and> sim_names s' = insert n (sim_names s) \<and> sim_on k s' \<and> nsi_active i"
    using sim_create_Ok [of s y n i s'] sim_kernel(1) [of s y n] by (simp add: netlink_ops_def creatable_def sim_on_def)
  show "sim_on k s \<Longrightarrow> o_create (netlink_ops y b64) n s = (Err e, s') \<Longrightarrow>
      \<not> creatable (sim_names s) n \<and> sim_names s' = sim_names s \<and> sim_on k s'"
    using sim_create_Err [of s y n e s'] by (auto simp: netlink_ops_def creatable_def sim_on_def)
  show "sim_on k s \<Longrightarrow> o_delete (netlink_ops y b64) n s = (Ok u, s') \<Longrightarrow>
      n \<in> sim_names s \<and> sim_names s' = sim_names s - {n} \<and> sim_on k s'"
    using sim_delete_Ok [of s y n u s'] sim_kernel(2) [of s y n] by (simp add: netlink_ops_def sim_on_def)
  show "sim_on k s \<Longrightarrow> o_delete (netlink_ops y b64) n s = (Err e, s') \<Longrightarrow>
      sim_names s' = sim_names s \<and> sim_on k s'"
    using sim_delete_Err [of s y n e s'] by (simp add: netlink_ops_def sim_on_def)
qed (simp_all add: netlink_ops_def sim_same_keeps sim_config_ops)

lemma sim_new_ok: "sim_ok \<lparr>nl_backend = Simulated new_sim, nl_kernel = k\<rparr>"
  "sim_names \<lparr>nl_backend = Simulated new_sim, nl_kernel = k\<rparr> = {}"
  by (simp_all add: sim_ok_def sim_names_def new_sim_def)

section \<open>Facts of the abstract synchronization\<close>

lemma abs_sync_keeps: "fst a \<subseteq> fst (abs_sync now C pre a)"
  by (auto simp: abs_sync_def split: prod.split)

lemma abs_sync_tracks: "C k \<noteq> None \<Longrightarrow> snd (abs_sync now C pre a) k \<noteq> None"
  by (auto simp: abs_sync_def split: prod.split)

text \<open>A failed namespace the system does not have keeps its state, whatever the configuration says.\<close>

lemma abs_sync_stuck:
  assumes "C k = Some e" "S k = Some st" "k \<notin> N"
  shows "snd (abs_sync now C pre (N, S)) k = Some st \<and> k \<notin> fst (abs_sync now C pre (N, S))"
  using assms by (simp add: abs_sync_def present_info_def)

text \<open>
  After a synchronization that created everything it could, another one with the same
  configuration creates nothing; the states keep their status and only get the new time.
\<close>

lemma synced_status:
  "status (synced now e (Some st) i cr) = (case i of Some j \<Rightarrow>
      (if needs_namespace_update st e j \<and> nsi_active j then Active else status st) | None \<Rightarrow> status st)"
  by (cases i) (simp_all add: update_from_config_def touch_def)

lemma abs_sync_settled:
  "fst (abs_sync now2 C pre (abs_sync now1 C pre a)) = fst (abs_sync now1 C pre a)"
  using abs_sync_tracks [of C _ now1 pre a]
  by (auto simp: abs_sync_def split: prod.splits)

section \<open>Statistics and maintenance\<close>

lemma count_status_sum:
  "active_namespaces (foldl count_status s xs) + creating_namespaces (foldl count_status s xs) +
   failed_namespaces (foldl count_status s xs) + deleting_namespaces (foldl count_status s xs) =
   active_namespaces s + creating_namespaces s + failed_namespaces s + deleting_namespaces s + length xs"
  "total_namespaces (foldl count_status s xs) = total_namespaces s"
proof (induction xs arbitrary: s)
  case (Cons x xs)
  { case 1 then show ?case using Cons by (cases x) simp_all }
  { case 2 then show ?case using Cons by (cases x) simp_all }
qed simp_all

lemma count_status_active:
  "active_namespaces (foldl count_status s xs) = active_namespaces s + count_list xs Active"
proof (induction xs arbitrary: s)
  case (Cons x xs)
  then show ?case by (cases x) simp_all
qed simp

lemma maintenance_states:
  assumes "distinct (keys (namespace_states mg))"
  shows "map_of (namespace_states (perform_maintenance now mg)) k =
    (case map_of (namespace_states mg) k of
       Some st \<Rightarrow> if stale_failed now st then None else Some st | None \<Rightarrow> None)"
    and "net (perform_maintenance now mg) = net mg"
proof -
  let ?gone = "map fst (filter (\<lambda>(n, st). stale_failed now st) (namespace_states mg))"
  have "k \<in> set ?gone \<longleftrightarrow> (\<exists>st. map_of (namespace_states mg) k = Some st \<and> stale_failed now st)"
    using map_of_in_set [OF assms] by force
  then show "map_of (namespace_states (perform_maintenance now mg)) k =
    (case map_of (namespace_states mg) k of
       Some st \<Rightarrow> if stale_failed now st then None else Some st | None \<Rightarrow> None)"
    by (auto simp: perform_maintenance_def remove_all_states split: option.split)
  show "net (perform_maintenance now mg) = net mg"
    by (simp add: perform_maintenance_def remove_all_states)
qed

section \<open>Properties\<close>

lemma manager_keyed: "manager_ok b64 cm \<Longrightarrow> keyed (namespace_configs cm)"
  by (auto simp: manager_ok_def configs_ok_def keyed_def)

lemma sim_onI: "sim_ok s \<Longrightarrow> sim_on (nl_kernel s) s"
  by (simp add: sim_on_def)

text \<open>Two namespaces in the configuration, one of them present in the simulated system.\<close>

definition two_configs :: config_manager where
  "two_configs = sample_manager\<lparr>namespace_configs :=
     [(''sw-db'', sample_entry ''db''), (''sw-web'', sample_entry ''web'')]\<rparr>"

definition sim_start :: "nat list netlink" where
  "sim_start = \<lparr>nl_backend = Simulated new_sim, nl_kernel = [3]\<rparr>"

definition start_manager :: "nat list netlink state_manager" where
  "start_manager = state_manager_new sim_start"

definition first_sync :: "sync_result \<times> nat list netlink state_manager" where
  "first_sync = synchronize_state (netlink_ops fd_sys no_base64) 5000000000 two_configs start_manager"

lemma start_ok: "sim_ok (net start_manager)" "sim_ok sim_start"
  by (simp_all add: start_manager_def state_manager_new_def sim_start_def sim_ok_def new_sim_def)

lemma sample_entries_ok:
  "entry_ok no_base64 ''sw'' (sample_entry ''db'')" "entry_ok no_base64 ''sw'' (sample_entry ''web'')"
proof -
  have v: "validate_namespace_config no_base64 (ce_config (sample_entry ''db'')) = Ok ()"
    "validate_namespace_config no_base64 (ce_config (sample_entry ''web'')) = Ok ()" by code_simp+
  have m: "should_manage ''sw'' (ns_name (namespace (ce_config (sample_entry ''db''))))"
    "should_manage ''sw'' (ns_name (namespace (ce_config (sample_entry ''web''))))" by code_simp+
  have f: "full_name (sample_entry ''db'') = full_name_for ''sw'' (ns_name (namespace (ce_config (sample_entry ''db''))))"
    "full_name (sample_entry ''web'') = full_name_for ''sw'' (ns_name (namespace (ce_config (sample_entry ''web''))))"
    by code_simp+
  show "entry_ok no_base64 ''sw'' (sample_entry ''db'')" "entry_ok no_base64 ''sw'' (sample_entry ''web'')"
    using v m f unfolding config_simps entry_ok_def by blast+
qed

lemma two_configs_ok: "manager_ok no_base64 two_configs"
proof -
  have "prefix_of two_configs = ''sw''" "full_name (sample_entry ''db'') = ''sw-db''"
    "full_name (sample_entry ''web'') = ''sw-web''" by code_simp+
  then show ?thesis using sample_entries_ok by (simp add: manager_ok_def configs_ok_def two_configs_def)
qed

text \<open>
  C1: on the simulated system a synchronization implements its specification: the namespaces and the
  tracked states after it are those the abstract synchronization gives, the backend is still a
  sound simulation, and the kernel was never touched.
\<close>

lemma sync_implements_spec:
  assumes "manager_ok b64' cm" "sim_ok (net mg)" "synchronize_state (netlink_ops y b64) now cm mg = (r, mg')"
  shows "abs_of sim_names mg' = abs_sync now (map_of (namespace_configs cm)) (prefix_of cm) (abs_of sim_names mg) \<and>
    sim_ok (net mg') \<and> nl_kernel (net mg') = nl_kernel (net mg)"
  using sim.sync_refines(1,2) [OF sim_onI [OF assms(2)] manager_keyed [OF assms(1)] assms(3)]
  by (simp add: sim_on_def)

lemma sync_implements_spec_witness: "sim_ok (net (snd first_sync)) \<and> nl_kernel (net (snd first_sync)) = [3]"
  using sync_implements_spec [OF two_configs_ok start_ok(1), of fd_sys no_base64 5000000000 "fst first_sync" "snd first_sync"]
  by (simp add: first_sync_def start_manager_def state_manager_new_def sim_start_def)

text \<open>
  C10: on the simulated backend, whose listing never fails, a synchronization deletes no namespace; the
  ones it creates, and reports, are exactly the configured names that are neither tracked nor already
  present and are valid names for the system; and every configured name is tracked afterwards.
\<close>

lemma sync_creates_exactly:
  assumes "manager_ok b64' cm" "sim_ok (net mg)" "synchronize_state (netlink_ops y b64) now cm mg = (r, mg')"
  shows "sim_names (net mg') = sim_names (net mg) \<union> set (sr_created r) \<and>
    set (sr_created r) = {k \<in> set (keys (namespace_configs cm)). get_namespace_state mg k = None \<and>
       k \<notin> sim_names (net mg) \<and> validate_namespace_name k = Ok ()} \<and>
    set (keys (namespace_configs cm)) \<subseteq> set (keys (namespace_states mg'))"
proof -
  note s = sim.sync_refines(1,4) [OF sim_onI [OF assms(2)] manager_keyed [OF assms(1)] assms(3)]
  have names: "sim_names (net mg') = sim_names (net mg) \<union> {k. map_of (namespace_configs cm) k \<noteq> None \<and>
      map_of (namespace_states mg) k = None \<and> creatable (sim_names (net mg)) k}"
    and states: "\<And>k. map_of (namespace_configs cm) k \<noteq> None \<Longrightarrow> map_of (namespace_states mg') k \<noteq> None"
    using s(1) by (auto simp: abs_of_def abs_sync_def)
  have ok: "is_ok (validate_namespace_name k) \<longleftrightarrow> validate_namespace_name k = Ok ()" for k
    by (cases "validate_namespace_name k") simp_all
  have created: "set (sr_created r) = {k \<in> set (keys (namespace_configs cm)). get_namespace_state mg k = None \<and>
       k \<notin> sim_names (net mg) \<and> validate_namespace_name k = Ok ()}"
    unfolding s(2) by (auto simp: creatable_def get_namespace_state_def ok)
  moreover have "set (sr_created r) = {k. map_of (namespace_configs cm) k \<noteq> None \<and>
      map_of (namespace_states mg) k = None \<and> creatable (sim_names (net mg)) k}"
    unfolding s(2) by (auto simp: creatable_def map_of_eq_None_iff)
  moreover have "set (keys (namespace_configs cm)) \<subseteq> set (keys (namespace_states mg'))"
  proof
    fix k assume "k \<in> set (keys (namespace_configs cm))"
    then have "map_of (namespace_states mg') k \<noteq> None" by (intro states) (simp add: map_of_eq_None_iff)
    then show "k \<in> set (keys (namespace_states mg'))" by (simp add: map_of_eq_None_iff)
  qed
  ultimately show ?thesis using names by simp
qed

lemma sync_creates_exactly_witness:
  "''sw-web'' \<in> sim_names (net (snd first_sync)) \<and> ''sw-db'' \<in> set (sr_created (fst first_sync))"
proof -
  have "validate_namespace_name ''sw-web'' = Ok ()" "validate_namespace_name ''sw-db'' = Ok ()" by code_simp+
  then show ?thesis
    using sync_creates_exactly [OF two_configs_ok start_ok(1), of fd_sys no_base64 5000000000 "fst first_sync" "snd first_sync"]
    by (auto simp: first_sync_def start_manager_def state_manager_new_def sim_start_def sim_names_def new_sim_def
        two_configs_def get_namespace_state_def)
qed

text \<open>
  A synchronization settles: a second one with the same configuration creates no namespace.
\<close>

lemma second_sync_creates_nothing:
  assumes "manager_ok b64' cm" "sim_ok (net mg)"
    and "synchronize_state (netlink_ops y b64) now1 cm mg = (r1, mg1)"
    and "synchronize_state (netlink_ops y b64) now2 cm mg1 = (r2, mg2)"
  shows "sr_created r2 = [] \<and> sim_names (net mg2) = sim_names (net mg1)"
proof -
  have k: "keyed (namespace_configs cm)" using assms(1) by (rule manager_keyed)
  note s1 = sim.sync_refines(1,2) [OF sim_onI [OF assms(2)] k assms(3)]
  note s2 = sim.sync_refines(1,4) [OF s1(2) k assms(4)]
  have tracked: "map_of (namespace_configs cm) j \<noteq> None \<Longrightarrow> map_of (namespace_states mg1) j \<noteq> None" for j
    using abs_sync_tracks [of "map_of (namespace_configs cm)" j now1 "prefix_of cm" "abs_of sim_names mg"]
    unfolding s1(1) [symmetric] by (simp add: abs_of_def)
  then have "set (sr_created r2) = {}" unfolding s2(2) by (auto simp: map_of_eq_None_iff)
  moreover have "{j. map_of (namespace_configs cm) j \<noteq> None \<and> map_of (namespace_states mg1) j = None \<and>
      creatable (sim_names (net mg1)) j} = {}" using tracked by blast
  then have "sim_names (net mg2) = sim_names (net mg1)"
    using s2(1) unfolding abs_of_def abs_sync_def prod.case by (simp only: prod.inject Un_empty_right)
  ultimately show ?thesis by simp
qed

lemma second_sync_creates_nothing_witness:
  "sr_created (fst (synchronize_state (netlink_ops fd_sys no_base64) 6000000000 two_configs (snd first_sync))) = []"
  using second_sync_creates_nothing [OF two_configs_ok start_ok(1), of fd_sys no_base64 5000000000
      "fst first_sync" "snd first_sync" 6000000000]
  by (metis first_sync_def prod.collapse)
fun run_syncs :: "'s nl_ops \<Rightarrow> (nat \<times> config_manager) list \<Rightarrow> 's state_manager \<Rightarrow> 's state_manager" where
  "run_syncs ops [] mg = mg"
| "run_syncs ops ((now, cm) # xs) mg = run_syncs ops xs (snd (synchronize_state ops now cm mg))"

text \<open>
  In the simulation, where nothing else creates namespaces, one that is tracked but not in the system, as
  after a failed creation, is stuck: over any sequence of synchronizations that keep it configured, its
  state does not change and the namespace is never created.
\<close>

lemma failed_stuck_simulated:
  assumes "sim_ok (net mg)" "get_namespace_state mg k = Some st" "k \<notin> sim_names (net mg)"
    and "\<forall>(now, cm) \<in> set xs. manager_ok b64' cm \<and> get_namespace_config cm k \<noteq> None"
  shows "get_namespace_state (run_syncs (netlink_ops y b64) xs mg) k = Some st \<and>
    k \<notin> sim_names (net (run_syncs (netlink_ops y b64) xs mg))"
  using assms
proof (induction xs arbitrary: mg)
  case (Cons x xs)
  obtain now cm where x: "x = (now, cm)" by force
  obtain r mg1 where s: "synchronize_state (netlink_ops y b64) now cm mg = (r, mg1)" by force
  have cm: "manager_ok b64' cm" "get_namespace_config cm k \<noteq> None" using Cons.prems(4) by (auto simp: x)
  note ref = sim.sync_refines(1,2) [OF sim_onI [OF Cons.prems(1)] manager_keyed [OF cm(1)] s]
  obtain e where e: "map_of (namespace_configs cm) k = Some e"
    using cm(2) by (auto simp: get_namespace_config_def)
  have "snd (abs_of sim_names mg1) k = Some st \<and> k \<notin> fst (abs_of sim_names mg1)"
    unfolding ref(1) abs_of_def [of sim_names mg] using Cons.prems(2,3) e
    by (intro abs_sync_stuck) (simp_all add: get_namespace_state_def)
  then have "get_namespace_state mg1 k = Some st" "k \<notin> sim_names (net mg1)" "sim_ok (net mg1)"
    using ref(2) by (simp_all add: abs_of_def get_namespace_state_def sim_on_def)
  then show ?case using Cons.IH [of mg1] Cons.prems(4) s by (simp add: x)
qed simp

lemma failed_stuck_simulated_witness:
  "get_namespace_state (run_syncs (netlink_ops fd_sys no_base64) [(1, two_configs), (2, two_configs)]
     (update_namespace_state (set_status 0 Failed (initial_state 0 (sample_entry ''web''))) start_manager)) ''sw-web'' =
   Some (set_status 0 Failed (initial_state 0 (sample_entry ''web'')))"
proof -
  let ?mg = "update_namespace_state (set_status 0 Failed (initial_state 0 (sample_entry ''web''))) start_manager"
  have "get_namespace_state ?mg ''sw-web'' = Some (set_status 0 Failed (initial_state 0 (sample_entry ''web'')))"
    by (simp add: get_namespace_state_def sample_entry_def)
  moreover have "sim_ok (net ?mg)" "''sw-web'' \<notin> sim_names (net ?mg)"
    using start_ok by (simp_all add: start_manager_def state_manager_new_def sim_start_def sim_names_def new_sim_def)
  moreover have "get_namespace_config two_configs ''sw-web'' \<noteq> None"
    by (simp add: get_namespace_config_def two_configs_def)
  moreover have "\<forall>(now, cm) \<in> set [(1, two_configs), (2, two_configs)].
      manager_ok no_base64 cm \<and> get_namespace_config cm ''sw-web'' \<noteq> None"
    using two_configs_ok calculation by simp
  ultimately show ?thesis using failed_stuck_simulated by blast
qed

text \<open>
  Maintenance forgets exactly the failed states that were last touched more than an hour ago, and
  leaves every other state and the system as they are.
\<close>

lemma maintenance_forgets_stale:
  assumes "distinct (keys (namespace_states mg))"
  shows "get_namespace_state (perform_maintenance now mg) k =
      (case get_namespace_state mg k of
         Some st \<Rightarrow> if status st = Failed \<and> last_updated st * second + 3600 * second < now then None else Some st
       | None \<Rightarrow> None) \<and>
    net (perform_maintenance now mg) = net mg"
  using maintenance_states(1) [OF assms, of now k] maintenance_states(2) [OF assms, of now]
  by (auto simp: get_namespace_state_def stale_failed_def is_failed_def less_diff_conv split: option.split)

lemma maintenance_forgets_stale_witness:
  "get_namespace_state (perform_maintenance (3601 * second)
     (update_namespace_state (set_status 0 Failed (initial_state 0 (sample_entry ''web''))) start_manager)) ''sw-web'' = None"
proof -
  let ?mg = "update_namespace_state (set_status 0 Failed (initial_state 0 (sample_entry ''web''))) start_manager"
  have "distinct (keys (namespace_states ?mg))" by (simp add: start_manager_def state_manager_new_def)
  moreover have "get_namespace_state ?mg ''sw-web'' = Some (set_status 0 Failed (initial_state 0 (sample_entry ''web'')))"
    by (simp add: get_namespace_state_def sample_entry_def)
  ultimately show ?thesis
    using maintenance_forgets_stale [of ?mg "3601 * second" "''sw-web''"] by (simp add: unix_secs_def second_def)
qed

text \<open>
  The statistics add up: every tracked namespace is counted under exactly one status, and the
  active count is the number of active states.
\<close>

lemma stats_add_up:
  "(let s = get_state_stats mg in
    total_namespaces s = length (namespace_states mg) \<and>
    active_namespaces s + creating_namespaces s + failed_namespaces s + deleting_namespaces s = total_namespaces s \<and>
    active_namespaces s = length (filter (\<lambda>(n, st). is_active st) (namespace_states mg)))"
proof -
  have c: "count_list (map (\<lambda>(n, st). status st) m) Active = length (filter (\<lambda>(n, st). is_active st) m)"
    for m :: "(string \<times> namespace_state) list"
    by (induction m) (auto simp: is_active_def)
  let ?s = "\<lparr>total_namespaces = length (namespace_states mg), active_namespaces = 0, creating_namespaces = 0,
      failed_namespaces = 0, deleting_namespaces = 0, stats_last_sync = last_sync mg\<rparr>"
  show ?thesis
    using count_status_sum [of ?s "map (\<lambda>(n, st). status st) (namespace_states mg)"]
      count_status_active [of ?s "map (\<lambda>(n, st). status st) (namespace_states mg)"]
    unfolding get_state_stats_def Let_def c by simp
qed

end
