(* ===== verification/AnyBackend.thy ===== *)
theory AnyBackend
  imports NamespaceState
begin

text \<open>
  The synchronization on any backend: nothing is assumed of what its operations answer or do, the
  listing included, so that the facts hold for the kernel as for the simulation.  What a backend with
  the laws of a store adds is in \<^verbatim>\<open>NamespaceState\<close>.
\<close>

section \<open>One configured namespace\<close>

text \<open>Deleting is no part of a synchronization, and creating only of the creation of an untracked namespace.\<close>

lemmas apply_defs = apply_config_def apply_vif_def apply_addresses_def apply_address_def up_in_ns_def apply_routes_dns_def

lemma apply_without_delete: "apply_config (ops\<lparr>o_delete := d\<rparr>) n c s = apply_config ops n c s"
  by (cases ops, hypsubst, unfold apply_defs nl_ops.simps, rule refl)

lemma apply_without_create: "apply_config (ops\<lparr>o_create := f\<rparr>) n c s = apply_config ops n c s"
  by (cases ops, hypsubst, unfold apply_defs nl_ops.simps, rule refl)

lemma routes_without_delete: "apply_routes_dns (ops\<lparr>o_delete := d\<rparr>) n c s = apply_routes_dns ops n c s"
  by (cases ops, hypsubst, unfold apply_defs nl_ops.simps, rule refl)

lemma routes_without_create: "apply_routes_dns (ops\<lparr>o_create := f\<rparr>) n c s = apply_routes_dns ops n c s"
  by (cases ops, hypsubst, unfold apply_defs nl_ops.simps, rule refl)

lemmas apply_config_update = apply_without_delete apply_without_create routes_without_delete routes_without_create

lemma update_without_delete: "update_existing_namespace (ops\<lparr>o_delete := d\<rparr>) = update_existing_namespace ops"
  unfolding update_existing_namespace_def [abs_def] apply_config_update by (rule refl)

lemma update_without_create: "update_existing_namespace (ops\<lparr>o_create := f\<rparr>) = update_existing_namespace ops"
  unfolding update_existing_namespace_def [abs_def] apply_config_update by (rule refl)

lemmas update_existing_update = update_without_delete update_without_create

lemma create_without_delete: "create_new_namespace (ops\<lparr>o_delete := d\<rparr>) = create_new_namespace ops"
  unfolding create_new_namespace_def [abs_def] apply_config_update by simp

lemma process_without_delete: "process_configured (ops\<lparr>o_delete := d\<rparr>) = process_configured ops"
  unfolding process_configured_def [abs_def] update_existing_update create_without_delete by (rule refl)

lemma process_all_without_delete: "process_all (ops\<lparr>o_delete := d\<rparr>) now actual es r mg = process_all ops now actual es r mg"
  by (induction es arbitrary: r mg) (auto simp: process_without_delete split: prod.split)

lemma sync_without_delete: "synchronize_state (ops\<lparr>o_delete := d\<rparr>) now cm mg = synchronize_state ops now cm mg"
  unfolding synchronize_state_def process_all_without_delete by simp

definition status_of :: "'s state_manager \<Rightarrow> string \<Rightarrow> namespace_status option" where
  "status_of mg k = map_option status (get_namespace_state mg k)"

text \<open>Processing touches the state of its own name only, which is tracked afterwards.\<close>

lemma process_other:
  assumes "process_configured ops now actual e mg = (a, mg')" "k \<noteq> full_name e"
  shows "map_of (namespace_states mg') k = map_of (namespace_states mg) k"
  using assms
  by (auto simp: process_configured_def create_new_namespace_def update_existing_namespace_def Let_def
      map_of_adjustM_upd split: option.splits prod.splits sum.splits if_splits)

lemma process_tracks:
  assumes "process_configured ops now actual e mg = (a, mg')"
  shows "map_of (namespace_states mg') (full_name e) \<noteq> None"
  using assms
  by (auto simp: process_configured_def create_new_namespace_def update_existing_namespace_def Let_def
      map_of_adjustM_upd split: option.splits prod.splits sum.splits if_splits)

text \<open>Only an untracked name that was not listed is created; it is active then, and failed otherwise.\<close>

lemma process_creates:
  assumes "process_configured ops now actual e mg = (a, mg')"
  shows "if map_of (namespace_states mg) (full_name e) = None \<and> map_of actual (full_name e) = None
    then status_of mg' (full_name e) = Some (if a = Ok SyncCreated then Active else Failed)
    else a \<noteq> Ok SyncCreated"
proof (cases "map_of (namespace_states mg) (full_name e)"; cases "map_of actual (full_name e)")
  assume n: "map_of (namespace_states mg) (full_name e) = None" "map_of actual (full_name e) = None"
  then have "create_new_namespace ops now e mg = (a, mg')" using assms by (simp add: process_configured_def)
  then show ?thesis using n
    by (auto simp: create_new_namespace_def Let_def status_of_def get_namespace_state_def map_of_adjustM_upd
        update_from_config_def set_status_def touch_def split: prod.splits sum.splits)
qed (use assms in \<open>auto simp: process_configured_def update_existing_namespace_def split: if_splits\<close>)

text \<open>A tracked name that is not listed is left alone, and its creation is not called.\<close>

lemma process_unlisted:
  assumes "process_configured ops now actual e mg = (a, mg')" "map_of (namespace_states mg) k = Some st"
    "map_of actual k = None"
  shows "map_of (namespace_states mg') k = Some st \<and>
    process_configured (ops\<lparr>o_create := (o_create ops)(k := g)\<rparr>) now actual e mg = (a, mg')"
proof (cases "full_name e = k")
  case True
  then show ?thesis using assms by (auto simp: process_configured_def)
next
  case False
  then have c: "create_new_namespace (ops\<lparr>o_create := (o_create ops)(k := g)\<rparr>) now e mg = create_new_namespace ops now e mg"
    unfolding create_new_namespace_def apply_config_update by simp
  then have "process_configured (ops\<lparr>o_create := (o_create ops)(k := g)\<rparr>) now actual e mg = (a, mg')"
    using assms(1) unfolding process_configured_def update_existing_update c by simp
  then show ?thesis using process_other [OF assms(1)] False assms(2) by auto
qed

section \<open>All of them\<close>

lemma process_all_any:
  assumes "keyed es" "process_all ops now actual es r mg = (r', mg')"
  shows "(\<forall>k. k \<notin> set (keys es) \<longrightarrow> map_of (namespace_states mg') k = map_of (namespace_states mg) k) \<and>
    (\<forall>k \<in> set (keys es). map_of (namespace_states mg') k \<noteq> None) \<and>
    (\<exists>new. set (sr_created r') = set (sr_created r) \<union> new \<and> new \<subseteq> set (keys es) \<and>
      (\<forall>k \<in> set (keys es). if map_of (namespace_states mg) k = None \<and> map_of actual k = None
         then status_of mg' k = Some (if k \<in> new then Active else Failed) else k \<notin> new))"
  using assms
proof (induction es arbitrary: r mg)
  case (Cons x es)
  obtain n e where x: "x = (n, e)" by force
  have n: "n = full_name e" "n \<notin> set (keys es)" "keyed es" using Cons.prems(1) by (auto simp: x keyed_Cons)
  obtain a mg1 where p: "process_configured ops now actual e mg = (a, mg1)" by force
  have rest: "process_all ops now actual es (record_action n a r) mg1 = (r', mg')"
    using Cons.prems(2) p by (simp add: x)
  obtain new where new: "set (sr_created r') = set (sr_created (record_action n a r)) \<union> new" "new \<subseteq> set (keys es)"
    "\<forall>k \<in> set (keys es). if map_of (namespace_states mg1) k = None \<and> map_of actual k = None
         then status_of mg' k = Some (if k \<in> new then Active else Failed) else k \<notin> new"
    and other: "\<forall>k. k \<notin> set (keys es) \<longrightarrow> map_of (namespace_states mg') k = map_of (namespace_states mg1) k"
    and tracked: "\<forall>k \<in> set (keys es). map_of (namespace_states mg') k \<noteq> None"
    using Cons.IH [OF n(3) rest] by blast
  have same: "map_of (namespace_states mg1) k = map_of (namespace_states mg) k" if "k \<noteq> n" for k
    using process_other [OF p] that n(1) by simp
  have own: "map_of (namespace_states mg') n = map_of (namespace_states mg1) n" using other n(2) by blast
  then have st: "status_of mg' n = status_of mg1 n" by (simp add: status_of_def get_namespace_state_def)
  let ?new = "new \<union> (if a = Ok SyncCreated then {n} else {})"
  have "set (sr_created r') = set (sr_created r) \<union> ?new" using new(1) by (auto simp: record_created)
  moreover have "?new \<subseteq> set (keys (x # es))" using new(2) by (auto simp: x)
  moreover have "if map_of (namespace_states mg) k = None \<and> map_of actual k = None
         then status_of mg' k = Some (if k \<in> ?new then Active else Failed) else k \<notin> ?new"
    if "k \<in> set (keys (x # es))" for k
  proof (cases "k = n")
    case True
    then show ?thesis using process_creates [OF p] st n(1,2) new(2) by auto
  next
    case False
    then have "k \<in> set (keys es)" using that by (simp add: x)
    from bspec [OF new(3) this] show ?thesis using False same [OF False] by simp
  qed
  moreover have "map_of (namespace_states mg') k \<noteq> None" if "k \<in> set (keys (x # es))" for k
    using that tracked own process_tracks [OF p] n(1) by (cases "k = n") (auto simp: x)
  moreover have "map_of (namespace_states mg') k = map_of (namespace_states mg) k" if "k \<notin> set (keys (x # es))" for k
    using that other same by (auto simp: x)
  ultimately show ?case by blast
qed simp

lemma process_all_unlisted:
  assumes "process_all ops now actual es r mg = (r', mg')" "map_of (namespace_states mg) k = Some st" "map_of actual k = None"
  shows "map_of (namespace_states mg') k = Some st \<and>
    process_all (ops\<lparr>o_create := (o_create ops)(k := g)\<rparr>) now actual es r mg = (r', mg')"
  using assms
proof (induction es arbitrary: r mg)
  case (Cons x es)
  obtain n e where x: "x = (n, e)" by force
  obtain a mg1 where p: "process_configured ops now actual e mg = (a, mg1)" by force
  have rest: "process_all ops now actual es (record_action n a r) mg1 = (r', mg')"
    using Cons.prems(1) p by (simp add: x)
  note one = process_unlisted [OF p Cons.prems(2,3), of g]
  show ?case using Cons.IH [OF rest conjunct1 [OF one] Cons.prems(3)] conjunct2 [OF one] by (simp add: x del: fun_upd_apply)
qed simp

section \<open>A synchronization\<close>

text \<open>What a listing shows of the managed namespaces.\<close>

definition managed_in :: "config_manager \<Rightarrow> (string \<times> namespace_info) list \<Rightarrow> string \<Rightarrow> namespace_info option" where
  "managed_in cm m = map_of (filter (\<lambda>(n, i). matches_namespace_prefix_cm cm n) m)"

lemma managed_in_listed: "map_of m k = None \<Longrightarrow> managed_in cm m k = None"
  by (induction m) (auto simp: managed_in_def split: if_splits)

lemma sync_listed:
  assumes "synchronize_state ops now cm mg = (r, mg')" "o_list ops (net mg) = (Ok m, s)"
  obtains r1 mg1 where
    "process_all ops now (filter (\<lambda>(n, i). matches_namespace_prefix_cm cm n) m) (namespace_configs cm) empty_result
       (mg\<lparr>net := s\<rparr>) = (r1, mg1)"
    "sr_created r = sr_created r1"
    "\<And>k. k \<in> set (keys (namespace_configs cm)) \<Longrightarrow> map_of (namespace_states mg') k = map_of (namespace_states mg1) k"
proof -
  let ?act = "filter (\<lambda>(n, i). matches_namespace_prefix_cm cm n) m"
  obtain r1 mg1 where p: "process_all ops now ?act (namespace_configs cm) empty_result (mg\<lparr>net := s\<rparr>) = (r1, mg1)" by force
  let ?gone = "filter (\<lambda>n. \<not> containsM n (namespace_configs cm) \<and> \<not> containsM n ?act) (keys (namespace_states mg1))"
  have "sr_created r = sr_created r1" "mg' = (foldl (\<lambda>mg n. remove_namespace_state n mg) mg1 ?gone)\<lparr>last_sync := now\<rparr>"
    using assms p by (auto simp: synchronize_state_def Let_def)
  then show thesis using that [OF p] by (auto simp: remove_all_states containsM_def)
qed

text \<open>A tracked and configured name that is not listed: nothing happens to it.\<close>

lemma sync_unlisted:
  assumes "synchronize_state ops now cm mg = (r, mg')" "get_namespace_state mg k = Some st"
    "k \<in> set (keys (namespace_configs cm))" "keyed (namespace_configs cm)"
    "case fst (o_list ops (net mg)) of Inl e \<Rightarrow> True | Inr m \<Rightarrow> map_of m k = None"
  shows "get_namespace_state mg' k = Some st \<and> k \<notin> set (sr_created r) \<and>
    synchronize_state (ops\<lparr>o_create := (o_create ops)(k := g)\<rparr>) now cm mg = (r, mg')"
proof (cases "o_list ops (net mg)")
  case (Pair l s)
  show ?thesis
  proof (cases l)
    case (Inl e)
    then show ?thesis using assms(1,2) Pair
      by (auto simp: synchronize_state_def empty_result_def get_namespace_state_def)
  next
    case (Inr m)
    let ?act = "filter (\<lambda>(n, i). matches_namespace_prefix_cm cm n) m"
    have l: "o_list ops (net mg) = (Ok m, s)" and k: "map_of ?act k = None"
      using Pair Inr assms(5) managed_in_listed [of m k cm] by (simp_all add: managed_in_def)
    obtain r1 mg1 where p: "process_all ops now ?act (namespace_configs cm) empty_result (mg\<lparr>net := s\<rparr>) = (r1, mg1)"
      "sr_created r = sr_created r1" "map_of (namespace_states mg') k = map_of (namespace_states mg1) k"
      using sync_listed [OF assms(1) l] assms(3) by metis
    have st: "map_of (namespace_states (mg\<lparr>net := s\<rparr>)) k = Some st" using assms(2) by (simp add: get_namespace_state_def)
    note un = process_all_unlisted [OF p(1) st k, of g]
    have "k \<notin> set (sr_created r1)"
      using process_all_any [OF assms(4) p(1)] assms(3) st by (auto simp: empty_result_def)
    moreover have "synchronize_state (ops\<lparr>o_create := (o_create ops)(k := g)\<rparr>) now cm mg = synchronize_state ops now cm mg"
      unfolding synchronize_state_def using un p(1) l by (simp del: fun_upd_apply)
    ultimately show ?thesis using un p assms(1) by (simp add: get_namespace_state_def)
  qed
qed

lemma split_by_value:
  assumes "A \<subseteq> F" "\<And>k. k \<in> F \<Longrightarrow> f k = Some (if k \<in> A then a else b)" "a \<noteq> b"
  shows "A = {k \<in> F. f k = Some a} \<and> F - A = {k \<in> F. f k = Some b}"
  using assms by (auto split: if_splits)

section \<open>Properties\<close>

text \<open>
  C23: on any backend, whatever it answers, a synchronization deletes no namespace.  When the listing
  fails, it creates none and changes no state.  Else every configured name is tracked afterwards; the
  names reported as created are those that were configured, untracked and not listed and are active
  now, and the others of these are failed.
\<close>

lemma sync_on_any_backend:
  assumes "manager_ok b64 cm" "synchronize_state ops now cm mg = (r, mg')"
  shows "synchronize_state (ops\<lparr>o_delete := d\<rparr>) now cm mg = (r, mg') \<and>
    (case fst (o_list ops (net mg)) of
       Inl e \<Rightarrow> sr_created r = [] \<and> namespace_states mg' = namespace_states mg
     | Inr m \<Rightarrow>
        (let fresh = {k \<in> set (keys (namespace_configs cm)). get_namespace_state mg k = None \<and> managed_in cm m k = None} in
         set (keys (namespace_configs cm)) \<subseteq> set (keys (namespace_states mg')) \<and>
         set (sr_created r) = {k \<in> fresh. status_of mg' k = Some Active} \<and>
         fresh - set (sr_created r) = {k \<in> fresh. status_of mg' k = Some Failed}))"
proof (cases "o_list ops (net mg)")
  case (Pair l s)
  show ?thesis
  proof (cases l)
    case (Inl e)
    then show ?thesis using assms(2) Pair
      by (auto simp: sync_without_delete) (auto simp: synchronize_state_def empty_result_def)
  next
    case (Inr m)
    have l: "o_list ops (net mg) = (Ok m, s)" using Pair Inr by simp
    obtain r1 mg1 where p: "process_all ops now (filter (\<lambda>(n, i). matches_namespace_prefix_cm cm n) m)
        (namespace_configs cm) empty_result (mg\<lparr>net := s\<rparr>) = (r1, mg1)" "sr_created r = sr_created r1"
      "\<And>k. k \<in> set (keys (namespace_configs cm)) \<Longrightarrow> map_of (namespace_states mg') k = map_of (namespace_states mg1) k"
      using sync_listed [OF assms(2) l] by metis
    obtain new where new: "set (sr_created r1) = new" "new \<subseteq> set (keys (namespace_configs cm))"
      "\<forall>k \<in> set (keys (namespace_configs cm)). map_of (namespace_states mg1) k \<noteq> None"
      "\<forall>k \<in> set (keys (namespace_configs cm)). if get_namespace_state mg k = None \<and> managed_in cm m k = None
         then status_of mg1 k = Some (if k \<in> new then Active else Failed) else k \<notin> new"
      using process_all_any [OF manager_keyed [OF assms(1)] p(1)]
      by (auto simp: empty_result_def get_namespace_state_def managed_in_def)
    have st: "status_of mg' k = status_of mg1 k" if "k \<in> set (keys (namespace_configs cm))" for k
      using p(3) [OF that] by (simp add: status_of_def get_namespace_state_def)
    let ?fresh = "{k \<in> set (keys (namespace_configs cm)). get_namespace_state mg k = None \<and> managed_in cm m k = None}"
    have "k \<in> ?fresh" if "k \<in> new" for k
    proof -
      have k: "k \<in> set (keys (namespace_configs cm))" using that new(2) by blast
      show ?thesis using bspec [OF new(4) k] k that by (cases "get_namespace_state mg k = None \<and> managed_in cm m k = None") simp_all
    qed
    moreover have "status_of mg' k = Some (if k \<in> new then Active else Failed)" if "k \<in> ?fresh" for k
    proof -
      have k: "k \<in> set (keys (namespace_configs cm))" "get_namespace_state mg k = None \<and> managed_in cm m k = None"
        using that by blast+
      show ?thesis using bspec [OF new(4) k(1)] st [OF k(1)] unfolding if_P [OF k(2)] by simp
    qed
    ultimately have "new = {k \<in> ?fresh. status_of mg' k = Some Active} \<and>
      ?fresh - new = {k \<in> ?fresh. status_of mg' k = Some Failed}"
      by (intro split_by_value) (blast | simp)+
    moreover have "set (keys (namespace_configs cm)) \<subseteq> set (keys (namespace_states mg'))"
    proof
      fix k assume k: "k \<in> set (keys (namespace_configs cm))"
      have "map_of (namespace_states mg') k \<noteq> None" using p(3) [OF k] bspec [OF new(3) k] by (simp only: not_False_eq_True)
      then show "k \<in> set (keys (namespace_states mg'))" by (simp add: map_of_eq_None_iff)
    qed
    moreover have "synchronize_state (ops\<lparr>o_delete := d\<rparr>) now cm mg = (r, mg')"
      using assms(2) by (simp add: sync_without_delete)
    moreover have "set (sr_created r) = new" using p(2) new(1) by simp
    ultimately show ?thesis unfolding l fst_conv sum.case(2) Let_def by blast
  qed
qed

text \<open>
  Synchronizations, each with its time and the configuration at it; before each the system is changed
  in some way by others.
\<close>

type_synonym 's visit = "nat \<times> config_manager \<times> ('s \<Rightarrow> 's)"

fun run_visits :: "'s nl_ops \<Rightarrow> 's visit list \<Rightarrow> 's state_manager \<Rightarrow> sync_result list \<times> 's state_manager" where
  "run_visits ops [] mg = ([], mg)"
| "run_visits ops ((now, cm, f) # vs) mg =
     (case synchronize_state ops now cm (mg\<lparr>net := f (net mg)\<rparr>) of (r, mg1) \<Rightarrow> apfst (Cons r) (run_visits ops vs mg1))"

text \<open>No listing of these synchronizations shows the name.\<close>

fun never_listed :: "'s nl_ops \<Rightarrow> string \<Rightarrow> 's visit list \<Rightarrow> 's state_manager \<Rightarrow> bool" where
  "never_listed ops k [] mg = True"
| "never_listed ops k ((now, cm, f) # vs) mg =
     ((case fst (o_list ops (f (net mg))) of Inl e \<Rightarrow> True | Inr m \<Rightarrow> map_of m k = None) \<and>
      never_listed ops k vs (snd (synchronize_state ops now cm (mg\<lparr>net := f (net mg)\<rparr>))))"

text \<open>
  C35: a namespace that is tracked but not in the system, as after a failed creation, is stuck on any
  backend: over any sequence of synchronizations that keep it configured, whatever happens to the
  system between them, as long as no listing shows it (no one else makes it), its state does not
  change, none of them reports it as created, and none even tries: with any other operation in place
  of its creation they all do the same.  Only the maintenance, which is not a part of a
  synchronization, forgets it when it has been failed for an hour.
\<close>

lemma failed_namespace_stuck:
  assumes "get_namespace_state mg k = Some st" "never_listed ops k vs mg"
    and "\<forall>(now, cm, f) \<in> set vs. manager_ok b64 cm \<and> get_namespace_config cm k \<noteq> None"
  shows "get_namespace_state (snd (run_visits ops vs mg)) k = Some st \<and>
    list_all (\<lambda>r. k \<notin> set (sr_created r)) (fst (run_visits ops vs mg)) \<and>
    run_visits (ops\<lparr>o_create := (o_create ops)(k := g)\<rparr>) vs mg = run_visits ops vs mg"
  using assms
proof (induction vs arbitrary: mg)
  case (Cons x vs)
  obtain now cm f where x: "x = (now, cm, f)" by (cases x) auto
  let ?mg = "mg\<lparr>net := f (net mg)\<rparr>"
  obtain r mg1 where s: "synchronize_state ops now cm ?mg = (r, mg1)" by force
  have cm: "manager_ok b64 cm" "k \<in> set (keys (namespace_configs cm))"
    using Cons.prems(3) by (auto simp: x get_namespace_config_def map_of_eq_None_iff)
  have "get_namespace_state ?mg k = Some st" using Cons.prems(1) by (simp add: get_namespace_state_def)
  moreover have "case fst (o_list ops (net ?mg)) of Inl e \<Rightarrow> True | Inr m \<Rightarrow> map_of m k = None"
    and rest: "never_listed ops k vs mg1"
    using Cons.prems(2) s by (simp_all add: x)
  ultimately have one: "get_namespace_state mg1 k = Some st" "k \<notin> set (sr_created r)"
    "synchronize_state (ops\<lparr>o_create := (o_create ops)(k := g)\<rparr>) now cm ?mg = (r, mg1)"
    using sync_unlisted [OF s _ cm(2) manager_keyed [OF cm(1)], of st g] by blast+
  show ?case using Cons.IH [OF one(1) rest] Cons.prems(3) one(2,3) s
    by (simp add: x del: fun_upd_apply)
qed simp

section \<open>A backend that creates nothing\<close>

text \<open>A kernel that lists no namespace and takes every path for one that exists.\<close>

definition failed_sync :: "sync_result \<times> nat list netlink state_manager" where
  "failed_sync = synchronize_state (netlink_ops fd_sys no_base64) 5000000000 two_configs
     (start_manager\<lparr>net := \<lparr>nl_backend = Real, nl_kernel = [3]\<rparr>\<rparr>)"

lemma sync_on_any_backend_witness: "status_of (snd failed_sync) ''sw-web'' = Some Failed"
proof -
  let ?mg = "start_manager\<lparr>net := \<lparr>nl_backend = Real, nl_kernel = [3]\<rparr>\<rparr> :: nat list netlink state_manager"
  have s: "synchronize_state (netlink_ops fd_sys no_base64) 5000000000 two_configs ?mg = (fst failed_sync, snd failed_sync)"
    by (simp add: failed_sync_def)
  have l: "fst (o_list (netlink_ops fd_sys no_base64) (net ?mg)) = Ok []" by code_simp
  have c: "sr_created (fst failed_sync) = []" by code_simp
  have "''sw-web'' \<in> set (keys (namespace_configs two_configs))" "get_namespace_state ?mg ''sw-web'' = None"
    "managed_in two_configs [] ''sw-web'' = None" by code_simp+
  then show ?thesis
    using sync_on_any_backend [OF two_configs_ok s, of "o_delete (netlink_ops fd_sys no_base64)"]
    unfolding l c sum.case Let_def by auto
qed

lemma failed_namespace_stuck_witness:
  "status_of (snd (run_visits (netlink_ops fd_sys no_base64)
     [(6000000000, two_configs, \<lambda>s. s\<lparr>nl_kernel := [3, 4]\<rparr>), (7000000000, two_configs, \<lambda>s. s)] (snd failed_sync))) ''sw-web'' =
   Some Failed"
proof -
  let ?ops = "netlink_ops fd_sys no_base64"
  let ?vs = "[(6000000000, two_configs, \<lambda>s. s\<lparr>nl_kernel := [3, 4]\<rparr>), (7000000000, two_configs, \<lambda>s. s)] ::
    nat list netlink visit list"
  have "status_of (snd failed_sync) ''sw-web'' = Some Failed" by code_simp
  then obtain st where st: "get_namespace_state (snd failed_sync) ''sw-web'' = Some st" "status st = Failed"
    by (auto simp: status_of_def)
  have "never_listed ?ops ''sw-web'' ?vs (snd failed_sync)" "get_namespace_config two_configs ''sw-web'' \<noteq> None" by code_simp+
  then show ?thesis
    using failed_namespace_stuck [OF st(1), of ?ops ?vs no_base64 "o_create ?ops ''sw-web''"] two_configs_ok st(2)
    by (auto simp: status_of_def)
qed

end
