(* ===== verification/Policy.thy ===== *)
theory Policy
  imports EnvSubst "HOL-Library.Word"
begin

text \<open>
  The authorization of D-Bus calls, \<^verbatim>\<open>segwire-daemon/src/policykit.rs\<close>.  The message bus and
  PolicyKit are other programs: the record \<open>bus\<close> says what they answer to the three calls the
  source makes, each either a value or the text of the error.
\<close>

section \<open>The bus\<close>

record process_info =
  pi_pid :: "32 word"
  pi_uid :: "32 word"

text \<open>The arguments of \<^verbatim>\<open>CheckAuthorization\<close>; the details are empty.\<close>

record polkit_call =
  pc_subject :: string
  pc_pid :: "32 word"
  pc_start_time :: "64 word"
  pc_action :: string
  pc_flags :: "32 word"
  pc_cancellation :: string

record bus =
  bus_pid :: "string \<Rightarrow> (string, 32 word) res"
  bus_uid :: "string \<Rightarrow> (string, 32 word) res"
  bus_check :: "polkit_call \<Rightarrow> (string, bool \<times> bool) res"

text \<open>Opening a connection to one of the two buses.\<close>

record bus_host =
  open_session :: "(string, bus) res"
  open_system :: "(string, bus) res"

datatype authorization_result =
    Authorized
  | NotAuthorized
  | AuthenticationRequired
  | AuthFailed string

section \<open>The authorizer\<close>

definition ACTION_STATUS :: string where "ACTION_STATUS = ''org.segwire.namespace.status''"
definition ACTION_CREATE :: string where "ACTION_CREATE = ''org.segwire.namespace.create''"
definition ACTION_DELETE :: string where "ACTION_DELETE = ''org.segwire.namespace.delete''"
definition ACTION_MANAGE :: string where "ACTION_MANAGE = ''org.segwire.namespace.manage''"
definition ACTION_EXEC :: string where "ACTION_EXEC = ''org.segwire.namespace.exec''"

lemmas action_defs = ACTION_STATUS_def ACTION_CREATE_def ACTION_DELETE_def ACTION_MANAGE_def ACTION_EXEC_def

record authorizer =
  auth_bus :: bus
  action_mappings :: "(string \<times> string) list"

definition default_mappings :: "(string \<times> string) list" where
  "default_mappings =
     insertM ''exec'' ACTION_EXEC (insertM ''validate'' ACTION_STATUS (insertM ''reload'' ACTION_MANAGE
    (insertM ''restart'' ACTION_DELETE (insertM ''delete'' ACTION_DELETE (insertM ''create'' ACTION_CREATE
    (insertM ''status'' ACTION_STATUS (insertM ''list'' ACTION_STATUS [])))))))"

definition authorizer_new :: "bus_host \<Rightarrow> env \<Rightarrow> authorizer sres" where
  "authorizer_new host sysenv =
     tryR (map_err (\<lambda>e. DBus (''Failed to open auth D-Bus connection: '' @ e))
        (if map_of sysenv ''SEGWIRE_SIMULATION'' \<noteq> None then open_session host else open_system host))
       (\<lambda>b. Ok \<lparr>auth_bus = b, action_mappings = default_mappings\<rparr>)"

definition get_sender_process_info :: "authorizer \<Rightarrow> string \<Rightarrow> process_info sres" where
  "get_sender_process_info a sender =
     tryR (map_err (\<lambda>e. DBus (''Failed to get sender PID: '' @ e)) (bus_pid (auth_bus a) sender)) (\<lambda>pid.
     tryR (map_err (\<lambda>e. DBus (''Failed to get sender UID: '' @ e)) (bus_uid (auth_bus a) sender)) (\<lambda>uid.
     Ok \<lparr>pi_pid = pid, pi_uid = uid\<rparr>))"

definition uid_fallback :: "process_info \<Rightarrow> authorization_result" where
  "uid_fallback p = (if pi_uid p = 0 then Authorized else NotAuthorized)"

definition call_policykit_check_authorization ::
  "authorizer \<Rightarrow> process_info \<Rightarrow> string \<Rightarrow> authorization_result sres" where
  "call_policykit_check_authorization a p action_id =
     (case bus_check (auth_bus a) \<lparr>pc_subject = ''unix-process'', pc_pid = pi_pid p, pc_start_time = 0,
             pc_action = action_id, pc_flags = 0, pc_cancellation = []\<rparr> of
        Inr (is_authorized, is_challenge) \<Rightarrow>
          Ok (if is_authorized then Authorized
              else if is_challenge then AuthenticationRequired else NotAuthorized)
      | Inl e \<Rightarrow> Ok (uid_fallback p))"

fun auth_outcome :: "string \<Rightarrow> authorization_result sres \<Rightarrow> unit sres" where
  "auth_outcome action (Inr Authorized) = Ok ()"
| "auth_outcome action (Inr NotAuthorized) = Err (Permission (''Not authorized to perform action: '' @ action))"
| "auth_outcome action (Inr AuthenticationRequired) =
     Err (Permission (''Interactive authentication required for action: '' @ action))"
| "auth_outcome action (Inr (AuthFailed reason)) = Err (Permission reason)"
| "auth_outcome action (Inl e) = Err e"

definition check_authorization :: "authorizer \<Rightarrow> string \<Rightarrow> string \<Rightarrow> unit sres" where
  "check_authorization a action sender =
     tryR (ok_or (Permission (''Unknown action: '' @ action)) (map_of (action_mappings a) action)) (\<lambda>action_id.
     tryR (get_sender_process_info a sender) (\<lambda>p.
     auth_outcome action (call_policykit_check_authorization a p action_id)))"

section \<open>Who is authorized\<close>

fun_cases auth_outcome_OkE: "auth_outcome action r = Inr u"

lemma auth_outcome_Ok [simp]: "auth_outcome action r = Ok u \<longleftrightarrow> r = Ok Authorized"
  by (auto elim: auth_outcome_OkE)

lemma default_mappings_simp [simp]:
  "map_of default_mappings action =
    (if action \<in> {''list'', ''status'', ''validate''} then Some ACTION_STATUS
     else if action = ''create'' then Some ACTION_CREATE
     else if action \<in> {''delete'', ''restart''} then Some ACTION_DELETE
     else if action = ''reload'' then Some ACTION_MANAGE
     else if action = ''exec'' then Some ACTION_EXEC else None)"
  by (simp add: default_mappings_def)

lemma authorizer_new_mappings: "authorizer_new host se = Ok a \<Longrightarrow> action_mappings a = default_mappings"
  by (auto simp: authorizer_new_def result_simps)

text \<open>
  What PolicyKit answers for the caller's process and the action: \<open>Some True\<close> to allow, \<open>Some False\<close>
  to deny or to ask for a password, \<open>None\<close> when it does not answer.
\<close>

definition polkit_says :: "authorizer \<Rightarrow> 32 word \<Rightarrow> string \<Rightarrow> bool option" where
  "polkit_says a pid action_id =
     (case bus_check (auth_bus a) \<lparr>pc_subject = ''unix-process'', pc_pid = pid, pc_start_time = 0,
             pc_action = action_id, pc_flags = 0, pc_cancellation = []\<rparr> of
        Inr (ok, ch) \<Rightarrow> Some ok | Inl e \<Rightarrow> None)"

definition sender_allowed :: "authorizer \<Rightarrow> string \<Rightarrow> string \<Rightarrow> bool" where
  "sender_allowed a action_id sender =
     (case bus_pid (auth_bus a) sender of
        Inl e \<Rightarrow> False
      | Inr pid \<Rightarrow> (case bus_uid (auth_bus a) sender of
          Inl e \<Rightarrow> False
        | Inr uid \<Rightarrow> (case polkit_says a pid action_id of Some b \<Rightarrow> b | None \<Rightarrow> uid = 0)))"

lemma polkit_answer:
  "call_policykit_check_authorization a p action_id = Ok Authorized \<longleftrightarrow>
     (case polkit_says a (pi_pid p) action_id of Some b \<Rightarrow> b | None \<Rightarrow> pi_uid p = 0)"
  by (simp add: call_policykit_check_authorization_def polkit_says_def uid_fallback_def
      split: sum.split prod.split)

lemma sender_info_spec:
  "get_sender_process_info a sender = Ok p \<longleftrightarrow>
     bus_pid (auth_bus a) sender = Ok (pi_pid p) \<and> bus_uid (auth_bus a) sender = Ok (pi_uid p)"
  by (cases p) (auto simp: get_sender_process_info_def result_simps)

lemma check_authorization_spec:
  "check_authorization a action sender = Ok u \<longleftrightarrow>
     (\<exists>action_id. map_of (action_mappings a) action = Some action_id \<and> sender_allowed a action_id sender)"
proof -
  have "sender_allowed a i sender \<longleftrightarrow>
      (\<exists>p. get_sender_process_info a sender = Ok p \<and> call_policykit_check_authorization a p i = Ok Authorized)" for i
    by (cases "bus_pid (auth_bus a) sender"; cases "bus_uid (auth_bus a) sender")
       (simp_all add: sender_allowed_def polkit_answer get_sender_process_info_def split: option.split)
  then show ?thesis by (simp add: check_authorization_def tryR_Inr_iff ok_or_Inr_iff)
qed

lemma auth_outcome_error: "auth_outcome action r = Err e \<Longrightarrow> r = Err e \<or> (\<exists>m. e = Permission m)"
  by (induction action r rule: auth_outcome.induct) auto

lemma check_authorization_error:
  assumes "check_authorization a action sender = Err e"
  shows "\<exists>m. e = Permission m \<or> e = DBus m"
proof -
  have "call_policykit_check_authorization a p i \<noteq> Err d" for p i d
    by (simp add: call_policykit_check_authorization_def split: sum.split prod.split)
  moreover have "get_sender_process_info a sender = Err d \<Longrightarrow> \<exists>m. d = DBus m" for d
    by (cases "bus_pid (auth_bus a) sender"; cases "bus_uid (auth_bus a) sender")
       (auto simp: get_sender_process_info_def)
  ultimately show ?thesis using assms auth_outcome_error
    by (cases "map_of (action_mappings a) action"; cases "get_sender_process_info a sender")
       (auto simp: check_authorization_def dest!: auth_outcome_error)
qed

end
