(* ===== verification/DbusService.thy ===== *)
theory DbusService
  imports NamespaceState Policy "HOL-Library.List_Lexorder" "HOL-Library.Char_ord"
begin

text \<open>
  The D-Bus service of \<^verbatim>\<open>segwire-daemon/src/dbus_service.rs\<close>: its shared state, one operation per
  method of the interface, and the signals.  A handler takes the service and gives a reply or a
  method error with the service as the call leaves it; the handlers hold the service lock for
  the whole call, so a call is one step.  \<^verbatim>\<open>dbus-crossroads\<close> dispatches the calls and prints
  the error: a \<^verbatim>\<open>MethodErr\<close> is its text, since \<^verbatim>\<open>MethodErr::failed\<close> keeps nothing else.
\<close>

section \<open>The order of paths\<close>

text \<open>\<^verbatim>\<open>PathBuf\<close> is ordered by its components, a \<^verbatim>\<open>Component\<close> by its variant and then its bytes.\<close>

fun component_rank :: "component \<Rightarrow> nat" where
  "component_rank RootDir = 0"
| "component_rank CurDir = 1"
| "component_rank ParentDir = 2"
| "component_rank (Normal s) = 3"

fun component_text :: "component \<Rightarrow> string" where
  "component_text (Normal s) = s"
| "component_text _ = []"

lemma component_eqI: "component_rank a = component_rank b \<Longrightarrow> component_text a = component_text b \<Longrightarrow> a = b"
  by (cases a; cases b) simp_all

instantiation component :: linorder
begin

definition less_eq_component :: "component \<Rightarrow> component \<Rightarrow> bool" where
  "less_eq_component a b = (component_rank a < component_rank b \<or>
     (component_rank a = component_rank b \<and> component_text a \<le> component_text b))"

definition less_component :: "component \<Rightarrow> component \<Rightarrow> bool" where
  "less_component a b = (a \<le> b \<and> a \<noteq> b)"

instance
  by standard (auto simp: less_eq_component_def less_component_def intro: component_eqI)

end

definition sort_paths :: "string list \<Rightarrow> string list" where "sort_paths ps = sort_key components ps"

section \<open>The service\<close>

record 'k service =
  sv_config :: config_manager
  sv_states :: "'k netlink state_manager"
  sv_start :: nat
  sv_authorizer :: "authorizer option"

text \<open>
  What a call finds outside: the files, the kernel, the text of the error for a file that cannot
  be read, and \<^verbatim>\<open>char::is_alphanumeric\<close> beyond ASCII.
\<close>

record 'k service_io =
  io_files :: config_io
  io_sys :: "'k sys"
  io_read_error :: "string \<Rightarrow> string"
  io_alnum :: "nat \<Rightarrow> bool"

type_synonym method_err = string

definition create_method_err :: "segwire_error \<Rightarrow> method_err" where
  "create_method_err e = dbus_message (to_dbus e)"

text \<open>
  \<^verbatim>\<open>DbusService::new\<close>: the connection to the bus, the name, the authorizer, which opens a connection
  of its own: \<open>host\<close> is what the first opening finds, \<open>host'\<close> the second.  \<open>request_name\<close> is the
  answer of the bus.  An error is logged in its context and returned without it.
\<close>

definition bus_failure :: "error_context \<Rightarrow> string \<Rightarrow> segwire_error" where
  "bus_failure c e = snd (log_and_return (with_context c (DBus e)))"

definition connection_context :: error_context where
  "connection_context =
     with_remediation ''Check that the daemon has permission to access the system bus''
       (with_remediation ''Ensure D-Bus system bus is available''
         (with_field ''service_name'' SERVICE_NAME (new_context ''dbus_connection'')))"

definition name_context :: "string \<Rightarrow> error_context" where
  "name_context n =
     with_remediation ''Check D-Bus service configuration''
       (with_remediation ''Ensure no other instance of segwire-daemon is running''
         (with_field ''service_name'' n (new_context ''dbus_service_name_registration'')))"

lemma bus_failure [simp]: "bus_failure c e = DBus e"
  by (simp add: bus_failure_def log_and_return_def with_context_def)

definition service_connection :: "bus_host \<Rightarrow> env \<Rightarrow> bus sres" where
  "service_connection host sysenv =
     map_err (bus_failure connection_context)
       (if map_of sysenv ''DBUS_SESSION_BUS_ADDRESS'' \<noteq> None then open_session host else open_system host)"

definition service_authorizer :: "bus_host \<Rightarrow> env \<Rightarrow> authorizer option" where
  "service_authorizer host sysenv =
     (if map_of sysenv ''DBUS_SESSION_BUS_ADDRESS'' \<noteq> None then None
      else case authorizer_new host sysenv of Inr a \<Rightarrow> Some a | Inl e \<Rightarrow> None)"

definition service_new :: "bus_host \<Rightarrow> bus_host \<Rightarrow> env \<Rightarrow> (string \<Rightarrow> (string, unit) res) \<Rightarrow> nat \<Rightarrow>
    config_manager \<Rightarrow> 'k netlink state_manager \<Rightarrow> 'k service sres" where
  "service_new host host' sysenv request_name now cm mg =
     tryR (service_connection host sysenv) (\<lambda>_.
     let name = dbus_service_name cm in
     tryR (map_err (bus_failure (name_context name)) (request_name name)) (\<lambda>_.
     Ok \<lparr>sv_config = cm, sv_states = mg, sv_start = now, sv_authorizer = service_authorizer host' sysenv\<rparr>))"

text \<open>The methods registered, with the names of their arguments and results.\<close>

definition registered_methods :: "(string \<times> string list \<times> string list) list" where
  "registered_methods =
    [(''ListNamespaces'', [], [''namespaces'']),
     (''GetNamespaceStatus'', [''name''],
        [''name'', ''full_name'', ''status'', ''config_path'', ''created_at'', ''last_updated'']),
     (''DeleteNamespace'', [''name''], [''success'', ''message'', ''details'']),
     (''ReloadConfiguration'', [], [''success'', ''message'', ''details'']),
     (''ValidateConfiguration'', [''config_path''], [''valid'', ''errors'', ''warnings'']),
     (''GetDaemonStatus'', [], [''version'', ''uptime'', ''managed_count'', ''active_count'']),
     (''RestartNamespace'', [''name''], [''success'', ''message'', ''details'']),
     (''ExecAuthorize'', [''namespace''], [''ns_path''])]"

text \<open>The free function \<^verbatim>\<open>check_authorization\<close>; a message without a sender has an empty one.\<close>

definition svc_check_authorization :: "'k service \<Rightarrow> string \<Rightarrow> string option \<Rightarrow> (method_err, unit) res" where
  "svc_check_authorization svc action sender =
     (case sv_authorizer svc of
        Some a \<Rightarrow> map_err create_method_err
          (check_authorization a action (case sender of Some s \<Rightarrow> s | None \<Rightarrow> []))
      | None \<Rightarrow> Ok ())"

section \<open>Operations on the parts\<close>

definition full_name_of :: "string \<Rightarrow> 'k service \<Rightarrow> string" where
  "full_name_of n svc = generate_full_name_cm (sv_config svc) n"

text \<open>\<^verbatim>\<open>get_namespace_state(full).or_else(|| get_namespace_state(name))\<close>\<close>

definition or_else :: "'a option \<Rightarrow> 'a option \<Rightarrow> 'a option" where
  "or_else x y = (case x of None \<Rightarrow> y | Some a \<Rightarrow> Some a)"

definition find_state :: "string \<Rightarrow> 'k service \<Rightarrow> namespace_state option" where
  "find_state n svc = or_else (get_namespace_state (sv_states svc) (full_name_of n svc))
     (get_namespace_state (sv_states svc) n)"

definition on_states :: "('k netlink state_manager \<Rightarrow> 'k netlink state_manager) \<Rightarrow> ('k service, 'e, unit) op" where
  "on_states f svc = (Ok (), svc\<lparr>sv_states := f (sv_states svc)\<rparr>)"

text \<open>
  A fresh \<^verbatim>\<open>NetlinkManager::new()\<close>, which is never the simulation, and one operation on it; the
  state manager's own backend stays as it is.
\<close>

definition set_kernel :: "'k \<Rightarrow> 'k service \<Rightarrow> 'k service" where
  "set_kernel k svc = svc\<lparr>sv_states := (sv_states svc)\<lparr>net := (net (sv_states svc))\<lparr>nl_kernel := k\<rparr>\<rparr>\<rparr>"

definition with_new_netlink :: "'k sys \<Rightarrow> ('k, 'a) nl_op \<Rightarrow> ('k service, segwire_error, 'a) op" where
  "with_new_netlink y m svc =
     (case netlink_new y (nl_kernel (net (sv_states svc))) of
        (Inl e, k) \<Rightarrow> (Inl e, set_kernel k svc)
      | (Inr b, k) \<Rightarrow>
          (case m \<lparr>nl_backend = b, nl_kernel = k\<rparr> of (r, s) \<Rightarrow> (r, set_kernel (nl_kernel s) svc)))"

definition create_namespace_from_config ::
  "'k sys \<Rightarrow> nat \<Rightarrow> namespace_config \<Rightarrow> ('k service, segwire_error, string) op" where
  "create_namespace_from_config y now c =
     bindS (getS (full_name_of (ns_name (namespace c)))) (\<lambda>full.
     thenS (with_new_netlink y (create_namespace y full))
    (bindS (getS (\<lambda>svc. case get_namespace_config (sv_config svc) full of
        Some e \<Rightarrow> file_path e | None \<Rightarrow> [])) (\<lambda>path.
     thenS (on_states (update_namespace_state (new_state now (ns_name (namespace c)) full path)))
           (returnS full))))"

definition delete_namespace_by_name :: "'k sys \<Rightarrow> string \<Rightarrow> ('k service, segwire_error, unit) op" where
  "delete_namespace_by_name y name =
     bindS (getS (full_name_of name)) (\<lambda>full.
     bindS (getS (\<lambda>svc. get_namespace_state (sv_states svc) name = None \<and>
        get_namespace_state (sv_states svc) full = None)) (\<lambda>missing.
     thenS (liftS (failIf missing (Network (''Namespace '' @ quoted name @ '' not found''))))
    (thenS (with_new_netlink y (delete_namespace y full))
           (on_states (\<lambda>mg. remove_namespace_state full (remove_namespace_state name mg))))))"

text \<open>
  \<^verbatim>\<open>load_namespace_config\<close> of this file parses only: it neither substitutes variables nor validates.
\<close>

definition svc_load_config :: "'k service_io \<Rightarrow> string \<Rightarrow> namespace_config sres" where
  "svc_load_config io path =
     tryR (ok_or (System (io_read_error io path)) (cio_read (io_files io) path)) (\<lambda>content.
     map_err (\<lambda>e. Config (InvalidToml e)) (cio_toml_ns (io_files io) content))"

fun toml_files :: "config_io \<Rightarrow> (string, string) res list \<Rightarrow> string list sres" where
  "toml_files io [] = Ok []"
| "toml_files io (Inl e # es) = Err (System e)"
| "toml_files io (Inr p # es) =
     tryR (toml_files io es) (\<lambda>ps. Ok (if cio_is_file io p \<and> extension p = Some ''toml'' then p # ps else ps))"

definition scan_config_directory :: "config_io \<Rightarrow> string \<Rightarrow> string list sres" where
  "scan_config_directory io dir =
     (if \<not> cio_exists io dir then Err (System (''Configuration directory not found: '' @ dir))
      else tryR (map_err System (cio_dir io dir)) (\<lambda>es.
           tryR (toml_files io es) (\<lambda>ps. Ok (sort_paths ps))))"

fun count_loads :: "'k service_io \<Rightarrow> string list \<Rightarrow> nat \<times> nat \<Rightarrow> nat \<times> nat" where
  "count_loads io [] (n, m) = (n, m)"
| "count_loads io (p # ps) (n, m) =
     (case svc_load_config io p of
        Inr c \<Rightarrow> count_loads io ps (n + 1, m)
      | Inl e \<Rightarrow> count_loads io ps (n, m + 1))"

definition reload_all_configurations :: "'k service_io \<Rightarrow> 'k service \<Rightarrow> (nat \<times> nat) sres" where
  "reload_all_configurations io svc =
     tryR (scan_config_directory (io_files io) (config_directory (sv_config svc))) (\<lambda>ps.
     Ok (count_loads io ps (0, 0)))"

definition config_warnings :: "namespace_config \<Rightarrow> string list" where
  "config_warnings c =
     (if move_interfaces (interfaces c) = [] \<and> virtual_interfaces (interfaces c) = []
      then [''No interfaces specified for namespace''] else []) @
     (if servers (dns c) = [] then [''No DNS servers specified''] else [])"

definition validate_config_file :: "'k service_io \<Rightarrow> string \<Rightarrow> validation_result sres" where
  "validate_config_file io path =
     (if \<not> cio_exists (io_files io) path
      then Ok \<lparr>valid = False, vr_errors = [''Configuration file does not exist: '' @ path], vr_warnings = []\<rparr>
      else case svc_load_config io path of
        Inr c \<Rightarrow>
          (let errors = (case validate_namespace_config (cio_b64 (io_files io)) c of
                           Inl e \<Rightarrow> [show_segwire_error e] | Inr _ \<Rightarrow> [])
           in Ok \<lparr>valid = (errors = []), vr_errors = errors, vr_warnings = config_warnings c\<rparr>)
      | Inl e \<Rightarrow> Ok \<lparr>valid = False,
          vr_errors = [''Configuration parsing failed: '' @ show_segwire_error e], vr_warnings = []\<rparr>)"

section \<open>The methods\<close>

datatype dbus_call =
    CallListNamespaces
  | CallGetNamespaceStatus string
  | CallDeleteNamespace string
  | CallReloadConfiguration
  | CallValidateConfiguration string
  | CallGetDaemonStatus
  | CallRestartNamespace string
  | CallExecAuthorize string

datatype dbus_reply =
    ReplyNamespaces "(string \<times> string \<times> string \<times> string) list"
  | ReplyStatus string string string string nat nat
  | ReplyResult operation_result
  | ReplyValidation validation_result
  | ReplyDaemon string nat "32 word" "32 word"
  | ReplyPath string

type_synonym 'k handler = "('k service, method_err, dbus_reply) op"

definition guard_name :: "'k service_io \<Rightarrow> string \<Rightarrow> ('k service, method_err, unit) op" where
  "guard_name io n = liftS (map_err (\<lambda>e. create_method_err (from_dbus e))
     (dbus_validate_namespace_name (io_alnum io) n))"

definition authorize :: "string \<Rightarrow> string option \<Rightarrow> ('k service, method_err, unit) op" where
  "authorize action sender svc = (svc_check_authorization svc action sender, svc)"

definition not_found :: "string \<Rightarrow> method_err" where
  "not_found n = create_method_err (from_dbus (DbusNamespaceNotFound (''Namespace '' @ quoted n @ '' not found'')))"

text \<open>\<^verbatim>\<open>match op() { Ok(..) => .., Err(..) => .. }\<close>: the result becomes a value.\<close>

definition attemptS :: "('s, 'e, 'a) op \<Rightarrow> ('s, 'f, ('e, 'a) res) op" where
  "attemptS m s = (case m s of (r, s') \<Rightarrow> (Ok r, s'))"

definition call_list_namespaces :: "string option \<Rightarrow> 'k handler" where
  "call_list_namespaces sender =
     thenS (authorize ''list'' sender)
    (getS (\<lambda>svc. ReplyNamespaces (map (\<lambda>(n, ns). (st_name ns, status_str (status ns), st_config_path ns,
        ''Namespace managed by '' @ prefix_of (sv_config svc))) (namespace_states (sv_states svc)))))"

definition call_get_namespace_status :: "'k service_io \<Rightarrow> string option \<Rightarrow> string \<Rightarrow> 'k handler" where
  "call_get_namespace_status io sender n =
     thenS (guard_name io n)
    (thenS (authorize ''status'' sender)
    (bindS (getS (find_state n)) (\<lambda>r. case r of
        Some ns \<Rightarrow> returnS (ReplyStatus (st_name ns) (st_full_name ns) (status_str (status ns))
          (st_config_path ns) (created_at ns) (last_updated ns))
      | None \<Rightarrow> errS (not_found n))))"

definition delete_report :: "string \<Rightarrow> unit sres \<Rightarrow> operation_result" where
  "delete_report n r = (case r of
      Inr _ \<Rightarrow> with_detail ''namespace'' n (op_success (''Namespace '' @ quoted n @ '' deleted successfully''))
    | Inl e \<Rightarrow> op_failure (''Failed to delete namespace: '' @ show_segwire_error e))"

definition call_delete_namespace :: "'k service_io \<Rightarrow> string option \<Rightarrow> string \<Rightarrow> 'k handler" where
  "call_delete_namespace io sender n =
     thenS (guard_name io n)
    (thenS (authorize ''delete'' sender)
    (bindS (attemptS (delete_namespace_by_name (io_sys io) n)) (\<lambda>r. returnS (ReplyResult (delete_report n r)))))"

definition reload_report :: "(nat \<times> nat) sres \<Rightarrow> operation_result" where
  "reload_report r = (case r of
      Inr (loaded, errors) \<Rightarrow>
        with_detail ''error_count'' (show_nat errors) (with_detail ''loaded_count'' (show_nat loaded)
          (op_success (if errors = 0 then ''Successfully reloaded '' @ show_nat loaded @ '' configurations''
             else ''Reloaded '' @ show_nat loaded @ '' configurations with '' @ show_nat errors @ '' errors'')))
    | Inl e \<Rightarrow> op_failure (''Configuration reload failed: '' @ show_segwire_error e))"

definition call_reload_configuration :: "'k service_io \<Rightarrow> string option \<Rightarrow> 'k handler" where
  "call_reload_configuration io sender =
     thenS (authorize ''reload'' sender)
    (getS (\<lambda>svc. ReplyResult (reload_report (reload_all_configurations io svc))))"

definition call_validate_configuration :: "'k service_io \<Rightarrow> string option \<Rightarrow> string \<Rightarrow> 'k handler" where
  "call_validate_configuration io sender path =
     thenS (liftS (map_err (\<lambda>e. create_method_err (from_dbus e)) (dbus_validate_config_path path)))
    (thenS (authorize ''validate'' sender)
    (returnS (ReplyValidation (case validate_config_file io path of
        Inr v \<Rightarrow> v
      | Inl e \<Rightarrow> \<lparr>valid = False, vr_errors = [''Validation failed: '' @ show_segwire_error e],
                  vr_warnings = []\<rparr>))))"

text \<open>\<^verbatim>\<open>elapsed().unwrap_or_default()\<close> is zero when the clock went back; the counts are \<^verbatim>\<open>as u32\<close>.\<close>

definition PKG_VERSION :: string where "PKG_VERSION = ''0.1.0''"

definition call_get_daemon_status :: "string option \<Rightarrow> nat \<Rightarrow> 'k handler" where
  "call_get_daemon_status sender now =
     thenS (authorize ''status'' sender)
    (getS (\<lambda>svc. ReplyDaemon PKG_VERSION (unix_secs (now - sv_start svc))
        (word_of_nat (total_configs (get_config_stats (sv_config svc))))
        (word_of_nat (active_namespaces (get_state_stats (sv_states svc))))))"

definition find_config :: "string \<Rightarrow> 'k service \<Rightarrow> namespace_config option" where
  "find_config n svc = map_option ce_config
     (or_else (get_namespace_config (sv_config svc) (full_name_of n svc)) (get_namespace_config (sv_config svc) n))"

definition restart_with :: "'k sys \<Rightarrow> nat \<Rightarrow> string \<Rightarrow> namespace_config \<Rightarrow> ('k service, method_err, operation_result) op" where
  "restart_with y now n c =
     bindS (attemptS (delete_namespace_by_name y n)) (\<lambda>r. case r of
        Inl e \<Rightarrow> returnS (op_failure (''Restart failed during deletion: '' @ show_segwire_error e))
      | Inr _ \<Rightarrow> bindS (attemptS (create_namespace_from_config y now c)) (\<lambda>r. returnS (case r of
          Inr full \<Rightarrow> op_success (''Namespace '' @ quoted full @ '' restarted successfully'')
        | Inl e \<Rightarrow> op_failure (''Restart failed during recreation: '' @ show_segwire_error e))))"

definition call_restart_namespace :: "'k service_io \<Rightarrow> string option \<Rightarrow> nat \<Rightarrow> string \<Rightarrow> 'k handler" where
  "call_restart_namespace io sender now n =
     thenS (guard_name io n)
    (thenS (authorize ''restart'' sender)
    (bindS (getS (find_config n)) (\<lambda>r. case r of
        None \<Rightarrow> returnS (ReplyResult (op_failure
          (''No configuration found for namespace '' @ quoted n @ '', cannot restart'')))
      | Some c \<Rightarrow> bindS (restart_with (io_sys io) now n c) (\<lambda>x. returnS (ReplyResult x)))))"

definition exec_path :: "string \<Rightarrow> string" where "exec_path full = ''/run/netns/'' @ full"

definition call_exec_authorize :: "'k service_io \<Rightarrow> string option \<Rightarrow> string \<Rightarrow> 'k handler" where
  "call_exec_authorize io sender n =
     thenS (guard_name io n)
    (thenS (authorize ''exec'' sender)
    (bindS (getS (full_name_of n)) (\<lambda>full.
     bindS (getS (find_state n)) (\<lambda>r. case r of
        None \<Rightarrow> errS (not_found n)
      | Some ns \<Rightarrow>
          (if \<not> is_active ns
           then errS (create_method_err (Network (''Namespace '' @ quoted n @ '' is not active'')))
           else bindS (getS (\<lambda>svc. sys_exists (io_sys io) (exec_path full) (nl_kernel (net (sv_states svc))))) (\<lambda>ex.
                if \<not> ex
                then errS (create_method_err (Network (''Namespace path '' @ quoted (exec_path full) @ '' not found'')))
                else returnS (ReplyPath (exec_path full))))))))"

text \<open>The dispatch of a call, and the action each handler asks authorization for.\<close>

fun handle_call :: "'k service_io \<Rightarrow> string option \<Rightarrow> nat \<Rightarrow> dbus_call \<Rightarrow> 'k handler" where
  "handle_call io sender now CallListNamespaces = call_list_namespaces sender"
| "handle_call io sender now (CallGetNamespaceStatus n) = call_get_namespace_status io sender n"
| "handle_call io sender now (CallDeleteNamespace n) = call_delete_namespace io sender n"
| "handle_call io sender now CallReloadConfiguration = call_reload_configuration io sender"
| "handle_call io sender now (CallValidateConfiguration p) = call_validate_configuration io sender p"
| "handle_call io sender now CallGetDaemonStatus = call_get_daemon_status sender now"
| "handle_call io sender now (CallRestartNamespace n) = call_restart_namespace io sender now n"
| "handle_call io sender now (CallExecAuthorize n) = call_exec_authorize io sender n"

fun call_action :: "dbus_call \<Rightarrow> string" where
  "call_action CallListNamespaces = ''list''"
| "call_action (CallGetNamespaceStatus _) = ''status''"
| "call_action (CallDeleteNamespace _) = ''delete''"
| "call_action CallReloadConfiguration = ''reload''"
| "call_action (CallValidateConfiguration _) = ''validate''"
| "call_action CallGetDaemonStatus = ''status''"
| "call_action (CallRestartNamespace _) = ''restart''"
| "call_action (CallExecAuthorize _) = ''exec''"

lemmas call_defs = call_list_namespaces_def call_get_namespace_status_def call_delete_namespace_def
  call_reload_configuration_def call_validate_configuration_def call_get_daemon_status_def
  call_restart_namespace_def call_exec_authorize_def

section \<open>Signals\<close>

text \<open>A message argument: a text, or the progress of an operation in hundredths.\<close>

datatype signal_arg = ArgText string | ArgProgress nat

record signal_msg =
  sg_path :: string
  sg_interface :: string
  sg_member :: string
  sg_args :: "signal_arg list"

text \<open>Sending fails or not; the messages sent are the state.\<close>

definition send_signal :: "(signal_msg \<Rightarrow> bool) \<Rightarrow> string \<Rightarrow> signal_arg list \<Rightarrow> (signal_msg list, segwire_error, unit) op" where
  "send_signal ok member args sent =
     (let m = \<lparr>sg_path = OBJECT_PATH, sg_interface = INTERFACE_NAME, sg_member = member, sg_args = args\<rparr> in
      if ok m then (Ok (), sent @ [m]) else (Err (DBus ''Failed to send signal''), sent))"

definition emit_namespace_created :: "(signal_msg \<Rightarrow> bool) \<Rightarrow> string \<Rightarrow> string \<Rightarrow> (signal_msg list, segwire_error, unit) op" where
  "emit_namespace_created ok name config_path =
     send_signal ok SIGNAL_NAMESPACE_CREATED [ArgText name, ArgText config_path]"

definition emit_namespace_deleted :: "(signal_msg \<Rightarrow> bool) \<Rightarrow> string \<Rightarrow> string \<Rightarrow> (signal_msg list, segwire_error, unit) op" where
  "emit_namespace_deleted ok name reason =
     send_signal ok SIGNAL_NAMESPACE_DELETED [ArgText name, ArgText reason]"

definition emit_operation_progress :: "(signal_msg \<Rightarrow> bool) \<Rightarrow> string \<Rightarrow> nat \<Rightarrow> string \<Rightarrow> (signal_msg list, segwire_error, unit) op" where
  "emit_operation_progress ok operation progress msg =
     send_signal ok SIGNAL_OPERATION_PROGRESS [ArgText operation, ArgProgress progress, ArgText msg]"

definition emit_namespace_status_changed ::
  "(signal_msg \<Rightarrow> bool) \<Rightarrow> string \<Rightarrow> string \<Rightarrow> string \<Rightarrow> (signal_msg list, segwire_error, unit) op" where
  "emit_namespace_status_changed ok name old_status new_status =
     send_signal ok SIGNAL_NAMESPACE_STATUS_CHANGED [ArgText name, ArgText old_status, ArgText new_status]"

lemmas emit_defs = emit_namespace_created_def emit_namespace_deleted_def emit_operation_progress_def
  emit_namespace_status_changed_def

section \<open>Authorization\<close>

lemma authorize_Ok: "authorize action sender svc = (Ok u, svc') \<longleftrightarrow>
    svc' = svc \<and> svc_check_authorization svc action sender = Ok u"
  by (auto simp: authorize_def)

lemma authorize_first [simp]:
  "svc_check_authorization svc action sender = Err e \<Longrightarrow> thenS (authorize action sender) m svc = (Err e, svc)"
  by (simp add: thenS_def authorize_def bindS_def)

lemma thenS_liftS [simp]:
  "thenS (liftS (Inl e)) m s = (Inl e, s)" "thenS (liftS (Inr a)) m s = m s"
  by (simp_all add: thenS_def)

lemma thenS_guard: "thenS (liftS r) m s = (case r of Inl e \<Rightarrow> (Inl e, s) | Inr a \<Rightarrow> m s)"
  by (cases r) simp_all

lemma refused_call:
  assumes "svc_check_authorization svc (call_action c) sender = Err e"
  shows "\<exists>d. handle_call io sender now c svc = (Err d, svc)"
  using assms by (cases c) (simp_all add: call_defs guard_name_def thenS_guard split: sum.split)

lemma accepted_call:
  assumes "handle_call io sender now c svc = (Ok r, svc')"
  shows "svc_check_authorization svc (call_action c) sender = Ok ()"
proof (cases "svc_check_authorization svc (call_action c) sender")
  case (Inl e)
  then show ?thesis using refused_call [OF Inl, of io now] assms by auto
qed simp

section \<open>What the methods change\<close>

lemma attemptS_run [simp]: "m s = (r, s') \<Longrightarrow> attemptS m s = (Ok r, s')"
  by (simp add: attemptS_def)

text \<open>Only the table and the kernel change, never the configuration, the authorizer or the backend.\<close>

definition same_service :: "'k service \<Rightarrow> 'k service \<Rightarrow> bool" where
  "same_service a b =
     (sv_config b = sv_config a \<and> sv_start b = sv_start a \<and> sv_authorizer b = sv_authorizer a \<and>
      nl_backend (net (sv_states b)) = nl_backend (net (sv_states a)) \<and>
      last_sync (sv_states b) = last_sync (sv_states a) \<and> sync_interval (sv_states b) = sync_interval (sv_states a))"

lemma same_service_rt [simp]: "reflp same_service" "transp same_service"
  by (auto simp: same_service_def intro!: reflpI transpI)

lemma same_full_name: "same_service a b \<Longrightarrow> full_name_of n b = full_name_of n a"
  by (simp add: same_service_def full_name_of_def)

definition states_of :: "'k service \<Rightarrow> string \<Rightarrow> namespace_state option" where
  "states_of svc n = get_namespace_state (sv_states svc) n"

lemma states_simps [simp]:
  "states_of (set_kernel k svc) n = states_of svc n"
  "get_namespace_state (sv_states svc) n = states_of svc n"
  by (simp_all add: states_of_def set_kernel_def get_namespace_state_def)

lemma same_set_kernel [simp]: "same_service svc (set_kernel k svc)"
  by (simp add: same_service_def set_kernel_def)

lemma with_new_netlink_frame:
  "with_new_netlink y m svc = (r, svc') \<Longrightarrow> \<exists>k. svc' = set_kernel k svc"
  by (auto simp: with_new_netlink_def split: prod.splits sum.splits)

lemma delete_by_name_cases:
  assumes "delete_namespace_by_name y n svc = (r, svc')"
  obtains (fail) e k where "r = Err e" "svc' = svc \<or> svc' = set_kernel k svc"
  | (ok) k where "r = Ok ()" "states_of svc n \<noteq> None \<or> states_of svc (full_name_of n svc) \<noteq> None"
      "svc' = (set_kernel k svc)\<lparr>sv_states := remove_namespace_state (full_name_of n svc)
         (remove_namespace_state n (sv_states (set_kernel k svc)))\<rparr>"
proof -
  let ?full = "full_name_of n svc"
  let ?missing = "states_of svc n = None \<and> states_of svc ?full = None"
  show thesis
  proof (cases ?missing)
    case True
    then have "r = Err (Network (''Namespace '' @ quoted n @ '' not found'')) \<and> svc' = svc"
      using assms by (auto simp: delete_namespace_by_name_def bindS_def thenS_guard)
    then show thesis using fail by blast
  next
    case False
    obtain r1 svc1 where w: "with_new_netlink y (delete_namespace y ?full) svc = (r1, svc1)" by fastforce
    then obtain k where k: "svc1 = set_kernel k svc" using with_new_netlink_frame by blast
    show thesis
    proof (cases r1)
      case (Inl e)
      then have "r = Err e \<and> svc' = set_kernel k svc"
        using assms False w k by (auto simp: delete_namespace_by_name_def bindS_def thenS_def failIf_def)
      then show thesis using fail by blast
    next
      case (Inr u)
      then have "r = Ok ()" "svc' = (set_kernel k svc)\<lparr>sv_states := remove_namespace_state ?full
         (remove_namespace_state n (sv_states (set_kernel k svc)))\<rparr>"
        using assms False w k by (auto simp: delete_namespace_by_name_def bindS_def thenS_def failIf_def on_states_def)
      then show thesis using ok False by blast
    qed
  qed
qed

lemma delete_by_name_states:
  assumes "delete_namespace_by_name y n svc = (r, svc')"
  shows "same_service svc svc' \<and> states_of svc' k =
    (if is_ok r \<and> k \<in> {n, full_name_of n svc} then None else states_of svc k)"
  using assms
proof (cases rule: delete_by_name_cases)
  case (ok j)
  then show ?thesis
    by (simp add: same_service_def states_of_def get_namespace_state_def remove_namespace_state_def set_kernel_def)
qed (auto simp: reflpD [OF same_service_rt(1)])

lemma create_from_config_states:
  assumes "create_namespace_from_config y now c svc = (r, svc')"
  shows "same_service svc svc' \<and>
    (case r of
       Inl e \<Rightarrow> (\<forall>k. states_of svc' k = states_of svc k)
     | Inr full \<Rightarrow> full = full_name_of (ns_name (namespace c)) svc \<and>
         (\<exists>path. states_of svc' = (states_of svc)(full \<mapsto> new_state now (ns_name (namespace c)) full path)))"
proof -
  let ?full = "full_name_of (ns_name (namespace c)) svc"
  obtain r1 svc1 where w: "with_new_netlink y (create_namespace y ?full) svc = (r1, svc1)" by fastforce
  then obtain k where k: "svc1 = set_kernel k svc" using with_new_netlink_frame by blast
  show ?thesis
  proof (cases r1)
    case (Inl e)
    then show ?thesis using assms w k
      by (auto simp: create_namespace_from_config_def bindS_def thenS_def)
  next
    case (Inr i)
    then have "r = Ok ?full" "\<exists>path. svc' = svc1\<lparr>sv_states := update_namespace_state
        (new_state now (ns_name (namespace c)) ?full path) (sv_states svc1)\<rparr>"
      using assms w by (auto simp: create_namespace_from_config_def bindS_def thenS_def on_states_def)
    then show ?thesis using k
      by (auto simp: same_service_def states_of_def get_namespace_state_def update_namespace_state_def
          set_kernel_def fun_eq_iff)
  qed
qed

lemma thenS_first_Ok: "thenS m k s = (Ok a, s') \<longleftrightarrow> (\<exists>u t. m s = (Ok u, t) \<and> k t = (Ok a, s'))"
  by (simp add: thenS_def bindS_Ok)

lemma guarded_run:
  "thenS (guard_name io n) (thenS (authorize act sender) m) svc = (Ok a, svc') \<longleftrightarrow>
     dbus_validate_namespace_name (io_alnum io) n = Ok () \<and> svc_check_authorization svc act sender = Ok () \<and>
     m svc = (Ok a, svc')"
  by (auto simp: thenS_first_Ok guard_name_def authorize_Ok result_simps)

lemma read_only_call:
  assumes "\<And>n. c \<noteq> CallDeleteNamespace n" "\<And>n. c \<noteq> CallRestartNamespace n"
  shows "snd (handle_call io sender now c svc) = svc"
proof -
  have g: "snd (thenS (liftS r) m svc) = svc" if "snd (m svc) = svc" for r :: "(method_err, unit) res" and m :: "'a handler"
    using that by (cases r) simp_all
  have a: "snd (thenS (authorize act sender) m svc) = svc" if "snd (m svc) = svc" for act and m :: "'a handler"
    using that by (cases "svc_check_authorization svc act sender") (simp_all add: thenS_def authorize_def bindS_def)
  show ?thesis
    using assms by (cases c) (auto simp: call_defs guard_name_def bindS_def intro!: g a split: option.split)
qed

lemma delete_call:
  assumes "handle_call io sender now (CallDeleteNamespace n) svc = (Ok (ReplyResult r), svc')"
  shows "same_service svc svc' \<and> states_of svc' k =
    (if success r \<and> k \<in> {n, full_name_of n svc} then None else states_of svc k)"
proof -
  obtain d t where d: "delete_namespace_by_name (io_sys io) n svc = (d, t)" by fastforce
  then have "r = delete_report n d" "svc' = t"
    using assms by (auto simp: call_delete_namespace_def guarded_run bindS_def)
  moreover have "success (delete_report n d) = is_ok d"
    by (cases d) (simp_all add: delete_report_def op_success_def op_failure_def)
  ultimately show ?thesis using delete_by_name_states [OF d, of k] by simp
qed

lemma restart_call:
  assumes "handle_call io sender now (CallRestartNamespace n) svc = (Ok (ReplyResult r), svc')" "success r"
  obtains c path where "find_config n svc = Some c" "same_service svc svc'"
    "states_of svc' = ((states_of svc)(n := None, full_name_of n svc := None))
       (full_name_of (ns_name (namespace c)) svc \<mapsto>
          new_state now (ns_name (namespace c)) (full_name_of (ns_name (namespace c)) svc) path)"
proof -
  note run = assms(1) [unfolded handle_call.simps call_restart_namespace_def guarded_run]
  obtain c where c: "find_config n svc = Some c"
    using run assms(2) by (cases "find_config n svc") (auto simp: bindS_def op_failure_def)
  have rw: "restart_with (io_sys io) now n c svc = (Ok r, svc')"
    using run c by (auto simp: bindS_def split: prod.splits sum.splits)
  obtain d t where d: "delete_namespace_by_name (io_sys io) n svc = (d, t)" by fastforce
  have dk: "is_ok d" using rw d assms(2) by (cases d) (auto simp: restart_with_def bindS_def op_failure_def)
  then obtain u where du: "d = Ok u" by (cases d) auto
  obtain x v where x: "create_namespace_from_config (io_sys io) now c t = (x, v)" by fastforce
  have r: "svc' = v" "success r = is_ok x"
    using rw d du x by (auto simp: restart_with_def bindS_def op_success_def op_failure_def split: sum.splits)
  note ds = delete_by_name_states [OF d]
  have dstates: "states_of t = (states_of svc)(n := None, full_name_of n svc := None)"
    using ds dk by (auto simp: fun_eq_iff)
  have st: "same_service svc t" using ds by blast
  obtain full where full: "x = Ok full" using r assms(2) by (cases x) auto
  show thesis
    using that [OF c] create_from_config_states [OF x] full r(1) dstates st same_full_name [OF st]
      transpD [OF same_service_rt(2) st] by auto
qed

section \<open>Who may do what\<close>

definition policy_action :: "dbus_call \<Rightarrow> string" where
  "policy_action c = the (map_of default_mappings (call_action c))"

lemma policy_action_simps [simp]:
  "policy_action CallListNamespaces = ACTION_STATUS" "policy_action (CallGetNamespaceStatus n) = ACTION_STATUS"
  "policy_action (CallDeleteNamespace n) = ACTION_DELETE" "policy_action CallReloadConfiguration = ACTION_MANAGE"
  "policy_action (CallValidateConfiguration p) = ACTION_STATUS" "policy_action CallGetDaemonStatus = ACTION_STATUS"
  "policy_action (CallRestartNamespace n) = ACTION_DELETE" "policy_action (CallExecAuthorize n) = ACTION_EXEC"
  by (simp_all add: policy_action_def)

lemma policy_action_mapped: "map_of default_mappings (call_action c) = Some (policy_action c)"
  by (cases c) simp_all

text \<open>
  With an authorizer, a sender that PolicyKit does not allow the action of a method, or that is not root
  when PolicyKit does not answer, does not pass its check.
\<close>

lemma unauthorized_check:
  assumes "authorizer_new host se = Ok a" "sv_authorizer svc = Some a"
    "\<not> sender_allowed a (policy_action c) sender"
  shows "\<exists>e. svc_check_authorization svc (call_action c) (Some sender) = Err e"
proof -
  have "check_authorization a (call_action c) sender \<noteq> Ok ()"
    unfolding check_authorization_spec
    using assms(3) by (simp add: authorizer_new_mappings [OF assms(1)] policy_action_mapped del: default_mappings_simp)
  then show ?thesis
    by (cases "check_authorization a (call_action c) sender") (auto simp: svc_check_authorization_def assms(2))
qed

text \<open>
  The methods other than DeleteNamespace and RestartNamespace leave the service and the
  kernel as they are, whatever they reply; so ReloadConfiguration reloads nothing.
\<close>

lemma queries_change_nothing:
  "(case c of CallDeleteNamespace n \<Rightarrow> True | CallRestartNamespace n \<Rightarrow> True
     | _ \<Rightarrow> snd (handle_call io sender now c svc) = svc)"
  by (cases c) (simp_all add: read_only_call del: handle_call.simps)

text \<open>
  DeleteNamespace forgets, when it reports success, exactly the entry of the namespace under its
  short and its full name, and otherwise no entry; the configuration, and the backend of the state
  manager, stay.
\<close>

lemma delete_forgets_namespace:
  assumes "handle_call io sender now (CallDeleteNamespace n) svc = (Ok (ReplyResult r), svc')"
  shows "(get_namespace_state (sv_states svc') k =
      (if success r \<and> k \<in> {n, full_name_for (prefix_of (sv_config svc)) n} then None
       else get_namespace_state (sv_states svc) k)) \<and>
    sv_config svc' = sv_config svc \<and> nl_backend (net (sv_states svc')) = nl_backend (net (sv_states svc))"
  using delete_call [OF assms, of k]
  by (auto simp: same_service_def full_name_of_def generate_full_name_cm_def split: if_splits)

text \<open>
  C32: after a restart that reports success the namespace is in state Creating, so a call to
  ExecAuthorize for it is refused.
\<close>

lemma restarted_not_enterable:
  assumes "handle_call io sender now (CallRestartNamespace n) svc = (Ok (ReplyResult r), svc')" "success r"
    "find_config n svc = Some c"
  shows "map_option status (get_namespace_state (sv_states svc') (full_name_of (ns_name (namespace c)) svc')) =
      Some Creating \<and>
    (\<exists>e. handle_call io sender' now' (CallExecAuthorize (ns_name (namespace c))) svc' = (Err e, svc'))"
proof -
  let ?n = "ns_name (namespace c)"
  obtain path where same: "same_service svc svc'"
    and st: "states_of svc' (full_name_of ?n svc) = Some (new_state now ?n (full_name_of ?n svc) path)"
  proof (rule restart_call [OF assms(1,2)])
    fix d path
    assume h: "find_config n svc = Some d" "same_service svc svc'"
      "states_of svc' = ((states_of svc)(n := None, full_name_of n svc := None))
         (full_name_of (ns_name (namespace d)) svc \<mapsto>
            new_state now (ns_name (namespace d)) (full_name_of (ns_name (namespace d)) svc) path)"
    have "d = c" using h(1) assms(3) by simp
    with h(2,3) that show thesis by simp
  qed
  have full: "full_name_of ?n svc' = full_name_of ?n svc" using same by (rule same_full_name)
  have "fst (handle_call io sender' now' (CallExecAuthorize ?n) svc') \<noteq> Ok a" for a
  proof
    assume "fst (handle_call io sender' now' (CallExecAuthorize ?n) svc') = Ok a"
    then obtain v where "handle_call io sender' now' (CallExecAuthorize ?n) svc' = (Ok a, v)" by (metis prod.collapse)
    then show False
      by (simp add: call_exec_authorize_def guarded_run bindS_def find_state_def or_else_def full st is_active_def)
  qed
  moreover have "snd (handle_call io sender' now' (CallExecAuthorize ?n) svc') = svc'"
    by (rule read_only_call) simp_all
  ultimately have "\<exists>e. handle_call io sender' now' (CallExecAuthorize ?n) svc' = (Err e, svc')"
    by (cases "handle_call io sender' now' (CallExecAuthorize ?n) svc'"; cases "fst (handle_call io sender' now' (CallExecAuthorize ?n) svc')") auto
  with st full show ?thesis by simp
qed

section \<open>Entering a namespace\<close>

text \<open>UTF-8, as every Rust string is: a byte that follows the first of a character is not ASCII.\<close>

definition cont_byte :: "char \<Rightarrow> bool" where "cont_byte c = (128 \<le> code c \<and> code c < 192)"

fun utf8 :: "string \<Rightarrow> bool" where
  "utf8 [] = True"
| "utf8 [a] = is_ascii a"
| "utf8 [a, b] = (if is_ascii a then utf8 [b] else 192 \<le> code a \<and> code a < 224 \<and> cont_byte b)"
| "utf8 [a, b, c] = (if is_ascii a then utf8 [b, c]
     else 192 \<le> code a \<and> (if code a < 224 then cont_byte b \<and> utf8 [c] else code a < 240 \<and> cont_byte b \<and> cont_byte c))"
| "utf8 (a # b # c # d # s) = (if is_ascii a then utf8 (b # c # d # s)
     else 192 \<le> code a \<and> cont_byte b \<and> (if code a < 224 then utf8 (c # d # s)
       else cont_byte c \<and> (if code a < 240 then utf8 (d # s) else cont_byte d \<and> utf8 s)))"

lemma utf8_ascii_chars: "utf8 s \<Longrightarrow> c \<in> set s \<Longrightarrow> is_ascii c \<Longrightarrow> code c \<in> set (chars s)"
  by (induction s rule: utf8.induct) (auto simp: is_ascii_def cont_byte_def split: if_splits)

lemma dbus_name_bytes:
  assumes "utf8 n" "dbus_validate_namespace_name ua n = Ok ()" "c \<in> set n"
  shows "c \<noteq> CHR ''/'' \<and> c \<noteq> CHR ''.'' \<and> n \<noteq> []"
proof -
  have "is_ascii c \<Longrightarrow> dbus_name_char ua (code c)"
    using utf8_ascii_chars [OF assms(1,3)] assms(2)
    by (auto simp: dbus_validate_namespace_name_def list_all_iff split: if_splits)
  then have "c \<noteq> CHR ''/''" "c \<noteq> CHR ''.''"
    by (auto simp: dbus_name_char_def is_ascii_def cp_ascii_alnum_def code_def)
  with assms(3) show ?thesis by auto
qed

lemma exec_reply:
  assumes "handle_call io sender now (CallExecAuthorize n) svc = (Ok (ReplyPath p), svc')"
  shows "dbus_validate_namespace_name (io_alnum io) n = Ok ()" "svc' = svc" "p = exec_path (full_name_of n svc)"
    "\<exists>ns. find_state n svc = Some ns \<and> is_active ns"
    "sys_exists (io_sys io) p (nl_kernel (net (sv_states svc)))"
  using assms
  by (auto simp: call_exec_authorize_def guarded_run bindS_def split: option.splits if_splits)

lemma name_shape_bytes: "name_shape s \<Longrightarrow> c \<in> set s \<Longrightarrow> c \<noteq> CHR ''/'' \<and> c \<noteq> CHR ''.''"
  by (auto simp: name_shape_def list_all_iff ns_char_def class_defs code_def)

lemma exec_path_components:
  assumes "CHR ''/'' \<notin> set full" "CHR ''.'' \<notin> set full" "full \<noteq> []"
  shows "components (exec_path full) = [RootDir, Normal ''run'', Normal ''netns'', Normal full]"
proof -
  have "split_char (CHR ''/'') (exec_path full) = [[], ''run'', ''netns'', full]"
    using split_char_id [OF assms(1)] by (simp add: exec_path_def)
  moreover have "full \<noteq> ''..''" "full \<noteq> ''.''" using assms(2) by auto
  moreover have "is_absolute (exec_path full)" by (simp add: exec_path_def is_absolute_def starts_with_def)
  ultimately show ?thesis using assms(3) by (simp add: components_def component_of_def)
qed

lemma full_name_bytes:
  assumes "utf8 n" "dbus_validate_namespace_name ua n = Ok ()" "name_shape (prefix_of (sv_config svc))"
    and "c \<in> set (full_name_of n svc)"
  shows "c \<noteq> CHR ''/'' \<and> c \<noteq> CHR ''.''"
  using assms(4) dbus_name_bytes [OF assms(1,2), of c] name_shape_bytes [OF assms(3), of c]
  by (auto simp: full_name_of_def generate_full_name_cm_def full_name_for_def split: if_splits)

lemma exec_path_shape:
  assumes "utf8 n" "dbus_validate_namespace_name ua n = Ok ()" "name_shape (prefix_of (sv_config svc))"
  shows "components (exec_path (full_name_of n svc)) = [RootDir, Normal ''run'', Normal ''netns'', Normal (full_name_of n svc)]"
proof -
  have "n \<noteq> []" using assms(2) by (auto simp: dbus_validate_namespace_name_def)
  then have "full_name_of n svc \<noteq> []" by (simp add: full_name_of_def generate_full_name_cm_def full_name_for_def)
  with full_name_bytes [OF assms] show ?thesis by (intro exec_path_components) blast+
qed

section \<open>Validation, reloading, the interface\<close>

lemma svc_load_Ok: "svc_load_config io p = Ok c \<longleftrightarrow>
    (\<exists>t. cio_read (io_files io) p = Some t \<and> cio_toml_ns (io_files io) t = Ok c)"
  by (auto simp: svc_load_config_def result_simps)

text \<open>
  ValidateConfiguration reports a file as valid exactly when it exists, can be read, parses, and
  what it says, before any substitution of variables, is a valid configuration; a valid report has
  no error and an invalid one has one.
\<close>

lemma validation_verdict:
  assumes "handle_call io sender now (CallValidateConfiguration p) svc = (Ok (ReplyValidation v), svc')"
  shows "(valid v \<longleftrightarrow> cio_exists (io_files io) p \<and> (\<exists>t c. cio_read (io_files io) p = Some t \<and>
      cio_toml_ns (io_files io) t = Ok c \<and> namespace_config_ok (cio_b64 (io_files io)) c)) \<and>
    length (vr_errors v) = (if valid v then 0 else 1)"
proof -
  have v: "v = (case validate_config_file io p of Inr v \<Rightarrow> v
      | Inl e \<Rightarrow> \<lparr>valid = False, vr_errors = [''Validation failed: '' @ show_segwire_error e], vr_warnings = []\<rparr>)"
    using assms by (auto simp: call_validate_configuration_def thenS_first_Ok)
  show ?thesis
  proof (cases "svc_load_config io p")
    case (Inl e)
    then have "\<not> (\<exists>t c. cio_read (io_files io) p = Some t \<and> cio_toml_ns (io_files io) t = Ok c)"
      using svc_load_Ok [of io p] by auto
    with Inl v show ?thesis by (auto simp: validate_config_file_def)
  next
    case (Inr c)
    then obtain t where "cio_read (io_files io) p = Some t" "cio_toml_ns (io_files io) t = Ok c"
      by (auto simp: svc_load_Ok)
    with Inr v show ?thesis
      using validate_namespace_config_iff [of "cio_b64 (io_files io)" c]
      by (cases "validate_namespace_config (cio_b64 (io_files io)) c")
         (simp_all add: validate_config_file_def Let_def del: validate_namespace_config_iff)
  qed
qed

lemma toml_files_Ok: "toml_files io es = Ok ps \<Longrightarrow>
    ps = filter (\<lambda>p. cio_is_file io p \<and> extension p = Some ''toml'') (map projr es)"
  by (induction io es arbitrary: ps rule: toml_files.induct) (auto simp: result_simps)

lemma count_loads_sum:
  "count_loads io ps (n, m) = (n + length (filter (\<lambda>p. is_ok (svc_load_config io p)) ps),
     m + length (filter (\<lambda>p. \<not> is_ok (svc_load_config io p)) ps))"
  by (induction ps arbitrary: n m) (simp_all split: sum.split)

text \<open>
  The files a reload reads are the TOML files of the configuration directory in the order of
  their paths, and every file is counted once, as loaded or as an error.
\<close>

lemma reload_counts_files:
  assumes "reload_all_configurations io svc = Ok (loaded, errors)"
    "cio_dir (io_files io) (config_directory (sv_config svc)) = Ok es"
  shows "\<exists>ps. scan_config_directory (io_files io) (config_directory (sv_config svc)) = Ok ps \<and>
    sorted (map components ps) \<and> loaded + errors = length ps \<and>
    set ps = {p \<in> set (map projr es). cio_is_file (io_files io) p \<and> extension p = Some ''toml''} \<and>
    loaded = length (filter (\<lambda>p. \<exists>c. svc_load_config io p = Ok c) ps)"
proof -
  obtain ps where ps: "scan_config_directory (io_files io) (config_directory (sv_config svc)) = Ok ps"
    "(loaded, errors) = count_loads io ps (0, 0)"
    using assms(1) by (auto simp: reload_all_configurations_def result_simps)
  obtain qs where "toml_files (io_files io) es = Ok qs" "ps = sort_paths qs"
    using ps(1) assms(2) by (auto simp: scan_config_directory_def result_simps split: if_splits)
  moreover have "loaded + errors = length ps"
    using ps(2) sum_length_filter_compl [of "\<lambda>p. is_ok (svc_load_config io p)" ps]
    by (simp add: count_loads_sum)
  ultimately show ?thesis using ps
    by (auto simp: count_loads_sum sort_paths_def is_ok_iff dest!: toml_files_Ok)
qed

definition arg_signature :: "signal_arg \<Rightarrow> string" where
  "arg_signature a = (case a of ArgText _ \<Rightarrow> ''s'' | ArgProgress _ \<Rightarrow> ''d'')"

text \<open>A signal of the table, with arguments of the types it declares, sent on the service's object.\<close>

definition declared_signal :: "signal_msg \<Rightarrow> bool" where
  "declared_signal m = (sg_path m = OBJECT_PATH \<and> sg_interface m = INTERFACE_NAME \<and>
     map_option (\<lambda>s. map type_signature (si_args s)) (find_signal (sg_member m)) =
       Some (map arg_signature (sg_args m)))"

text \<open>
  Every signal the service emits is declared: its member is in the table of signals, so in the
  introspection document, with these argument types.
\<close>

lemma emitted_signals_declared:
  "list_all (\<lambda>emit. list_all declared_signal (snd (emit [])))
     [emit_namespace_created ok name path, emit_namespace_deleted ok name reason,
      emit_operation_progress ok op progress msg, emit_namespace_status_changed ok name old_status new_status]"
  by (simp add: emit_defs send_signal_def Let_def declared_signal_def find_signal_def get_signals_def
      signal_name_defs arg_signature_def)

text \<open>
  The methods registered with the dispatcher are those of the interface table, in its order and
  with its arguments; but only ListNamespaces and ExecAuthorize have as many results as the table,
  and so the introspection document, declares.
\<close>

lemma registered_methods_declared:
  "map fst registered_methods = get_method_names \<and>
   map (\<lambda>(n, ins, outs). ins) registered_methods = map (\<lambda>m. map arg_name (input_args m)) get_methods \<and>
   map (\<lambda>m. mi_name m) (filter (\<lambda>m. map_option (\<lambda>(ins, outs). length outs) (map_of registered_methods (mi_name m)) =
      Some (length (output_args m))) get_methods) = [''ListNamespaces'', ''ExecAuthorize'']"
  by (simp add: registered_methods_def get_method_names_def get_methods_def method_name_defs)

text \<open>
  When the service is created without an authorizer, on a session bus or because the connection
  of the authorizer failed, every sender passes every authorization check.
\<close>

lemma service_without_authorizer:
  assumes "service_new host host' se rn now cm mg = Ok svc"
    "map_of se ''DBUS_SESSION_BUS_ADDRESS'' = None \<Longrightarrow> authorizer_new host' se = Err e"
  shows "svc_check_authorization svc action sender = Ok ()"
  using assms
  by (auto simp: service_new_def Let_def result_simps service_authorizer_def svc_check_authorization_def)


section \<open>Concrete calls\<close>

text \<open>
  A system whose state is the list of the files that exist; a service on it with the namespace
  \<^verbatim>\<open>sw-web\<close> present, and an authorizer whose PolicyKit does not answer: root is allowed.
\<close>

definition file_sys :: "string list sys" where
  "file_sys = \<lparr>sys_host_ns = 0, sys_euid = (\<lambda>_. 0), sys_exists = (\<lambda>p k. p \<in> set k), sys_mkdir_all = (\<lambda>p k. (Ok (), p # k)),
     sys_create = (\<lambda>p k. (Ok (), p # k)), sys_write = (\<lambda>_ _. returnS ()), sys_remove = (\<lambda>p k. (Ok (), removeAll p k)),
     sys_read = (\<lambda>_ _. None), sys_ino = (\<lambda>_ _. None), sys_readdir = (\<lambda>_ _. Ok []), sys_unshare = returnS 1,
     sys_mount = (\<lambda>_ _ _. returnS ()), sys_umount = (\<lambda>_. returnS ()), sys_open = (\<lambda>_ _. returnS 3),
     sys_close = (\<lambda>_ k. k), sys_setns = (\<lambda>_. returnS 1), sys_nl_open = (\<lambda>_. returnS 0),
     sys_nl_request = (\<lambda>_ _. returnS []), sys_genl_family = (\<lambda>_ _. returnS 0),
     sys_genl_wireguard = (\<lambda>_ _ _ _. returnS ())\<rparr>"

definition sample_bus :: bus where
  "sample_bus = \<lparr>bus_pid = (\<lambda>s. Ok 42), bus_uid = (\<lambda>s. Ok (if s = '':root'' then 0 else 1000)),
     bus_check = (\<lambda>_. Inl ''no PolicyKit'')\<rparr>"

definition sample_host :: bus_host where
  "sample_host = \<lparr>open_session = Inl ''no session bus'', open_system = Ok sample_bus\<rparr>"

definition sample_authorizer :: authorizer where
  "sample_authorizer = \<lparr>auth_bus = sample_bus, action_mappings = default_mappings\<rparr>"

definition svc_io :: "string list service_io" where
  "svc_io = \<lparr>io_files = (sample_io_with (\<lambda>p. Some ''web''))\<lparr>cio_dir := (\<lambda>_. Ok [Ok ''b.toml'', Ok ''a.toml'', Ok ''c.txt''])\<rparr>,
     io_sys = file_sys, io_read_error = (\<lambda>_. ''No such file''), io_alnum = (\<lambda>_. False)\<rparr>"

definition sample_service :: "string list service" where
  "sample_service = \<lparr>sv_config = two_configs,
     sv_states = (state_manager_new \<lparr>nl_backend = Real, nl_kernel =
         [''/var/run/netns'', ''/var/run/netns/sw-web'', ''/run/netns/sw-web'']\<rparr>)
       \<lparr>namespace_states := [(''sw-web'', set_status 0 Active (new_state 0 ''web'' ''sw-web'' ''a.toml''))]\<rparr>,
     sv_start = 0, sv_authorizer = Some sample_authorizer\<rparr>"

lemma sample_authorizer_new: "authorizer_new sample_host [] = Ok sample_authorizer"
  by (simp add: authorizer_new_def sample_host_def sample_authorizer_def)

lemma sample_service_authorizer: "sv_authorizer sample_service = Some sample_authorizer"
  by (simp add: sample_service_def)

lemma query_reply:
  assumes "fst (handle_call io sender now c svc) = r"
    "\<And>n. c \<noteq> CallDeleteNamespace n" "\<And>n. c \<noteq> CallRestartNamespace n"
  shows "handle_call io sender now c svc = (r, svc)"
  using assms read_only_call [of c io sender now svc] by (metis prod.collapse)

definition replied :: "(method_err, dbus_reply) res \<times> 'k service \<Rightarrow> bool" where
  "replied x = (case fst x of Inr (ReplyResult r) \<Rightarrow> success r | _ \<Rightarrow> False)"

definition reply_of :: "(method_err, dbus_reply) res \<times> 'k service \<Rightarrow> operation_result" where
  "reply_of x = (case fst x of Inr (ReplyResult r) \<Rightarrow> r | _ \<Rightarrow> op_failure [])"

lemma repliedD: "replied x \<Longrightarrow> x = (Ok (ReplyResult (reply_of x)), snd x) \<and> success (reply_of x)"
  by (cases x) (auto simp: replied_def reply_of_def split: sum.splits dbus_reply.splits)

lemma delete_forgets_namespace_witness:
  "get_namespace_state (sv_states (snd (handle_call svc_io (Some '':root'') 0 (CallDeleteNamespace ''web'') sample_service)))
     ''sw-web'' = None"
proof -
  have "replied (handle_call svc_io (Some '':root'') 0 (CallDeleteNamespace ''web'') sample_service)" by code_simp
  note r = repliedD [OF this]
  have "full_name_for (prefix_of (sv_config sample_service)) ''web'' = ''sw-web''" by code_simp
  then show ?thesis using delete_forgets_namespace [OF r [THEN conjunct1], of "''sw-web''"] r by simp
qed

lemma restarted_not_enterable_witness:
  "let svc' = snd (handle_call svc_io (Some '':root'') 9 (CallRestartNamespace ''web'') sample_service) in
   \<exists>e. handle_call svc_io (Some '':root'') 10 (CallExecAuthorize ''web'') svc' = (Err e, svc')"
proof -
  have "replied (handle_call svc_io (Some '':root'') 9 (CallRestartNamespace ''web'') sample_service)" by code_simp
  note r = repliedD [OF this]
  have c: "find_config ''web'' sample_service = Some (sample_config ''web'')" by code_simp
  have n: "ns_name (namespace (sample_config ''web'')) = ''web''" by code_simp
  show ?thesis using restarted_not_enterable [OF r [THEN conjunct1] r [THEN conjunct2] c] unfolding n Let_def by blast
qed

lemma validation_verdict_witness:
  "namespace_config_ok no_base64 (sample_config ''web'')"
proof -
  let ?v = "\<lparr>valid = True, vr_errors = [], vr_warnings = []\<rparr>"
  have "fst (handle_call svc_io (Some '':root'') 0 (CallValidateConfiguration ''a.toml'') sample_service) =
      Ok (ReplyValidation ?v)" by code_simp
  then have r: "handle_call svc_io (Some '':root'') 0 (CallValidateConfiguration ''a.toml'') sample_service =
      (Ok (ReplyValidation ?v), sample_service)" by (rule query_reply) simp_all
  show ?thesis using validation_verdict [OF r] by (auto simp: svc_io_def sample_io_with_def)
qed

lemma reload_counts_files_witness:
  "\<exists>ps. scan_config_directory (io_files svc_io) ''/etc'' = Ok ps \<and> length ps = 2"
proof -
  have r: "reload_all_configurations svc_io sample_service = Ok (2, 0)" by code_simp
  have d: "cio_dir (io_files svc_io) (config_directory (sv_config sample_service)) =
      Ok [Ok ''b.toml'', Ok ''a.toml'', Ok ''c.txt'']" by code_simp
  have "config_directory (sv_config sample_service) = ''/etc''" by code_simp
  then show ?thesis using reload_counts_files [OF r d] by auto
qed

lemma service_without_authorizer_witness:
  "svc_check_authorization (sample_service\<lparr>sv_authorizer := None\<rparr>) ''delete'' (Some '':user'') = Ok ()"
proof -
  have n: "service_new sample_host (sample_host\<lparr>open_system := Inl ''limit''\<rparr>) [] (\<lambda>_. Ok ()) 0 two_configs
      (sv_states sample_service) = Ok (sample_service\<lparr>sv_authorizer := None\<rparr>)"
    by (simp add: service_new_def Let_def service_connection_def sample_host_def service_authorizer_def authorizer_new_def
        sample_service_def)
  have "authorizer_new (sample_host\<lparr>open_system := Inl ''limit''\<rparr>) [] =
      Err (DBus (''Failed to open auth D-Bus connection: '' @ ''limit''))"
    by (simp add: authorizer_new_def)
  then show ?thesis by (intro service_without_authorizer [OF n]) simp_all
qed

text \<open>
  ValidateConfiguration does not substitute variables: it reports as invalid a file that the
  daemon loads.
\<close>

lemma validation_without_variables:
  "validate_config_file (svc_io\<lparr>io_files := sample_io_with (\<lambda>p. Some ''${N}'')\<rparr>) ''a.toml'' \<noteq>
     Ok \<lparr>valid = True, vr_errors = [], vr_warnings = []\<rparr> \<and>
   is_ok (load_namespace_config (sample_io_with (\<lambda>p. Some ''${N}'')) ''sw'' ''a.toml'')"
proof
  have "(case validate_config_file (svc_io\<lparr>io_files := sample_io_with (\<lambda>p. Some ''${N}'')\<rparr>) ''a.toml'' of
      Inr v \<Rightarrow> \<not> valid v | Inl e \<Rightarrow> False)" by code_simp
  then show "validate_config_file (svc_io\<lparr>io_files := sample_io_with (\<lambda>p. Some ''${N}'')\<rparr>) ''a.toml'' \<noteq>
     Ok \<lparr>valid = True, vr_errors = [], vr_warnings = []\<rparr>" by auto
  show "is_ok (load_namespace_config (sample_io_with (\<lambda>p. Some ''${N}'')) ''sw'' ''a.toml'')" by code_simp
qed

end
