(* ===== verification/Sections.thy ===== *)
theory Sections
  imports DbusService
begin

text \<open>
  The method handlers of \<^verbatim>\<open>dbus_service.rs\<close> as the sections they run through.  A handler holds the lock of
  the service for the whole call, which keeps other calls out, but it takes the lock of the
  configuration or of the states for one section at a time and none while it works on the kernel, so
  the other threads run in between.  A program is a tree of sections; run without interruption it
  is the handler of \<^verbatim>\<open>DbusService\<close>, run among other threads it is what the daemon does.
\<close>

section \<open>Programs of sections\<close>

datatype lock = ServiceLock | ConfigLock | StateLock

text \<open>A section has the lock it holds, what it does to the state, and how the program goes on from what it saw.\<close>

datatype ('s, 'a) prog =
    Return 'a
  | Section "lock option" "'s \<Rightarrow> 's" "'s \<Rightarrow> ('s, 'a) prog"

type_synonym ('s, 'e, 'a) eprog = "('s, ('e, 'a) res) prog"

primrec bindP :: "('s, 'a) prog \<Rightarrow> ('a \<Rightarrow> ('s, 'b) prog) \<Rightarrow> ('s, 'b) prog" where
  "bindP (Return a) h = h a"
| "bindP (Section l f k) h = Section l f (\<lambda>s. bindP (k s) h)"

definition tryP :: "('s, 'e, 'a) eprog \<Rightarrow> ('a \<Rightarrow> ('s, 'e, 'b) eprog) \<Rightarrow> ('s, 'e, 'b) eprog" where
  "tryP p h = bindP p (\<lambda>r. case r of Inl e \<Rightarrow> Return (Inl e) | Inr a \<Rightarrow> h a)"

text \<open>One section that is an operation, and one that only reads.\<close>

definition section_op :: "lock option \<Rightarrow> ('s, 'e, 'a) op \<Rightarrow> ('s, 'e, 'a) eprog" where
  "section_op l m = Section l (execS m) (\<lambda>s. Return (fst (m s)))"

definition section_get :: "lock option \<Rightarrow> ('s \<Rightarrow> 'a) \<Rightarrow> ('s, 'e, 'a) eprog" where
  "section_get l g = section_op l (getS g)"

text \<open>Without interruption.\<close>

primrec run_prog :: "('s, 'a) prog \<Rightarrow> 's \<Rightarrow> 'a \<times> 's" where
  "run_prog (Return a) s = (a, s)"
| "run_prog (Section l f k) s = run_prog (k s) (f s)"

lemma run_bind: "run_prog (bindP p h) s = (case run_prog p s of (a, t) \<Rightarrow> run_prog (h a) t)"
  by (induction p arbitrary: s) simp_all

lemma run_try: "run_prog (tryP p h) = bindS (run_prog p) (\<lambda>a. run_prog (h a))"
  by (rule ext) (simp add: tryP_def run_bind bindS_def split: prod.split sum.split)

lemma run_section [simp]: "run_prog (section_op l m) = m" "run_prog (section_get l g) = getS g"
  by (simp_all add: section_get_def section_op_def execS_def fun_eq_iff)

lemma run_return: "run_prog (Return r) = liftS r"
  by (simp add: fun_eq_iff)

section \<open>The handlers\<close>

definition lookup_state :: "string \<Rightarrow> string \<Rightarrow> 'k service \<Rightarrow> namespace_state option" where
  "lookup_state full n svc = or_else (get_namespace_state (sv_states svc) full) (get_namespace_state (sv_states svc) n)"

definition full_name_prog :: "string \<Rightarrow> ('k service, 'e, string) eprog" where
  "full_name_prog n = section_get (Some ConfigLock) (full_name_of n)"

definition delete_prog :: "'k sys \<Rightarrow> string \<Rightarrow> ('k service, segwire_error, unit) eprog" where
  "delete_prog y n =
     tryP (full_name_prog n) (\<lambda>full.
     tryP (section_get (Some StateLock) (\<lambda>svc. get_namespace_state (sv_states svc) n = None \<and>
       get_namespace_state (sv_states svc) full = None)) (\<lambda>missing.
     tryP (Return (failIf missing (Network (''Namespace '' @ quoted n @ '' not found'')))) (\<lambda>_.
     tryP (section_op None (with_new_netlink y (delete_namespace y full))) (\<lambda>_.
     section_op (Some StateLock) (on_states (\<lambda>mg. remove_namespace_state full (remove_namespace_state n mg)))))))"

definition create_prog :: "'k sys \<Rightarrow> nat \<Rightarrow> namespace_config \<Rightarrow> ('k service, segwire_error, string) eprog" where
  "create_prog y now c =
     tryP (full_name_prog (ns_name (namespace c))) (\<lambda>full.
     tryP (section_op None (with_new_netlink y (create_namespace y full))) (\<lambda>_.
     tryP (section_get (Some ConfigLock) (\<lambda>svc. case get_namespace_config (sv_config svc) full of
        Some e \<Rightarrow> file_path e | None \<Rightarrow> [])) (\<lambda>path.
     tryP (section_op (Some StateLock)
        (on_states (update_namespace_state (new_state now (ns_name (namespace c)) full path)))) (\<lambda>_.
     Return (Ok full)))))"

definition restart_prog :: "'k sys \<Rightarrow> nat \<Rightarrow> string \<Rightarrow> namespace_config \<Rightarrow> ('k service, method_err, operation_result) eprog" where
  "restart_prog y now n c =
     bindP (delete_prog y n) (\<lambda>r. case r of
        Inl e \<Rightarrow> Return (Ok (op_failure (''Restart failed during deletion: '' @ show_segwire_error e)))
      | Inr _ \<Rightarrow> bindP (create_prog y now c) (\<lambda>r. Return (Ok (case r of
          Inr full \<Rightarrow> op_success (''Namespace '' @ quoted full @ '' restarted successfully'')
        | Inl e \<Rightarrow> op_failure (''Restart failed during recreation: '' @ show_segwire_error e)))))"

definition name_guard :: "'k service_io \<Rightarrow> string \<Rightarrow> (method_err, unit) res" where
  "name_guard io n = map_err (\<lambda>e. create_method_err (from_dbus e)) (dbus_validate_namespace_name (io_alnum io) n)"

definition reload_directory :: "'k service_io \<Rightarrow> string \<Rightarrow> (nat \<times> nat) sres" where
  "reload_directory io dir =
     tryR (scan_config_directory (io_files io) dir) (\<lambda>ps. Ok (count_loads io ps (0, 0)))"

definition validation_reply :: "'k service_io \<Rightarrow> string \<Rightarrow> validation_result" where
  "validation_reply io p = (case validate_config_file io p of
      Inr v \<Rightarrow> v
    | Inl e \<Rightarrow> \<lparr>valid = False, vr_errors = [''Validation failed: '' @ show_segwire_error e], vr_warnings = []\<rparr>)"

text \<open>What a handler checks of its arguments before it takes the lock of the service.\<close>

fun call_guard :: "'k service_io \<Rightarrow> dbus_call \<Rightarrow> (method_err, unit) res" where
  "call_guard io (CallGetNamespaceStatus n) = name_guard io n"
| "call_guard io (CallDeleteNamespace n) = name_guard io n"
| "call_guard io (CallRestartNamespace n) = name_guard io n"
| "call_guard io (CallExecAuthorize n) = name_guard io n"
| "call_guard io (CallValidateConfiguration p) =
     map_err (\<lambda>e. create_method_err (from_dbus e)) (dbus_validate_config_path p)"
| "call_guard io _ = Ok ()"

text \<open>What it does with the lock, after the authorization.\<close>

fun call_body :: "'k service_io \<Rightarrow> nat \<Rightarrow> dbus_call \<Rightarrow> ('k service, method_err, dbus_reply) eprog" where
  "call_body io now CallListNamespaces =
     tryP (section_get (Some ConfigLock) (\<lambda>svc. prefix_of (sv_config svc))) (\<lambda>prefix.
     section_get (Some StateLock) (\<lambda>svc. ReplyNamespaces (map (\<lambda>(n, ns). (st_name ns, status_str (status ns),
       st_config_path ns, ''Namespace managed by '' @ prefix)) (namespace_states (sv_states svc)))))"
| "call_body io now (CallGetNamespaceStatus n) =
     tryP (full_name_prog n) (\<lambda>full.
     tryP (section_get (Some StateLock) (lookup_state full n)) (\<lambda>r. case r of
        Some ns \<Rightarrow> Return (Ok (ReplyStatus (st_name ns) (st_full_name ns) (status_str (status ns))
          (st_config_path ns) (created_at ns) (last_updated ns)))
      | None \<Rightarrow> Return (Err (not_found n))))"
| "call_body io now (CallDeleteNamespace n) =
     bindP (delete_prog (io_sys io) n) (\<lambda>r. Return (Ok (ReplyResult (delete_report n r))))"
| "call_body io now CallReloadConfiguration =
     tryP (section_get (Some ConfigLock) (\<lambda>svc. config_directory (sv_config svc))) (\<lambda>dir.
     Return (Ok (ReplyResult (reload_report (reload_directory io dir)))))"
| "call_body io now (CallValidateConfiguration p) =
     Return (Ok (ReplyValidation (validation_reply io p)))"
| "call_body io now CallGetDaemonStatus =
     tryP (section_get None (\<lambda>svc. unix_secs (now - sv_start svc))) (\<lambda>uptime.
     tryP (section_get (Some StateLock) (\<lambda>svc. active_namespaces (get_state_stats (sv_states svc)))) (\<lambda>active.
     section_get (Some ConfigLock) (\<lambda>svc. ReplyDaemon PKG_VERSION uptime
       (word_of_nat (total_configs (get_config_stats (sv_config svc)))) (word_of_nat active))))"
| "call_body io now (CallRestartNamespace n) =
     tryP (section_get (Some ConfigLock) (find_config n)) (\<lambda>r. case r of
        None \<Rightarrow> Return (Ok (ReplyResult (op_failure
          (''No configuration found for namespace '' @ quoted n @ '', cannot restart''))))
      | Some c \<Rightarrow> tryP (restart_prog (io_sys io) now n c) (\<lambda>x. Return (Ok (ReplyResult x))))"
| "call_body io now (CallExecAuthorize n) =
     tryP (full_name_prog n) (\<lambda>full.
     tryP (section_get (Some StateLock) (lookup_state full n)) (\<lambda>r. case r of
        None \<Rightarrow> Return (Err (not_found n))
      | Some ns \<Rightarrow>
          (if \<not> is_active ns
           then Return (Err (create_method_err (Network (''Namespace '' @ quoted n @ '' is not active''))))
           else tryP (section_get None (\<lambda>svc. sys_exists (io_sys io) (exec_path full) (nl_kernel (net (sv_states svc))))) (\<lambda>ex.
                if \<not> ex
                then Return (Err (create_method_err (Network (''Namespace path '' @ quoted (exec_path full) @ '' not found''))))
                else Return (Ok (ReplyPath (exec_path full)))))))"

definition call_prog :: "'k service_io \<Rightarrow> string option \<Rightarrow> nat \<Rightarrow> dbus_call \<Rightarrow> ('k service, method_err, dbus_reply) eprog" where
  "call_prog io sender now c =
     tryP (Return (call_guard io c)) (\<lambda>_.
     tryP (section_op None (authorize (call_action c) sender)) (\<lambda>_.
     call_body io now c))"

section \<open>Without interruption a program is its handler\<close>

lemma handler_parts:
  "guard_name io n = liftS (name_guard io n)" "find_state n svc = lookup_state (full_name_of n svc) n svc"
  "reload_all_configurations io svc = reload_directory io (config_directory (sv_config svc))"
  by (simp_all add: guard_name_def name_guard_def find_state_def lookup_state_def reload_all_configurations_def
      reload_directory_def)

lemma bindS_getS [simp]: "bindS (getS g) h = (\<lambda>s. h (g s) s)"
  by (simp add: bindS_def fun_eq_iff)

lemma bindS_liftS [simp]: "bindS (liftS r) h = (case r of Inl e \<Rightarrow> errS e | Inr a \<Rightarrow> h a)"
  by (auto simp: bindS_def fun_eq_iff split: sum.split)

lemma thenS_bind: "thenS m k = bindS m (\<lambda>_. k)"
  by (simp add: thenS_def)

lemma liftS_pure [simp]: "liftS (Inr a) = returnS a" "liftS (Inl e) = errS e"
  by (simp_all add: fun_eq_iff)

lemma run_cases:
  "run_prog (case r of Inl e \<Rightarrow> p e | Inr a \<Rightarrow> q a) = (case r of Inl e \<Rightarrow> run_prog (p e) | Inr a \<Rightarrow> run_prog (q a))"
  "run_prog (case x of None \<Rightarrow> p' | Some b \<Rightarrow> q' b) = (case x of None \<Rightarrow> run_prog p' | Some b \<Rightarrow> run_prog (q' b))"
  "run_prog (if t then p' else p'') = (if t then run_prog p' else run_prog p'')"
  by (simp_all split: sum.split option.split)

lemma run_bind_op: "run_prog (bindP p h) = bindS (attemptS (run_prog p)) (\<lambda>r. run_prog (h r))"
  by (rule ext) (simp add: run_bind bindS_def attemptS_def split: prod.split)

lemma run_delete: "run_prog (delete_prog y n) = delete_namespace_by_name y n"
  by (simp add: delete_prog_def delete_namespace_by_name_def full_name_prog_def run_try run_return thenS_bind)

lemma run_create: "run_prog (create_prog y now c) = create_namespace_from_config y now c"
  by (simp add: create_prog_def create_namespace_from_config_def full_name_prog_def run_try run_return thenS_bind)

lemma run_restart: "run_prog (restart_prog y now n c) = restart_with y now n c"
  by (simp add: restart_prog_def restart_with_def run_bind_op run_delete run_create run_return run_cases cong: sum.case_cong)

lemmas run_simps = run_try run_bind_op run_delete run_create run_restart run_return run_cases full_name_prog_def

lemma run_body:
  "handle_call io sender now c =
     bindS (liftS (call_guard io c)) (\<lambda>_. bindS (authorize (call_action c) sender) (\<lambda>_. run_prog (call_body io now c)))"
  by (cases c; simp add: call_defs thenS_bind handler_parts run_simps validation_reply_def fun_eq_iff
      cong: option.case_cong sum.case_cong if_cong; simp add: getS_def [abs_def])

text \<open>Run without interruption, the sections of a call are its handler.\<close>

lemma run_handler: "run_prog (call_prog io sender now c) svc = handle_call io sender now c svc"
  unfolding run_body by (simp add: call_prog_def run_try run_return)

section \<open>Among other threads\<close>

text \<open>A run in which the others change the state by \<open>R\<close> before each section and after the last.\<close>

inductive runs_among :: "('s \<Rightarrow> 's \<Rightarrow> bool) \<Rightarrow> ('s, 'a) prog \<Rightarrow> 's \<Rightarrow> 'a \<Rightarrow> 's \<Rightarrow> bool" for R where
  finish: "R s t \<Longrightarrow> runs_among R (Return a) s a t"
| step: "R s t \<Longrightarrow> runs_among R (k t) (f t) a u \<Longrightarrow> runs_among R (Section l f k) s a u"

inductive_simps runs_among_simps [simp]:
  "runs_among R (Return b) s a t" "runs_among R (Section l f k) s a u"

text \<open>Every section of a program changes the state by \<open>G\<close> only.\<close>

primrec guarantees :: "('s \<Rightarrow> 's \<Rightarrow> bool) \<Rightarrow> ('s, 'a) prog \<Rightarrow> bool" where
  "guarantees G (Return a) = True"
| "guarantees G (Section l f k) = (\<forall>s. G s (f s) \<and> guarantees G (k s))"

lemma guarantees_bind: "guarantees G p \<Longrightarrow> (\<And>a. guarantees G (h a)) \<Longrightarrow> guarantees G (bindP p h)"
  by (induction p) simp_all

lemma guarantees_try [keeps_intros]:
  "guarantees G p \<Longrightarrow> (\<And>a. guarantees G (h a)) \<Longrightarrow> guarantees G (tryP p h)"
  unfolding tryP_def by (rule guarantees_bind) (simp_all split: sum.split)

lemma guarantees_section [simp]: "guarantees G (section_op l m) \<longleftrightarrow> keeps G m"
  by (simp add: section_op_def keeps_def execS_def)

lemma guarantees_get [simp]: "reflp G \<Longrightarrow> guarantees G (section_get l g)"
  by (simp add: section_get_def keeps_pure)

lemma run_among: "reflp R \<Longrightarrow> run_prog p s = (a, t) \<Longrightarrow> runs_among R p s a t"
  by (induction p arbitrary: s) (auto dest: reflpD)

lemma runs_guarantees:
  assumes "runs_among R p s a t" "guarantees G p" "R \<le> Q" "G \<le> Q" "transp Q"
  shows "Q s t"
  using assms(1,2)
proof (induction rule: runs_among.induct)
  case (step s t k f a u l)
  then have "Q s t" "Q t (f t)" "Q (f t) u" using assms(3,4) by auto
  then show ?case using transpD [OF assms(5)] by blast
qed (use assms(3) in blast)

lemma runs_bind:
  "runs_among R (bindP p h) s b u \<Longrightarrow> reflp R \<Longrightarrow> \<exists>a t. runs_among R p s a t \<and> runs_among R (h a) t b u"
proof (induction p arbitrary: s)
  case (Return a)
  then show ?case by (auto dest: reflpD)
next
  case (Section l f k)
  then obtain t where t: "R s t" "runs_among R (bindP (k t) h) (f t) b u" by auto
  obtain a v where "runs_among R (k t) (f t) a v" "runs_among R (h a) v b u"
    using Section.IH [OF _ t(2) Section.prems(2)] by auto
  with t(1) show ?case by auto
qed

lemma runs_section [simp]:
  "runs_among R (section_op l m) s a u \<longleftrightarrow> (\<exists>t v. R s t \<and> m t = (a, v) \<and> R v u)"
  by (auto simp: section_op_def execS_def) (metis prod.collapse)

lemma runs_get [simp]:
  "runs_among R (section_get l g) s r u \<longleftrightarrow> (\<exists>t. R s t \<and> r = Ok (g t) \<and> R t u)"
  by (auto simp: section_get_def)

lemma runs_try_Ok:
  assumes "runs_among R (tryP p h) s (Ok b) u" "reflp R"
  obtains a t where "runs_among R p s (Ok a) t" "runs_among R (h a) t (Ok b) u"
proof -
  obtain r t where "runs_among R p s r t"
    "runs_among R (case r of Inl e \<Rightarrow> Return (Inl e) | Inr a \<Rightarrow> h a) t (Ok b) u"
    using runs_bind [OF assms(1) [unfolded tryP_def] assms(2)] by blast
  then show thesis using that by (cases r) auto
qed

section \<open>What a call does among other threads\<close>

lemma svc_check_state: "sv_authorizer b = sv_authorizer a \<Longrightarrow>
    svc_check_authorization b act sender = svc_check_authorization a act sender"
  by (simp add: svc_check_authorization_def)

lemma keeps_attempt [keeps_intros]: "keeps R m \<Longrightarrow> keeps R (attemptS m)"
  by (auto simp: keeps_def attemptS_def split: prod.splits) (metis snd_conv)

lemma keeps_netlink: "keeps same_service (with_new_netlink y m)"
proof (rule keepsI)
  fix svc
  show "same_service svc (snd (with_new_netlink y m svc))"
    using with_new_netlink_frame [of y m svc] by (cases "with_new_netlink y m svc") auto
qed

lemma keeps_states:
  "keeps same_service (on_states (update_namespace_state st))"
  "keeps same_service (on_states (\<lambda>mg. remove_namespace_state a (remove_namespace_state b mg)))"
  by (simp_all add: keeps_def on_states_def same_service_def update_namespace_state_def remove_namespace_state_def)

lemma delete_prog_guarantees: "guarantees same_service (delete_prog y n)"
  unfolding delete_prog_def full_name_prog_def
  by (intro guarantees_try guarantees_get same_service_rt)
     (simp_all add: keeps_netlink keeps_states)

lemma create_prog_guarantees: "guarantees same_service (create_prog y now c)"
  unfolding create_prog_def full_name_prog_def
  by (intro guarantees_try guarantees_get same_service_rt)
     (simp_all add: keeps_netlink keeps_states)

lemma restart_prog_guarantees: "guarantees same_service (restart_prog y now n c)"
  unfolding restart_prog_def
  by (intro guarantees_bind delete_prog_guarantees)
     (auto intro!: guarantees_bind create_prog_guarantees split: sum.split)

lemma call_body_guarantees: "guarantees same_service (call_body io now c)"
  by (cases c) (auto simp: full_name_prog_def
      intro!: guarantees_try guarantees_bind delete_prog_guarantees restart_prog_guarantees split: option.split)

lemma call_prog_guarantees: "guarantees same_service (call_prog io sender now c)"
  unfolding call_prog_def
  by (intro guarantees_try call_body_guarantees)
     (simp_all add: keeps_def authorize_def reflpD [OF same_service_rt(1)])

lemma run_guarantees: "guarantees G p \<Longrightarrow> reflp G \<Longrightarrow> transp G \<Longrightarrow> G s (snd (run_prog p s))"
proof (induction p arbitrary: s)
  case (Section l f k)
  then have "G s (f s)" "G (f s) (snd (run_prog (k s) (f s)))" by auto
  then show ?case using transpD [OF Section.prems(3)] by simp
qed (simp add: reflpD)

lemma handle_same: "same_service svc (snd (handle_call io sender now c svc))"
  unfolding run_handler [symmetric] by (rule run_guarantees [OF call_prog_guarantees same_service_rt])

text \<open>
  What the other threads may change while a call runs: the configurations, the prefix to another valid
  one, the states and the kernel, but not the authorizer.
\<close>

definition interferes :: "'k service \<Rightarrow> 'k service \<Rightarrow> bool" where
  "interferes a b = (sv_authorizer b = sv_authorizer a \<and> sv_start b = sv_start a \<and>
     (name_shape (prefix_of (sv_config a)) \<longrightarrow> name_shape (prefix_of (sv_config b))))"

lemma interferes_rt [simp]: "reflp interferes" "transp interferes"
  by (auto simp: interferes_def intro!: reflpI transpI)

lemma same_interferes: "same_service \<le> interferes"
  by (auto simp: same_service_def interferes_def)

lemma call_interferes: "runs_among interferes (call_prog io sender now c) svc r svc' \<Longrightarrow> interferes svc svc'"
  by (rule runs_guarantees [OF _ call_prog_guarantees _ same_interferes]) auto

text \<open>
  A call is authorized before it does anything, by the authorizer it started with; when it is refused
  the state is changed by the others only.
\<close>

lemma call_prog_authorized:
  assumes "runs_among R (call_prog io sender now c) svc r svc'" "R \<le> interferes" "transp R"
  obtains (refused) e where "r = Err e" "R svc svc'"
      "call_guard io c \<noteq> Ok () \<or> svc_check_authorization svc (call_action c) sender \<noteq> Ok ()"
  | (accepted) t where "call_guard io c = Ok ()" "svc_check_authorization svc (call_action c) sender = Ok ()"
      "R svc t" "runs_among R (call_body io now c) t r svc'"
proof (cases "call_guard io c")
  case (Inl e)
  then show thesis using assms refused by (auto simp: call_prog_def tryP_def)
next
  case (Inr u)
  then obtain t where t: "R svc t"
    "runs_among R (case svc_check_authorization t (call_action c) sender of
       Inl e \<Rightarrow> Return (Inl e) | Inr a \<Rightarrow> call_body io now c) t r svc'"
    using assms by (auto simp: call_prog_def tryP_def section_op_def authorize_def execS_def)
  have "interferes svc t" using t(1) assms(2) by blast
  then have eq: "svc_check_authorization t (call_action c) sender = svc_check_authorization svc (call_action c) sender"
    by (intro svc_check_state) (simp add: interferes_def)
  show thesis
  proof (cases "svc_check_authorization svc (call_action c) sender")
    case (Inl e)
    then have "r = Err e" "R t svc'" using t(2) unfolding eq by auto
    then show thesis using refused transpD [OF assms(3) t(1)] Inl by simp
  next
    case (Inr v)
    then show thesis using t accepted \<open>call_guard io c = Inr u\<close> unfolding eq by auto
  qed
qed

text \<open>
  C21: with an authorizer, a method call from a sender that PolicyKit does not allow the action of
  that method (or, when PolicyKit does not answer, that is not root) is refused, and while it is served
  the table, the configuration and the kernel are changed by the other threads only.
\<close>

lemma unauthorized_call_refused:
  assumes "runs_among R (call_prog io (Some sender) now c) svc r svc'" "R \<le> interferes" "transp R"
    "authorizer_new host se = Ok a" "sv_authorizer svc = Some a" "\<not> sender_allowed a (policy_action c) sender"
  shows "(\<exists>e. r = Err e) \<and> R svc svc'"
proof -
  have "svc_check_authorization svc (call_action c) (Some sender) \<noteq> Ok ()"
    using unauthorized_check [OF assms(4-6)] by auto
  then show ?thesis using assms(1-3) by (auto elim!: call_prog_authorized)
qed

text \<open>
  C22: the path ExecAuthorize replies, whatever the other threads do while it is served: the sender is
  authorized; it is the file directly in /run/netns of a full name under a valid prefix; and at three
  moments of the call, in this order, the prefix was this one, a state of that name was active, and the
  file existed.
\<close>

lemma exec_path_confined:
  assumes "runs_among R (call_prog io sender now (CallExecAuthorize n)) svc (Ok (ReplyPath p)) svc'"
    "R \<le> interferes" "reflp R" "transp R" "utf8 n" "name_shape (prefix_of (sv_config svc))"
  shows "svc_check_authorization svc ''exec'' sender = Ok () \<and>
    (\<exists>s1 s2 s3. R svc s1 \<and> R s1 s2 \<and> R s2 s3 \<and> R s3 svc' \<and> p = exec_path (full_name_of n s1) \<and>
       components p = [RootDir, Normal ''run'', Normal ''netns'', Normal (full_name_of n s1)] \<and>
       (\<exists>ns. lookup_state (full_name_of n s1) n s2 = Some ns \<and> is_active ns) \<and>
       sys_exists (io_sys io) p (nl_kernel (net (sv_states s3))))"
  using assms(1,2,4)
proof (cases rule: call_prog_authorized)
  case (accepted t)
  from accepted(4) obtain s1 u1 s2 u2 ns s3 u3 where seq: "R t s1" "R s1 u1" "R u1 s2" "R s2 u2" "R u2 s3" "R s3 u3" "R u3 svc'"
    and ns: "lookup_state (full_name_of n s1) n s2 = Some ns" "is_active ns"
    and p: "p = exec_path (full_name_of n s1)" "sys_exists (io_sys io) p (nl_kernel (net (sv_states s3)))"
    using assms(3) by (auto simp: full_name_prog_def elim!: runs_try_Ok split: option.splits if_splits)
  have tr: "R a b \<Longrightarrow> R b c \<Longrightarrow> R a c" for a b c using assms(4) by (rule transpD)
  have chain: "R svc s1" "R s1 s2" "R s2 s3" "R s3 svc'" using seq accepted(3) by (blast intro: tr)+
  have guard: "dbus_validate_namespace_name (io_alnum io) n = Ok ()"
    using accepted(1) by (simp add: name_guard_def result_simps)
  have "name_shape (prefix_of (sv_config s1))" using chain(1) assms(2,6) by (auto simp: interferes_def)
  from exec_path_shape [OF assms(5) guard this] show ?thesis using accepted(2) chain ns p by auto
qed simp

section \<open>What a call replies\<close>

text \<open>Every result of a program whose sections start in states of \<open>V\<close> satisfies \<open>Q\<close>.\<close>

primrec yields :: "('s \<Rightarrow> bool) \<Rightarrow> ('a \<Rightarrow> bool) \<Rightarrow> ('s, 'a) prog \<Rightarrow> bool" where
  "yields V Q (Return a) = Q a"
| "yields V Q (Section l f k) = (\<forall>s. V s \<longrightarrow> yields V Q (k s))"

lemma yields_bind: "yields V Q (bindP p h) \<longleftrightarrow> yields V (\<lambda>a. yields V Q (h a)) p"
  by (induction p) simp_all

lemma yields_try: "yields V Q (tryP p h) \<longleftrightarrow> yields V (\<lambda>r. case r of Inl e \<Rightarrow> Q (Inl e) | Inr a \<Rightarrow> yields V Q (h a)) p"
proof -
  have "yields V Q (case r of Inl e \<Rightarrow> Return (Inl e) | Inr a \<Rightarrow> h a) =
      (case r of Inl e \<Rightarrow> Q (Inl e) | Inr a \<Rightarrow> yields V Q (h a))" for r
    by (cases r) simp_all
  then show ?thesis unfolding tryP_def yields_bind by simp
qed

lemma yields_section [simp]:
  "yields V Q (section_op l m) \<longleftrightarrow> (\<forall>s. V s \<longrightarrow> Q (fst (m s)))"
  "yields V Q (section_get l g) \<longleftrightarrow> (\<forall>s. V s \<longrightarrow> Q (Ok (g s)))"
  by (simp_all add: section_op_def section_get_def)

lemma yields_mono: "yields V Q p \<Longrightarrow> (\<And>a. Q a \<Longrightarrow> P a) \<Longrightarrow> yields V P p"
  by (induction p) auto

lemma yields_any: "(\<And>a. Q a) \<Longrightarrow> yields V Q p"
  by (induction p) auto

text \<open>
  A reply that is not an error goes to a sender the authorizer allows the action of the method, and a
  path in it is a file directly in /run/netns.
\<close>

definition allowed_by :: "authorizer option \<Rightarrow> string \<Rightarrow> string option \<Rightarrow> bool" where
  "allowed_by auth action sender = (case auth of
      Some a \<Rightarrow> check_authorization a action (case sender of Some s \<Rightarrow> s | None \<Rightarrow> []) = Ok ()
    | None \<Rightarrow> True)"

lemma svc_check_allowed: "svc_check_authorization svc action sender = Ok u \<longleftrightarrow> allowed_by (sv_authorizer svc) action sender"
  by (auto simp: svc_check_authorization_def allowed_by_def result_simps split: option.split)

definition in_netns_dir :: "string \<Rightarrow> bool" where
  "in_netns_dir p = (\<exists>full. components p = [RootDir, Normal ''run'', Normal ''netns'', Normal full])"

definition reply_ok :: "authorizer option \<Rightarrow> string option \<Rightarrow> dbus_call \<Rightarrow> (method_err, dbus_reply) res \<Rightarrow> bool" where
  "reply_ok auth sender c r = (case r of
      Inl e \<Rightarrow> True
    | Inr x \<Rightarrow> allowed_by auth (call_action c) sender \<and> (case x of ReplyPath p \<Rightarrow> in_netns_dir p | _ \<Rightarrow> True))"

text \<open>The text a call carries.\<close>

fun call_text :: "dbus_call \<Rightarrow> string" where
  "call_text (CallGetNamespaceStatus n) = n"
| "call_text (CallDeleteNamespace n) = n"
| "call_text (CallValidateConfiguration p) = p"
| "call_text (CallRestartNamespace n) = n"
| "call_text (CallExecAuthorize n) = n"
| "call_text _ = []"

definition sound_service :: "authorizer option \<Rightarrow> 'k service \<Rightarrow> bool" where
  "sound_service auth svc = (sv_authorizer svc = auth \<and> name_shape (prefix_of (sv_config svc)))"

lemma exec_path_in_dir:
  "utf8 n \<Longrightarrow> name_guard io n = Ok () \<Longrightarrow> name_shape (prefix_of (sv_config svc)) \<Longrightarrow>
   in_netns_dir (exec_path (full_name_of n svc))"
  by (auto simp: in_netns_dir_def name_guard_def result_simps dest: exec_path_shape)

lemma call_yields:
  assumes "utf8 (call_text c)"
  shows "yields (sound_service auth) (reply_ok auth sender c) (call_prog io sender now c)"
proof (cases "call_guard io c")
  case (Inr u)
  have "yields (sound_service auth) (reply_ok auth sender c) (call_body io now c)" if a: "allowed_by auth (call_action c) sender"
  proof (cases c)
    case (CallExecAuthorize n)
    then have "utf8 n" "name_guard io n = Ok ()" using assms Inr by simp_all
    then have "in_netns_dir (exec_path (full_name_of n svc))" if "sound_service auth svc" for svc :: "'a service"
      using that by (intro exec_path_in_dir) (simp_all add: sound_service_def)
    then show ?thesis using a CallExecAuthorize
      by (simp add: yields_try full_name_prog_def reply_ok_def split: option.split)
  qed (use a in \<open>simp_all add: yields_try yields_bind yields_any full_name_prog_def reply_ok_def split: option.split sum.split\<close>)
  then show ?thesis using Inr
    by (auto simp: call_prog_def yields_try authorize_def reply_ok_def sound_service_def svc_check_allowed split: sum.split)
qed (simp add: call_prog_def yields_try reply_ok_def)

section \<open>The types of replies\<close>

text \<open>The types of the values of a reply, as D-Bus signatures.\<close>

fun reply_types :: "dbus_reply \<Rightarrow> string list" where
  "reply_types (ReplyNamespaces _) = [''a(ssss)'']"
| "reply_types (ReplyStatus _ _ _ _ _ _) = [''s'', ''s'', ''s'', ''s'', ''t'', ''t'']"
| "reply_types (ReplyResult _) = [''b'', ''s'', ''a{ss}'']"
| "reply_types (ReplyValidation _) = [''b'', ''as'', ''as'']"
| "reply_types (ReplyDaemon _ _ _ _) = [''s'', ''t'', ''u'', ''u'']"
| "reply_types (ReplyPath _) = [''s'']"

fun call_method :: "dbus_call \<Rightarrow> string" where
  "call_method CallListNamespaces = METHOD_LIST_NAMESPACES"
| "call_method (CallGetNamespaceStatus _) = METHOD_GET_NAMESPACE_STATUS"
| "call_method (CallDeleteNamespace _) = METHOD_DELETE_NAMESPACE"
| "call_method CallReloadConfiguration = METHOD_RELOAD_CONFIGURATION"
| "call_method (CallValidateConfiguration _) = METHOD_VALIDATE_CONFIGURATION"
| "call_method CallGetDaemonStatus = METHOD_GET_DAEMON_STATUS"
| "call_method (CallRestartNamespace _) = METHOD_RESTART_NAMESPACE"
| "call_method (CallExecAuthorize _) = METHOD_EXEC_AUTHORIZE"

lemma yields_runs: "yields (\<lambda>_. True) Q p \<Longrightarrow> runs_among R p s a t \<Longrightarrow> Q a"
  by (induction p arbitrary: s) auto

text \<open>What the table of the interface in \<^verbatim>\<open>dbus.rs\<close> declares the method of a call to return.\<close>

definition declared_results :: "dbus_call \<Rightarrow> string list option" where
  "declared_results c = map_option (\<lambda>m. map type_signature (output_args m)) (find_method (call_method c))"

text \<open>
  How a reply compares with it: as declared; its values declared as the fields of one structure; or
  neither, for GetNamespaceStatus.
\<close>

definition against_interface :: "dbus_call \<Rightarrow> dbus_reply \<Rightarrow> bool" where
  "against_interface c x =
     (case c of
        CallListNamespaces \<Rightarrow> declared_results c = Some (reply_types x)
      | CallExecAuthorize n \<Rightarrow> declared_results c = Some (reply_types x)
      | CallGetNamespaceStatus n \<Rightarrow> declared_results c = Some [''(sssasasas)''] \<and> concat (reply_types x) = ''sssstt''
      | _ \<Rightarrow> declared_results c = Some [''('' @ concat (reply_types x) @ '')''])"

lemma declared_results_simps:
  "declared_results CallListNamespaces = Some [''a(ssss)'']"
  "declared_results (CallGetNamespaceStatus n) = Some [''(sssasasas)'']"
  "declared_results (CallDeleteNamespace n) = Some [''(bsa{ss})'']"
  "declared_results CallReloadConfiguration = Some [''(bsa{ss})'']"
  "declared_results (CallValidateConfiguration p) = Some [''(basas)'']"
  "declared_results CallGetDaemonStatus = Some [''(stuu)'']"
  "declared_results (CallRestartNamespace n) = Some [''(bsa{ss})'']"
  "declared_results (CallExecAuthorize n) = Some [''s'']"
  by (simp_all add: declared_results_def find_method_def get_methods_def method_name_defs)

definition typed :: "dbus_call \<Rightarrow> (method_err, dbus_reply) res \<Rightarrow> bool" where
  "typed c r = (case r of Inl e \<Rightarrow> True | Inr x \<Rightarrow> against_interface c x)"

lemma body_typed: "yields (\<lambda>_. True) (typed c) (call_body io now c)"
  by (cases c) (simp_all add: yields_try yields_bind yields_any full_name_prog_def typed_def against_interface_def
      declared_results_simps split: option.split sum.split)

lemma call_typed: "yields (\<lambda>_. True) (typed c) (call_prog io sender now c)"
  using body_typed [of c io now]
  by (cases "call_guard io c") (simp_all add: call_prog_def yields_try typed_def split: sum.split)

lemma handler_typed:
  assumes "handle_call io sender now c svc = (Ok x, svc')"
  shows "against_interface c x"
proof -
  have "runs_among (=) (call_prog io sender now c) svc (Ok x) svc'"
    using assms by (intro run_among) (simp_all add: run_handler reflpI)
  from yields_runs [OF call_typed this] show ?thesis by (simp add: typed_def)
qed


section \<open>The locks a program takes\<close>

text \<open>
  The locks of the sections along one path of a program, with the result of the path; other threads may
  bring the state to any value in between.
\<close>

inductive lock_path :: "('s, 'a) prog \<Rightarrow> 'a \<Rightarrow> lock list \<Rightarrow> bool" where
  ended: "lock_path (Return a) a []"
| locked: "lock_path (k s) a ls \<Longrightarrow> lock_path (Section (Some l) f k) a (l # ls)"
| unlocked: "lock_path (k s) a ls \<Longrightarrow> lock_path (Section None f k) a ls"

inductive_simps lock_path_simps [simp]:
  "lock_path (Return b) a ls" "lock_path (Section (Some l) f k) a ls" "lock_path (Section None f k) a ls"

lemma lock_path_bind:
  "lock_path (bindP p h) b ls \<Longrightarrow> \<exists>a xs ys. ls = xs @ ys \<and> lock_path p a xs \<and> lock_path (h a) b ys"
proof (induction p arbitrary: ls)
  case (Section l f k)
  show ?case
  proof (cases l)
    case None
    with Section.prems obtain s where "lock_path (bindP (k s) h) b ls" by auto
    with Section.IH [OF rangeI] show ?thesis using None by fastforce
  next
    case (Some x)
    with Section.prems obtain s rest where r: "ls = x # rest" "lock_path (bindP (k s) h) b rest" by auto
    then obtain a xs ys where "rest = xs @ ys" "lock_path (k s) a xs" "lock_path (h a) b ys"
      using Section.IH [OF rangeI] by blast
    then have "ls = (x # xs) @ ys" "lock_path (Section l f k) a (x # xs)" "lock_path (h a) b ys" using r Some by auto
    then show ?thesis by blast
  qed
qed auto

lemma lock_path_try:
  assumes "lock_path (tryP p h) r ls"
  obtains (error) e where "lock_path p (Err e) ls" "r = Err e"
  | (ok) a xs ys where "ls = xs @ ys" "lock_path p (Ok a) xs" "lock_path (h a) r ys"
proof -
  obtain x xs ys where *: "ls = xs @ ys" "lock_path p x xs"
    "lock_path (case x of Inl e \<Rightarrow> Return (Inl e) | Inr a \<Rightarrow> h a) r ys"
    using lock_path_bind [OF assms [unfolded tryP_def]] by blast
  then show thesis using error ok by (cases x) auto
qed

lemma lock_path_section [simp]:
  "lock_path (section_op l m) r ls \<longleftrightarrow> (\<exists>s. r = fst (m s)) \<and> ls = (case l of None \<Rightarrow> [] | Some x \<Rightarrow> [x])"
  "lock_path (section_get l g) r ls \<longleftrightarrow> (\<exists>s. r = Ok (g s)) \<and> ls = (case l of None \<Rightarrow> [] | Some x \<Rightarrow> [x])"
  by (cases l; auto simp add: section_op_def section_get_def)+

lemma try_get: "tryP (section_get l g) h = Section l (\<lambda>s. s) (\<lambda>s. h (g s))"
  by (simp add: tryP_def section_get_def section_op_def execS_def fun_eq_iff)

lemma try_return: "tryP (Return r) h = (case r of Inl e \<Rightarrow> Return (Inl e) | Inr a \<Rightarrow> h a)"
  by (simp add: tryP_def)

lemmas try_simps = try_get try_return full_name_prog_def

lemma delete_locks_path: "lock_path (delete_prog y n) r ls \<Longrightarrow>
    ls = [ConfigLock, StateLock] @ (if is_ok r then [StateLock] else [])"
  unfolding delete_prog_def try_simps
  by (auto simp: failIf_def on_states_def elim!: lock_path_try split: if_splits)

lemma create_locks_path: "lock_path (create_prog y now c) r ls \<Longrightarrow>
    ls = [ConfigLock] @ (if is_ok r then [ConfigLock, StateLock] else [])"
  unfolding create_prog_def try_simps
  by (auto simp: on_states_def elim!: lock_path_try)

lemma restart_locks_path:
  assumes "lock_path (restart_prog y now n c) r ls"
  shows "ls \<in> {[ConfigLock, StateLock], [ConfigLock, StateLock, StateLock, ConfigLock],
      [ConfigLock, StateLock, StateLock, ConfigLock, ConfigLock, StateLock]}"
proof -
  obtain d xs ys where d: "ls = xs @ ys" "lock_path (delete_prog y n) d xs"
    and rest: "lock_path (case d of Inl e \<Rightarrow> Return (Ok (op_failure (''Restart failed during deletion: '' @ show_segwire_error e)))
      | Inr _ \<Rightarrow> bindP (create_prog y now c) (\<lambda>r. Return (Ok (case r of
          Inr full \<Rightarrow> op_success (''Namespace '' @ quoted full @ '' restarted successfully'')
        | Inl e \<Rightarrow> op_failure (''Restart failed during recreation: '' @ show_segwire_error e))))) r ys"
    using lock_path_bind [OF assms [unfolded restart_prog_def]] by blast
  show ?thesis using delete_locks_path [OF d(2)] d(1) rest
    by (cases d) (auto dest!: lock_path_bind create_locks_path split: if_splits)
qed

section \<open>Concrete calls\<close>

lemma call_among: "handle_call io sender now c svc = (r, svc') \<Longrightarrow>
    runs_among interferes (call_prog io sender now c) svc r svc'"
  by (rule run_among) (simp_all add: run_handler)

lemma unauthorized_call_refused_witness:
  "\<exists>e svc'. handle_call svc_io (Some '':user'') 0 (CallDeleteNamespace ''web'') sample_service = (Err e, svc')"
proof -
  obtain r t where r: "handle_call svc_io (Some '':user'') 0 (CallDeleteNamespace ''web'') sample_service = (r, t)" by fastforce
  have "\<not> sender_allowed sample_authorizer (policy_action (CallDeleteNamespace ''web'')) '':user''"
    by (simp add: sender_allowed_def polkit_says_def sample_authorizer_def sample_bus_def)
  with unauthorized_call_refused [OF call_among [OF r] order_refl interferes_rt(2) sample_authorizer_new sample_service_authorizer]
  show ?thesis using r by auto
qed

lemma sample_exec:
  "handle_call svc_io (Some '':root'') 0 (CallExecAuthorize ''web'') sample_service =
     (Ok (ReplyPath (exec_path ''sw-web'')), sample_service)"
proof -
  have "fst (handle_call svc_io (Some '':root'') 0 (CallExecAuthorize ''web'') sample_service) =
      Ok (ReplyPath (exec_path ''sw-web''))" by code_simp
  then show ?thesis by (rule query_reply) simp_all
qed

lemma exec_path_confined_witness:
  "components (exec_path ''sw-web'') = [RootDir, Normal ''run'', Normal ''netns'', Normal ''sw-web'']"
proof -
  have "utf8 ''web''" "name_shape (prefix_of (sv_config sample_service))" by code_simp+
  from exec_path_confined [OF call_among [OF sample_exec] order_refl interferes_rt this]
  obtain n where "exec_path ''sw-web'' = exec_path n"
    "components (exec_path ''sw-web'') = [RootDir, Normal ''run'', Normal ''netns'', Normal n]" by blast
  then show ?thesis by (simp add: exec_path_def)
qed


end
