(* ===== verification/Capabilities.thy ===== *)
theory Capabilities
  imports EnvSubst "HOL-Library.Word"
begin

text \<open>
  The privilege check at start-up, \<^verbatim>\<open>segwire-daemon/src/capabilities.rs\<close>.  What it looks at is the
  record \<open>host_view\<close>: the effective user, the files it reads and tests, the environment.
\<close>

unbundle bit_operations_syntax

record host_view =
  hv_euid :: nat
  hv_status :: "string option"
  hv_cgroup :: "string option"
  hv_exists :: "string \<Rightarrow> bool"
  hv_env :: env

definition REQUIRED_CAPABILITIES :: "string list" where "REQUIRED_CAPABILITIES = [''cap_sys_admin'']"

record capability_check_result =
  has_required_capabilities :: bool
  cc_is_root :: bool
  is_container :: bool
  container_runtime :: "string option"
  missing_capabilities :: "string list"
  cc_warnings :: "string list"

text \<open>The dash of the messages.\<close>

definition en_dash :: string where "en_dash = [CHR 0xE2, CHR 0x80, CHR 0x93]"

definition runtime_text :: "string option \<Rightarrow> string" where
  "runtime_text r = (case r of Some s \<Rightarrow> s | None \<Rightarrow> ''unknown'')"

definition show_capability_check :: "capability_check_result \<Rightarrow> string" where
  "show_capability_check r =
     (if has_required_capabilities r then ''Privilege check passed''
      else ''Privilege check FAILED '' @ en_dash @ '' missing: '' @ join '', '' (missing_capabilities r)) @
     (if cc_is_root r then '' [root]'' else []) @
     (if is_container r then '' (container: '' @ runtime_text (container_runtime r) @ '')'' else [])"

section \<open>Reading the process status\<close>

text \<open>The rest of the first line with this prefix.\<close>

fun status_field :: "string \<Rightarrow> string list \<Rightarrow> string option" where
  "status_field pre [] = None"
| "status_field pre (l # ls) = (case strip_prefix pre l of Some r \<Rightarrow> Some r | None \<Rightarrow> status_field pre ls)"

definition read_effective_capabilities :: "host_view \<Rightarrow> string" where
  "read_effective_capabilities h =
     (case hv_status h of
        None \<Rightarrow> []
      | Some s \<Rightarrow> (case status_field ''CapEff:'' (rlines s) of Some r \<Rightarrow> trim r | None \<Rightarrow> []))"

definition sys_admin_bit :: "64 word" where "sys_admin_bit = push_bit 21 1"

definition has_cap_sys_admin :: "string \<Rightarrow> bool" where
  "has_cap_sys_admin cap_eff_hex =
     (if cap_eff_hex = [] then False
      else case parse_u64_hex cap_eff_hex of
        Some bits \<Rightarrow> word_of_nat bits AND sys_admin_bit \<noteq> 0
      | None \<Rightarrow> False)"

text \<open>The loop returns at the first \<^verbatim>\<open>Seccomp:\<close> line in mode 2; other modes go on to the next line.\<close>

fun seccomp_filter :: "string list \<Rightarrow> bool" where
  "seccomp_filter [] = False"
| "seccomp_filter (l # ls) =
     (case strip_prefix ''Seccomp:'' l of
        Some r \<Rightarrow> (case parse_u32 (trim r) of Some m \<Rightarrow> m | None \<Rightarrow> 0) = 2 \<or> seccomp_filter ls
      | None \<Rightarrow> seccomp_filter ls)"

definition check_seccomp_status :: "host_view \<Rightarrow> string option" where
  "check_seccomp_status h =
     (case hv_status h of
        None \<Rightarrow> None
      | Some s \<Rightarrow> if seccomp_filter (rlines s)
          then Some (''Seccomp filter is active '' @ en_dash @
            '' if namespace syscalls fail, check that unshare(2) and setns(2) are allowed.'')
          else None)"

definition detect_container_environment :: "host_view \<Rightarrow> bool \<times> string option" where
  "detect_container_environment h =
     (let cg = (case hv_cgroup h of Some s \<Rightarrow> s | None \<Rightarrow> []); c = map_of (hv_env h) ''container'' in
      if hv_exists h ''/.dockerenv'' then (True, Some ''Docker'')
      else if hv_exists h ''/run/.containerenv'' then (True, Some ''Podman'')
      else if contains_str ''docker'' cg then (True, Some ''Docker'')
      else if contains_str ''lxc'' cg then (True, Some ''LXC'')
      else if contains_str ''kubepods'' cg then (True, Some ''Kubernetes'')
      else if c = Some ''systemd-nspawn'' then (True, Some ''systemd-nspawn'')
      else if c \<noteq> None then (True, Some ''unknown'')
      else (False, None))"

section \<open>The check\<close>

definition check_capabilities :: "host_view \<Rightarrow> capability_check_result" where
  "check_capabilities h =
     (let root = (hv_euid h = 0);
          (container, runtime) = detect_container_environment h;
          has = (root \<or> has_cap_sys_admin (read_effective_capabilities h));
          warnings =
            (if container
             then [''Running inside a container ('' @ runtime_text runtime @
                     ''). Ensure the container has been started with --cap-add=SYS_ADMIN or an equivalent setting.''] @
                  (if \<not> hv_exists h ''/var/run/netns''
                   then [''/var/run/netns does not exist '' @ en_dash @
                     '' network namespace persistence may not work inside this container.''] else [])
             else []) @
            (case check_seccomp_status h of Some w \<Rightarrow> [w] | None \<Rightarrow> [])
      in \<lparr>has_required_capabilities = has, cc_is_root = root, is_container = container,
          container_runtime = runtime, missing_capabilities = (if has then [] else [''CAP_SYS_ADMIN'']),
          cc_warnings = warnings\<rparr>)"

definition verify_privileges :: "host_view \<Rightarrow> capability_check_result sres" where
  "verify_privileges h =
     (let r = check_capabilities h in
      if \<not> has_required_capabilities r
      then Err (Permission (''Daemon requires the following capabilities: '' @ join '', '' REQUIRED_CAPABILITIES @
        ''. Missing: '' @ join '', '' (missing_capabilities r) @
        ''. Either run as root or grant capabilities via systemd (AmbientCapabilities=CAP_SYS_ADMIN).''))
      else Ok r)"

section \<open>What it accepts\<close>

lemma sys_admin_bit: "bit sys_admin_bit i \<longleftrightarrow> i = 21"
proof -
  have "bit sys_admin_bit i \<longleftrightarrow> 21 \<le> i \<and> i < 64 \<and> i - 21 = 0"
    unfolding sys_admin_bit_def by (simp only: bit_push_bit_iff bit_1_iff) (auto simp: possible_bit_def)
  then show ?thesis by auto
qed

lemma has_sys_admin_bit: "word_of_nat n AND sys_admin_bit \<noteq> 0 \<longleftrightarrow> odd (n div 2 ^ 21)"
proof -
  have "word_of_nat n AND sys_admin_bit = 0 \<longleftrightarrow> (\<forall>i. \<not> bit (word_of_nat n AND sys_admin_bit) i)"
    by (metis bit_0_eq bit_eq_iff bot_apply bot_bool_def)
  also have "\<dots> \<longleftrightarrow> \<not> bit (word_of_nat n :: 64 word) 21" by (auto simp: bit_and_iff sys_admin_bit)
  also have "bit (word_of_nat n :: 64 word) 21 \<longleftrightarrow> bit n 21" by (simp add: bit_simps)
  finally show ?thesis by (simp add: bit_iff_odd)
qed

lemma has_cap_iff: "has_cap_sys_admin s \<longleftrightarrow> (\<exists>n. parse_u64_hex s = Some n \<and> odd (n div 2 ^ 21))"
proof -
  have "parse_u64_hex [] = None" by (simp add: parse_u64_hex_def)
  then show ?thesis
    by (auto simp: has_cap_sys_admin_def has_sys_admin_bit simp del: power_numeral split: option.splits)
qed

text \<open>
  The daemon starts exactly when it is root or bit 21 of the hexadecimal number on the first
  CapEff line of the process status is set.
\<close>

lemma privileges_verified:
  "is_ok (verify_privileges h) \<longleftrightarrow> hv_euid h = 0 \<or>
     (\<exists>s r n. hv_status h = Some s \<and> status_field ''CapEff:'' (rlines s) = Some r \<and>
        parse_u64_hex (trim r) = Some n \<and> odd (n div 2 ^ 21))"
proof -
  have "parse_u64_hex [] = None" by (simp add: parse_u64_hex_def)
  then have "has_cap_sys_admin (read_effective_capabilities h) \<longleftrightarrow>
     (\<exists>s r n. hv_status h = Some s \<and> status_field ''CapEff:'' (rlines s) = Some r \<and>
        parse_u64_hex (trim r) = Some n \<and> odd (n div 2 ^ 21))"
    by (auto simp: has_cap_iff read_effective_capabilities_def split: option.splits)
  then show ?thesis
    by (simp add: verify_privileges_def check_capabilities_def Let_def split: prod.split)
qed

end
