(* ===== verification/Logging.thy ===== *)
theory Logging
  imports Errors
begin

text \<open>
  Logging, \<^verbatim>\<open>segwire-common/src/logging.rs\<close>: levels and their names, the subscriber that \<^verbatim>\<open>init_logging\<close>
  installs, and the lines an operation's context logs in its span.  Filtering and writing are done by
  \<^verbatim>\<open>tracing\<close>, whose filters are a type parameter.
\<close>

section \<open>Levels\<close>

datatype log_level = LevelTrace | LevelDebug | LevelInfo | LevelWarn | LevelError

fun show_log_level :: "log_level \<Rightarrow> string" where
  "show_log_level LevelTrace = ''trace''"
| "show_log_level LevelDebug = ''debug''"
| "show_log_level LevelInfo = ''info''"
| "show_log_level LevelWarn = ''warn''"
| "show_log_level LevelError = ''error''"

definition parse_log_level :: "string \<Rightarrow> (string, log_level) res" where
  "parse_log_level s =
     (let l = to_lowercase s in
      if l = ''trace'' then Ok LevelTrace
      else if l = ''debug'' then Ok LevelDebug
      else if l = ''info'' then Ok LevelInfo
      else if l = ''warn'' \<or> l = ''warning'' then Ok LevelWarn
      else if l = ''error'' then Ok LevelError
      else Err (''Invalid log level: '' @ s))"

text \<open>The levels of the library.\<close>

datatype tracing_level = ERROR | WARN | INFO | DEBUG | TRACE

fun tracing_level_of :: "log_level \<Rightarrow> tracing_level" where
  "tracing_level_of LevelTrace = TRACE"
| "tracing_level_of LevelDebug = DEBUG"
| "tracing_level_of LevelInfo = INFO"
| "tracing_level_of LevelWarn = WARN"
| "tracing_level_of LevelError = ERROR"

section \<open>Configuration\<close>

record log_config =
  lc_level :: log_level
  lc_timestamps :: bool
  lc_thread_names :: bool
  lc_file_line :: bool
  lc_spans :: bool
  lc_component :: string

definition default_log_config :: log_config where
  "default_log_config = \<lparr>lc_level = LevelInfo, lc_timestamps = True, lc_thread_names = True, lc_file_line = False,
     lc_spans = False, lc_component = ''segwire''\<rparr>"

text \<open>
  What \<^verbatim>\<open>tracing_subscriber\<close> makes of the environment and of a text, strictly and lossily: \<open>'f\<close> is a filter.
\<close>

record 'f tracing =
  tr_from_env :: "(string, 'f) res"
  tr_parse :: "string \<Rightarrow> (string, 'f) res"
  tr_lossy :: "string \<Rightarrow> 'f"

text \<open>
  What is asked of the subscriber: the filter, from the environment if it has a valid one, else from
  the level, else \<^verbatim>\<open>info\<close>; and what a line shows.
\<close>

record 'f log_layer =
  ll_filter :: 'f
  ll_target :: bool
  ll_thread_names :: bool
  ll_file :: bool
  ll_line_number :: bool
  ll_span_events :: bool

definition log_filter :: "'f tracing \<Rightarrow> log_config \<Rightarrow> 'f" where
  "log_filter t c =
     (case tr_from_env t of Inr f \<Rightarrow> f
      | Inl _ \<Rightarrow> (case tr_parse t (lc_component c @ ''='' @ show_log_level (lc_level c)) of
           Inr f \<Rightarrow> f | Inl _ \<Rightarrow> tr_lossy t ''info''))"

definition fmt_layer :: "'f tracing \<Rightarrow> log_config \<Rightarrow> 'f log_layer" where
  "fmt_layer t c =
     \<lparr>ll_filter = log_filter t c, ll_target = True, ll_thread_names = lc_thread_names c,
      ll_file = lc_file_line c, ll_line_number = lc_file_line c, ll_span_events = lc_spans c\<rparr>"

text \<open>
  A process has at most one subscriber, \<open>global\<close>: \<^verbatim>\<open>init\<close> of the library panics (\<open>None\<close>) when it has one already.
  Otherwise the result is always \<^verbatim>\<open>Ok\<close>.
\<close>

definition init_logging ::
  "'f tracing \<Rightarrow> log_config \<Rightarrow> 'f log_layer option \<Rightarrow> ('f log_layer \<times> (string, unit) res) option" where
  "init_logging t c global = (case global of Some _ \<Rightarrow> None | None \<Rightarrow> Some (fmt_layer t c, Ok ()))"

section \<open>Contexts\<close>

record log_context =
  lx_operation :: string
  lx_namespace :: "string option"
  lx_config_path :: "string option"
  lx_user_id :: "nat option"
  lx_fields :: "(string \<times> string) list"

definition log_context_new :: "string \<Rightarrow> log_context" where
  "log_context_new operation = \<lparr>lx_operation = operation, lx_namespace = None, lx_config_path = None,
     lx_user_id = None, lx_fields = []\<rparr>"

definition lx_with_namespace :: "string \<Rightarrow> log_context \<Rightarrow> log_context" where
  "lx_with_namespace n c = c\<lparr>lx_namespace := Some n\<rparr>"

definition lx_with_config_path :: "string \<Rightarrow> log_context \<Rightarrow> log_context" where
  "lx_with_config_path p c = c\<lparr>lx_config_path := Some p\<rparr>"

definition lx_with_user_id :: "nat \<Rightarrow> log_context \<Rightarrow> log_context" where
  "lx_with_user_id u c = c\<lparr>lx_user_id := Some u\<rparr>"

definition lx_with_field :: "string \<Rightarrow> string \<Rightarrow> log_context \<Rightarrow> log_context" where
  "lx_with_field k v c = c\<lparr>lx_fields := insertM k v (lx_fields c)\<rparr>"

text \<open>The span that a context opens: its fields, those that are absent left out.\<close>

definition log_span :: "log_context \<Rightarrow> (string \<times> string) list" where
  "log_span c = (''operation'', lx_operation c) #
     List.map_filter (\<lambda>(k, v). map_option (Pair k) v)
       [(''namespace'', lx_namespace c), (''config_path'', lx_config_path c),
        (''user_id'', map_option show_nat (lx_user_id c))]"

text \<open>The lines of one call, all at its level.\<close>

definition log_lines :: "log_level \<Rightarrow> log_context \<Rightarrow> string \<Rightarrow> (log_level \<times> string) list" where
  "log_lines l c message = (l, message) # map (\<lambda>(k, v). (l, k @ '': '' @ v)) (lx_fields c)"

text \<open>A logged call: its level, its span and its lines.\<close>

type_synonym log_record = "log_level \<times> (string \<times> string) list \<times> (log_level \<times> string) list"

definition log_call :: "log_level \<Rightarrow> log_context \<Rightarrow> string \<Rightarrow> log_record" where
  "log_call l c message = (l, log_span c, log_lines l c message)"

abbreviation lx_info :: "log_context \<Rightarrow> string \<Rightarrow> log_record" where "lx_info \<equiv> log_call LevelInfo"
abbreviation lx_warn :: "log_context \<Rightarrow> string \<Rightarrow> log_record" where "lx_warn \<equiv> log_call LevelWarn"
abbreviation lx_error :: "log_context \<Rightarrow> string \<Rightarrow> log_record" where "lx_error \<equiv> log_call LevelError"
abbreviation lx_debug :: "log_context \<Rightarrow> string \<Rightarrow> log_record" where "lx_debug \<equiv> log_call LevelDebug"

text \<open>The report of an error: the message, the error and its text for users.\<close>

definition log_error :: "log_context \<Rightarrow> segwire_error \<Rightarrow> string \<Rightarrow> log_record" where
  "log_error c e message =
     lx_error c (message @ '': '' @ show_segwire_error e @ '' ('' @ user_message e @ '')'')"

section \<open>Properties\<close>

lemma parse_show_level: "parse_log_level (show_log_level l) = Ok l"
  by (cases l) (simp_all add: parse_log_level_def to_lowercase_def lower_char_def code_def Let_def)

text \<open>The setting for timestamps has no effect, and what fails is never a result: the first call succeeds, the second panics.\<close>

lemma timestamps_ignored: "init_logging t (c\<lparr>lc_timestamps := b\<rparr>) global = init_logging t c global"
  by (simp add: init_logging_def fmt_layer_def log_filter_def cong: option.case_cong sum.case_cong)

lemma init_logging_twice:
  "init_logging t c None = Some (layer, r) \<Longrightarrow> r = Ok () \<and> init_logging t c' (Some layer) = None"
  by (simp add: init_logging_def)

end
