(* ===== verification/Watcher.thy ===== *)
theory Watcher
  imports ConfigManager
begin

text \<open>
  The watcher of configuration files, \<^verbatim>\<open>ConfigFileWatcher\<close> of \<^verbatim>\<open>segwire-daemon/src/config.rs\<close>: how it is
  started, how its thread sets up inotify, and its loop over what inotify reads, with the receiver
  that may be gone.  The treatment of one event is \<open>watch_event\<close> of \<^verbatim>\<open>ConfigManager\<close>.
\<close>

record file_watcher =
  fw_dir :: string
  fw_debounce :: nat

text \<open>What the system answers: starting the thread, making an inotify, adding a watch to it.\<close>

record inotify_host =
  ih_spawn :: "(string, unit) res"
  ih_init :: "(string, unit) res"
  ih_add :: "string \<Rightarrow> event_flag list \<Rightarrow> (string, unit) res"

text \<open>One blocking read: its error, or the events with the time each is handled at.\<close>

datatype inotify_read = ReadFailed string | ReadEvents "(nat \<times> raw_event) list"

section \<open>Starting\<close>

definition start_monitoring :: "inotify_host \<Rightarrow> file_watcher \<Rightarrow> unit sres" where
  "start_monitoring h w =
     map_err (\<lambda>e. Config (InvalidValue ''inotify_thread'' (''Failed to spawn watcher thread: '' @ e))) (ih_spawn h)"

definition start_file_monitoring :: "inotify_host \<Rightarrow> config_manager \<Rightarrow> unit sres" where
  "start_file_monitoring h cm = start_monitoring h \<lparr>fw_dir = config_directory cm, fw_debounce = debounce_ns\<rparr>"

section \<open>The thread\<close>

definition watch_mask :: "event_flag list" where
  "watch_mask = [CREATE, MODIFY, DELETE, MOVED_FROM, MOVED_TO, CLOSE_WRITE]"

definition watch_setup :: "inotify_host \<Rightarrow> file_watcher \<Rightarrow> unit sres" where
  "watch_setup h w =
     tryR (map_err (\<lambda>e. Config (InvalidValue ''inotify'' (''Failed to initialize inotify: '' @ e))) (ih_init h)) (\<lambda>_.
     map_err (\<lambda>e. Config (InvalidValue ''inotify_watch'' (''Failed to watch directory: '' @ e)))
       (ih_add h (fw_dir w) watch_mask))"

text \<open>
  The events of one read, with the table of last events.  \<open>gone now\<close> says that the receiver is dropped.
  The result is what is sent, and the table, \<open>None\<close> when the thread returns because nothing can be sent.
\<close>

fun watch_batch :: "file_watcher \<Rightarrow> (nat \<Rightarrow> bool) \<Rightarrow> (nat \<times> raw_event) list \<Rightarrow> (string \<times> nat) list \<Rightarrow>
    (nat \<times> config_file_event) list \<times> (string \<times> nat) list option" where
  "watch_batch w gone [] m = ([], Some m)"
| "watch_batch w gone ((now, ev) # evs) m =
     (case watch_event (fw_dir w) (fw_debounce w) now ev m of
        (m', None) \<Rightarrow> watch_batch w gone evs m'
      | (m', Some e) \<Rightarrow>
          if gone now then ([], None)
          else case watch_batch w gone evs m' of (sent, r) \<Rightarrow> ((now, e) # sent, r))"

text \<open>The loop over the reads; a failed read is passed over after a pause.\<close>

fun watch_reads :: "file_watcher \<Rightarrow> (nat \<Rightarrow> bool) \<Rightarrow> inotify_read list \<Rightarrow> (string \<times> nat) list \<Rightarrow>
    (nat \<times> config_file_event) list \<times> (string \<times> nat) list option" where
  "watch_reads w gone [] m = ([], Some m)"
| "watch_reads w gone (ReadFailed e # rs) m = watch_reads w gone rs m"
| "watch_reads w gone (ReadEvents evs # rs) m =
     (case watch_batch w gone evs m of
        (sent, None) \<Rightarrow> (sent, None)
      | (sent, Some m') \<Rightarrow> (case watch_reads w gone rs m' of (sent', r) \<Rightarrow> (sent @ sent', r)))"

text \<open>The thread up to a number of reads: its error, or what it has sent and whether it goes on.\<close>

definition watch_directory_inotify :: "inotify_host \<Rightarrow> file_watcher \<Rightarrow> (nat \<Rightarrow> bool) \<Rightarrow> inotify_read list \<Rightarrow>
    ((nat \<times> config_file_event) list \<times> bool) sres" where
  "watch_directory_inotify h w gone rs =
     tryR (watch_setup h w) (\<lambda>_. case watch_reads w gone rs [] of (sent, r) \<Rightarrow> Ok (sent, r \<noteq> None))"

section \<open>The loop and its events\<close>

fun read_events :: "inotify_read list \<Rightarrow> (nat \<times> raw_event) list" where
  "read_events [] = []"
| "read_events (ReadFailed e # rs) = read_events rs"
| "read_events (ReadEvents evs # rs) = evs @ read_events rs"

text \<open>How the kernel cuts the events into reads does not matter, nor do failed reads.\<close>

lemma watch_batch_append:
  "watch_batch w gone (as @ bs) m =
     (case watch_batch w gone as m of
        (sent, None) \<Rightarrow> (sent, None)
      | (sent, Some m') \<Rightarrow> (case watch_batch w gone bs m' of (sent', r) \<Rightarrow> (sent @ sent', r)))"
  by (induction w gone as m rule: watch_batch.induct) (auto split: prod.splits option.splits)

lemma watch_reads_batch: "watch_reads w gone rs m = watch_batch w gone (read_events rs) m"
  by (induction w gone rs m rule: watch_reads.induct) (auto simp: watch_batch_append split: prod.splits option.splits)

text \<open>While the receiver is there the loop sends what \<open>watch_events\<close> says, and else a first part of it.\<close>

lemma watch_batch_alive:
  "\<forall>(now, ev) \<in> set evs. \<not> gone now \<Longrightarrow>
     fst (watch_batch w gone evs m) = watch_events (fw_dir w) (fw_debounce w) evs m \<and>
     snd (watch_batch w gone evs m) \<noteq> None"
  by (induction w gone evs m rule: watch_batch.induct) (auto split: prod.splits option.splits)

lemma watch_batch_prefix:
  "\<exists>rest. watch_events (fw_dir w) (fw_debounce w) evs m = fst (watch_batch w gone evs m) @ rest"
  by (induction w gone evs m rule: watch_batch.induct) (auto split: prod.splits option.splits)

lemma watch_reads_sent:
  assumes "watch_directory_inotify h w gone rs = Ok (sent, runs)"
  shows "\<exists>rest. watch_events (fw_dir w) (fw_debounce w) (read_events rs) [] = sent @ rest"
  using assms watch_batch_prefix [of w "read_events rs" "[]" gone]
  by (auto simp: watch_directory_inotify_def watch_reads_batch result_simps split: prod.splits)

text \<open>Whatever the reads and the receiver, two events sent about one path are a window apart.\<close>

lemma watcher_spaced:
  assumes "watch_directory_inotify h w gone rs = Ok (sent, runs)"
    and "sorted (map fst (read_events rs))" "0 < fw_debounce w"
  shows "sorted_wrt (\<lambda>(t1, e1) (t2, e2). event_path e1 = event_path e2 \<longrightarrow> t1 + fw_debounce w \<le> t2) sent"
proof -
  obtain rest where "watch_events (fw_dir w) (fw_debounce w) (read_events rs) [] = sent @ rest"
    using watch_reads_sent [OF assms(1)] by blast
  then show ?thesis using watch_spaced [of "read_events rs" "[]" "fw_debounce w" "fw_dir w"] assms(2,3)
    by (simp add: sorted_wrt_append)
qed

text \<open>
  The start reports only that the thread cannot be made: what the thread meets when it sets up
  inotify, it writes to the log and ends.
\<close>

lemma setup_failure_unnoticed:
  assumes "ih_spawn h = Ok ()" "ih_init h = Err e"
  shows "start_file_monitoring h cm = Ok ()"
    "watch_directory_inotify h w gone rs = config_err (InvalidValue ''inotify'' (''Failed to initialize inotify: '' @ e))"
  using assms by (simp_all add: start_file_monitoring_def start_monitoring_def watch_directory_inotify_def
      watch_setup_def result_simps)

end
