(* ===== verification/EventLoop.thy ===== *)
theory EventLoop
  imports Sections Capabilities Logging Watcher
begin

text \<open>
  The daemon, \<^verbatim>\<open>segwire-daemon/src/event_loop.rs\<close> and \<^verbatim>\<open>main.rs\<close>: its start, the configuration and the
  synchronization thread, the main loop and the shutdown.  A thread is a program counter, a step runs
  from one to the next, and what is done under a lock is one step; a method call is one step for each
  of its sections.  The threads interleave in any
  order (\<open>daemon_step\<close>), with files that change, a shutdown request and a kernel that others change.
\<close>

section \<open>State\<close>

datatype daemon_event =
    EvCreated string string
  | EvDeleted string string
  | EvStatusChanged string string string

text \<open>Where a thread is: before a check of the flag, waiting, working, ended.\<close>

datatype config_phase = CfgCheck | CfgReceive | CfgHandle config_file_event | CfgSync | CfgEnded

datatype sync_phase = SyncInitial | SyncCheck | SyncTest | SyncRun | SyncSleep | SyncEnded

text \<open>\<open>MainCall\<close> has the sender, the call, and its sections that are still to run.\<close>

datatype 'k main_phase =
    MainCheck | MainProcess | MainDrain
  | MainCall "string option" dbus_call "('k service, method_err, dbus_reply) eprog"
  | MainShutdown | MainList | MainCleanup "string list" | MainFinal
  | MainJoinConfig | MainJoinSync | MainEnded

record 'k daemon_state =
  dm_service :: "'k service"
  dm_shutdown :: bool
  dm_files :: "config_file_event list"
  dm_watching :: bool
  dm_queue :: "daemon_event list"
  dm_signals :: "signal_msg list"
  dm_replies :: "(string option \<times> dbus_call \<times> (method_err, dbus_reply) res) list"
  dm_config :: config_phase
  dm_sync :: sync_phase
  dm_main :: "'k main_phase"

text \<open>
  \<open>dm_files\<close> and \<open>dm_queue\<close> are the channels from the watcher and to the main loop, \<open>dm_watching\<close> holds while
  the watcher's end is open, \<open>dm_signals\<close> are the signals sent and \<open>dm_replies\<close> the replies,
  each with its sender and call.
\<close>

definition on_service :: "('k service \<Rightarrow> 'k service) \<Rightarrow> 'k daemon_state \<Rightarrow> 'k daemon_state" where
  "on_service f s = s\<lparr>dm_service := f (dm_service s)\<rparr>"

definition send_events :: "daemon_event list \<Rightarrow> 'k daemon_state \<Rightarrow> 'k daemon_state" where
  "send_events evs s = s\<lparr>dm_queue := dm_queue s @ evs\<rparr>"

section \<open>The threads\<close>

definition created_events :: "string \<Rightarrow> sync_result \<Rightarrow> daemon_event list" where
  "created_events source r = map (\<lambda>n. EvCreated n source) (sr_created r)"

definition change_events :: "string \<Rightarrow> sync_result \<Rightarrow> daemon_event list" where
  "change_events source r = created_events source r @ map (\<lambda>n. EvDeleted n source) (sr_deleted r) @
     map (\<lambda>n. EvStatusChanged n ''unknown'' ''updated'') (sr_updated r)"

text \<open>A synchronization under both locks, and the events it sends.\<close>

definition run_sync :: "'k sys \<Rightarrow> base64 \<Rightarrow> nat \<Rightarrow> (sync_result \<Rightarrow> daemon_event list) \<Rightarrow> 'k daemon_state \<Rightarrow> 'k daemon_state" where
  "run_sync y b64 now evs s =
     (case synchronize_state (netlink_ops y b64) now (sv_config (dm_service s)) (sv_states (dm_service s)) of
        (r, mg) \<Rightarrow> send_events (evs r) (on_service (\<lambda>svc. svc\<lparr>sv_states := mg\<rparr>) s))"

text \<open>
  The configuration thread.  \<open>io\<close> is what the file system answers, \<open>now\<close> the time.  Waiting ends by an
  event, by the timeout, or because the watcher is gone.
\<close>

definition config_step :: "'k sys \<Rightarrow> base64 \<Rightarrow> config_io \<Rightarrow> nat \<Rightarrow> 'k daemon_state \<Rightarrow> 'k daemon_state" where
  "config_step y b64 io now s =
     (case dm_config s of
        CfgCheck \<Rightarrow> s\<lparr>dm_config := (if dm_shutdown s then CfgEnded else CfgReceive)\<rparr>
      | CfgReceive \<Rightarrow> (case dm_files s of
            ev # evs \<Rightarrow> s\<lparr>dm_files := evs, dm_config := CfgHandle ev\<rparr>
          | [] \<Rightarrow> s\<lparr>dm_config := (if dm_watching s then CfgCheck else CfgEnded)\<rparr>)
      | CfgHandle ev \<Rightarrow>
          (case handle_file_event io ev (sv_config (dm_service s)) of
             (cm, r) \<Rightarrow> (on_service (\<lambda>svc. svc\<lparr>sv_config := cm\<rparr>) s)
               \<lparr>dm_config := (case r of Inl _ \<Rightarrow> CfgCheck
                  | Inr names \<Rightarrow> if names = [] then CfgCheck else CfgSync)\<rparr>)
      | CfgSync \<Rightarrow> (run_sync y b64 now (change_events ''config_change'') s)\<lparr>dm_config := CfgCheck\<rparr>
      | CfgEnded \<Rightarrow> s)"

text \<open>The synchronization thread; the maintenance after a synchronization reads the clock again.\<close>

definition sync_step :: "'k sys \<Rightarrow> base64 \<Rightarrow> nat \<Rightarrow> nat \<Rightarrow> 'k daemon_state \<Rightarrow> 'k daemon_state" where
  "sync_step y b64 now now' s =
     (case dm_sync s of
        SyncInitial \<Rightarrow> (run_sync y b64 now (created_events ''initial_sync'') s)\<lparr>dm_sync := SyncCheck\<rparr>
      | SyncCheck \<Rightarrow> s\<lparr>dm_sync := (if dm_shutdown s then SyncEnded else SyncTest)\<rparr>
      | SyncTest \<Rightarrow> s\<lparr>dm_sync := (if needs_sync now (sv_states (dm_service s)) then SyncRun else SyncSleep)\<rparr>
      | SyncRun \<Rightarrow> (on_service (\<lambda>svc. svc\<lparr>sv_states := perform_maintenance now' (sv_states svc)\<rparr>)
            (run_sync y b64 now (change_events ''sync'') s))\<lparr>dm_sync := SyncSleep\<rparr>
      | SyncSleep \<Rightarrow> s\<lparr>dm_sync := SyncCheck\<rparr>
      | SyncEnded \<Rightarrow> s)"

section \<open>The main loop\<close>

definition emit :: "(signal_msg list, segwire_error, unit) op \<Rightarrow> 'k daemon_state \<Rightarrow> 'k daemon_state" where
  "emit m s = s\<lparr>dm_signals := execS m (dm_signals s)\<rparr>"

fun emit_event :: "(signal_msg \<Rightarrow> bool) \<Rightarrow> daemon_event \<Rightarrow> (signal_msg list, segwire_error, unit) op" where
  "emit_event ok (EvCreated n source) = emit_namespace_created ok n source"
| "emit_event ok (EvDeleted n source) = emit_namespace_deleted ok n source"
| "emit_event ok (EvStatusChanged n old_status new_status) = emit_namespace_status_changed ok n old_status new_status"

text \<open>
  The cleanup of one namespace: the interfaces of its configuration go back, each error ignored, then
  it is deleted; nothing is done when a netlink manager cannot be made.
\<close>

definition cleanup_ops :: "'k sys \<Rightarrow> config_manager \<Rightarrow> string \<Rightarrow> 'k netlink \<Rightarrow> 'k netlink" where
  "cleanup_ops y cm n s =
     execS (delete_namespace y n)
       (foldl (\<lambda>s i. execS (move_interface_to_default y n i) s) s
         (case get_namespace_config cm n of Some e \<Rightarrow> move_interfaces (interfaces (ce_config e)) | None \<Rightarrow> []))"

definition cleanup_namespace :: "'k sys \<Rightarrow> string \<Rightarrow> 'k service \<Rightarrow> 'k service" where
  "cleanup_namespace y n svc =
     execS (with_new_netlink y (\<lambda>s. (Ok (), cleanup_ops y (sv_config svc) n s))) svc"

text \<open>\<^verbatim>\<open>graceful_shutdown\<close>: the flag, the names to clean up if any, each of them, the last signal.\<close>

definition shutdown_step :: "(signal_msg \<Rightarrow> bool) \<Rightarrow> 'k sys \<Rightarrow> 'k daemon_state \<Rightarrow> 'k daemon_state" where
  "shutdown_step ok y s =
     (case dm_main s of
        MainShutdown \<Rightarrow> s\<lparr>dm_shutdown := True,
          dm_main := (if should_cleanup_on_shutdown (sv_config (dm_service s)) then MainList else MainFinal)\<rparr>
      | MainList \<Rightarrow> s\<lparr>dm_main := MainCleanup (keys (namespace_configs (sv_config (dm_service s))))\<rparr>
      | MainCleanup [] \<Rightarrow> s\<lparr>dm_main := MainFinal\<rparr>
      | MainCleanup (n # ns) \<Rightarrow>
          (on_service (cleanup_namespace y n)
            (emit (emit_namespace_deleted ok n ''daemon_shutdown'') s))\<lparr>dm_main := MainCleanup ns\<rparr>
      | MainFinal \<Rightarrow>
          (emit (emit_operation_progress ok ''daemon_shutdown'' 100 ''Daemon shutdown completed'') s)
            \<lparr>dm_main := MainJoinConfig\<rparr>
      | _ \<Rightarrow> s)"

text \<open>
  One step of the main thread; \<open>call\<close> is the message that arrives while it processes messages, with its
  sender.  A call runs section by section, and its result is the reply.  The joins wait for the threads.
\<close>

definition main_step :: "(signal_msg \<Rightarrow> bool) \<Rightarrow> 'k service_io \<Rightarrow> (string option \<times> dbus_call) option \<Rightarrow> nat \<Rightarrow>
    'k daemon_state \<Rightarrow> 'k daemon_state" where
  "main_step ok sio call now s =
     (case dm_main s of
        MainCheck \<Rightarrow> s\<lparr>dm_main := (if dm_shutdown s then MainShutdown else MainProcess)\<rparr>
      | MainProcess \<Rightarrow> (case call of
            None \<Rightarrow> s\<lparr>dm_main := MainDrain\<rparr>
          | Some (sender, c) \<Rightarrow> s\<lparr>dm_main := MainCall sender c (call_prog sio sender now c)\<rparr>)
      | MainCall sender c (Return r) \<Rightarrow> s\<lparr>dm_replies := dm_replies s @ [(sender, c, r)], dm_main := MainDrain\<rparr>
      | MainCall sender c (Section l f k) \<Rightarrow> (on_service f s)\<lparr>dm_main := MainCall sender c (k (dm_service s))\<rparr>
      | MainDrain \<Rightarrow> (case dm_queue s of
            [] \<Rightarrow> s\<lparr>dm_main := MainCheck\<rparr>
          | ev # evs \<Rightarrow> emit (emit_event ok ev) (s\<lparr>dm_queue := evs\<rparr>))
      | MainJoinConfig \<Rightarrow> s\<lparr>dm_main := MainJoinSync\<rparr>
      | MainJoinSync \<Rightarrow> s\<lparr>dm_main := MainEnded\<rparr>
      | MainEnded \<Rightarrow> s
      | _ \<Rightarrow> shutdown_step ok (io_sys sio) s)"

lemmas main_step_defs = main_step_def shutdown_step_def

definition main_waits :: "'k daemon_state \<Rightarrow> bool" where
  "main_waits s = (case dm_main s of
      MainJoinConfig \<Rightarrow> dm_config s \<noteq> CfgEnded | MainJoinSync \<Rightarrow> dm_sync s \<noteq> SyncEnded
    | MainEnded \<Rightarrow> True | _ \<Rightarrow> False)"

section \<open>Steps and runs\<close>

definition utf8_call :: "(string option \<times> dbus_call) option \<Rightarrow> bool" where
  "utf8_call call = (case call of None \<Rightarrow> True | Some (sender, c) \<Rightarrow> utf8 (call_text c))"

text \<open>A step of one of the three threads; the texts of D-Bus messages are UTF-8.\<close>

inductive thread_step :: "'k sys \<Rightarrow> base64 \<Rightarrow> (signal_msg \<Rightarrow> bool) \<Rightarrow> 'k daemon_state \<Rightarrow> 'k daemon_state \<Rightarrow> bool"
  for y b64 ok where
  config: "dm_config s \<noteq> CfgEnded \<Longrightarrow> cio_b64 io = b64 \<Longrightarrow> thread_step y b64 ok s (config_step y b64 io now s)"
| sync: "dm_sync s \<noteq> SyncEnded \<Longrightarrow> thread_step y b64 ok s (sync_step y b64 now now' s)"
| main: "\<not> main_waits s \<Longrightarrow> io_sys sio = y \<Longrightarrow> utf8_call call \<Longrightarrow>
    thread_step y b64 ok s (main_step ok sio call now s)"

text \<open>The request of a shutdown, which the signal handler makes too.\<close>

definition request_shutdown :: "'k daemon_state \<Rightarrow> 'k daemon_state" where
  "request_shutdown s = s\<lparr>dm_shutdown := True\<rparr>"

declare request_shutdown_def [simp]

text \<open>What the world around the daemon does: files change, the watcher ends, a shutdown is requested.\<close>

inductive outside_step :: "'k daemon_state \<Rightarrow> 'k daemon_state \<Rightarrow> bool" where
  changed: "dm_watching s \<Longrightarrow> outside_step s (s\<lparr>dm_files := dm_files s @ [ev]\<rparr>)"
| unwatched: "outside_step s (s\<lparr>dm_watching := False\<rparr>)"
| signalled: "outside_step s (request_shutdown s)"
| kernel: "outside_step s (on_service (set_kernel k) s)"

inductive daemon_step :: "'k sys \<Rightarrow> base64 \<Rightarrow> (signal_msg \<Rightarrow> bool) \<Rightarrow> 'k daemon_state \<Rightarrow> 'k daemon_state \<Rightarrow> bool"
  for y b64 ok where
  thread: "thread_step y b64 ok s s' \<Longrightarrow> daemon_step y b64 ok s s'"
| outside: "outside_step s s' \<Longrightarrow> daemon_step y b64 ok s s'"

abbreviation daemon_run :: "'k sys \<Rightarrow> base64 \<Rightarrow> (signal_msg \<Rightarrow> bool) \<Rightarrow> 'k daemon_state \<Rightarrow> 'k daemon_state \<Rightarrow> bool" where
  "daemon_run y b64 ok \<equiv> (daemon_step y b64 ok)\<^sup>*\<^sup>*"

inductive_cases thread_stepE: "thread_step y b64 ok s s'"
inductive_cases outside_stepE: "outside_step s s'"
inductive_simps daemon_step_simps: "daemon_step y b64 ok s s'"

section \<open>The start\<close>

text \<open>The state when both threads have been spawned.\<close>

definition started :: "'k service \<Rightarrow> 'k daemon_state" where
  "started svc = \<lparr>dm_service = svc, dm_shutdown = False, dm_files = [], dm_watching = True, dm_queue = [],
     dm_signals = [], dm_replies = [], dm_config = CfgCheck, dm_sync = SyncInitial, dm_main = MainCheck\<rparr>"

text \<open>\<^verbatim>\<open>run\<close> up to its loop: the initial scan and the watcher, whose start may fail, end it with their error.\<close>

definition daemon_start :: "config_io \<Rightarrow> inotify_host \<Rightarrow> 'k service \<Rightarrow> 'k daemon_state sres" where
  "daemon_start io watch svc =
     (case scan_namespace_configs io (sv_config svc) of
        (cm, Inl e) \<Rightarrow> Inl e
      | (cm, Inr _) \<Rightarrow> tryR (start_file_monitoring watch cm) (\<lambda>_. Ok (started (svc\<lparr>sv_config := cm\<rparr>))))"

text \<open>Everything the start of the daemon finds: the bus twice, the environment, the answers of the bus, the log.\<close>

record ('k, 'f) daemon_host =
  dh_bus :: bus_host
  dh_auth_bus :: bus_host
  dh_env :: env
  dh_request_name :: "string \<Rightarrow> (string, unit) res"
  dh_view :: host_view
  dh_watch :: inotify_host
  dh_tracing :: "'f tracing"
  dh_kernel :: 'k

definition event_loop_new :: "'k sys \<Rightarrow> ('k, 'f) daemon_host \<Rightarrow> nat \<Rightarrow> daemon_config \<Rightarrow> string \<Rightarrow> 'k service sres" where
  "event_loop_new y h now c path =
     tryR (fst (new_auto_state_manager y (dh_env h) (dh_kernel h))) (\<lambda>mg.
     service_new (dh_bus h) (dh_auth_bus h) (dh_env h) (dh_request_name h) now (manager_from_config c path) mg)"

datatype 'k daemon_outcome = DaemonError segwire_error | DaemonExit nat | DaemonPanic | DaemonRuns "'k daemon_state"

definition CONFIG_PATH :: string where "CONFIG_PATH = ''/etc/segwire/daemon.toml''"

text \<open>The logging of the configuration; a level that is not one is \<^verbatim>\<open>info\<close>.\<close>

definition daemon_log_config :: "daemon_config \<Rightarrow> log_config" where
  "daemon_log_config c =
     (let l = logging (daemon c) in
      \<lparr>lc_level = (case parse_log_level (level l) of Inr x \<Rightarrow> x | Inl _ \<Rightarrow> LevelInfo),
       lc_timestamps = with_timestamps l, lc_thread_names = with_thread_names l, lc_file_line = with_file_line l,
       lc_spans = with_spans l, lc_component = ''segwire-daemon''\<rparr>)"

definition outcome :: "'k daemon_state sres \<Rightarrow> 'k daemon_outcome" where
  "outcome r = (case r of Inl e \<Rightarrow> DaemonError e | Inr s \<Rightarrow> DaemonRuns s)"

definition daemon_main :: "'k sys \<Rightarrow> config_io \<Rightarrow> ('k, 'f) daemon_host \<Rightarrow> nat \<Rightarrow> 'k daemon_outcome" where
  "daemon_main y io h now =
     (case daemon_config_from_file (cio_toml_daemon io) (cio_read io) (cio_exists io) CONFIG_PATH of
        Inl e \<Rightarrow> DaemonError e
      | Inr c \<Rightarrow>
          (case init_logging (dh_tracing h) (daemon_log_config c) None of
             None \<Rightarrow> DaemonPanic
           | Some (layer, r) \<Rightarrow>
               if \<not> is_ok r then DaemonExit 1
               else if \<not> is_ok (verify_privileges (dh_view h)) then DaemonExit 1
               else outcome (tryR (event_loop_new y h now c CONFIG_PATH) (daemon_start io (dh_watch h)))))"

text \<open>The daemon's is the first subscriber of its process, so that logging never keeps it from starting.\<close>

lemma daemon_main_logs:
  "daemon_main y io h now =
     (case daemon_config_from_file (cio_toml_daemon io) (cio_read io) (cio_exists io) CONFIG_PATH of
        Inl e \<Rightarrow> DaemonError e
      | Inr c \<Rightarrow>
          if \<not> is_ok (verify_privileges (dh_view h)) then DaemonExit 1
          else outcome (tryR (event_loop_new y h now c CONFIG_PATH) (daemon_start io (dh_watch h))))"
  by (simp add: daemon_main_def init_logging_def split: sum.split)

lemma cleanup_same: "same_service svc (cleanup_namespace y n svc)"
  using with_new_netlink_frame [of y "\<lambda>s. (Ok (), cleanup_ops y (sv_config svc) n s)" svc]
  by (cases "with_new_netlink y (\<lambda>s. (Ok (), cleanup_ops y (sv_config svc) n s)) svc")
    (auto simp: cleanup_namespace_def execS_def reflpD [OF same_service_rt(1)])

section \<open>The invariant\<close>

lemma daemon_simps [simp]:
  "dm_service (on_service f s) = f (dm_service s)" "dm_shutdown (on_service f s) = dm_shutdown s"
  "dm_files (on_service f s) = dm_files s" "dm_watching (on_service f s) = dm_watching s"
  "dm_replies (on_service f s) = dm_replies s" "dm_replies (emit m s) = dm_replies s"
  "dm_queue (on_service f s) = dm_queue s" "dm_signals (on_service f s) = dm_signals s"
  "dm_config (on_service f s) = dm_config s" "dm_sync (on_service f s) = dm_sync s" "dm_main (on_service f s) = dm_main s"
  "dm_service (emit m s) = dm_service s" "dm_shutdown (emit m s) = dm_shutdown s" "dm_files (emit m s) = dm_files s"
  "dm_watching (emit m s) = dm_watching s" "dm_queue (emit m s) = dm_queue s" "dm_config (emit m s) = dm_config s"
  "dm_sync (emit m s) = dm_sync s" "dm_main (emit m s) = dm_main s"
  by (simp_all add: on_service_def emit_def)

lemma run_sync_simps [simp]:
  "sv_config (dm_service (run_sync y b64 now evs s)) = sv_config (dm_service s)"
  "sv_authorizer (dm_service (run_sync y b64 now evs s)) = sv_authorizer (dm_service s)"
  "dm_replies (run_sync y b64 now evs s) = dm_replies s"
  "dm_shutdown (run_sync y b64 now evs s) = dm_shutdown s" "dm_files (run_sync y b64 now evs s) = dm_files s"
  "dm_watching (run_sync y b64 now evs s) = dm_watching s" "dm_signals (run_sync y b64 now evs s) = dm_signals s"
  "dm_config (run_sync y b64 now evs s) = dm_config s" "dm_sync (run_sync y b64 now evs s) = dm_sync s"
  "dm_main (run_sync y b64 now evs s) = dm_main s"
  by (simp_all add: run_sync_def send_events_def on_service_def split: prod.split)

definition shutting_down :: "'k main_phase \<Rightarrow> bool" where
  "shutting_down p = (case p of MainCheck \<Rightarrow> False | MainProcess \<Rightarrow> False | MainCall _ _ _ \<Rightarrow> False | MainDrain \<Rightarrow> False | _ \<Rightarrow> True)"

text \<open>
  The table of configurations is sound, every signal sent is declared, the authorizer is the one of
  the start and the prefix valid, every reply is in order, and a call that runs leaves everything but the
  states and the kernel alone and will reply in order.  The threads end in order: the shutdown begins
  and the synchronization ends only when it is requested, and the main thread ends after both threads.
\<close>

definition daemon_ok :: "base64 \<Rightarrow> authorizer option \<Rightarrow> 'k daemon_state \<Rightarrow> bool" where
  "daemon_ok b64 auth s =
     (entries_ok b64 (namespace_configs (sv_config (dm_service s))) \<and> list_all declared_signal (dm_signals s) \<and>
      sound_service auth (dm_service s) \<and>
      list_all (\<lambda>(sender, c, r). reply_ok auth sender c r) (dm_replies s) \<and>
      (\<forall>sender c p. dm_main s = MainCall sender c p \<longrightarrow>
         guarantees same_service p \<and> yields (sound_service auth) (reply_ok auth sender c) p) \<and>
      (shutting_down (dm_main s) \<longrightarrow> dm_shutdown s) \<and> (dm_sync s = SyncEnded \<longrightarrow> dm_shutdown s) \<and>
      (dm_config s = CfgEnded \<longrightarrow> dm_shutdown s \<or> \<not> dm_watching s) \<and>
      (dm_main s \<in> {MainJoinSync, MainEnded} \<longrightarrow> dm_config s = CfgEnded) \<and>
      (dm_main s = MainEnded \<longrightarrow> dm_sync s = SyncEnded))"

lemmas ok_defs = daemon_ok_def sound_service_def

lemma emitted_declared:
  "list_all declared_signal sent \<Longrightarrow> list_all declared_signal (execS (emit_event ok ev) sent)"
  "list_all declared_signal sent \<Longrightarrow> list_all declared_signal (execS (emit_operation_progress ok op p m) sent)"
  "list_all declared_signal sent \<Longrightarrow> list_all declared_signal (execS (emit_namespace_deleted ok n r) sent)"
  by (cases ev) (simp_all add: execS_def emit_defs send_signal_def Let_def declared_signal_def find_signal_def
      get_signals_def signal_name_defs arg_signature_def)

lemma handle_prefix:
  "name_shape (prefix_of cm) \<Longrightarrow> name_shape (prefix_of (fst (handle_file_event io ev cm)))"
  by (cases ev) (auto simp: reload_namespace_config_def reload_master_config_def scan_namespace_configs_def
      remove_namespace_config_def load_master_config_def result_simps daemon_config_ok_def prefix_of_def Let_def
      dest!: daemon_from_file_ok split: sum.splits option.splits prod.splits)

lemma config_step_ok:
  assumes "daemon_ok b64 auth s" "cio_b64 io = b64" "dm_config s \<noteq> CfgEnded"
  shows "daemon_ok b64 auth (config_step y b64 io now s)"
proof (cases "dm_config s")
  case (CfgHandle ev)
  obtain cm r where h: "handle_file_event io ev (sv_config (dm_service s)) = (cm, r)" by fastforce
  have "entries_ok b64 (namespace_configs cm)"
    using handle_entries_ok [of io "sv_config (dm_service s)" ev] assms(1,2) h by (simp add: ok_defs)
  moreover have "name_shape (prefix_of (sv_config (dm_service s))) \<Longrightarrow> name_shape (prefix_of cm)"
    using handle_prefix [of "sv_config (dm_service s)" io ev] h by simp
  ultimately show ?thesis using assms CfgHandle h
    by (cases r) (auto simp: config_step_def ok_defs)
qed (use assms in \<open>auto simp: config_step_def ok_defs split: list.split\<close>)

lemma sync_step_ok:
  "daemon_ok b64 auth s \<Longrightarrow> dm_sync s \<noteq> SyncEnded \<Longrightarrow> daemon_ok b64 auth (sync_step y b64 now now' s)"
  by (cases "dm_sync s") (auto simp: sync_step_def ok_defs)

lemma main_step_ok:
  assumes "daemon_ok b64 auth s" "\<not> main_waits s" "utf8_call call"
  shows "daemon_ok b64 auth (main_step ok sio call now s)"
proof (cases "dm_main s")
  case MainProcess
  then show ?thesis using assms
    by (auto simp: main_step_defs ok_defs shutting_down_def call_prog_guarantees call_yields utf8_call_def split: option.split)
next
  case (MainCall sender c p)
  then show ?thesis using assms
    by (cases p) (auto simp: main_step_defs ok_defs shutting_down_def same_service_def sound_service_def)
next
  case (MainCleanup ns)
  show ?thesis
  proof (cases ns)
    case Nil
    then show ?thesis using assms MainCleanup by (simp add: main_step_defs ok_defs shutting_down_def)
  next
    case (Cons n ms)
    have "same_service (dm_service s) (cleanup_namespace (io_sys sio) n (dm_service s))" by (rule cleanup_same)
    then show ?thesis using assms MainCleanup Cons emitted_declared(3)
      by (simp add: main_step_defs ok_defs shutting_down_def same_service_def emit_def)
  qed
next
  case MainDrain
  then show ?thesis using assms emitted_declared(1)
    by (cases "dm_queue s") (simp_all add: main_step_defs ok_defs shutting_down_def emit_def)
next
  case MainFinal
  then show ?thesis using assms emitted_declared(2)
    by (simp add: main_step_defs ok_defs shutting_down_def emit_def)
qed (use assms in \<open>auto simp: main_step_defs ok_defs shutting_down_def main_waits_def\<close>)

lemma daemon_step_ok: "daemon_step y b64 ok s s' \<Longrightarrow> daemon_ok b64 auth s \<Longrightarrow> daemon_ok b64 auth s'"
proof (induction rule: daemon_step.induct)
  case (thread s s')
  from thread.hyps show ?case
    by (rule thread_stepE) (use thread.prems in \<open>auto intro: config_step_ok sync_step_ok main_step_ok\<close>)
next
  case (outside s s')
  from outside.hyps show ?case
    by (rule outside_stepE) (use outside.prems in \<open>auto simp: ok_defs set_kernel_def\<close>)
qed

interpretation running: preserved "daemon_step y b64 ok" "daemon_ok b64 auth" for y b64 ok auth
  by unfold_locales (rule daemon_step_ok)

lemma started_ok:
  assumes "daemon_start io w svc = Ok s" "name_shape (prefix_of (sv_config svc))"
  shows "daemon_ok (cio_b64 io) (sv_authorizer svc) s"
proof -
  obtain cm r where c: "scan_namespace_configs io (sv_config svc) = (cm, r)" by fastforce
  then obtain names where r: "r = Ok names" "s = started (svc\<lparr>sv_config := cm\<rparr>)"
    using assms by (cases r) (auto simp: daemon_start_def result_simps)
  have "configs_ok (cio_b64 io) (prefix_of cm) (namespace_configs cm)"
    using scan_ok [OF c [unfolded r(1)]] unfolding manager_ok_def by blast
  moreover have "name_shape (prefix_of cm)" using scan_ok [OF c [unfolded r(1)]] assms(2) by simp
  ultimately show ?thesis
    by (simp add: r ok_defs started_def shutting_down_def configs_entries_ok)
qed

section \<open>The shutdown ends\<close>

fun config_rank :: "config_phase \<Rightarrow> nat" where
  "config_rank CfgEnded = 0"
| "config_rank CfgCheck = 1"
| "config_rank CfgSync = 2"
| "config_rank (CfgHandle ev) = 3"
| "config_rank CfgReceive = 4"

fun sync_rank :: "sync_phase \<Rightarrow> nat" where
  "sync_rank SyncEnded = 0"
| "sync_rank SyncCheck = 1"
| "sync_rank SyncSleep = 2"
| "sync_rank SyncRun = 3"
| "sync_rank SyncTest = 4"
| "sync_rank SyncInitial = 5"

text \<open>A call has less to run after each of its sections.\<close>

definition later :: "(('s, 'a) prog \<times> ('s, 'a) prog) set" where
  "later = {(k s, Section l f k) |l f k s. True}"

lemma wf_later: "wf (later :: (('s, 'a) prog \<times> ('s, 'a) prog) set)"
proof (rule wfUNIVI)
  fix P :: "('s, 'a) prog \<Rightarrow> bool" and p
  assume *: "\<forall>p. (\<forall>q. (q, p) \<in> later \<longrightarrow> P q) \<longrightarrow> P p"
  show "P p"
  proof (induction p)
    case (Return a)
    have "\<forall>q. (q, Return a) \<in> later \<longrightarrow> P q" by (simp add: later_def)
    with * show ?case by blast
  next
    case (Section l f k)
    then have "P (k t)" for t by blast
    then have "\<forall>q. (q, Section l f k) \<in> later \<longrightarrow> P q" by (auto simp: later_def)
    with * show ?case by blast
  qed
qed

fun main_rank :: "'k main_phase \<Rightarrow> nat \<times> nat" where
  "main_rank MainEnded = (0, 0)"
| "main_rank MainJoinSync = (1, 0)"
| "main_rank MainJoinConfig = (2, 0)"
| "main_rank MainFinal = (3, 0)"
| "main_rank (MainCleanup ns) = (4, length ns)"
| "main_rank MainList = (5, 0)"
| "main_rank MainShutdown = (6, 0)"
| "main_rank MainCheck = (7, 0)"
| "main_rank MainDrain = (8, 0)"
| "main_rank (MainCall _ _ p) = (9, 0)"
| "main_rank MainProcess = (10, 0)"

fun call_left :: "'k main_phase \<Rightarrow> ('k service, method_err, dbus_reply) eprog" where
  "call_left (MainCall _ _ p) = p"
| "call_left _ = Return (Err [])"

text \<open>What is left of a shutdown: of each thread, of the call that runs, and of the queue while it is drained.\<close>

type_synonym 'k rank = "nat \<times> nat \<times> (nat \<times> nat) \<times> ('k service, method_err, dbus_reply) eprog \<times> nat"

definition shutdown_rank :: "'k daemon_state \<Rightarrow> 'k rank" where
  "shutdown_rank s = (config_rank (dm_config s), sync_rank (dm_sync s), main_rank (dm_main s), call_left (dm_main s),
     length (dm_queue s))"

definition rank_order :: "('k rank \<times> 'k rank) set" where
  "rank_order = less_than <*lex*> less_than <*lex*> (less_than <*lex*> less_than) <*lex*> later <*lex*> less_than"

lemma wf_rank_order: "wf rank_order"
  by (simp add: rank_order_def wf_lex_prod wf_later)

lemma config_step_rank:
  "dm_shutdown s \<Longrightarrow> dm_config s \<noteq> CfgEnded \<Longrightarrow>
   dm_shutdown (config_step y b64 io now s) \<and> (shutdown_rank (config_step y b64 io now s), shutdown_rank s) \<in> rank_order"
  by (cases "dm_config s")
    (auto simp: config_step_def shutdown_rank_def rank_order_def split: list.split prod.split sum.split)

lemma sync_step_rank:
  "dm_shutdown s \<Longrightarrow> dm_sync s \<noteq> SyncEnded \<Longrightarrow>
   dm_shutdown (sync_step y b64 now now' s) \<and> (shutdown_rank (sync_step y b64 now now' s), shutdown_rank s) \<in> rank_order"
  by (cases "dm_sync s") (auto simp: sync_step_def shutdown_rank_def rank_order_def)

lemma main_step_rank:
  "dm_shutdown s \<Longrightarrow> \<not> main_waits s \<Longrightarrow>
   dm_shutdown (main_step ok sio call now s) \<and> (shutdown_rank (main_step ok sio call now s), shutdown_rank s) \<in> rank_order"
  by (cases "dm_main s")
    (auto simp: main_step_defs shutdown_rank_def rank_order_def main_waits_def
      later_def split: list.split option.split prog.split)

lemma thread_step_rank:
  "thread_step y b64 ok s s' \<Longrightarrow> dm_shutdown s \<Longrightarrow> dm_shutdown s' \<and> (shutdown_rank s', shutdown_rank s) \<in> rank_order"
  by (erule thread_stepE) (auto simp: config_step_rank sync_step_rank main_step_rank)

lemma outside_rank: "outside_step s s' \<Longrightarrow> shutdown_rank s' = shutdown_rank s \<and> (dm_shutdown s \<longrightarrow> dm_shutdown s')"
  by (erule outside_stepE) (auto simp: shutdown_rank_def)

interpretation around: preserved outside_step "\<lambda>s. shutdown_rank s = r \<and> dm_shutdown s" for r :: "'k rank"
  by unfold_locales (auto dest: outside_rank)

text \<open>A thread's step after any steps from outside.\<close>

definition step_around :: "'k sys \<Rightarrow> base64 \<Rightarrow> (signal_msg \<Rightarrow> bool) \<Rightarrow> 'k daemon_state \<Rightarrow> 'k daemon_state \<Rightarrow> bool" where
  "step_around y b64 ok s s' = (\<exists>t. outside_step\<^sup>*\<^sup>* s t \<and> thread_step y b64 ok t s')"

lemma step_around_rank:
  assumes "step_around y b64 ok s s'" "dm_shutdown s"
  shows "dm_shutdown s' \<and> (shutdown_rank s', shutdown_rank s) \<in> rank_order"
proof -
  obtain t where t: "outside_step\<^sup>*\<^sup>* s t" "thread_step y b64 ok t s'" using assms(1) by (auto simp: step_around_def)
  then show ?thesis using around.run_inv [OF t(1), of "shutdown_rank s"] assms(2) thread_step_rank [OF t(2)] by simp
qed

interpretation closing: ranked "step_around y b64 ok" dm_shutdown shutdown_rank rank_order for y b64 ok
  by unfold_locales (simp_all add: step_around_rank wf_rank_order)

fun main_ended :: "'k main_phase \<Rightarrow> bool" where
  "main_ended MainEnded = True"
| "main_ended _ = False"

lemma main_ended_iff [simp]: "main_ended p \<longleftrightarrow> p = MainEnded"
  by (cases p) simp_all

definition all_ended :: "'k daemon_state \<Rightarrow> bool" where
  "all_ended s = (dm_config s = CfgEnded \<and> dm_sync s = SyncEnded \<and> main_ended (dm_main s))"

lemma stuck_iff: "(\<nexists>s'. thread_step y b64 ok s s') \<longleftrightarrow> all_ended s"
proof
  assume n: "\<nexists>s'. thread_step y b64 ok s s'"
  have "dm_config s = CfgEnded"
  proof (rule ccontr)
    assume "dm_config s \<noteq> CfgEnded"
    then have "thread_step y b64 ok s (config_step y b64 (undefined\<lparr>cio_b64 := b64\<rparr>) 0 s)" by (rule config) simp
    with n show False by blast
  qed
  moreover have "dm_sync s = SyncEnded" using n thread_step.sync by metis
  moreover have "main_waits s"
  proof (rule ccontr)
    assume "\<not> main_waits s"
    then have "thread_step y b64 ok s (main_step ok (undefined\<lparr>io_sys := y\<rparr>) None 0 s)" by (rule main) (simp_all add: utf8_call_def)
    with n show False by blast
  qed
  ultimately show "all_ended s" by (cases "dm_main s") (simp_all add: all_ended_def main_waits_def)
qed (auto simp: all_ended_def main_waits_def elim: thread_stepE)

text \<open>
  C5: after a shutdown request the daemon ends: the three threads take only finitely many steps, however
  they interleave and whatever happens around them, and when none can take a step, all have ended.
\<close>

lemma shutdown_ends:
  "wfp (\<lambda>s' s. dm_shutdown s \<and> (\<exists>t. outside_step\<^sup>*\<^sup>* s t \<and> thread_step y b64 ok t s')) \<and>
   ((\<nexists>s'. thread_step y b64 ok s s') \<longleftrightarrow> all_ended s)"
  using closing.run_ends [of y b64 ok, unfolded step_around_def] stuck_iff by blast

section \<open>Without a watcher\<close>

text \<open>The watcher has ended, nothing it sent is left, and the configuration thread handles no event.\<close>

definition unwatched_state :: "'k daemon_state \<Rightarrow> bool" where
  "unwatched_state s = (\<not> dm_watching s \<and> dm_files s = [] \<and> dm_config s \<in> {CfgCheck, CfgReceive, CfgEnded})"

lemma sync_keeps_config:
  "sv_config (dm_service (sync_step y b64 now now' s)) = sv_config (dm_service s)"
  "dm_watching (sync_step y b64 now now' s) = dm_watching s" "dm_files (sync_step y b64 now now' s) = dm_files s"
  "dm_config (sync_step y b64 now now' s) = dm_config s"
  by (cases "dm_sync s"; simp add: sync_step_def)+

lemma main_keeps_files:
  "dm_watching (main_step ok sio call now s) = dm_watching s" "dm_files (main_step ok sio call now s) = dm_files s"
  "dm_config (main_step ok sio call now s) = dm_config s"
  by (simp_all add: main_step_defs split: main_phase.split list.split option.split prog.split)

lemma main_keeps_config:
  assumes "\<And>sender c p. dm_main s = MainCall sender c p \<Longrightarrow> guarantees same_service p"
  shows "sv_config (dm_service (main_step ok sio call now s)) = sv_config (dm_service s)"
proof (cases "dm_main s")
  case (MainCall sender c p)
  then show ?thesis using assms by (cases p) (auto simp: main_step_defs same_service_def)
next
  case (MainCleanup ns)
  then show ?thesis using cleanup_same [of "dm_service s" "io_sys sio"]
    by (cases ns) (simp_all add: main_step_defs same_service_def)
qed (simp_all add: main_step_defs split: list.split option.split)

lemma unwatched_step:
  assumes "daemon_step y b64 ok s s'" "daemon_ok b64 auth s" "unwatched_state s"
  shows "unwatched_state s' \<and> sv_config (dm_service s') = sv_config (dm_service s)"
  using assms(1)
proof (rule daemon_step.cases)
  fix t t' assume t: "s = t" "s' = t'" "thread_step y b64 ok t t'"
  from t(3) show ?thesis
  proof (rule thread_stepE)
    fix io now assume "t' = config_step y b64 io now t"
    then show ?thesis using assms(3) t(1,2) by (auto simp: unwatched_state_def config_step_def)
  next
    fix now now' assume "t' = sync_step y b64 now now' t"
    then show ?thesis using assms(3) t(1,2) by (simp add: unwatched_state_def sync_keeps_config)
  next
    fix sio call now assume m: "t' = main_step ok sio call now t"
    have "guarantees same_service p" if "dm_main t = MainCall sender c p" for sender c p
      using assms(2) t(1) that unfolding daemon_ok_def by blast
    then show ?thesis using assms(3) t(1,2) m main_keeps_config [of t ok sio call now]
      by (simp add: unwatched_state_def main_keeps_files)
  qed
next
  fix t t' assume t: "s = t" "s' = t'" "outside_step t t'"
  from t(3) show ?thesis
    by (rule outside_stepE) (use assms(3) t(1,2) in \<open>auto simp: unwatched_state_def set_kernel_def\<close>)
qed

interpretation frozen: preserved "daemon_step y b64 ok"
    "\<lambda>s. daemon_ok b64 auth s \<and> unwatched_state s \<and> sv_config (dm_service s) = cm" for y b64 ok auth cm
  by unfold_locales (use daemon_step_ok unwatched_step in blast)

section \<open>Schedules\<close>

text \<open>A schedule that can be run: which thread takes each step; \<open>BySync now\<close> reads the time \<open>now\<close>.\<close>

datatype choice = ByConfig | BySync nat | ByMain "(string option \<times> dbus_call) option" | BySignal

fun run_choice :: "(signal_msg \<Rightarrow> bool) \<Rightarrow> 'k service_io \<Rightarrow> choice \<Rightarrow> 'k daemon_state \<Rightarrow> 'k daemon_state option" where
  "run_choice ok sio ByConfig s =
     (if dm_config s = CfgEnded then None
      else Some (config_step (io_sys sio) (cio_b64 (io_files sio)) (io_files sio) 0 s))"
| "run_choice ok sio (BySync now) s =
     (if dm_sync s = SyncEnded then None
      else Some (sync_step (io_sys sio) (cio_b64 (io_files sio)) now now s))"
| "run_choice ok sio (ByMain call) s = (if main_waits s \<or> \<not> utf8_call call then None else Some (main_step ok sio call 0 s))"
| "run_choice ok sio BySignal s = Some (request_shutdown s)"

fun run_choices :: "(signal_msg \<Rightarrow> bool) \<Rightarrow> 'k service_io \<Rightarrow> choice list \<Rightarrow> 'k daemon_state \<Rightarrow> 'k daemon_state option" where
  "run_choices ok sio [] s = Some s"
| "run_choices ok sio (c # cs) s = (case run_choice ok sio c s of None \<Rightarrow> None | Some t \<Rightarrow> run_choices ok sio cs t)"

lemma run_choice_step:
  "run_choice ok sio c s = Some t \<Longrightarrow> daemon_step (io_sys sio) (cio_b64 (io_files sio)) ok s t"
  using outside_step.signalled [of s]
  by (cases c) (auto simp: daemon_step_simps split: if_splits intro: thread_step.intros)

lemma run_choices_run:
  "run_choices ok sio cs s = Some t \<Longrightarrow> daemon_run (io_sys sio) (cio_b64 (io_files sio)) ok s t"
proof (induction cs arbitrary: s)
  case (Cons c cs)
  then show ?case
    by (auto split: option.splits dest!: run_choice_step intro: converse_rtranclp_into_rtranclp)
qed simp

section \<open>Concrete runs\<close>

text \<open>The service of \<^verbatim>\<open>DbusService\<close> before any namespace exists, with cleanup on shutdown.\<close>

definition cleanup_manager :: config_manager where
  "cleanup_manager = two_configs\<lparr>daemon_config := (daemon_config two_configs)
     \<lparr>daemon := (daemon (daemon_config two_configs))\<lparr>cleanup_on_shutdown := True\<rparr>\<rparr>\<rparr>"

definition fresh_service :: "string list service" where
  "fresh_service = sample_service\<lparr>sv_config := cleanup_manager,
     sv_states := state_manager_new \<lparr>nl_backend = Real, nl_kernel = [''/var/run/netns'']\<rparr>\<rparr>"

text \<open>What the kernel holds, and what the daemon knows, of a namespace.\<close>

definition in_kernel :: "string list daemon_state \<Rightarrow> string \<Rightarrow> bool" where
  "in_kernel s n = (''/var/run/netns/'' @ n \<in> set (nl_kernel (net (sv_states (dm_service s)))))"

definition known_active :: "'k daemon_state \<Rightarrow> string \<Rightarrow> bool" where
  "known_active s n = (case get_namespace_state (sv_states (dm_service s)) n of Some st \<Rightarrow> is_active st | None \<Rightarrow> False)"

text \<open>
  The races are stated over schedules in which the world around the daemon does nothing but ask for
  the shutdown: one thread takes the steps, and one step of another falls after \<open>i\<close> of them.
\<close>

text \<open>
  A shutdown: the request, seven steps of the main thread, which bring it to its first join, and the
  initial synchronization after \<open>i\<close> of them; then the threads end.  The outcome is whether all have
  ended and which of the configured namespaces are left.
\<close>

definition shutdown_schedule :: "nat \<Rightarrow> choice list" where
  "shutdown_schedule i = [BySignal] @ replicate i (ByMain None) @ [BySync 5] @ replicate (7 - i) (ByMain None) @
     [ByConfig, ByMain None, BySync 5, ByMain None]"

definition left_over :: "string list daemon_state \<Rightarrow> string list" where
  "left_over s = filter (in_kernel s) (keys (namespace_configs (sv_config (dm_service s))))"

definition shutdown_race :: "nat \<Rightarrow> (bool \<times> string list) option" where
  "shutdown_race i = (case run_choices (\<lambda>_. True) svc_io (shutdown_schedule i) (started fresh_service) of
     None \<Rightarrow> None | Some s \<Rightarrow> Some (all_ended s, left_over s))"

lemma shutdown_race_run:
  assumes "shutdown_race i = Some (e, ns)"
  shows "\<exists>s. daemon_run file_sys no_base64 (\<lambda>_. True) (started fresh_service) s \<and> all_ended s = e \<and> left_over s = ns"
proof -
  obtain s where s: "run_choices (\<lambda>_. True) svc_io (shutdown_schedule i) (started fresh_service) = Some s"
    "all_ended s = e" "left_over s = ns"
    using assms by (auto simp: shutdown_race_def split: option.splits)
  have "io_sys svc_io = file_sys" "cio_b64 (io_files svc_io) = no_base64"
    by (simp_all add: svc_io_def sample_io_with_def)
  then show ?thesis using run_choices_run [OF s(1)] s(2,3) by auto
qed

text \<open>Once the names are cleaned up, the main thread leaves the kernel and the states as they are until it ends.\<close>

lemma nothing_cleaned_later:
  "dm_main s \<in> {MainCleanup [], MainFinal, MainJoinConfig, MainJoinSync, MainEnded} \<Longrightarrow>
   dm_service (main_step ok sio call now s) = dm_service s \<and>
   dm_main (main_step ok sio call now s) \<in> {MainFinal, MainJoinConfig, MainJoinSync, MainEnded}"
  by (auto simp: main_step_defs)


text \<open>
  A restart of the namespace of \<open>sample_service\<close>: the call, eleven steps of the main thread, which
  finish and answer it, and the initial synchronization after \<open>i\<close> of them.  The outcome is whether the
  synchronization found the namespace deleted and not yet recreated, neither in the kernel nor known;
  whether the client is told that the restart failed; and whether the namespace is known as active
  and in the kernel at the end.
\<close>

definition restart_failed :: "string \<Rightarrow> string option \<times> dbus_call \<times> (method_err, dbus_reply) res \<Rightarrow> bool" where
  "restart_failed n x = (case x of (sender, c, r) \<Rightarrow> c = CallRestartNamespace n \<and>
     (case r of Inr (ReplyResult res) \<Rightarrow> \<not> success res | _ \<Rightarrow> False))"

definition between_restart :: "string \<Rightarrow> string list daemon_state \<Rightarrow> bool" where
  "between_restart n s = (\<not> in_kernel s n \<and> get_namespace_state (sv_states (dm_service s)) n = None)"

definition restart_call :: "choice list" where
  "restart_call = [ByMain None, ByMain (Some (Some '':root'', CallRestartNamespace ''web''))]"

definition restart_race :: "nat \<Rightarrow> (bool \<times> bool list \<times> bool \<times> bool) option" where
  "restart_race i =
     (case run_choices (\<lambda>_. True) svc_io (restart_call @ replicate i (ByMain None)) (started sample_service) of
        None \<Rightarrow> None
      | Some s \<Rightarrow> (case run_choices (\<lambda>_. True) svc_io (BySync 5 # replicate (11 - i) (ByMain None)) s of
            None \<Rightarrow> None
          | Some t \<Rightarrow> Some (between_restart ''sw-web'' s, map (restart_failed ''web'') (dm_replies t),
              known_active t ''sw-web'', in_kernel t ''sw-web'')))"



lemma restart_race_run:
  assumes "restart_race i = Some (b, fs, a, k)"
  shows "\<exists>s. daemon_run file_sys no_base64 (\<lambda>_. True) (started sample_service) s \<and>
    map (restart_failed ''web'') (dm_replies s) = fs \<and> known_active s ''sw-web'' = a \<and> in_kernel s ''sw-web'' = k"
proof -
  obtain s t where s: "run_choices (\<lambda>_. True) svc_io (restart_call @ replicate i (ByMain None)) (started sample_service) = Some s"
    and t: "run_choices (\<lambda>_. True) svc_io (BySync 5 # replicate (11 - i) (ByMain None)) s = Some t"
      "map (restart_failed ''web'') (dm_replies t) = fs" "known_active t ''sw-web'' = a" "in_kernel t ''sw-web'' = k"
    using assms by (auto simp: restart_race_def simp del: run_choices.simps split: option.splits)
  have io: "io_sys svc_io = file_sys" "cio_b64 (io_files svc_io) = no_base64"
    by (simp_all add: svc_io_def sample_io_with_def)
  show ?thesis using rtranclp_trans [OF run_choices_run [OF s] run_choices_run [OF t(1)]] t(2-4) unfolding io by blast
qed


section \<open>From the start\<close>

lemma manager_with_Ok:
  "fst (new_auto_state_manager y se k) = Ok mg \<Longrightarrow>
   map_of se ''SEGWIRE_SIMULATION'' \<noteq> None \<or> sys_euid y k = 0"
  by (auto simp: new_auto_state_manager_def manager_with_def netlink_new_auto_def netlink_new_def is_root_def
      split: if_splits)

lemma daemon_main_Runs:
  assumes "daemon_main y io h now = DaemonRuns s"
  obtains c svc where "daemon_config_from_file (cio_toml_daemon io) (cio_read io) (cio_exists io) CONFIG_PATH = Ok c"
    "is_ok (verify_privileges (dh_view h))" "event_loop_new y h now c CONFIG_PATH = Ok svc"
    "daemon_start io (dh_watch h) svc = Ok s"
proof -
  obtain c where c: "daemon_config_from_file (cio_toml_daemon io) (cio_read io) (cio_exists io) CONFIG_PATH = Ok c"
    using assms by (auto simp: daemon_main_logs split: sum.splits)
  then have "is_ok (verify_privileges (dh_view h))"
    "outcome (tryR (event_loop_new y h now c CONFIG_PATH) (daemon_start io (dh_watch h))) = DaemonRuns s"
    using assms by (auto simp: daemon_main_logs split: if_splits)
  moreover from this(2) obtain svc where "event_loop_new y h now c CONFIG_PATH = Ok svc"
    "daemon_start io (dh_watch h) svc = Ok s"
    by (cases "event_loop_new y h now c CONFIG_PATH"; cases "daemon_start io (dh_watch h) (projr (event_loop_new y h now c CONFIG_PATH))")
      (auto simp: outcome_def tryR_def)
  ultimately show thesis using that c by blast
qed

lemma event_loop_new_Ok:
  assumes "event_loop_new y h now c path = Ok svc"
  shows "sv_config svc = manager_from_config c path \<and> sv_authorizer svc = service_authorizer (dh_auth_bus h) (dh_env h) \<and>
    (map_of (dh_env h) ''SEGWIRE_SIMULATION'' \<noteq> None \<or> sys_euid y (dh_kernel h) = 0)"
  using assms manager_with_Ok [of y "dh_env h" "dh_kernel h"]
  by (auto simp: event_loop_new_def service_new_def Let_def result_simps)

lemma daemon_reaches_ok:
  assumes "daemon_main y io h now = DaemonRuns s0" "daemon_run y (cio_b64 io) ok s0 s"
  shows "daemon_ok (cio_b64 io) (service_authorizer (dh_auth_bus h) (dh_env h)) s"
proof -
  obtain c svc where c: "daemon_config_from_file (cio_toml_daemon io) (cio_read io) (cio_exists io) CONFIG_PATH = Ok c"
    and svc: "event_loop_new y h now c CONFIG_PATH = Ok svc" "daemon_start io (dh_watch h) svc = Ok s0"
    by (rule daemon_main_Runs [OF assms(1)])
  have "name_shape (prefix_of (sv_config svc))"
    using event_loop_new_Ok [OF svc(1)] daemon_from_file_ok [OF c]
    by (simp add: daemon_config_ok_def manager_from_config_def prefix_of_def)
  then have "daemon_ok (cio_b64 io) (service_authorizer (dh_auth_bus h) (dh_env h)) s0"
    using started_ok [OF svc(2)] event_loop_new_Ok [OF svc(1)] by simp
  then show ?thesis by (rule running.run_inv [OF assms(2)])
qed

text \<open>
  C2: in every state a started daemon reaches, whatever files change, calls arrive and threads
  interleave, the table holds only valid configurations under their full names, every signal sent is
  declared, the authorizer is the one of the start; the synchronization goes on until a shutdown is
  requested and the main thread ends last.
\<close>

lemma daemon_invariant:
  assumes "daemon_main y io h now = DaemonRuns s0" "daemon_run y (cio_b64 io) ok s0 s"
  shows "entries_ok (cio_b64 io) (namespace_configs (sv_config (dm_service s))) \<and>
    list_all declared_signal (dm_signals s) \<and>
    sv_authorizer (dm_service s) = service_authorizer (dh_auth_bus h) (dh_env h) \<and>
    (dm_sync s = SyncEnded \<longrightarrow> dm_shutdown s) \<and> (dm_main s = MainEnded \<longrightarrow> all_ended s)"
  using daemon_reaches_ok [OF assms] unfolding ok_defs all_ended_def main_ended_iff by blast

text \<open>
  C3: the daemon answers only those who may ask: in every state a started daemon reaches, each reply that
  is not an error went to a sender that the authorizer of the start allows the action of the method,
  and each path replied is a file directly in /run/netns.
\<close>

lemma daemon_replies:
  assumes "daemon_main y io h now = DaemonRuns s0" "daemon_run y (cio_b64 io) ok s0 s"
    "(sender, c, Ok x) \<in> set (dm_replies s)"
  shows "allowed_by (service_authorizer (dh_auth_bus h) (dh_env h)) (call_action c) sender \<and>
    (case x of ReplyPath p \<Rightarrow> in_netns_dir p | _ \<Rightarrow> True)"
proof -
  have "list_all (\<lambda>(sender, c, r). reply_ok (service_authorizer (dh_auth_bus h) (dh_env h)) sender c r) (dm_replies s)"
    using daemon_reaches_ok [OF assms(1,2)] by (simp add: daemon_ok_def)
  then show ?thesis using assms(3) by (fastforce simp: list_all_iff reply_ok_def)
qed

text \<open>
  C27: the daemon runs only with a valid configuration and the table its directory gives, and as root,
  unless it simulates: the capability CAP_SYS_ADMIN, which its check of privileges accepts, is not
  enough.
\<close>

lemma daemon_starts_as_root:
  assumes "daemon_main y io h now = DaemonRuns s"
  shows "(\<exists>c. daemon_config_ok (cio_exists io) c \<and> is_ok (verify_privileges (dh_view h)) \<and>
      (\<exists>names. scan_namespace_configs io (manager_from_config c CONFIG_PATH) = (sv_config (dm_service s), Ok names))) \<and>
    (sys_euid y (dh_kernel h) = 0 \<or> map_of (dh_env h) ''SEGWIRE_SIMULATION'' \<noteq> None)"
proof -
  obtain c svc where c: "daemon_config_from_file (cio_toml_daemon io) (cio_read io) (cio_exists io) CONFIG_PATH = Ok c"
    "is_ok (verify_privileges (dh_view h))"
    and svc: "event_loop_new y h now c CONFIG_PATH = Ok svc" "daemon_start io (dh_watch h) svc = Ok s"
    by (rule daemon_main_Runs [OF assms])
  obtain cm r where scan: "scan_namespace_configs io (sv_config svc) = (cm, r)" by fastforce
  then obtain names where "r = Ok names" "s = started (svc\<lparr>sv_config := cm\<rparr>)"
    using svc(2) by (cases r) (auto simp: daemon_start_def result_simps)
  then have "scan_namespace_configs io (manager_from_config c CONFIG_PATH) = (sv_config (dm_service s), Ok names)"
    using scan event_loop_new_Ok [OF svc(1)] by (simp add: started_def)
  then show ?thesis using c event_loop_new_Ok [OF svc(1)] daemon_from_file_ok by blast
qed

lemma start_ignores_init: "daemon_start io (w\<lparr>ih_init := r\<rparr>) = daemon_start io w"
  by (rule ext) (simp add: daemon_start_def start_file_monitoring_def start_monitoring_def
      split: prod.split sum.split)

lemma start_ignores_inotify:
  "daemon_main y io (h\<lparr>dh_watch := (dh_watch h)\<lparr>ih_init := r\<rparr>\<rparr>) now = daemon_main y io h now"
  by (simp add: daemon_main_logs event_loop_new_def start_ignores_init split: sum.split)

text \<open>
  C40: a watcher that fails is not noticed: the daemon starts just so when inotify cannot be set up, and
  once the watcher's thread has ended and what it sent is handled, the table of configurations stays
  as it is in every further state, whatever files change and calls, reloads included, arrive.
\<close>

lemma unwatched_config_fixed:
  assumes "daemon_main y io h now = DaemonRuns s0" "daemon_run y (cio_b64 io) ok s0 s" "unwatched_state s"
    and "daemon_run y (cio_b64 io) ok s s'"
  shows "daemon_main y io (h\<lparr>dh_watch := (dh_watch h)\<lparr>ih_init := Err e\<rparr>\<rparr>) now = DaemonRuns s0 \<and>
    sv_config (dm_service s') = sv_config (dm_service s)"
  using assms(1) frozen.run_inv [OF assms(4)] daemon_reaches_ok [OF assms(1,2)] assms(3)
  by (simp add: start_ignores_inotify)

definition sample_daemon_io :: config_io where
  "sample_daemon_io = (sample_io_with sample_files)\<lparr>cio_toml_daemon := (\<lambda>_. Ok (daemon_config sample_manager)),
     cio_read := (\<lambda>p. if p = CONFIG_PATH then Some [] else sample_files p)\<rparr>"

definition sample_daemon_host :: "(string list, string) daemon_host" where
  "sample_daemon_host = \<lparr>dh_bus = sample_host, dh_auth_bus = sample_host, dh_env = [], dh_request_name = (\<lambda>_. Ok ()),
     dh_view = \<lparr>hv_euid = 0, hv_status = None, hv_cgroup = None, hv_exists = (\<lambda>_. False), hv_env = []\<rparr>,
     dh_watch = \<lparr>ih_spawn = Ok (), ih_init = Ok (), ih_add = (\<lambda>_ _. Ok ())\<rparr>, 
     dh_tracing = \<lparr>tr_from_env = Err ''not present'', tr_parse = Ok, tr_lossy = id\<rparr>, dh_kernel = [''/var/run/netns'']\<rparr>"

lemma sample_daemon: obtains s where "daemon_main file_sys sample_daemon_io sample_daemon_host 0 = DaemonRuns s"
proof -
  have "(case daemon_main file_sys sample_daemon_io sample_daemon_host 0 of DaemonRuns s \<Rightarrow> True | _ \<Rightarrow> False)"
    by code_simp
  then show thesis using that by (cases "daemon_main file_sys sample_daemon_io sample_daemon_host 0") auto
qed

lemma daemon_invariant_witness:
  "\<exists>s0 s. daemon_main file_sys sample_daemon_io sample_daemon_host 0 = DaemonRuns s0 \<and>
     daemon_run file_sys no_base64 (\<lambda>_. True) s0 s \<and> s \<noteq> s0 \<and> entries_ok no_base64 (namespace_configs (sv_config (dm_service s)))"
proof -
  obtain s0 where s0: "daemon_main file_sys sample_daemon_io sample_daemon_host 0 = DaemonRuns s0" by (rule sample_daemon)
  have b: "cio_b64 sample_daemon_io = no_base64" by (simp add: sample_daemon_io_def sample_io_with_def)
  have "daemon_step file_sys no_base64 (\<lambda>_. True) s0 (s0\<lparr>dm_shutdown := True\<rparr>)"
    using daemon_step.outside [OF outside_step.signalled [of s0]] by simp
  then have r: "daemon_run file_sys (cio_b64 sample_daemon_io) (\<lambda>_. True) s0 (s0\<lparr>dm_shutdown := True\<rparr>)" unfolding b by blast
  obtain svc where "daemon_start sample_daemon_io (dh_watch sample_daemon_host) svc = Ok s0"
    by (rule daemon_main_Runs [OF s0])
  then have "\<not> dm_shutdown s0" by (auto simp: daemon_start_def result_simps started_def split: prod.splits sum.splits)
  then have "s0\<lparr>dm_shutdown := True\<rparr> \<noteq> s0" by (metis daemon_state.select_convs(2) daemon_state.surjective daemon_state.update_convs(2))
  then show ?thesis using daemon_invariant [OF s0 r] r s0 unfolding b by blast
qed

text \<open>A client asks for the list of namespaces.\<close>

definition list_schedule :: "choice list" where
  "list_schedule = [ByMain None, ByMain (Some (Some '':root'', CallListNamespaces))] @ replicate 4 (ByMain None)"

definition listed :: "string list daemon_state \<Rightarrow> bool" where
  "listed s = list_ex (\<lambda>(sender, c, x). sender = Some '':root'' \<and> c = CallListNamespaces \<and> is_ok x) (dm_replies s)"

definition list_io :: "string list service_io" where
  "list_io = svc_io\<lparr>io_files := sample_daemon_io\<rparr>"

lemma daemon_replies_witness:
  "allowed_by (service_authorizer sample_host []) ''list'' (Some '':root'')"
proof -
  obtain s0 where s0: "daemon_main file_sys sample_daemon_io sample_daemon_host 0 = DaemonRuns s0" by (rule sample_daemon)
  have "(case daemon_main file_sys sample_daemon_io sample_daemon_host 0 of
      DaemonRuns t \<Rightarrow> map_option listed (run_choices (\<lambda>_. True) list_io list_schedule t) = Some True | _ \<Rightarrow> False)"
    by code_simp
  then obtain s where s: "run_choices (\<lambda>_. True) list_io list_schedule s0 = Some s" "listed s"
    unfolding s0 by auto
  have "io_sys list_io = file_sys" "io_files list_io = sample_daemon_io"
    by (simp_all add: list_io_def svc_io_def)
  then have r: "daemon_run file_sys (cio_b64 sample_daemon_io) (\<lambda>_. True) s0 s" using run_choices_run [OF s(1)] by simp
  obtain x where x: "(Some '':root'', CallListNamespaces, Ok x) \<in> set (dm_replies s)"
    using s(2) by (auto simp: listed_def list_ex_iff is_ok_iff)
  show ?thesis using daemon_replies [OF s0 r x] by (simp add: sample_daemon_host_def)
qed

lemma daemon_starts_as_root_witness: "is_ok (verify_privileges (dh_view sample_daemon_host))"
proof -
  obtain s0 where s0: "daemon_main file_sys sample_daemon_io sample_daemon_host 0 = DaemonRuns s0" by (rule sample_daemon)
  show ?thesis using daemon_starts_as_root [OF s0] by blast
qed

lemma unwatched_config_fixed_witness:
  "\<exists>s0 s. daemon_main file_sys sample_daemon_io
       (sample_daemon_host\<lparr>dh_watch := (dh_watch sample_daemon_host)\<lparr>ih_init := Err ''EMFILE''\<rparr>\<rparr>) 0 = DaemonRuns s0 \<and>
     daemon_run file_sys no_base64 (\<lambda>_. True) s0 s \<and> dm_config s = CfgEnded \<and> \<not> dm_shutdown s \<and>
     sv_config (dm_service s) = sv_config (dm_service s0)"
proof -
  obtain s0 where s0: "daemon_main file_sys sample_daemon_io sample_daemon_host 0 = DaemonRuns s0" by (rule sample_daemon)
  obtain svc where "daemon_start sample_daemon_io (dh_watch sample_daemon_host) svc = Ok s0"
    by (rule daemon_main_Runs [OF s0])
  then have st: "dm_config s0 = CfgCheck" "dm_files s0 = []" "\<not> dm_shutdown s0"
    by (auto simp: daemon_start_def result_simps started_def split: prod.splits sum.splits)
  have b: "cio_b64 sample_daemon_io = no_base64" by (simp add: sample_daemon_io_def sample_io_with_def)
  let ?u = "s0\<lparr>dm_watching := False\<rparr>"
  let ?c = "config_step file_sys no_base64 sample_daemon_io 0"
  have u: "daemon_run file_sys no_base64 (\<lambda>_. True) s0 ?u"
    by (intro r_into_rtranclp daemon_step.outside outside_step.unwatched)
  have ended: "dm_config (?c (?c ?u)) = CfgEnded" "\<not> dm_shutdown (?c (?c ?u))"
    using st by (simp_all add: config_step_def)
  have "daemon_step file_sys no_base64 (\<lambda>_. True) ?u (?c ?u)"
    "daemon_step file_sys no_base64 (\<lambda>_. True) (?c ?u) (?c (?c ?u))"
    using st b daemon_step.thread [OF thread_step.config [of ?u sample_daemon_io no_base64 file_sys "\<lambda>_. True" 0]]
      daemon_step.thread [OF thread_step.config [of "?c ?u" sample_daemon_io no_base64 file_sys "\<lambda>_. True" 0]]
    by (auto simp: config_step_def)
  then have r: "daemon_run file_sys no_base64 (\<lambda>_. True) ?u (?c (?c ?u))" by simp
  have "unwatched_state ?u" using st by (simp add: unwatched_state_def)
  then show ?thesis
    using unwatched_config_fixed [OF s0, of "\<lambda>_. True" ?u "?c (?c ?u)" "''EMFILE''"] u r ended rtranclp_trans [OF u r]
    by (auto simp: b)
qed

end
