(* ===== verification/HotReload.thy ===== *)
theory HotReload
  imports ConfigManager
begin

text \<open>
  Reloading file by file against reading the whole directory, \<^verbatim>\<open>handle_file_event\<close> against
  \<^verbatim>\<open>scan_namespace_configs\<close> of \<^verbatim>\<open>segwire-daemon/src/config.rs\<close>.  The table is an index, by full name, of what
  the files define; an event changes it at one file.  The locale states what the table promises, its
  lemmas say when the change at one file keeps the index complete.
\<close>

section \<open>An index of what sources define\<close>

text \<open>\<open>D\<close> gives what each source defines; the index \<open>L\<close> holds exactly that, under the keys.\<close>

definition reflects :: "('e \<Rightarrow> 'k) \<Rightarrow> ('k \<Rightarrow> 'e option) \<Rightarrow> ('p \<Rightarrow> 'e option) \<Rightarrow> bool" where
  "reflects key L D = (\<forall>k e. L k = Some e \<longleftrightarrow> (\<exists>p. D p = Some e \<and> key e = k))"

text \<open>No two sources define the same key, and what a source defines says from where it is.\<close>

definition one_source :: "('e \<Rightarrow> 'k) \<Rightarrow> ('p \<Rightarrow> 'e option) \<Rightarrow> bool" where
  "one_source key D = (\<forall>p q e f. D p = Some e \<longrightarrow> D q = Some f \<longrightarrow> key e = key f \<longrightarrow> p = q)"

definition sourced :: "('e \<Rightarrow> 'p) \<Rightarrow> ('p \<Rightarrow> 'e option) \<Rightarrow> bool" where
  "sourced src D = (\<forall>p e. D p = Some e \<longrightarrow> src e = p)"

lemma reflects_unique: "reflects key L D \<Longrightarrow> reflects key M D \<Longrightarrow> L = M"
proof (rule ext)
  fix k assume "reflects key L D" "reflects key M D"
  then have "L k = Some e \<longleftrightarrow> M k = Some e" for e by (simp add: reflects_def)
  then show "L k = M k" by (metis not_Some_eq)
qed

locale indexed_table =
  fixes inv :: "'t \<Rightarrow> bool"
    and look :: "'t \<Rightarrow> 'k \<Rightarrow> 'e option"
    and put :: "'e \<Rightarrow> 't \<Rightarrow> 't"
    and remove :: "'p \<Rightarrow> 't \<Rightarrow> 't"
    and key :: "'e \<Rightarrow> 'k"
    and src :: "'e \<Rightarrow> 'p"
    and same :: "'p \<Rightarrow> 'p \<Rightarrow> bool"
  assumes put_look: "inv t \<Longrightarrow> look (put e t) = (look t)(key e \<mapsto> e)"
    and put_inv: "inv t \<Longrightarrow> inv (put e t)"
    and remove_look: "inv t \<Longrightarrow> look (remove p t) k =
      (case look t k of Some e \<Rightarrow> if same (src e) p then None else Some e | None \<Rightarrow> None)"
    and remove_inv: "inv t \<Longrightarrow> inv (remove p t)"
begin

text \<open>A source that now defines \<open>e\<close>: putting it in is enough exactly when the source keeps its key.\<close>

lemma put_reflects:
  assumes "inv t" "reflects key (look t) D" "sourced src D" "src e = p" "one_source key (D(p \<mapsto> e))"
  shows "reflects key (look (put e t)) (D(p \<mapsto> e)) \<longleftrightarrow> (\<forall>f. D p = Some f \<longrightarrow> key f = key e)"
proof
  assume r: "reflects key (look (put e t)) (D(p \<mapsto> e))"
  show "\<forall>f. D p = Some f \<longrightarrow> key f = key e"
  proof (intro allI impI, rule ccontr)
    fix f assume f: "D p = Some f" "key f \<noteq> key e"
    then have "look t (key f) = Some f" using assms(2) by (auto simp: reflects_def)
    then have "look (put e t) (key f) = Some f" using f(2) by (simp add: put_look [OF assms(1)])
    then obtain q where q: "(D(p \<mapsto> e)) q = Some f" using r unfolding reflects_def by blast
    then have "q \<noteq> p" "D q = Some f" using f(2) by (auto split: if_splits)
    then show False using assms(3) f(1) by (auto simp: sourced_def)
  qed
next
  assume k: "\<forall>f. D p = Some f \<longrightarrow> key f = key e"
  show "reflects key (look (put e t)) (D(p \<mapsto> e))"
    unfolding reflects_def
  proof (intro allI)
    fix j x
    show "look (put e t) j = Some x \<longleftrightarrow> (\<exists>q. (D(p \<mapsto> e)) q = Some x \<and> key x = j)"
    proof (cases "j = key e")
      case True
      then show ?thesis using assms(5) unfolding put_look [OF assms(1)] one_source_def
        by (metis fun_upd_same option.inject)
    next
      case False
      have "(\<exists>q. (D(p \<mapsto> e)) q = Some x \<and> key x = j) \<longleftrightarrow> (\<exists>q. D q = Some x \<and> key x = j)"
        using False k by (metis fun_upd_apply option.inject)
      then show ?thesis using False assms(2) by (simp add: put_look [OF assms(1)] reflects_def)
    qed
  qed
qed

text \<open>A source that defines nothing any more: leaving the table is enough exactly when it defined nothing before.\<close>

lemma keep_reflects:
  assumes "reflects key (look t) D" "sourced src D"
  shows "reflects key (look t) (D(p := None)) \<longleftrightarrow> D p = None"
proof
  assume r: "reflects key (look t) (D(p := None))"
  show "D p = None"
  proof (rule ccontr)
    assume "D p \<noteq> None"
    then obtain f where f: "D p = Some f" by blast
    then have "look t (key f) = Some f" using assms(1) by (auto simp: reflects_def)
    then obtain q where "(D(p := None)) q = Some f" using r unfolding reflects_def by blast
    then have "q \<noteq> p" "D q = Some f" by (auto split: if_splits)
    then show False using assms(2) f by (auto simp: sourced_def)
  qed
next
  assume "D p = None"
  then show "reflects key (look t) (D(p := None))" using assms(1) by (simp add: fun_upd_idem)
qed

lemma remove_reflects:
  assumes "inv t" "reflects key (look t) D" "sourced src D" "\<And>q. D q \<noteq> None \<Longrightarrow> same q p \<longleftrightarrow> q = p"
  shows "reflects key (look (remove p t)) (D(p := None))"
proof -
  have "look (remove p t) k = Some e \<longleftrightarrow> (\<exists>q. (D(p := None)) q = Some e \<and> key e = k)" for k e
  proof -
    have "look (remove p t) k = Some e \<longleftrightarrow> look t k = Some e \<and> \<not> same (src e) p"
      by (auto simp: remove_look [OF assms(1)] split: option.splits if_splits)
    also have "\<dots> \<longleftrightarrow> (\<exists>q. D q = Some e \<and> key e = k \<and> \<not> same q p)"
      using assms(2,3) by (auto simp: reflects_def sourced_def)
    also have "\<dots> \<longleftrightarrow> (\<exists>q. (D(p := None)) q = Some e \<and> key e = k)"
      using assms(4) by (auto split: if_splits)
    finally show ?thesis .
  qed
  then show ?thesis by (simp add: reflects_def)
qed

end

section \<open>The table of configurations\<close>

lemma map_of_other_paths:
  "distinct (keys m) \<Longrightarrow> map_of (filter (\<lambda>(n, e). \<not> same_path (file_path e) p) m) k =
     (case map_of m k of Some e \<Rightarrow> if same_path (file_path e) p then None else Some e | None \<Rightarrow> None)"
  using map_of_filter_const [of m "\<lambda>e. \<not> same_path (file_path e) p" k] by (simp split: option.split)

interpretation config_index: indexed_table
  "\<lambda>m. distinct (keys m)" map_of "\<lambda>e. insertM (full_name e) e" "\<lambda>p. filter (\<lambda>(n, e). \<not> same_path (file_path e) p)"
  full_name file_path same_path
  by unfold_locales (simp_all add: fun_eq_iff map_of_other_paths distinct_map_filter)

text \<open>What each file of the directory defines for this manager: nothing unless it is a TOML file that loads.\<close>

definition dir_files :: "config_io \<Rightarrow> config_manager \<Rightarrow> string \<Rightarrow> config_entry option" where
  "dir_files io cm p =
     (case cio_dir io (config_directory cm) of
        Inl _ \<Rightarrow> None
      | Inr es \<Rightarrow>
          if Ok p \<in> set es \<and> cio_is_file io p \<and> extension p = Some ''toml''
          then (case load_namespace_config io (prefix_of cm) p of Inl _ \<Rightarrow> None | Inr x \<Rightarrow> x) else None)"

lemma dir_files_sourced: "sourced file_path (dir_files io cm)"
  using load_entry_ok by (auto simp: sourced_def dir_files_def split: sum.splits if_splits)

lemma scan_entries_sound:
  "scan_entries io pre es names m = Ok (names', m') \<Longrightarrow> map_of m' k = Some e \<Longrightarrow>
   map_of m k = Some e \<or> (\<exists>p. Ok p \<in> set es \<and> cio_is_file io p \<and> extension p = Some ''toml'' \<and>
     load_namespace_config io pre p = Ok (Some e) \<and> full_name e = k)"
  by (induction io pre es names m rule: scan_entries.induct)
     (auto split: if_splits sum.splits option.splits)

text \<open>A scan makes the table the index of the directory, when no two files define the same name.\<close>

lemma scan_reflects:
  assumes "scan_namespace_configs io cm = (cm', Ok names)" "one_source full_name (dir_files io cm)"
  shows "reflects full_name (map_of (namespace_configs cm')) (dir_files io cm)"
proof -
  obtain es m where es: "cio_dir io (config_directory cm) = Ok es"
    "scan_entries io (prefix_of cm) es [] [] = Ok (names, m)" "cm' = cm\<lparr>namespace_configs := m\<rparr>"
    using assms(1) by (auto simp: scan_namespace_configs_def split: sum.splits)
  have d: "dir_files io cm p = Some e \<longleftrightarrow> Ok p \<in> set es \<and> cio_is_file io p \<and> extension p = Some ''toml'' \<and>
      load_namespace_config io (prefix_of cm) p = Ok (Some e)" for p e
    by (auto simp: dir_files_def es(1) split: sum.split)
  have sound: "\<exists>p. dir_files io cm p = Some e \<and> full_name e = k" if "map_of m k = Some e" for k e
    using scan_entries_sound [OF es(2) that] d by auto
  have "map_of m (full_name e) = Some e" if e: "dir_files io cm p = Some e" for p e
  proof -
    have "full_name e \<in> set (keys m)" using scan_entries_exact [OF es(2)] e d by auto
    then have "map_of m (full_name e) \<noteq> None" by (simp add: map_of_eq_None_iff)
    then obtain f where f: "map_of m (full_name e) = Some f" by blast
    then obtain q where "dir_files io cm q = Some f" "full_name f = full_name e" using sound by blast
    then show ?thesis using assms(2) e f by (metis one_source_def option.inject)
  qed
  then show ?thesis unfolding reflects_def using sound es(3) by auto
qed

section \<open>One change\<close>

text \<open>
  Between \<open>io\<close> and \<open>io'\<close> at most the file \<open>p\<close> of the directory changed, and \<open>ev\<close> is the event that the watcher
  sends for it.  Both directories can be read, no two files define the same name, \<open>p\<close> is written as
  the directory lists it and is not the file of the daemon.
\<close>

definition one_change :: "config_manager \<Rightarrow> config_io \<Rightarrow> config_io \<Rightarrow> string \<Rightarrow> config_file_event \<Rightarrow> bool" where
  "one_change cm io io' p ev =
     (is_ok (snd (scan_namespace_configs io cm)) \<and> is_ok (snd (scan_namespace_configs io' cm)) \<and>
      one_source full_name (dir_files io cm) \<and> one_source full_name (dir_files io' cm) \<and>
      (\<forall>q. q \<noteq> p \<longrightarrow> dir_files io' cm q = dir_files io cm q) \<and>
      (\<forall>q. dir_files io cm q \<noteq> None \<longrightarrow> same_path q p \<longrightarrow> q = p) \<and> \<not> same_path p (config_file_path cm) \<and>
      (ev \<in> {FileCreated p, FileModified p} \<and>
         (\<exists>es. cio_dir io' (config_directory cm) = Ok es \<and> Ok p \<in> set es) \<and> cio_is_file io' p \<and> extension p = Some ''toml'' \<or>
       ev = FileDeleted p \<and> dir_files io' cm p = None))"

text \<open>What the file defined before, if anything, it defines under the same name now, or it is gone.\<close>

definition keeps_name :: "config_manager \<Rightarrow> config_io \<Rightarrow> config_io \<Rightarrow> string \<Rightarrow> config_file_event \<Rightarrow> bool" where
  "keeps_name cm io io' p ev =
     (ev = FileDeleted p \<or>
      (\<forall>e. dir_files io cm p = Some e \<longrightarrow> (\<exists>e'. dir_files io' cm p = Some e' \<and> full_name e' = full_name e)))"

definition table_of :: "config_manager \<Rightarrow> string \<Rightarrow> config_entry option" where
  "table_of cm = map_of (namespace_configs cm)"

definition rescanned :: "config_io \<Rightarrow> config_manager \<Rightarrow> string \<Rightarrow> config_entry option" where
  "rescanned io cm = table_of (fst (scan_namespace_configs io cm))"

lemma rescanned_reflects:
  assumes "is_ok (snd (scan_namespace_configs io cm))" "one_source full_name (dir_files io cm)"
  shows "reflects full_name L (dir_files io cm) \<longleftrightarrow> L = rescanned io cm"
proof -
  obtain cm' names where s: "scan_namespace_configs io cm = (cm', Ok names)"
    using assms(1) by (cases "scan_namespace_configs io cm") (auto simp: is_ok_iff)
  have r: "reflects full_name (rescanned io cm) (dir_files io cm)"
    using scan_reflects [OF s assms(2)] s by (simp add: rescanned_def table_of_def)
  then show ?thesis using reflects_unique by metis
qed

lemma event_table:
  assumes "one_change cm io io' p ev" "reflects full_name (table_of cm) (dir_files io cm)" "distinct (keys (namespace_configs cm))"
  shows "reflects full_name (table_of (fst (handle_file_event io' ev cm))) (dir_files io' cm) \<longleftrightarrow> keeps_name cm io io' p ev"
proof -
  let ?D = "dir_files io cm" and ?D' = "dir_files io' cm" and ?m = "namespace_configs cm"
  have D': "?D' = ?D(p := ?D' p)" using assms(1) by (auto simp: one_change_def fun_eq_iff)
  have r: "reflects full_name (map_of ?m) ?D" using assms(2) by (simp add: table_of_def)
  show ?thesis
  proof (cases "ev = FileDeleted p")
    case True
    then have "?D' p = None" "\<And>q. ?D q \<noteq> None \<Longrightarrow> same_path q p \<longleftrightarrow> q = p"
      using assms(1) by (auto simp: one_change_def same_path_def)
    then have "reflects full_name (map_of (filter (\<lambda>(n, e). \<not> same_path (file_path e) p) ?m)) ?D'"
      using config_index.remove_reflects [OF assms(3) r dir_files_sourced, of p] D' by simp
    then show ?thesis using True
      by (simp add: keeps_name_def table_of_def remove_namespace_config_def Let_def)
  next
    case False
    then have ev: "handle_file_event io' ev cm = apsnd names_of (reload_namespace_config io' p cm)"
      and p: "?D' p = (case load_namespace_config io' (prefix_of cm) p of Inl _ \<Rightarrow> None | Inr x \<Rightarrow> x)"
      using assms(1) by (auto simp: one_change_def dir_files_def)
    show ?thesis
    proof (cases "?D' p")
      case None
      then have "namespace_configs (fst (handle_file_event io' ev cm)) = ?m"
        using p unfolding ev by (auto simp: reload_namespace_config_def split: sum.splits option.splits)
      then show ?thesis using config_index.keep_reflects [OF r dir_files_sourced, of p] D' None False
        by (simp add: table_of_def keeps_name_def)
    next
      case (Some e)
      then have l: "load_namespace_config io' (prefix_of cm) p = Ok (Some e)"
        using p by (auto split: sum.splits)
      then have "namespace_configs (fst (handle_file_event io' ev cm)) = insertM (full_name e) e ?m"
        unfolding ev by (simp add: reload_namespace_config_def)
      moreover have "file_path e = p" using load_entry_ok [OF l] by blast
      moreover have "one_source full_name (?D(p \<mapsto> e))"
        using assms(1) D' Some unfolding one_change_def by metis
      ultimately show ?thesis
        using config_index.put_reflects [OF assms(3) r dir_files_sourced, of e p] D' Some False
        by (auto simp: table_of_def keeps_name_def)
    qed
  qed
qed

lemma event_rescanned:
  assumes "one_change cm io io' p ev" "table_of cm = rescanned io cm" "distinct (keys (namespace_configs cm))"
  shows "table_of (fst (handle_file_event io' ev cm)) = rescanned io' cm \<longleftrightarrow> keeps_name cm io io' p ev"
proof -
  have s: "is_ok (snd (scan_namespace_configs io cm))" "one_source full_name (dir_files io cm)"
    "is_ok (snd (scan_namespace_configs io' cm))" "one_source full_name (dir_files io' cm)"
    using assms(1) by (simp_all add: one_change_def)
  have "reflects full_name (table_of cm) (dir_files io cm)"
    using assms(2) rescanned_reflects [OF s(1,2)] by simp
  then show ?thesis using event_table [OF assms(1) _ assms(3)] rescanned_reflects [OF s(3,4)] by simp
qed

section \<open>Many changes\<close>

text \<open>A history of changes, each handled before the next, that keep their names.\<close>

inductive followed :: "config_manager \<Rightarrow> config_io \<Rightarrow> (config_io \<times> config_file_event) list \<Rightarrow> config_io \<Rightarrow> bool"
  for cm where
  unchanged: "is_ok (snd (scan_namespace_configs io cm)) \<Longrightarrow> followed cm io [] io"
| changed: "one_change cm io io' p ev \<Longrightarrow> keeps_name cm io io' p ev \<Longrightarrow> followed cm io' evs io'' \<Longrightarrow>
    followed cm io ((io', ev) # evs) io''"

text \<open>The conditions read the settings of the manager, not its table, which alone an event changes.\<close>

lemma with_table [simp]:
  "prefix_of (cm\<lparr>namespace_configs := m\<rparr>) = prefix_of cm"
  "config_directory (cm\<lparr>namespace_configs := m\<rparr>) = config_directory cm"
  "dir_files io (cm\<lparr>namespace_configs := m\<rparr>) = dir_files io cm"
  "is_ok (snd (scan_namespace_configs io (cm\<lparr>namespace_configs := m\<rparr>))) = is_ok (snd (scan_namespace_configs io cm))"
  by (simp_all add: prefix_of_def config_directory_def dir_files_def scan_namespace_configs_def fun_eq_iff split: sum.split)

lemma with_table_change [simp]:
  "one_change (cm\<lparr>namespace_configs := m\<rparr>) io io' p ev = one_change cm io io' p ev"
  "keeps_name (cm\<lparr>namespace_configs := m\<rparr>) io io' p ev = keeps_name cm io io' p ev"
  by (simp_all add: one_change_def keeps_name_def)

lemma rescanned_with_table:
  "is_ok (snd (scan_namespace_configs io cm)) \<Longrightarrow> rescanned io (cm\<lparr>namespace_configs := m\<rparr>) = rescanned io cm"
  by (auto simp: rescanned_def table_of_def scan_namespace_configs_def config_directory_def prefix_of_def split: sum.splits)

lemma event_changes_table:
  assumes "one_change cm io io' p ev" "distinct (keys (namespace_configs cm))"
  obtains m where "fst (handle_file_event io' ev cm) = cm\<lparr>namespace_configs := m\<rparr>" "distinct (keys m)"
proof (cases "ev = FileDeleted p")
  case True
  then show thesis using that [of "filter (\<lambda>(n, e). \<not> same_path (file_path e) p) (namespace_configs cm)"] assms(2)
    by (simp add: remove_namespace_config_def Let_def distinct_map_filter)
next
  case False
  then have ev: "handle_file_event io' ev cm = apsnd names_of (reload_namespace_config io' p cm)"
    using assms(1) by (auto simp: one_change_def)
  show thesis
  proof (cases "load_namespace_config io' (prefix_of cm) p")
    case (Inr x)
    then show thesis using that [of "namespace_configs cm"] that [of "insertM (full_name (the x)) (the x) (namespace_configs cm)"] assms(2)
      by (cases x) (simp_all add: ev reload_namespace_config_def)
  qed (use that [of "namespace_configs cm"] assms(2) in \<open>simp add: ev reload_namespace_config_def\<close>)
qed

lemma followed_rescanned:
  assumes "followed cm io evs io'" "map_of m = rescanned io cm" "distinct (keys m)"
  shows "table_of (run_file_events evs (cm\<lparr>namespace_configs := m\<rparr>)) = rescanned io' cm"
  using assms
proof (induction arbitrary: m)
  case (unchanged io)
  then show ?case by (simp add: table_of_def)
next
  case (changed io io' p ev evs io'')
  let ?cm = "cm\<lparr>namespace_configs := m\<rparr>"
  have ok: "is_ok (snd (scan_namespace_configs io cm))" "is_ok (snd (scan_namespace_configs io' cm))"
    using changed.hyps(1) by (simp_all add: one_change_def)
  have c: "one_change ?cm io io' p ev" "distinct (keys (namespace_configs ?cm))" "keeps_name ?cm io io' p ev"
    "table_of ?cm = rescanned io ?cm"
    using changed ok by (simp_all add: table_of_def rescanned_with_table)
  obtain m' where m': "fst (handle_file_event io' ev ?cm) = cm\<lparr>namespace_configs := m'\<rparr>" "distinct (keys m')"
    using event_changes_table [OF c(1,2)] by auto
  have "map_of m' = rescanned io' cm"
    using event_rescanned [OF c(1,4,2)] c(3) m'(1) by (simp add: table_of_def rescanned_with_table [OF ok(2)])
  from changed.IH [OF this m'(2)] show ?case using m'(1) by simp
qed

section \<open>A file written after it appears\<close>

text \<open>What happens to one file within the window of its first event is dropped.\<close>

lemma watch_window:
  assumes "map_of m (path_join dir n) = Some t" "\<forall>(t', ev') \<in> set evs. toml_name ev' = Some n \<and> t' - t < d"
  shows "watch_events dir d evs m = []"
  using assms by (induction evs) (auto simp: watch_event_def debounced_def)

lemma watch_first:
  assumes "toml_name ev = Some n" "classify (re_mask ev) (path_join dir n) = Some e" "0 < d"
    and "\<forall>(t', ev') \<in> set evs. toml_name ev' = Some n \<and> t' - t < d"
  shows "watch_events dir d ((t, ev) # evs) [] = [(t, e)]"
proof -
  have "map_of (prune d t (insertM (path_join dir n) t [])) (path_join dir n) = Some t"
    using assms(3) map_of_filter_const [of "insertM (path_join dir n) t []" "\<lambda>x. t - x < d * 10" "path_join dir n"]
    by (simp add: prune_def)
  then show ?thesis using watch_window [of _ dir n t evs d] assms(1,2,4)
    by (simp add: watch_event_def debounced_def Let_def)
qed

section \<open>Properties\<close>

text \<open>
  C26: reloading one file is as good as reading the whole directory, and exactly then, in a directory in
  which no two files define the same name, before and after the change: when the table is what a scan
  gives and one file changes, the table after its event is what a scan gives now, unless the file had
  defined a namespace and now defines none or one of another name, whose old entry stays.  The one
  change (\<open>one_change\<close>) is of a \<^verbatim>\<open>.toml\<close> file of the directory under the path the directory lists, other
  than the daemon's own file, in a directory that can be read before and after.
\<close>

lemma reload_equals_rescan:
  assumes "one_change cm io io' p ev" "table_of cm = rescanned io cm" "distinct (keys (namespace_configs cm))"
  shows "table_of (fst (handle_file_event io' ev cm)) = rescanned io' cm \<longleftrightarrow> keeps_name cm io io' p ev"
  by (rule event_rescanned [OF assms])

text \<open>A directory in which a second file appears, and then the first one disappears.\<close>

definition reload_io :: "(string \<times> string) list \<Rightarrow> config_io" where
  "reload_io fs = (sample_io_with (map_of fs))\<lparr>cio_is_file := (\<lambda>p. containsM p fs), cio_dir := (\<lambda>_. Ok (map Ok (keys fs)))\<rparr>"

abbreviation web_file :: "string \<times> string" where "web_file \<equiv> (''a.toml'', ''web'')"
abbreviation db_file :: "string \<times> string" where "db_file \<equiv> (''b.toml'', ''db'')"

definition db_entry :: config_entry where "db_entry = (sample_entry ''db'')\<lparr>file_path := ''b.toml''\<rparr>"

lemma reload_loads:
  "load_namespace_config (reload_io [web_file]) ''sw'' ''a.toml'' = Ok (Some (sample_entry ''web''))"
  "load_namespace_config (reload_io [web_file, db_file]) ''sw'' ''a.toml'' = Ok (Some (sample_entry ''web''))"
  "load_namespace_config (reload_io [web_file, db_file]) ''sw'' ''b.toml'' = Ok (Some db_entry)"
  "load_namespace_config (reload_io [db_file]) ''sw'' ''b.toml'' = Ok (Some db_entry)"
  "extension ''a.toml'' = Some ''toml''" "extension ''b.toml'' = Some ''toml''"
  by code_simp+

lemma reload_dir_files:
  "dir_files (reload_io [web_file]) sample_manager = [''a.toml'' \<mapsto> sample_entry ''web'']"
  "dir_files (reload_io [web_file, db_file]) sample_manager = [''a.toml'' \<mapsto> sample_entry ''web'', ''b.toml'' \<mapsto> db_entry]"
  "dir_files (reload_io [db_file]) sample_manager = [''b.toml'' \<mapsto> db_entry]"
proof -
  have [simp]: "prefix_of sample_manager = ''sw''" by code_simp
  have [simp]: "cio_dir (reload_io fs) d = Ok (map Ok (keys fs))" "cio_is_file (reload_io fs) p = containsM p fs" for fs d p
    by (simp_all add: reload_io_def)
  show "dir_files (reload_io [web_file]) sample_manager = [''a.toml'' \<mapsto> sample_entry ''web'']"
    "dir_files (reload_io [web_file, db_file]) sample_manager = [''a.toml'' \<mapsto> sample_entry ''web'', ''b.toml'' \<mapsto> db_entry]"
    "dir_files (reload_io [db_file]) sample_manager = [''b.toml'' \<mapsto> db_entry]"
    by (simp_all add: fun_eq_iff dir_files_def reload_loads containsM_def)
qed

lemma reload_scans:
  "snd (scan_namespace_configs (reload_io [web_file]) sample_manager) = Ok [''sw-web'']"
  "snd (scan_namespace_configs (reload_io [web_file, db_file]) sample_manager) = Ok [''sw-web'', ''sw-db'']"
  "snd (scan_namespace_configs (reload_io [db_file]) sample_manager) = Ok [''sw-db'']"
  by code_simp+

lemma reload_changes:
  "one_change sample_manager (reload_io [web_file]) (reload_io [web_file, db_file]) ''b.toml'' (FileCreated ''b.toml'')"
  "one_change sample_manager (reload_io [web_file, db_file]) (reload_io [db_file]) ''a.toml'' (FileDeleted ''a.toml'')"
proof -
  have n: "full_name (sample_entry ''web'') = ''sw-web''" "full_name db_entry = ''sw-db''" by code_simp+
  have p: "\<not> same_path ''b.toml'' (config_file_path sample_manager)" "\<not> same_path ''a.toml'' (config_file_path sample_manager)"
    "\<not> same_path ''a.toml'' ''b.toml''" "\<not> same_path ''b.toml'' ''a.toml''" by code_simp+
  have d: "cio_dir (reload_io fs) x = Ok (map Ok (keys fs))" "cio_is_file (reload_io fs) q = containsM q fs" for fs x q
    by (simp_all add: reload_io_def)
  show "one_change sample_manager (reload_io [web_file]) (reload_io [web_file, db_file]) ''b.toml'' (FileCreated ''b.toml'')"
    "one_change sample_manager (reload_io [web_file, db_file]) (reload_io [db_file]) ''a.toml'' (FileDeleted ''a.toml'')"
    using n p reload_loads(5,6) unfolding one_change_def reload_scans reload_dir_files d
    by (auto simp: one_source_def containsM_def split: if_splits)
qed

lemma reload_equals_rescan_witness:
  "table_of (fst (handle_file_event (reload_io [web_file, db_file]) (FileCreated ''b.toml'')
      (sample_manager\<lparr>namespace_configs := [(''sw-web'', sample_entry ''web'')]\<rparr>))) =
   rescanned (reload_io [web_file, db_file]) (sample_manager\<lparr>namespace_configs := [(''sw-web'', sample_entry ''web'')]\<rparr>)"
proof -
  let ?cm = "sample_manager\<lparr>namespace_configs := [(''sw-web'', sample_entry ''web'')]\<rparr>"
  have "fst (scan_namespace_configs (reload_io [web_file]) ?cm) = ?cm" by code_simp
  then have "table_of ?cm = rescanned (reload_io [web_file]) ?cm" by (simp add: rescanned_def)
  then show ?thesis
    using reload_equals_rescan [of ?cm "reload_io [web_file]" "reload_io [web_file, db_file]" "''b.toml''" "FileCreated ''b.toml''"]
      reload_changes(1) by (simp add: keeps_name_def reload_dir_files)
qed

text \<open>
  C38: over any history of changes of single files (\<open>one_change\<close>), each handled before the next, in which
  a file keeps the name it defines or is deleted and at no time two files define the same name, the
  table is never stale: it ends as a scan of the last directory would leave it.
\<close>

lemma never_stale:
  assumes "followed cm io evs io'" "table_of cm = rescanned io cm" "distinct (keys (namespace_configs cm))"
  shows "table_of (run_file_events evs cm) = rescanned io' cm"
  using followed_rescanned [OF assms(1) _ assms(3)] assms(2) by (simp add: table_of_def)

lemma never_stale_witness:
  "table_of (run_file_events [(reload_io [web_file, db_file], FileCreated ''b.toml''), (reload_io [db_file], FileDeleted ''a.toml'')]
     (fst (scan_namespace_configs (reload_io [web_file]) sample_manager))) ''sw-db'' = Some db_entry"
proof -
  let ?cm = "sample_manager\<lparr>namespace_configs := [(''sw-web'', sample_entry ''web'')]\<rparr>"
  have s: "fst (scan_namespace_configs (reload_io [web_file]) sample_manager) = ?cm"
    "fst (scan_namespace_configs (reload_io [web_file]) ?cm) = ?cm" by code_simp+
  have "followed ?cm (reload_io [web_file]) [(reload_io [web_file, db_file], FileCreated ''b.toml''),
      (reload_io [db_file], FileDeleted ''a.toml'')] (reload_io [db_file])"
    by (rule followed.changed [where p = "''b.toml''", OF _ _ followed.changed [where p = "''a.toml''", OF _ _ followed.unchanged]])
      (simp_all add: reload_changes keeps_name_def reload_dir_files reload_scans)
  moreover have "table_of ?cm = rescanned (reload_io [web_file]) ?cm" using s(2) by (simp add: rescanned_def)
  ultimately have "table_of (run_file_events [(reload_io [web_file, db_file], FileCreated ''b.toml''),
      (reload_io [db_file], FileDeleted ''a.toml'')] ?cm) = rescanned (reload_io [db_file]) ?cm"
    by (rule never_stale) simp
  moreover have "rescanned (reload_io [db_file]) ?cm ''sw-db'' = Some db_entry" by code_simp
  ultimately show ?thesis unfolding s(1) by simp
qed

text \<open>
  The condition on the names is needed: when two files define the same namespace, the deletion of the one
  that was loaded last drops the namespace from the table, though a scan finds it in the other.
\<close>

lemma second_source_dropped:
  "(let io = reload_io [web_file, (''b.toml'', ''web'')];
        cm = fst (handle_file_event (reload_io [web_file]) (FileDeleted ''b.toml'') (fst (scan_namespace_configs io sample_manager)))
    in (table_of cm ''sw-web'', map_option file_path (rescanned (reload_io [web_file]) cm ''sw-web''))) = (None, Some ''a.toml'')"
  by code_simp

text \<open>
  C33: a file that cannot be loaded yet when its creation is handled, as it is still empty, and that is written
  within the window, is never loaded: only its creation is sent, the table stays, and is not what a scan
  of the directory gives, in which no other file defines its name.
\<close>

lemma written_file_lost:
  assumes "toml_name ev = Some n" "classify (re_mask ev) (path_join dir n) = Some (FileCreated (path_join dir n))" "0 < d"
    and "\<forall>(t', ev') \<in> set evs. toml_name ev' = Some n \<and> t' - t < d"
    and "\<not> same_path (path_join dir n) (config_file_path cm)" "load_namespace_config (io t) (prefix_of cm) (path_join dir n) = Inl err"
    and "dir_files io' cm (path_join dir n) = Some e" "table_of cm (full_name e) = None"
    and "is_ok (snd (scan_namespace_configs io' cm))" "one_source full_name (dir_files io' cm)"
  shows "run_file_events (map (\<lambda>(t, e). (io t, e)) (watch_events dir d ((t, ev) # evs) [])) cm = cm \<and>
    table_of cm \<noteq> rescanned io' cm"
proof
  show "run_file_events (map (\<lambda>(t, e). (io t, e)) (watch_events dir d ((t, ev) # evs) [])) cm = cm"
    unfolding watch_first [OF assms(1-4)] using assms(5,6) by (simp add: reload_namespace_config_def)
  have "reflects full_name (rescanned io' cm) (dir_files io' cm)"
    using rescanned_reflects [OF assms(9,10)] by blast
  then have "rescanned io' cm (full_name e) = Some e" using assms(7) by (auto simp: reflects_def)
  then show "table_of cm \<noteq> rescanned io' cm" using assms(8) by auto
qed

lemma written_file_lost_witness:
  "table_of (sample_manager\<lparr>namespace_configs := [(''sw-web'', sample_entry ''web'')]\<rparr>) \<noteq>
   rescanned (reload_io [web_file, db_file]) (sample_manager\<lparr>namespace_configs := [(''sw-web'', sample_entry ''web'')]\<rparr>)"
proof -
  let ?cm = "sample_manager\<lparr>namespace_configs := [(''sw-web'', sample_entry ''web'')]\<rparr>"
  let ?ev = "\<lambda>f. \<lparr>re_mask = [f], re_name = Some (Some ''b.toml'')\<rparr>"
  have l: "\<not> is_ok (load_namespace_config (reload_io [web_file]) (prefix_of ?cm) (path_join [] ''b.toml''))" by code_simp
  then obtain err where "load_namespace_config (reload_io [web_file]) (prefix_of ?cm) (path_join [] ''b.toml'') = Inl err"
    by (cases "load_namespace_config (reload_io [web_file]) (prefix_of ?cm) (path_join [] ''b.toml'')") auto
  moreover have "path_join [] ''b.toml'' = ''b.toml''" "toml_name (?ev f) = Some ''b.toml''"
    "\<not> same_path ''b.toml'' (config_file_path ?cm)" "full_name db_entry = ''sw-db''" for f by code_simp+
  moreover have "one_source full_name (dir_files (reload_io [web_file, db_file]) ?cm)"
    using reload_changes(1) by (simp add: one_change_def)
  ultimately show ?thesis
    using written_file_lost [of "?ev CREATE" "''b.toml''" "[]" 5 "[(3, ?ev CLOSE_WRITE)]" 1 ?cm "\<lambda>t. reload_io [web_file]" err
        "reload_io [web_file, db_file]" db_entry] reload_dir_files(2)
    by (simp add: classify_def reload_scans table_of_def)
qed

end
