(* ===== verification/Reaction.thy ===== *)
theory Reaction
  imports EventLoop HotReload
begin

text \<open>
  From a file to a namespace: what the configuration thread of \<^verbatim>\<open>event_loop.rs\<close> makes of an event of the
  watcher, through the table of \<^verbatim>\<open>config.rs\<close>, the synchronization of \<^verbatim>\<open>namespace_state.rs\<close> and the
  simulated backend of \<^verbatim>\<open>netlink.rs\<close>, to the event the main thread turns into a signal.
\<close>

text \<open>The configuration thread takes an event, handles it and synchronizes, at the times given.\<close>

definition react :: "'k sys \<Rightarrow> base64 \<Rightarrow> config_io \<Rightarrow> nat \<Rightarrow> 'k daemon_state \<Rightarrow> 'k daemon_state" where
  "react y b64 io now s = config_step y b64 io now (config_step y b64 io now (config_step y b64 io now s))"

lemma entries_keyed: "entries_ok b64 m \<Longrightarrow> keyed m"
  by (auto simp: entries_ok_def keyed_def)

lemma synced_new_status:
  "status (synced now e None None cr) = (if cr then Active else Failed)"
  by (cases cr) (simp_all add: update_from_config_def touch_def set_status_def)

lemma react_created:
  assumes "dm_config s = CfgReceive" "dm_files s = ev # rest" "ev \<in> {FileCreated p, FileModified p}"
    "\<not> same_path p (config_file_path (sv_config (dm_service s)))"
    "load_namespace_config io (prefix_of (sv_config (dm_service s))) p = Ok (Some e)"
  shows "react y b64 io now s = (let cm = (sv_config (dm_service s))\<lparr>namespace_configs :=
       insertM (full_name e) e (namespace_configs (sv_config (dm_service s)))\<rparr>
     in (run_sync y b64 now (change_events ''config_change'')
          ((on_service (\<lambda>svc. svc\<lparr>sv_config := cm\<rparr>) (s\<lparr>dm_files := rest\<rparr>))\<lparr>dm_config := CfgSync\<rparr>))\<lparr>dm_config := CfgCheck\<rparr>)"
  using assms by (auto simp: react_def config_step_def reload_namespace_config_def names_of_def on_service_def Let_def)

section \<open>Properties\<close>

text \<open>
  C39: a configuration file that appears becomes a namespace: on the simulated system, when the thread has
  taken its event, a file that loads as a managed namespace, neither tracked nor present, is in the table
  under its full name and tracked; the namespace exists, is active and announced to the main loop
  exactly when the system takes its name, and failed otherwise; and no other namespace is lost.
\<close>

lemma file_becomes_namespace:
  assumes "entries_ok b64' (namespace_configs (sv_config (dm_service s)))" "sim_ok (net (sv_states (dm_service s)))"
    and "dm_config s = CfgReceive" "dm_files s = ev # rest" "ev \<in> {FileCreated p, FileModified p}"
    and "\<not> same_path p (config_file_path (sv_config (dm_service s)))"
    and "load_namespace_config io (prefix_of (sv_config (dm_service s))) p = Ok (Some e)" "cio_b64 io = b64'"
    and "get_namespace_state (sv_states (dm_service s)) (full_name e) = None"
    and "full_name e \<notin> sim_names (net (sv_states (dm_service s)))"
  shows "let s' = react y b64 io now s; taken = is_ok (validate_namespace_name (full_name e)) in
     get_namespace_config (sv_config (dm_service s')) (full_name e) = Some e \<and>
     (\<exists>st. get_namespace_state (sv_states (dm_service s')) (full_name e) = Some st \<and>
        status st = (if taken then Active else Failed)) \<and>
     (full_name e \<in> sim_names (net (sv_states (dm_service s'))) \<longleftrightarrow> taken) \<and>
     (EvCreated (full_name e) ''config_change'' \<in> set (dm_queue s') \<longleftrightarrow>
        taken \<or> EvCreated (full_name e) ''config_change'' \<in> set (dm_queue s)) \<and>
     sim_names (net (sv_states (dm_service s))) \<subseteq> sim_names (net (sv_states (dm_service s')))"
proof -
  let ?svc = "dm_service s" and ?n = "full_name e"
  let ?cm = "(sv_config ?svc)\<lparr>namespace_configs := insertM ?n e (namespace_configs (sv_config ?svc))\<rparr>"
  obtain r mg where sync: "synchronize_state (netlink_ops y b64) now ?cm (sv_states ?svc) = (r, mg)" by fastforce
  have "keyed (namespace_configs ?cm)"
    using entries_ok_insert [OF assms(1)] load_entry_ok [OF assms(7)] assms(8) by (auto intro!: entries_keyed)
  note ref = sim.sync_refines(1,2,4) [OF sim_onI [OF assms(2)] this sync]
  let ?N = "sim_names (net (sv_states ?svc))" and ?S = "map_of (namespace_states (sv_states ?svc))"
  let ?taken = "is_ok (validate_namespace_name ?n)"
  have c: "map_of (namespace_configs ?cm) ?n = Some e" by simp
  have new: "?S ?n = None" "creatable ?N ?n \<longleftrightarrow> ?taken" using assms(9,10) by (simp_all add: get_namespace_state_def creatable_def)
  have a: "sim_names (net mg) = fst (abs_sync now (map_of (namespace_configs ?cm)) (prefix_of ?cm) (?N, ?S))"
    "map_of (namespace_states mg) = snd (abs_sync now (map_of (namespace_configs ?cm)) (prefix_of ?cm) (?N, ?S))"
    using ref(1) by (simp_all add: abs_of_def prod_eq_iff)
  have names: "?n \<in> sim_names (net mg) \<longleftrightarrow> ?taken" "?N \<subseteq> sim_names (net mg)"
    unfolding a(1) using c new assms(10) by (auto simp: abs_sync_def)
  have state: "map_of (namespace_states mg) ?n = Some (synced now e None None ?taken)"
    unfolding a(2) using c new assms(10) by (simp add: abs_sync_def present_info_def)
  have created: "?n \<in> set (sr_created r) \<longleftrightarrow> ?taken"
    unfolding ref(3) using c new assms(10) by (auto simp: map_of_eq_None_iff)
  have s': "react y b64 io now s = (send_events (change_events ''config_change'' r)
      (on_service (\<lambda>svc. svc\<lparr>sv_states := mg\<rparr>)
        ((on_service (\<lambda>svc. svc\<lparr>sv_config := ?cm\<rparr>) (s\<lparr>dm_files := rest\<rparr>))\<lparr>dm_config := CfgSync\<rparr>)))\<lparr>dm_config := CfgCheck\<rparr>"
    unfolding react_created [OF assms(3-7)] Let_def using sync by (simp add: run_sync_def on_service_def)
  have events: "EvCreated ?n ''config_change'' \<in> set (change_events ''config_change'' r) \<longleftrightarrow> ?taken"
    using created by (auto simp: change_events_def created_events_def)
  show ?thesis
    unfolding Let_def s' using names state events
    by (auto simp: send_events_def on_service_def get_namespace_config_def get_namespace_state_def synced_new_status)
qed

definition react_start :: "string list daemon_state" where
  "react_start = (started (sample_service\<lparr>sv_config := sample_manager,
       sv_states := state_manager_new \<lparr>nl_backend = Simulated new_sim, nl_kernel = []\<rparr>\<rparr>))
     \<lparr>dm_config := CfgReceive, dm_files := [FileCreated ''b.toml'']\<rparr>"

lemma file_becomes_namespace_witness:
  "''sw-db'' \<in> sim_names (net (sv_states (dm_service
     (react file_sys no_base64 (reload_io [web_file, db_file]) 5 react_start))))"
proof -
  have f: "sv_config (dm_service react_start) = sample_manager" "dm_config react_start = CfgReceive"
    "dm_files react_start = [FileCreated ''b.toml'']"
    "sv_states (dm_service react_start) = state_manager_new \<lparr>nl_backend = Simulated new_sim, nl_kernel = []\<rparr>"
    by (simp_all add: react_start_def started_def)
  have n: "full_name db_entry = ''sw-db''" "validate_namespace_name ''sw-db'' = Ok ()" "prefix_of sample_manager = ''sw''"
    "\<not> same_path ''b.toml'' (config_file_path sample_manager)" by code_simp+
  have "entries_ok no_base64 (namespace_configs (sv_config (dm_service react_start)))"
    by (simp add: f entries_ok_def sample_manager_def manager_from_config_def)
  moreover have "sim_ok (net (sv_states (dm_service react_start)))"
    "full_name db_entry \<notin> sim_names (net (sv_states (dm_service react_start)))"
    "get_namespace_state (sv_states (dm_service react_start)) (full_name db_entry) = None"
    by (simp_all add: f state_manager_new_def sim_new_ok get_namespace_state_def)
  moreover have "load_namespace_config (reload_io [web_file, db_file]) (prefix_of (sv_config (dm_service react_start))) ''b.toml'' =
      Ok (Some db_entry)" using reload_loads(3) by (simp add: f n)
  moreover have "cio_b64 (reload_io [web_file, db_file]) = no_base64" by (simp add: reload_io_def sample_io_with_def)
  ultimately show ?thesis
    using file_becomes_namespace [of no_base64 react_start "FileCreated ''b.toml''" "[]" "''b.toml''" "reload_io [web_file, db_file]" db_entry file_sys no_base64 5] f n
    by (simp add: Let_def)
qed

end
