(* ===== verification/Locks.thy ===== *)
theory Locks
  imports Sections
begin

text \<open>
  The mutexes of the daemon: of the service's state, of the configuration manager and of the state
  manager, and the order \<^verbatim>\<open>event_loop.rs\<close> requires.  What a piece of code does with them is the list of
  its acquisitions and releases; a thread runs such lists one after the other and waits for a mutex
  that is held.
\<close>

section \<open>Locks in order\<close>

fun lock_rank :: "lock \<Rightarrow> nat" where
  "lock_rank ServiceLock = 0"
| "lock_rank ConfigLock = 1"
| "lock_rank StateLock = 2"

lemma lock_rank_inject [simp]: "lock_rank a = lock_rank b \<longleftrightarrow> a = b"
  by (cases a; cases b) simp_all

instantiation lock :: linorder
begin

definition less_eq_lock :: "lock \<Rightarrow> lock \<Rightarrow> bool" where "less_eq_lock a b = (lock_rank a \<le> lock_rank b)"
definition less_lock :: "lock \<Rightarrow> lock \<Rightarrow> bool" where "less_lock a b = (lock_rank a < lock_rank b)"

instance
  by standard (auto simp: less_eq_lock_def less_lock_def)

end

datatype 'l action = Acq 'l | Rel 'l

text \<open>A thread is the locks it holds and what it still does.\<close>

type_synonym 'l thread = "'l list \<times> 'l action list"

inductive lock_step :: "'l thread list \<Rightarrow> 'l thread list \<Rightarrow> bool" where
  acquire: "i < length ts \<Longrightarrow> ts ! i = (H, Acq l # as) \<Longrightarrow> (\<And>j. j < length ts \<Longrightarrow> l \<notin> set (fst (ts ! j))) \<Longrightarrow>
    lock_step ts (ts[i := (l # H, as)])"
| release: "i < length ts \<Longrightarrow> ts ! i = (H, Rel l # as) \<Longrightarrow> l \<in> set H \<Longrightarrow>
    lock_step ts (ts[i := (remove1 l H, as)])"

inductive_cases lock_stepE: "lock_step ts ts'"

text \<open>Acquiring upwards, releasing what is held, ending without a lock.\<close>

fun disciplined :: "'l :: linorder list \<Rightarrow> 'l action list \<Rightarrow> bool" where
  "disciplined H [] = (H = [])"
| "disciplined H (Acq l # as) = ((\<forall>h \<in> set H. h < l) \<and> disciplined (l # H) as)"
| "disciplined H (Rel l # as) = (l \<in> set H \<and> disciplined (remove1 l H) as)"

lemma disciplined_append: "disciplined H as \<Longrightarrow> disciplined [] bs \<Longrightarrow> disciplined H (as @ bs)"
  by (induction H as rule: disciplined.induct) auto

lemma disciplined_concat: "(\<And>as. as \<in> set xs \<Longrightarrow> disciplined [] as) \<Longrightarrow> disciplined [] (concat xs)"
  by (induction xs) (auto intro: disciplined_append)

definition all_disciplined :: "'l :: linorder thread list \<Rightarrow> bool" where
  "all_disciplined ts = (\<forall>(H, as) \<in> set ts. disciplined H as)"

lemma disciplined_nth: "all_disciplined ts \<Longrightarrow> i < length ts \<Longrightarrow> disciplined (fst (ts ! i)) (snd (ts ! i))"
  using nth_mem by (fastforce simp: all_disciplined_def)

lemma step_disciplined:
  assumes "lock_step ts ts'" "all_disciplined ts"
  shows "all_disciplined ts'"
proof -
  have update: "all_disciplined (ts[i := (H, as)])" if "disciplined H as" for i H as
    using assms(2) that set_update_subset_insert [of ts i "(H, as)"] by (auto simp: all_disciplined_def)
  from assms(1) show ?thesis
  proof (rule lock_stepE)
    fix i H l as assume h: "ts' = ts[i := (l # H, as)]" "i < length ts" "ts ! i = (H, Acq l # as)"
    then show ?thesis using disciplined_nth [OF assms(2) h(2)] by (auto intro: update)
  next
    fix i H l as assume h: "ts' = ts[i := (remove1 l H, as)]" "i < length ts" "ts ! i = (H, Rel l # as)"
    then show ?thesis using disciplined_nth [OF assms(2) h(2)] by (auto intro: update)
  qed
qed

text \<open>No two threads hold the same lock.\<close>

definition exclusive :: "'l thread list \<Rightarrow> bool" where
  "exclusive ts = (\<forall>i < length ts. \<forall>j < length ts. i \<noteq> j \<longrightarrow> set (fst (ts ! i)) \<inter> set (fst (ts ! j)) = {})"

lemma exclusive_update:
  assumes "exclusive ts" "i < length ts" "\<And>j. j < length ts \<Longrightarrow> j \<noteq> i \<Longrightarrow> set H \<inter> set (fst (ts ! j)) = {}"
  shows "exclusive (ts[i := (H, as)])"
  unfolding exclusive_def
proof (intro allI impI)
  fix a b assume "a < length (ts[i := (H, as)])" "b < length (ts[i := (H, as)])" and ne: "a \<noteq> b"
  then have "a < length ts" "b < length ts" by simp_all
  then show "set (fst (ts[i := (H, as)] ! a)) \<inter> set (fst (ts[i := (H, as)] ! b)) = {}"
    using assms ne unfolding exclusive_def
    by (cases "a = i"; cases "b = i") (simp_all add: Int_commute)
qed

lemma step_exclusive: "lock_step ts ts' \<Longrightarrow> exclusive ts \<Longrightarrow> exclusive ts'"
proof (erule lock_stepE)
  fix i H l as
  assume ex: "exclusive ts" and h: "ts' = ts[i := (l # H, as)]" "i < length ts" "ts ! i = (H, Acq l # as)"
    "\<And>j. j < length ts \<Longrightarrow> l \<notin> set (fst (ts ! j))"
  have "set H \<inter> set (fst (ts ! j)) = {}" if "j < length ts" "j \<noteq> i" for j
    using ex h(2,3) that unfolding exclusive_def by (metis fst_conv)
  then show "exclusive ts'" unfolding h(1) using h(4) by (intro exclusive_update [OF ex h(2)]) simp
next
  fix i H l as
  assume ex: "exclusive ts" and h: "ts' = ts[i := (remove1 l H, as)]" "i < length ts" "ts ! i = (H, Rel l # as)"
  have "set H \<inter> set (fst (ts ! j)) = {}" if "j < length ts" "j \<noteq> i" for j
    using ex h(2,3) that unfolding exclusive_def by (metis fst_conv)
  then show "exclusive ts'" unfolding h(1) using set_remove1_subset [of l H]
    by (intro exclusive_update [OF ex h(2)]) blast
qed

section \<open>No deadlock\<close>

definition finished :: "'l thread list \<Rightarrow> bool" where
  "finished ts = (\<forall>t \<in> set ts. snd t = [])"

text \<open>The next lock of a thread that waits.\<close>

definition waits_for :: "'l thread \<Rightarrow> 'l \<Rightarrow> bool" where
  "waits_for t l = (\<exists>as. snd t = Acq l # as)"

lemma stuck_waits:
  assumes "all_disciplined ts" "\<nexists>ts'. lock_step ts ts'" "i < length ts" "snd (ts ! i) \<noteq> []"
  obtains l j where "waits_for (ts ! i) l" "j < length ts" "l \<in> set (fst (ts ! j))"
proof -
  obtain H a as where t: "ts ! i = (H, a # as)" using assms(4) by (cases "ts ! i"; cases "snd (ts ! i)") auto
  show thesis
  proof (cases a)
    case (Rel l)
    then have "l \<in> set H" using disciplined_nth [OF assms(1,3)] t by simp
    then have "lock_step ts (ts[i := (remove1 l H, as)])" using assms(3) t Rel by (intro lock_step.release) simp_all
    then show thesis using assms(2) by blast
  next
    case (Acq l)
    then have "\<exists>j < length ts. l \<in> set (fst (ts ! j))"
      using assms(2,3) t lock_step.acquire [of i ts H l as] by blast
    then show thesis using that t Acq by (auto simp: waits_for_def)
  qed
qed

lemma not_stuck:
  fixes ts :: "'l :: linorder thread list"
  assumes "all_disciplined ts" "\<not> finished ts"
  shows "\<exists>ts'. lock_step ts ts'"
proof (rule ccontr)
  assume stuck: "\<nexists>ts'. lock_step ts ts'"
  define W where "W = {l. \<exists>i < length ts. waits_for (ts ! i) l}"
  have "W = (\<Union>i < length ts. {l. waits_for (ts ! i) l})" by (auto simp: W_def)
  moreover have "finite {l. waits_for t l}" for t :: "'l thread"
  proof -
    have "{l. waits_for t l} \<subseteq> (case snd t of Acq l # as \<Rightarrow> {l} | _ \<Rightarrow> {})"
      by (auto simp: waits_for_def)
    then show ?thesis by (rule finite_subset) (auto split: list.split action.split)
  qed
  ultimately have "finite W" by simp
  obtain i where i: "i < length ts" "snd (ts ! i) \<noteq> []"
    using assms(2) by (auto simp: finished_def in_set_conv_nth)
  then have "W \<noteq> {}" using stuck_waits [OF assms(1) stuck i] by (metis (mono_tags, lifting) W_def empty_iff mem_Collect_eq)
  then obtain i where i: "i < length ts" "waits_for (ts ! i) (Max W)"
    using Max_in [OF \<open>finite W\<close>] unfolding W_def by blast
  then have "snd (ts ! i) \<noteq> []" by (auto simp: waits_for_def)
  then obtain l j where j: "waits_for (ts ! i) l" "j < length ts" "l \<in> set (fst (ts ! j))"
    using stuck_waits [OF assms(1) stuck i(1)] by blast
  then have j: "j < length ts" "Max W \<in> set (fst (ts ! j))" using i(2) by (auto simp: waits_for_def)
  have d: "disciplined (fst (ts ! j)) (snd (ts ! j))" by (rule disciplined_nth [OF assms(1) j(1)])
  then have "snd (ts ! j) \<noteq> []" using j(2) by auto
  then obtain m where m: "waits_for (ts ! j) m" using stuck_waits [OF assms(1) stuck j(1)] by blast
  then have "Max W < m" using d j(2) by (auto simp: waits_for_def)
  moreover have "m \<in> W" using m j(1) by (auto simp: W_def)
  ultimately show False using Max_ge [OF \<open>finite W\<close>] by (metis leD)
qed

section \<open>The daemon's locks\<close>

definition within :: "'l \<Rightarrow> 'l action list \<Rightarrow> 'l action list" where
  "within l as = Acq l # as @ [Rel l]"

definition one :: "'l \<Rightarrow> 'l action list" where "one l = within l []"

text \<open>
  What a method does with the locks: nothing when its arguments are refused, else it holds the lock of
  the service around the locks of its sections.
\<close>

inductive call_locks :: "'k service_io \<Rightarrow> string option \<Rightarrow> nat \<Rightarrow> dbus_call \<Rightarrow> lock action list \<Rightarrow> bool"
  for io sender now c where
  rejected: "call_guard io c = Err e \<Longrightarrow> call_locks io sender now c []"
| served: "call_guard io c = Ok () \<Longrightarrow>
    lock_path (tryP (section_op None (authorize (call_action c) sender)) (\<lambda>_. call_body io now c)) r ls \<Longrightarrow>
    call_locks io sender now c (within ServiceLock (concat (map one ls)))"

text \<open>The possible locks of each method: the authorization may fail, a namespace be missing, the kernel refuse.\<close>

fun body_locks :: "dbus_call \<Rightarrow> lock list list" where
  "body_locks CallListNamespaces = [[], [ConfigLock, StateLock]]"
| "body_locks (CallGetNamespaceStatus _) = [[], [ConfigLock, StateLock]]"
| "body_locks (CallDeleteNamespace _) = [[], [ConfigLock, StateLock], [ConfigLock, StateLock, StateLock]]"
| "body_locks CallReloadConfiguration = [[], [ConfigLock]]"
| "body_locks (CallValidateConfiguration _) = [[]]"
| "body_locks CallGetDaemonStatus = [[], [StateLock, ConfigLock]]"
| "body_locks (CallRestartNamespace _) = [[], [ConfigLock], [ConfigLock, ConfigLock, StateLock],
     [ConfigLock, ConfigLock, StateLock, StateLock, ConfigLock],
     [ConfigLock, ConfigLock, StateLock, StateLock, ConfigLock, ConfigLock, StateLock]]"
| "body_locks (CallExecAuthorize _) = [[], [ConfigLock, StateLock]]"

lemma body_locks_Nil: "[] \<in> set (body_locks c)"
  by (cases c) simp_all

lemma body_locks_path: "lock_path (call_body io now c) r ls \<Longrightarrow> ls \<in> set (body_locks c)"
  by (cases c) (auto simp: try_simps elim!: lock_path_try dest!: lock_path_bind delete_locks_path restart_locks_path
      split: option.splits if_splits)

lemma call_locks_path:
  assumes "call_locks io sender now c as"
  shows "as = [] \<or> (\<exists>ls \<in> set (body_locks c). as = within ServiceLock (concat (map one ls)))"
  using assms
proof (cases rule: call_locks.cases)
  case (served r ls)
  from served(3) have "ls \<in> set (body_locks c)"
    by (rule lock_path_try) (auto simp: body_locks_Nil dest: body_locks_path)
  with served(1) show ?thesis by blast
qed simp

text \<open>The start and the shutdown of the main thread, and the two other threads.\<close>

definition start_locks :: "lock action list" where
  "start_locks = one ConfigLock @ one ConfigLock"

text \<open>
  The shutdown reads whether to clean up and, if so, the names; each of the names for which a netlink
  manager can be made (\<open>made\<close>) is cleaned up under the lock of the configuration.
\<close>

definition shutdown_locks :: "bool \<Rightarrow> bool list \<Rightarrow> lock action list" where
  "shutdown_locks cleanup made = one ConfigLock @
     (if cleanup then one ConfigLock @ concat (map (\<lambda>ok. if ok then one ConfigLock else []) made) else [])"

definition sync_locks :: "lock action list" where
  "sync_locks = within ConfigLock (one StateLock)"

definition config_thread_locks :: "lock action list list" where
  "config_thread_locks = [one ConfigLock, one ConfigLock @ sync_locks]"

definition sync_thread_locks :: "lock action list list" where
  "sync_thread_locks = [sync_locks, one StateLock, one StateLock @ sync_locks]"

lemma one_disciplined: "disciplined [] (one l)"
  by (simp add: one_def within_def)

lemmas lock_part_defs = one_def within_def start_locks_def
  sync_locks_def config_thread_locks_def sync_thread_locks_def less_lock_def

lemma sections_disciplined:
  "ServiceLock \<notin> set ls \<Longrightarrow> disciplined [] (within ServiceLock (concat (map one ls)))"
proof -
  assume h: "ServiceLock \<notin> set ls"
  have "disciplined [ServiceLock] (concat (map one ls) @ [Rel ServiceLock])"
    using h
  proof (induction ls)
    case (Cons l ls)
    then have "ServiceLock < l" by (cases l) (simp_all add: less_lock_def)
    with Cons show ?case by (simp add: one_def within_def)
  qed simp
  then show ?thesis by (simp add: within_def)
qed

lemma body_locks_inner: "ls \<in> set (body_locks c) \<Longrightarrow> ServiceLock \<notin> set ls"
  by (cases c) auto

lemma call_disciplined: "call_locks io sender now c as \<Longrightarrow> disciplined [] as"
  by (drule call_locks_path) (metis disciplined.simps(1) sections_disciplined body_locks_inner)

lemma shutdown_disciplined: "disciplined [] (shutdown_locks cleanup made)"
  unfolding shutdown_locks_def
  by (auto intro!: disciplined_append disciplined_concat one_disciplined simp: one_disciplined)

lemma thread_disciplined:
  "disciplined [] start_locks" "as \<in> set config_thread_locks \<Longrightarrow> disciplined [] as"
  "as \<in> set sync_thread_locks \<Longrightarrow> disciplined [] as"
  by (auto simp: lock_part_defs)

text \<open>The daemon: the calls it serves, what the other threads do, and its shutdown.\<close>

definition daemon_threads ::
  "lock action list list \<Rightarrow> lock action list list \<Rightarrow> lock action list list \<Rightarrow> bool \<Rightarrow> bool list \<Rightarrow>
    lock thread list" where
  "daemon_threads calls cs ss cleanup made =
     [([], start_locks @ concat calls @ shutdown_locks cleanup made), ([], concat cs), ([], concat ss)]"

lemma daemon_disciplined:
  assumes "\<forall>as \<in> set calls. \<exists>sender now c. call_locks io sender now c as" "set cs \<subseteq> set config_thread_locks" "set ss \<subseteq> set sync_thread_locks"
  shows "all_disciplined (daemon_threads calls cs ss cleanup made)"
proof -
  have "disciplined [] (concat calls)" by (rule disciplined_concat) (use assms(1) call_disciplined in blast)
  moreover have "disciplined [] (concat cs)" "disciplined [] (concat ss)"
    using assms(2,3) thread_disciplined(2,3) by (auto intro!: disciplined_concat)
  ultimately show ?thesis
    by (simp add: all_disciplined_def daemon_threads_def disciplined_append thread_disciplined(1) shutdown_disciplined)
qed

interpretation orderly: preserved lock_step "\<lambda>ts :: ('l :: linorder) thread list. all_disciplined ts \<and> exclusive ts"
  by unfold_locales (simp add: step_disciplined step_exclusive)

text \<open>Every step takes an action off a thread.\<close>

definition actions_left :: "'l thread list \<Rightarrow> nat" where
  "actions_left ts = (\<Sum>t\<leftarrow>ts. length (snd t))"

lemma actions_left_update:
  "i < length ts \<Longrightarrow> snd (ts ! i) = a # as \<Longrightarrow> actions_left (ts[i := (H, as)]) < actions_left ts"
  unfolding actions_left_def by (induction ts arbitrary: i) (auto split: nat.split)

interpretation consuming: ranked lock_step "\<lambda>_ :: 'l thread list. True" actions_left less_than
  by unfold_locales (auto elim!: lock_stepE intro: actions_left_update)

text \<open>
  C6: the daemon does not deadlock on its mutexes: whatever calls it serves and however the threads
  interleave, in every state they reach no mutex is held twice, and either all threads are at their end
  or one can go on; and as every step takes an action off a thread, no run is infinite, so that every
  run leads to the end of all threads.
\<close>

lemma no_deadlock:
  assumes "\<forall>as \<in> set calls. \<exists>sender now c. call_locks io sender now c as" "set cs \<subseteq> set config_thread_locks" "set ss \<subseteq> set sync_thread_locks"
    "lock_step\<^sup>*\<^sup>* (daemon_threads calls cs ss cleanup made) ts"
  shows "exclusive ts \<and> (finished ts \<or> (\<exists>ts'. lock_step ts ts')) \<and> wfp (\<lambda>ts' ts :: lock thread list. lock_step ts ts')"
proof -
  have "exclusive (daemon_threads calls cs ss cleanup made)"
    by (auto simp: exclusive_def daemon_threads_def less_Suc_eq nth_Cons')
  moreover have "all_disciplined (daemon_threads calls cs ss cleanup made)" by (rule daemon_disciplined [OF assms(1-3)])
  ultimately show ?thesis using orderly.run_inv [OF assms(4)] not_stuck consuming.run_ends by auto
qed

lemma no_deadlock_witness:
  "exclusive (daemon_threads [within ServiceLock (one ConfigLock)] [one ConfigLock @ sync_locks] [sync_locks] True [True, False]) \<and>
   (\<exists>ts'. lock_step (daemon_threads [within ServiceLock (one ConfigLock)] [one ConfigLock @ sync_locks] [sync_locks] True [True, False]) ts')"
proof -
  let ?calls = "[within ServiceLock (one ConfigLock)]" and ?cs = "[one ConfigLock @ sync_locks]" and ?ss = "[sync_locks]"
  have auth: "fst (authorize ''reload'' None (sample_service\<lparr>sv_authorizer := None\<rparr>)) = Ok ()"
    by (simp add: authorize_def svc_check_authorization_def)
  have "\<exists>r. lock_path (tryP (section_op None (authorize ''reload'' None)) (\<lambda>_. call_body svc_io 0 CallReloadConfiguration)) r [ConfigLock]"
    unfolding tryP_def section_op_def bindP.simps lock_path_simps
    by (rule exI, rule exI [of _ "sample_service\<lparr>sv_authorizer := None\<rparr>"]) (auto simp add: auth try_simps)
  then obtain r where r: "lock_path (tryP (section_op None (authorize (call_action CallReloadConfiguration) None))
      (\<lambda>_. call_body svc_io 0 CallReloadConfiguration)) r [ConfigLock]" unfolding call_action.simps by blast
  have "call_locks svc_io None 0 CallReloadConfiguration (within ServiceLock (concat (map one [ConfigLock])))"
    by (rule call_locks.served [OF _ r]) simp
  then have "\<forall>as \<in> set ?calls. \<exists>sender now c. call_locks svc_io sender now c as" by auto
  moreover have "set ?cs \<subseteq> set config_thread_locks" "set ?ss \<subseteq> set sync_thread_locks"
    by (simp_all add: config_thread_locks_def sync_thread_locks_def)
  moreover have "\<not> finished (daemon_threads ?calls ?cs ?ss True [True, False])"
    by (simp add: finished_def daemon_threads_def start_locks_def one_def within_def)
  ultimately show ?thesis
    using no_deadlock [of ?calls svc_io ?cs ?ss True "[True, False]" "daemon_threads ?calls ?cs ?ss True [True, False]"] by blast
qed

end
