(* ===== verification/NsEnter.thy ===== *)
theory NsEnter
  imports Security
begin

text \<open>
  The setuid helper \<^verbatim>\<open>segwire-ns-enter/src/main.rs\<close>.  The program makes a fixed sequence of system
  calls and ends when one fails: it is a function of what the calls answer (the record \<open>answers\<close>)
  that gives the calls made, in order, and the exit status.  A successful \<^verbatim>\<open>execvp\<close> does not return;
  the messages printed before an exit are kept.
\<close>

section \<open>Arguments and paths\<close>

definition ALLOWED_NS_PREFIX :: string where "ALLOWED_NS_PREFIX = ''/run/netns/''"

text \<open>\<^verbatim>\<open>position(|a| a == x)\<close>\<close>

fun position :: "string \<Rightarrow> string list \<Rightarrow> nat option" where
  "position x [] = None"
| "position x (a # as) = (if a = x then Some 0 else map_option Suc (position x as))"

definition parse_args :: "string list \<Rightarrow> (string, string \<times> string \<times> string list) res" where
  "parse_args args =
     (if length args < 4 then Err ''not enough arguments''
      else tryR (ok_or (''missing '' @ quoted ''--'' @ '' separator between namespace path and command'')
                   (position ''--'' args)) (\<lambda>pos.
       if pos \<noteq> 2 then Err ''expected: <ns-path> -- <command> [args...]''
       else if pos + 1 \<ge> length args then Err (''no command specified after '' @ quoted ''--'')
       else Ok (args ! 1, args ! (pos + 1), drop (pos + 2) args)))"

text \<open>\<open>lstat p\<close> is an error text, or whether \<open>p\<close> is a symbolic link.\<close>

definition validate_ns_path :: "(string \<Rightarrow> (string, bool) res) \<Rightarrow> string \<Rightarrow> (string, unit) res" where
  "validate_ns_path lstat path =
     (if \<not> starts_with ALLOWED_NS_PREFIX path
      then Err (''namespace path must start with '' @ quoted ALLOWED_NS_PREFIX @ '', got '' @ quoted path)
      else let ns_name = drop (length ALLOWED_NS_PREFIX) path in
        if ns_name = [] then Err ''namespace name is empty''
        else if contains_char (CHR ''/'') ns_name \<or> contains_str ''..'' ns_name
          then Err (''invalid namespace name: '' @ quoted ns_name)
        else if contains_char nul path then Err ''path contains null byte''
        else tryR (map_err (\<lambda>e. ''cannot stat '' @ quoted path @ '': '' @ e) (lstat path)) (\<lambda>is_link.
          if is_link then Err (quoted path @ '' is a symlink, which is not allowed'') else Ok ()))"

section \<open>The program\<close>

datatype syscall =
    SysOpen string
  | SysSetns nat
  | SysClose nat
  | SysSetresgid nat nat nat
  | SysSetresuid nat nat nat
  | SysNoNewPrivs
  | SysExec string "string list"

record answers =
  an_lstat :: "string \<Rightarrow> (string, bool) res"
  an_open :: "string \<Rightarrow> (string, nat) res"
  an_setns :: "nat \<Rightarrow> (string, unit) res"
  an_gid :: nat
  an_uid :: nat
  an_setresgid :: "(string, unit) res"
  an_setresuid :: "(string, unit) res"
  an_no_new_privs :: bool
  an_exec :: "string \<Rightarrow> string list \<Rightarrow> string option"

text \<open>\<open>an_exec\<close> is the error of a call that returns; \<open>None\<close> when the process becomes the command.\<close>

datatype ending = Exit nat "string list" | Became string "string list"

type_synonym run = "syscall list \<times> ending"

definition fail :: "string \<Rightarrow> run" where "fail msg = ([], Exit 1 [''segwire-ns-enter: '' @ msg])"

text \<open>A call is made; the run stops when it fails, else it goes on.\<close>

definition step_call :: "syscall \<Rightarrow> (string, 'a) res \<Rightarrow> (string \<Rightarrow> string) \<Rightarrow> ('a \<Rightarrow> run) \<Rightarrow> run" where
  "step_call c r msg k = apfst (\<lambda>t. c # t) (case r of Inl e \<Rightarrow> fail (msg e) | Inr a \<Rightarrow> k a)"

definition exec_command :: "answers \<Rightarrow> string \<Rightarrow> string list \<Rightarrow> run" where
  "exec_command an cmd cmd_args =
     (if contains_char nul cmd then fail ''invalid command name''
      else if \<exists>a \<in> set cmd_args. contains_char nul a then fail ''invalid argument''
      else ([SysExec cmd (cmd # cmd_args)],
        case an_exec an cmd (cmd # cmd_args) of
          None \<Rightarrow> Became cmd (cmd # cmd_args)
        | Some e \<Rightarrow> Exit 127 [''segwire-ns-enter: execvp '' @ quoted cmd @ '' failed: '' @ e]))"

definition enter_and_exec :: "answers \<Rightarrow> string \<Rightarrow> string \<Rightarrow> string list \<Rightarrow> run" where
  "enter_and_exec an ns_path cmd cmd_args =
     step_call (SysOpen ns_path) (an_open an ns_path) (\<lambda>e. ''failed to open '' @ quoted ns_path @ '': '' @ e) (\<lambda>fd.
     step_call (SysSetns fd) (an_setns an fd) (\<lambda>e. ''setns failed: '' @ e) (\<lambda>_.
     step_call (SysClose fd) (Ok ()) id (\<lambda>_.
     let gid = an_gid an; uid = an_uid an in
     step_call (SysSetresgid gid gid gid) (an_setresgid an) (\<lambda>e. ''setresgid failed: '' @ e) (\<lambda>_.
     step_call (SysSetresuid uid uid uid) (an_setresuid an) (\<lambda>e. ''setresuid failed: '' @ e) (\<lambda>_.
     step_call SysNoNewPrivs (if an_no_new_privs an then Ok () else Err []) (\<lambda>_. ''PR_SET_NO_NEW_PRIVS failed'') (\<lambda>_.
     exec_command an cmd cmd_args))))))"

definition ns_enter_main :: "answers \<Rightarrow> string list \<Rightarrow> run" where
  "ns_enter_main an args =
     (case parse_args args of
        Inl msg \<Rightarrow> ([], Exit 1 [''segwire-ns-enter: '' @ msg,
          ''Usage: segwire-ns-enter <ns-path> -- <command> [args...]''])
      | Inr (ns_path, cmd, cmd_args) \<Rightarrow>
          (case validate_ns_path (an_lstat an) ns_path of
             Inl msg \<Rightarrow> fail msg
           | Inr _ \<Rightarrow> enter_and_exec an ns_path cmd cmd_args))"

section \<open>What the helper does\<close>

lemma parse_args_iff:
  "parse_args args = Ok (p, cmd, as) \<longleftrightarrow> (\<exists>self. args = self # p # ''--'' # cmd # as \<and> self \<noteq> ''--'' \<and> p \<noteq> ''--'')"
proof (cases "length args < 4")
  case True
  then show ?thesis by (auto simp: parse_args_def)
next
  case False
  then obtain a b c d r where args: "args = a # b # c # d # r"
    by (cases args; cases "tl args"; cases "tl (tl args)"; cases "tl (tl (tl args))") auto
  have pos: "position ''--'' args = Some 2 \<longleftrightarrow> a \<noteq> ''--'' \<and> b \<noteq> ''--'' \<and> c = ''--''"
    by (auto simp: args numeral_2_eq_2)
  show ?thesis
  proof (cases "position ''--'' args = Some 2")
    case True
    have "parse_args args = Ok (b, d, r)" unfolding parse_args_def True using False by (simp add: args)
    then show ?thesis using True pos by (auto simp: args)
  next
    case no: False
    then have "parse_args args \<noteq> Ok (p, cmd, as)"
      by (cases "position ''--'' args") (auto simp: parse_args_def split: if_splits)
    then show ?thesis using no pos by (auto simp: args)
  qed
qed

lemma validate_ns_path_iff:
  "validate_ns_path lstat path = Ok () \<longleftrightarrow>
     (\<exists>n. path = ALLOWED_NS_PREFIX @ n \<and> n \<noteq> [] \<and> CHR ''/'' \<notin> set n \<and> \<not> contains_str ''..'' n \<and>
        nul \<notin> set path \<and> lstat path = Ok False)"
  by (auto simp: validate_ns_path_def result_simps Let_def starts_with_def prefix_def contains_char_def split: if_splits)

section \<open>Properties\<close>

text \<open>The calls of a complete run.\<close>

definition enter_sequence :: "answers \<Rightarrow> nat \<Rightarrow> string \<Rightarrow> string \<Rightarrow> string list \<Rightarrow> syscall list" where
  "enter_sequence an fd p cmd as =
     [SysOpen p, SysSetns fd, SysClose fd, SysSetresgid (an_gid an) (an_gid an) (an_gid an),
      SysSetresuid (an_uid an) (an_uid an) (an_uid an), SysNoNewPrivs, SysExec cmd (cmd # as)]"

text \<open>A run makes an initial part of the calls, and all of them when it becomes the command.\<close>

definition runs_along :: "syscall list \<Rightarrow> string list \<Rightarrow> run \<Rightarrow> bool" where
  "runs_along cs l r = (prefix (fst r) cs \<and> (\<forall>c l'. snd r = Became c l' \<longrightarrow> fst r = cs \<and> l' = l))"

lemma runs_along_exec: "runs_along [SysExec cmd (cmd # as)] (cmd # as) (exec_command an cmd as)"
  by (auto simp: runs_along_def exec_command_def fail_def split: option.splits)

lemma runs_along_step: "(\<And>a. r = Ok a \<Longrightarrow> runs_along cs l (k a)) \<Longrightarrow> runs_along (c # cs) l (step_call c r msg k)"
  by (cases r) (auto simp: step_call_def fail_def runs_along_def)

lemma enter_run: "\<exists>fd. runs_along (enter_sequence an fd p cmd as) (cmd # as) (enter_and_exec an p cmd as)"
proof -
  obtain fd where fd: "\<And>a. an_open an p = Ok a \<Longrightarrow> a = fd" by (metis Inr_inject)
  have rest: "runs_along [SysSetns fd, SysClose fd, SysSetresgid gid gid gid, SysSetresuid uid uid uid,
      SysNoNewPrivs, SysExec cmd (cmd # as)] (cmd # as)
    (step_call (SysSetns fd) r1 m1 (\<lambda>_. step_call (SysClose fd) r2 m2 (\<lambda>_.
     step_call (SysSetresgid gid gid gid) r3 m3 (\<lambda>_. step_call (SysSetresuid uid uid uid) r4 m4 (\<lambda>_.
     step_call SysNoNewPrivs r5 m5 (\<lambda>_. exec_command an cmd as))))))"
    for gid uid m1 m2 m3 m4 m5 and r1 r2 r3 r4 r5 :: "(string, unit) res"
    by (intro runs_along_step runs_along_exec)
  have "runs_along (enter_sequence an fd p cmd as) (cmd # as) (enter_and_exec an p cmd as)"
    unfolding enter_and_exec_def enter_sequence_def Let_def
  proof (rule runs_along_step)
    fix a assume "an_open an p = Ok a"
    then have "a = fd" by (rule fd)
    then show "runs_along [SysSetns fd, SysClose fd, SysSetresgid (an_gid an) (an_gid an) (an_gid an),
        SysSetresuid (an_uid an) (an_uid an) (an_uid an), SysNoNewPrivs, SysExec cmd (cmd # as)] (cmd # as)
      (step_call (SysSetns a) (an_setns an a) (\<lambda>e. ''setns failed: '' @ e) (\<lambda>_.
       step_call (SysClose a) (Ok ()) id (\<lambda>_.
       step_call (SysSetresgid (an_gid an) (an_gid an) (an_gid an)) (an_setresgid an) (\<lambda>e. ''setresgid failed: '' @ e) (\<lambda>_.
       step_call (SysSetresuid (an_uid an) (an_uid an) (an_uid an)) (an_setresuid an) (\<lambda>e. ''setresuid failed: '' @ e) (\<lambda>_.
       step_call SysNoNewPrivs (if an_no_new_privs an then Ok () else Err []) (\<lambda>_. ''PR_SET_NO_NEW_PRIVS failed'') (\<lambda>_.
       exec_command an cmd as))))))" by (simp only: rest)
  qed
  then show ?thesis ..
qed

text \<open>
  C8: the helper makes a call only for a file directly in /run/netns that is not a symbolic link, and
  then its calls are an initial part of one sequence: open it, enter it, drop the group and then the
  user ids for good, forbid new privileges, execute.  The command runs only after all of them.
\<close>

lemma privileges_dropped_before_exec:
  assumes "ns_enter_main an args = (calls, e)" "calls \<noteq> []"
  shows "\<exists>self n cmd as fd. args = self # (''/run/netns/'' @ n) # ''--'' # cmd # as \<and> n \<noteq> [] \<and> CHR ''/'' \<notin> set n \<and>
    \<not> contains_str ''..'' n \<and> an_lstat an (''/run/netns/'' @ n) = Ok False \<and>
    prefix calls (enter_sequence an fd (''/run/netns/'' @ n) cmd as) \<and>
    (case e of Became c l \<Rightarrow> calls = enter_sequence an fd (''/run/netns/'' @ n) cmd as \<and> l = cmd # as | Exit _ _ \<Rightarrow> True)"
proof -
  obtain p cmd as where parsed: "parse_args args = Ok (p, cmd, as)"
    using assms by (auto simp: ns_enter_main_def split: sum.splits prod.splits)
  then obtain self where args: "args = self # p # ''--'' # cmd # as" by (auto simp: parse_args_iff)
  have v: "validate_ns_path (an_lstat an) p = Ok ()"
    using assms parsed by (cases "validate_ns_path (an_lstat an) p") (auto simp: ns_enter_main_def fail_def)
  then have run: "enter_and_exec an p cmd as = (calls, e)" using assms(1) parsed by (simp add: ns_enter_main_def)
  obtain n where n: "p = ''/run/netns/'' @ n" "n \<noteq> []" "CHR ''/'' \<notin> set n" "\<not> contains_str ''..'' n" "an_lstat an p = Ok False"
    using v unfolding validate_ns_path_iff ALLOWED_NS_PREFIX_def by blast
  obtain fd where "prefix calls (enter_sequence an fd p cmd as)"
    "\<And>c l. e = Became c l \<Longrightarrow> calls = enter_sequence an fd p cmd as \<and> l = cmd # as"
    using enter_run [of an p cmd as] run by (auto simp: runs_along_def)
  then show ?thesis using args n by (auto split: ending.split)
qed

definition sample_answers :: answers where
  "sample_answers = \<lparr>an_lstat = (\<lambda>_. Ok False), an_open = (\<lambda>_. Ok 3), an_setns = (\<lambda>_. Ok ()), an_gid = 1000, an_uid = 1000,
     an_setresgid = Ok (), an_setresuid = Err ''EPERM'', an_no_new_privs = True, an_exec = (\<lambda>_ _. None)\<rparr>"

lemma privileges_dropped_before_exec_witness:
  "\<exists>fd. prefix (fst (ns_enter_main sample_answers [''h'', ''/run/netns/sw-web'', ''--'', ''id'']))
     (enter_sequence sample_answers fd ''/run/netns/sw-web'' ''id'' [])"
proof -
  let ?args = "[''h'', ''/run/netns/sw-web'', ''--'', ''id'']"
  have r: "ns_enter_main sample_answers ?args =
    ([SysOpen ''/run/netns/sw-web'', SysSetns 3, SysClose 3, SysSetresgid 1000 1000 1000, SysSetresuid 1000 1000 1000],
     Exit 1 [''segwire-ns-enter: setresuid failed: EPERM''])" by code_simp
  show ?thesis using privileges_dropped_before_exec [OF r] unfolding r by auto
qed

end
