(* ===== verification/CliOutput.thy ===== *)
theory CliOutput
  imports DbusService NsEnter
begin

text \<open>
  What the command line prints, \<^verbatim>\<open>segwire-cli/src/output.rs\<close>.  Output is a list of items in the order
  they are printed.  A table is its columns and rows and a TOML document its value: drawing them is
  done by \<^verbatim>\<open>tabled\<close> and \<^verbatim>\<open>toml\<close>.
\<close>

section \<open>Output\<close>

datatype output_format = Table | Toml

datatype toml_value = TStr string | TNat nat | TBool bool | TArr "toml_value list" | TTab "(string \<times> toml_value) list"

datatype out_item =
    OutLine string
  | ErrLine string
  | OutTable "string list" "string list list"
  | OutToml toml_value
  | OutPart string

definition escape :: char where "escape = CHR 0x1B"

definition in_color :: "string \<Rightarrow> string \<Rightarrow> string" where
  "in_color c s = [escape] @ ''['' @ c @ ''m'' @ s @ [escape] @ ''[0m''"

definition colorize_status :: "string \<Rightarrow> string" where
  "colorize_status s =
     (let l = to_lowercase s in
      if l \<in> {''active'', ''up'', ''running''} then in_color ''32'' s
      else if l \<in> {''inactive'', ''down'', ''stopped''} then in_color ''31'' s
      else if l \<in> {''error'', ''failed''} then in_color ''91'' s
      else if l \<in> {''creating'', ''starting'', ''pending''} then in_color ''33'' s
      else s)"

definition ellipsis :: string where "ellipsis = [CHR 0xE2, CHR 0x80, CHR 0xA6]"
definition check_mark :: string where "check_mark = [CHR 0xE2, CHR 0x9C, CHR 0x93]"
definition cross_mark :: string where "cross_mark = [CHR 0xE2, CHR 0x9C, CHR 0x97]"
definition full_block :: string where "full_block = [CHR 0xE2, CHR 0x96, CHR 0x88]"
definition light_block :: string where "light_block = [CHR 0xE2, CHR 0x96, CHR 0x91]"

definition short_path :: "string \<Rightarrow> string" where
  "short_path path =
     (let parts = split_char (CHR ''/'') path in
      if length parts > 2 then ellipsis @ ''/'' @ join ''/'' (drop (length parts - 2) parts) else path)"

text \<open>\<open>fmt\<close> is what the \<^verbatim>\<open>time\<close> library makes of a time, \<open>None\<close> when it has none.\<close>

definition format_timestamp :: "(nat \<Rightarrow> string option) \<Rightarrow> nat \<Rightarrow> string" where
  "format_timestamp fmt secs = (if secs = 0 then ''-'' else case fmt secs of Some s \<Rightarrow> s | None \<Rightarrow> ''-'')"

definition format_duration :: "nat \<Rightarrow> string" where
  "format_duration secs =
     (if secs < 60 then show_nat secs @ ''s''
      else let minutes = secs div 60; remaining_secs = secs mod 60 in
      if minutes < 60 then show_nat minutes @ ''m '' @ show_nat remaining_secs @ ''s''
      else let hours = minutes div 60; remaining_mins = minutes mod 60 in
      if hours < 24 then show_nat hours @ ''h '' @ show_nat remaining_mins @ ''m''
      else show_nat (hours div 24) @ ''d '' @ show_nat (hours mod 24) @ ''h'')"

text \<open>
  A byte slice ends at a character boundary or panics (\<open>None\<close>): the byte after it, if any, does not
  continue a character.
\<close>

definition char_boundary :: "string \<Rightarrow> nat \<Rightarrow> bool" where
  "char_boundary s i = (i = length s \<or> (i < length s \<and> \<not> cont_byte (s ! i)))"

definition truncate_string :: "string \<Rightarrow> nat \<Rightarrow> string option" where
  "truncate_string s max_len =
     (if length s \<le> max_len then Some s
      else if char_boundary s (max_len - 1) then Some (take (max_len - 1) s @ ellipsis) else None)"

section \<open>Progress\<close>

record progress_display =
  pd_operation :: string
  pd_width :: nat

definition progress_new :: "string \<Rightarrow> progress_display" where
  "progress_new operation = \<lparr>pd_operation = operation, pd_width = 40\<rparr>"

definition repeat_text :: "nat \<Rightarrow> string \<Rightarrow> string" where
  "repeat_text n s = concat (replicate n s)"

text \<open>
  \<open>filled\<close> and \<open>percent\<close> are the integers the machine makes of the progress times the width and times 100.
  It panics (\<open>None\<close>) when more than the width is filled, and when the message is cut inside a character.
\<close>

definition progress_update :: "nat \<Rightarrow> nat \<Rightarrow> progress_display \<Rightarrow> string \<Rightarrow> out_item option" where
  "progress_update filled percent pd msg =
     (if pd_width pd < filled then None
      else let bar = repeat_text filled full_block @ repeat_text (pd_width pd - filled) light_block;
               pct = show_nat percent in
        map_option (\<lambda>m. OutPart ([CHR 0x0D] @ pd_operation pd @ '': ['' @ bar @ ''] '' @
            replicate (3 - length pct) (CHR '' '') @ pct @ ''% '' @ m))
          (truncate_string msg 30))"

definition progress_finish :: "progress_display \<Rightarrow> string \<Rightarrow> out_item" where
  "progress_finish pd msg =
     OutLine ([CHR 0x0D] @ pd_operation pd @ '': ['' @ repeat_text (pd_width pd) full_block @ ''] 100% '' @ msg)"

definition progress_fail :: "progress_display \<Rightarrow> string \<Rightarrow> out_item" where
  "progress_fail pd msg = OutLine ([CHR 0x0D] @ pd_operation pd @ '': '' @ cross_mark @ '' '' @ msg)"

text \<open>The commands only show the progress 0.0, which fills nothing.\<close>

abbreviation progress_start :: "progress_display \<Rightarrow> string \<Rightarrow> out_item option" where
  "progress_start \<equiv> progress_update 0 0"

section \<open>Formatting\<close>

type_synonym ns_tuple = "string \<times> string \<times> string \<times> string"

definition render_table :: "string list \<Rightarrow> string list list \<Rightarrow> out_item" where
  "render_table header rows = (if rows = [] then OutLine ''(no results)'' else OutTable header rows)"

text \<open>The rows of the tables: their columns with the names their attributes give.\<close>

record namespace_list_row =
  lr_name :: string
  lr_status :: string
  lr_interfaces :: string
  lr_config_path :: string
  lr_description :: string

record namespace_detail_row =
  dr_property :: string
  dr_value :: string

record interface_row =
  ir_name :: string
  ir_iface_type :: string
  ir_status :: string
  ir_addresses :: string

record route_row =
  rr_destination :: string
  rr_gateway :: string
  rr_metric :: nat
  rr_interface :: string

definition list_rows :: "namespace_list_row list \<Rightarrow> out_item" where
  "list_rows rs = render_table [''NAME'', ''STATUS'', ''INTERFACES'', ''CONFIG'', ''DESCRIPTION'']
     (map (\<lambda>r. [lr_name r, lr_status r, lr_interfaces r, lr_config_path r, lr_description r]) rs)"

definition detail_rows :: "namespace_detail_row list \<Rightarrow> out_item" where
  "detail_rows rs = render_table [''PROPERTY'', ''VALUE''] (map (\<lambda>r. [dr_property r, dr_value r]) rs)"

definition interface_rows :: "interface_row list \<Rightarrow> out_item" where
  "interface_rows rs = render_table [''INTERFACE'', ''TYPE'', ''STATUS'', ''ADDRESSES'']
     (map (\<lambda>r. [ir_name r, ir_iface_type r, ir_status r, ir_addresses r]) rs)"

definition route_rows :: "route_row list \<Rightarrow> out_item" where
  "route_rows rs = render_table [''DESTINATION'', ''GATEWAY'', ''METRIC'', ''INTERFACE'']
     (map (\<lambda>r. [rr_destination r, rr_gateway r, show_nat (rr_metric r), rr_interface r]) rs)"

text \<open>What the structures for TOML are as values: their fields in order, those that are skipped left out.\<close>

definition list_item :: "ns_tuple \<Rightarrow> toml_value" where
  "list_item t = (case t of (name, st, config, desc) \<Rightarrow>
     TTab [(''name'', TStr name), (''status'', TStr st), (''config_path'', TStr config), (''description'', TStr desc)])"

definition list_output :: "nat \<Rightarrow> toml_value list \<Rightarrow> toml_value" where
  "list_output n ns = TTab [(''total'', TNat n), (''namespaces'', TArr ns)]"

definition format_namespace_list :: "ns_tuple list \<Rightarrow> output_format \<Rightarrow> bool \<Rightarrow> out_item list" where
  "format_namespace_list ns fmt verbose =
     (case fmt of
        Table \<Rightarrow>
          (if ns = [] then [OutLine ''No managed namespaces found.'']
           else [list_rows (map (\<lambda>(name, st, config, desc).
                   \<lparr>lr_name = name, lr_status = colorize_status st, lr_interfaces = ''-'',
                    lr_config_path = (if verbose then config else short_path config), lr_description = desc\<rparr>) ns),
                 OutLine [], OutLine (''Total: '' @ show_nat (length ns) @ '' namespace(s)'')])
      | Toml \<Rightarrow> [OutToml (list_output (length ns) (map list_item ns))])"

record interface_data =
  id_name :: string
  id_iface_type :: string
  id_status :: string
  id_addresses :: "string list"

record route_data =
  rd_destination :: string
  rd_gateway :: string
  rd_metric :: nat
  rd_interface :: string

record namespace_status_data =
  sd_name :: string
  sd_full_name :: string
  sd_status :: string
  sd_config_path :: string
  sd_created_at :: nat
  sd_last_updated :: nat
  sd_interfaces :: "interface_data list"
  sd_routes :: "route_data list"
  sd_dns_servers :: "string list"
  sd_dns_search_domains :: "string list"

definition interface_value :: "interface_data \<Rightarrow> toml_value" where
  "interface_value i = TTab [(''name'', TStr (id_name i)), (''iface_type'', TStr (id_iface_type i)),
     (''status'', TStr (id_status i)), (''addresses'', TArr (map TStr (id_addresses i)))]"

definition route_value :: "route_data \<Rightarrow> toml_value" where
  "route_value r = TTab [(''destination'', TStr (rd_destination r)), (''gateway'', TStr (rd_gateway r)),
     (''metric'', TNat (rd_metric r)), (''interface'', TStr (rd_interface r))]"

definition status_value :: "namespace_status_data \<Rightarrow> toml_value" where
  "status_value d = TTab [(''name'', TStr (sd_name d)), (''full_name'', TStr (sd_full_name d)),
     (''status'', TStr (sd_status d)), (''config_path'', TStr (sd_config_path d)),
     (''created_at'', TNat (sd_created_at d)), (''last_updated'', TNat (sd_last_updated d)),
     (''interfaces'', TArr (map interface_value (sd_interfaces d))), (''routes'', TArr (map route_value (sd_routes d))),
     (''dns_servers'', TArr (map TStr (sd_dns_servers d))),
     (''dns_search_domains'', TArr (map TStr (sd_dns_search_domains d)))]"

abbreviation property :: "string \<Rightarrow> string \<Rightarrow> namespace_detail_row" where
  "property p v \<equiv> \<lparr>dr_property = p, dr_value = v\<rparr>"

definition format_namespace_status ::
  "(nat \<Rightarrow> string option) \<Rightarrow> namespace_status_data \<Rightarrow> output_format \<Rightarrow> bool \<Rightarrow> out_item list" where
  "format_namespace_status fmt d format detailed =
     (case format of
        Table \<Rightarrow>
          [OutLine (''Namespace: '' @ sd_name d), OutLine [],
           detail_rows
             ([property ''Full Name'' (sd_full_name d), property ''Status'' (colorize_status (sd_status d)),
               property ''Config File'' (sd_config_path d), property ''Created'' (format_timestamp fmt (sd_created_at d)),
               property ''Last Updated'' (format_timestamp fmt (sd_last_updated d))] @
              (if sd_dns_servers d \<noteq> [] then [property ''DNS Servers'' (join '', '' (sd_dns_servers d))] else []) @
              (if sd_dns_search_domains d \<noteq> []
               then [property ''DNS Search'' (join '', '' (sd_dns_search_domains d))] else []))] @
          (if detailed then
             (if sd_interfaces d \<noteq> [] then [OutLine [], OutLine ''Interfaces:'',
                interface_rows (map (\<lambda>i. \<lparr>ir_name = id_name i, ir_iface_type = id_iface_type i,
                    ir_status = colorize_status (id_status i), ir_addresses = join '', '' (id_addresses i)\<rparr>)
                  (sd_interfaces d))] else []) @
             (if sd_routes d \<noteq> [] then [OutLine [], OutLine ''Routes:'',
                route_rows (map (\<lambda>r. \<lparr>rr_destination = rd_destination r, rr_gateway = rd_gateway r,
                    rr_metric = rd_metric r, rr_interface = rd_interface r\<rparr>)
                  (sd_routes d))] else [])
           else [])
      | Toml \<Rightarrow> [OutToml (status_value d)])"

record daemon_status_info =
  di_version :: string
  di_uptime_secs :: nat
  di_managed_namespaces :: "32 word"
  di_active_namespaces :: "32 word"

definition daemon_status_toml :: "daemon_status_info \<Rightarrow> toml_value" where
  "daemon_status_toml d = TTab [(''version'', TStr (di_version d)), (''uptime_secs'', TNat (di_uptime_secs d)),
     (''managed_namespaces'', TNat (unat (di_managed_namespaces d))),
     (''active_namespaces'', TNat (unat (di_active_namespaces d)))]"

definition all_namespaces_output :: "nat \<Rightarrow> toml_value option \<Rightarrow> toml_value list \<Rightarrow> toml_value" where
  "all_namespaces_output n ds ns = TTab ([(''total'', TNat n)] @
     (case ds of Some d \<Rightarrow> [(''daemon'', d)] | None \<Rightarrow> []) @ [(''namespaces'', TArr ns)])"

definition format_all_namespaces_status :: "ns_tuple list \<Rightarrow> daemon_status_info option \<Rightarrow> output_format \<Rightarrow> out_item list" where
  "format_all_namespaces_status ns ds fmt =
     (case fmt of
        Table \<Rightarrow>
          (case ds of
             Some d \<Rightarrow>
               [OutLine ''Daemon Status'',
                detail_rows [property ''Version'' (di_version d), property ''Uptime'' (format_duration (di_uptime_secs d)),
                  property ''Managed'' (show_nat (unat (di_managed_namespaces d))),
                  property ''Active'' (show_nat (unat (di_active_namespaces d)))], OutLine []]
           | None \<Rightarrow> []) @ format_namespace_list ns fmt False
      | Toml \<Rightarrow> [OutToml (all_namespaces_output (length ns) (map_option daemon_status_toml ds) (map list_item ns))])"

definition operation_output :: "operation_result \<Rightarrow> toml_value" where
  "operation_output r = TTab ([(''success'', TBool (success r)), (''message'', TStr (message r))] @
     (if details r \<noteq> [] then [(''details'', TTab (map (\<lambda>(k, v). (k, TStr v)) (details r)))] else []))"

definition format_operation_result :: "operation_result \<Rightarrow> output_format \<Rightarrow> out_item list" where
  "format_operation_result r fmt =
     (case fmt of
        Table \<Rightarrow>
          [if success r then OutLine (check_mark @ '' '' @ message r) else ErrLine (cross_mark @ '' '' @ message r)] @
          (if details r \<noteq> [] then [OutLine [], detail_rows (map (\<lambda>(k, v). property k v) (details r))] else [])
      | Toml \<Rightarrow> [OutToml (operation_output r)])"

end
