(* ===== verification/WgQuick.thy ===== *)
theory WgQuick
  imports Config
begin

text \<open>
  The wg-quick parser of \<^verbatim>\<open>segwire-common/src/wireguard.rs\<close> and the \<^verbatim>\<open>import-wg\<close> command
  (\<^verbatim>\<open>segwire-cli/src/commands/import_wg.rs\<close>).  \<open>parse_wg_quick_raw\<close> folds \<open>wg_line\<close> over the
  lines; the state is the configuration read so far, the section and the peer in progress.
  The \<^verbatim>\<open>unwrap\<close> of the peer in progress is a branch of its own (\<open>WgPanic\<close>), shown never
  taken.  \<open>render_wg\<close> is a printer in the format the module documents; the parser reads back what it
  prints.
\<close>

datatype wg_parse_error =
    MissingInterface
  | MissingPrivateKey
  | InvalidLine string
  | UnknownSection string

text \<open>What stops the parser: an error, or a panic of \<^verbatim>\<open>unwrap\<close>.\<close>

datatype wg_stop = WgErr wg_parse_error | WgPanic

fun show_wg_parse_error :: "wg_parse_error \<Rightarrow> string" where
  "show_wg_parse_error MissingInterface = ''missing [Interface] section''"
| "show_wg_parse_error MissingPrivateKey = ''missing PrivateKey in [Interface]''"
| "show_wg_parse_error (InvalidLine l) = ''invalid line: '' @ l"
| "show_wg_parse_error (UnknownSection s) = ''unknown section: ['' @ s @ '']''"

record wg_quick_peer =
  qp_public_key :: string
  qp_preshared_key :: "string option"
  qp_endpoint :: "string option"
  qp_allowed_ips :: "string list"
  qp_keepalive :: nat

record wg_quick_config =
  q_private_key :: string
  q_listen_port :: nat
  q_addresses :: "string list"
  q_dns_servers :: "string list"
  q_fwmark :: nat
  q_peers :: "wg_quick_peer list"

definition default_peer :: wg_quick_peer where
  "default_peer = \<lparr>qp_public_key = [], qp_preshared_key = None, qp_endpoint = None,
     qp_allowed_ips = [], qp_keepalive = 0\<rparr>"

definition default_quick :: wg_quick_config where
  "default_quick = \<lparr>q_private_key = [], q_listen_port = 0, q_addresses = [], q_dns_servers = [],
     q_fwmark = 0, q_peers = []\<rparr>"

datatype wg_section = SecNone | SecInterface | SecPeer

record wg_state =
  wg_config :: wg_quick_config
  current_section :: wg_section
  current_peer :: "wg_quick_peer option"

definition initial_wg :: wg_state where
  "initial_wg = \<lparr>wg_config = default_quick, current_section = SecNone, current_peer = None\<rparr>"

definition flush_peer :: "wg_state \<Rightarrow> wg_state" where
  "flush_peer st = (case current_peer st of None \<Rightarrow> st
     | Some p \<Rightarrow> st\<lparr>wg_config := (wg_config st)\<lparr>q_peers := q_peers (wg_config st) @ [p]\<rparr>,
                   current_peer := None\<rparr>)"

definition wg_section_line :: "string \<Rightarrow> wg_state \<Rightarrow> (wg_stop, wg_state) res" where
  "wg_section_line name st =
     (let st' = flush_peer st in
      if name = ''Interface'' then Ok (st'\<lparr>current_section := SecInterface\<rparr>)
      else if name = ''Peer'' then Ok (st'\<lparr>current_section := SecPeer, current_peer := Some default_peer\<rparr>)
      else Err (WgErr (UnknownSection name)))"

definition comma_items :: "string \<Rightarrow> string list" where
  "comma_items v = map trim (split_char (CHR '','') v)"

definition wg_interface_key :: "string \<Rightarrow> string \<Rightarrow> string \<Rightarrow> wg_quick_config \<Rightarrow> (wg_stop, wg_quick_config) res" where
  "wg_interface_key line key v c =
     (if key = ''PrivateKey'' then Ok (c\<lparr>q_private_key := v\<rparr>)
      else if key = ''ListenPort'' then
        map_err (\<lambda>_. WgErr (InvalidLine line))
          (tryR (ok_or () (parse_u16 v)) (\<lambda>n. Ok (c\<lparr>q_listen_port := n\<rparr>)))
      else if key = ''Address'' then Ok (c\<lparr>q_addresses := q_addresses c @ comma_items v\<rparr>)
      else if key = ''DNS'' then Ok (c\<lparr>q_dns_servers := q_dns_servers c @ comma_items v\<rparr>)
      else if key = ''FwMark'' then
        map_err (\<lambda>_. WgErr (InvalidLine line))
          (tryR (ok_or () (parse_u32 v)) (\<lambda>n. Ok (c\<lparr>q_fwmark := n\<rparr>)))
      else Ok c)"

definition wg_peer_key :: "string \<Rightarrow> string \<Rightarrow> string \<Rightarrow> wg_quick_peer \<Rightarrow> (wg_stop, wg_quick_peer) res" where
  "wg_peer_key line key v p =
     (if key = ''PublicKey'' then Ok (p\<lparr>qp_public_key := v\<rparr>)
      else if key = ''PresharedKey'' then Ok (p\<lparr>qp_preshared_key := Some v\<rparr>)
      else if key = ''Endpoint'' then Ok (p\<lparr>qp_endpoint := Some v\<rparr>)
      else if key = ''AllowedIPs'' then Ok (p\<lparr>qp_allowed_ips := qp_allowed_ips p @ comma_items v\<rparr>)
      else if key = ''PersistentKeepalive'' then
        map_err (\<lambda>_. WgErr (InvalidLine line))
          (tryR (ok_or () (parse_u16 v)) (\<lambda>n. Ok (p\<lparr>qp_keepalive := n\<rparr>)))
      else Ok p)"

definition wg_key_line :: "string \<Rightarrow> string \<Rightarrow> string \<Rightarrow> wg_state \<Rightarrow> (wg_stop, wg_state) res" where
  "wg_key_line line key v st =
     (case current_section st of
        SecInterface \<Rightarrow>
          tryR (wg_interface_key line key v (wg_config st)) (\<lambda>c. Ok (st\<lparr>wg_config := c\<rparr>))
      | SecPeer \<Rightarrow>
          tryR (ok_or WgPanic (current_peer st)) (\<lambda>p.
          tryR (wg_peer_key line key v p) (\<lambda>p'. Ok (st\<lparr>current_peer := Some p'\<rparr>)))
      | SecNone \<Rightarrow> Ok st)"

definition wg_line :: "string \<Rightarrow> wg_state \<Rightarrow> (wg_stop, wg_state) res" where
  "wg_line raw st =
     (let line = trim raw in
      if line = [] \<or> starts_with ''#'' line \<or> starts_with '';'' line then Ok st
      else if starts_with ''['' line \<and> ends_with '']'' line then
        wg_section_line (take (length line - 2) (drop 1 line)) st
      else tryR (ok_or (WgErr (InvalidLine line)) (split_once (CHR ''='') line)) (\<lambda>(k, v).
        wg_key_line line (trim k) (trim v) st))"

fun wg_lines :: "string list \<Rightarrow> wg_state \<Rightarrow> (wg_stop, wg_state) res" where
  "wg_lines [] st = Ok st"
| "wg_lines (l # ls) st = tryR (wg_line l st) (wg_lines ls)"

definition parse_wg_quick_raw :: "string \<Rightarrow> (wg_stop, wg_quick_config) res" where
  "parse_wg_quick_raw content =
     tryR (wg_lines (rlines content) initial_wg) (\<lambda>st.
     let c = wg_config (flush_peer st) in
     if q_private_key c = [] then Err (WgErr MissingPrivateKey) else Ok c)"

definition to_peer_config :: "wg_quick_peer \<Rightarrow> wireguard_peer_config" where
  "to_peer_config p = \<lparr>public_key = qp_public_key p, preshared_key = qp_preshared_key p,
     endpoint = qp_endpoint p, allowed_ips = qp_allowed_ips p, persistent_keepalive = qp_keepalive p\<rparr>"

definition to_namespace_config :: "wg_quick_config \<Rightarrow> string \<Rightarrow> string option \<Rightarrow> namespace_config" where
  "to_namespace_config q name ifname =
     \<lparr>namespace = \<lparr>ns_name = name,
        ns_description = ''WireGuard namespace (imported from wg-quick config)''\<rparr>,
      interfaces = \<lparr>move_interfaces = [],
        virtual_interfaces = [\<lparr>vif_name = (case ifname of None \<Rightarrow> ''wg0'' | Some i \<Rightarrow> i),
          interface_type = ''wireguard'', vif_peer = None, vif_addresses = q_addresses q\<rparr>]\<rparr>,
      routing = default_routing_config,
      dns = \<lparr>servers = q_dns_servers q, search = []\<rparr>,
      wireguard = Some \<lparr>private_key = q_private_key q, listen_port = q_listen_port q,
        fwmark = q_fwmark q, wg_peers = map to_peer_config (q_peers q)\<rparr>,
      environment = []\<rparr>"

definition parse_wg_quick :: "string \<Rightarrow> string \<Rightarrow> string option \<Rightarrow> (wg_stop, namespace_config) res" where
  "parse_wg_quick content name ifname =
     tryR (parse_wg_quick_raw content) (\<lambda>q. Ok (to_namespace_config q name ifname))"

section \<open>Bounds, and the peer in progress\<close>

definition wg_inv :: "wg_state \<Rightarrow> bool" where
  "wg_inv st = ((current_section st = SecPeer \<longleftrightarrow> current_peer st \<noteq> None) \<and>
     q_listen_port (wg_config st) \<le> 65535 \<and> q_fwmark (wg_config st) \<le> 4294967295 \<and>
     (\<forall>p \<in> set (q_peers (wg_config st)) \<union> set_option (current_peer st). qp_keepalive p \<le> 65535))"

lemma wg_interface_key_cases:
  assumes "wg_interface_key line key v c = Ok c'" "q_listen_port c \<le> 65535" "q_fwmark c \<le> 4294967295"
  shows "q_listen_port c' \<le> 65535 \<and> q_fwmark c' \<le> 4294967295 \<and> q_peers c' = q_peers c"
  using assms by (auto simp: wg_interface_key_def result_simps parse_u16_def parse_u32_def
      dest: parse_uint_bound split: if_splits)

lemma wg_peer_key_cases:
  assumes "wg_peer_key line key v p = Ok p'" "qp_keepalive p \<le> 65535"
  shows "qp_keepalive p' \<le> 65535"
  using assms by (auto simp: wg_peer_key_def result_simps parse_u16_def
      dest: parse_uint_bound split: if_splits)

lemma wg_inv_initial: "wg_inv initial_wg"
  by (simp add: wg_inv_def initial_wg_def default_quick_def)

lemma wg_inv_flush: "wg_inv st \<Longrightarrow> q_listen_port (wg_config (flush_peer st)) \<le> 65535 \<and>
    q_fwmark (wg_config (flush_peer st)) \<le> 4294967295 \<and> current_peer (flush_peer st) = None \<and>
    (\<forall>p \<in> set (q_peers (wg_config (flush_peer st))). qp_keepalive p \<le> 65535)"
  by (auto simp: wg_inv_def flush_peer_def split: option.split)

lemma wg_inv_section: "wg_inv st \<Longrightarrow> wg_section_line n st = Ok st' \<Longrightarrow> wg_inv st'"
  using wg_inv_flush [of st]
  by (auto simp: wg_section_line_def Let_def wg_inv_def default_peer_def split: if_splits)

lemma wg_inv_key: "wg_inv st \<Longrightarrow> wg_key_line l k v st = Ok st' \<Longrightarrow> wg_inv st'"
  by (cases "current_section st")
     (auto simp: wg_inv_def wg_key_line_def result_simps dest: wg_interface_key_cases wg_peer_key_cases)

lemma wg_inv_line: "wg_inv st \<Longrightarrow> wg_line l st = Ok st' \<Longrightarrow> wg_inv st'"
  by (auto simp: wg_line_def Let_def result_simps dest: wg_inv_section wg_inv_key split: if_splits)

lemma wg_inv_lines: "wg_inv st \<Longrightarrow> wg_lines ls st = Ok st' \<Longrightarrow> wg_inv st'"
  by (induction ls arbitrary: st) (auto simp: result_simps dest: wg_inv_line)

lemma wg_key_line_no_panic: "wg_inv st \<Longrightarrow> wg_key_line l k v st \<noteq> Err WgPanic"
proof -
  have a: "wg_interface_key l k v c \<noteq> Err WgPanic" for c
    by (auto simp: wg_interface_key_def map_err_Inl_iff)
  have b: "wg_peer_key l k v p \<noteq> Err WgPanic" for p
    by (auto simp: wg_peer_key_def map_err_Inl_iff)
  assume "wg_inv st"
  then show ?thesis
    using a [of "wg_config st"] b
    by (cases "current_section st"; cases "current_peer st")
       (auto simp: wg_key_line_def wg_inv_def tryR_def split: sum.splits)
qed

lemma wg_line_no_panic: "wg_inv st \<Longrightarrow> wg_line l st \<noteq> Err WgPanic"
  using wg_key_line_no_panic [of st]
  by (auto simp: wg_line_def wg_section_line_def Let_def tryR_def ok_or_def
      split: if_splits option.splits sum.splits)

lemma wg_lines_no_panic: "wg_inv st \<Longrightarrow> wg_lines ls st \<noteq> Err WgPanic"
proof (induction ls arbitrary: st)
  case (Cons l ls)
  then show ?case
    using wg_line_no_panic [of st l] wg_inv_line [of st l] by (cases "wg_line l st") auto
qed simp

text \<open>
  The parser never reaches the panic of \<^verbatim>\<open>unwrap\<close>, on any input.
\<close>

lemma parse_no_panic: "parse_wg_quick c n i \<noteq> Err WgPanic"
  using wg_lines_no_panic [OF wg_inv_initial, of "rlines c"]
  by (cases "wg_lines (rlines c) initial_wg")
     (auto simp: parse_wg_quick_def parse_wg_quick_raw_def Let_def)

section \<open>Reading back a printed configuration\<close>

definition wg_kv :: "string \<Rightarrow> string \<Rightarrow> string" where "wg_kv k v = k @ '' = '' @ v"

definition opt_kv :: "string \<Rightarrow> string option \<Rightarrow> string list" where
  "opt_kv k v = (case v of None \<Rightarrow> [] | Some x \<Rightarrow> [wg_kv k x])"

definition list_kv :: "string \<Rightarrow> string list \<Rightarrow> string list" where
  "list_kv k vs = (if vs = [] then [] else [wg_kv k (join '', '' vs)])"

definition render_peer :: "wg_quick_peer \<Rightarrow> string list" where
  "render_peer p = [''[Peer]'', wg_kv ''PublicKey'' (qp_public_key p)] @
     opt_kv ''PresharedKey'' (qp_preshared_key p) @ opt_kv ''Endpoint'' (qp_endpoint p) @
     list_kv ''AllowedIPs'' (qp_allowed_ips p) @
     [wg_kv ''PersistentKeepalive'' (show_nat (qp_keepalive p))]"

definition render_interface :: "wg_quick_config \<Rightarrow> string list" where
  "render_interface c = [''[Interface]'', wg_kv ''PrivateKey'' (q_private_key c),
     wg_kv ''ListenPort'' (show_nat (q_listen_port c)), wg_kv ''FwMark'' (show_nat (q_fwmark c))] @
     list_kv ''Address'' (q_addresses c) @ list_kv ''DNS'' (q_dns_servers c)"

definition render_wg :: "wg_quick_config \<Rightarrow> string" where
  "render_wg c = unlines (render_interface c @ concat (map render_peer (q_peers c)))"

text \<open>Values the format can carry: no surrounding white space, no line break, not empty.\<close>

definition item_ok :: "string \<Rightarrow> bool" where "item_ok v = (text_ok v \<and> CHR '','' \<notin> set v)"

definition peer_ok :: "wg_quick_peer \<Rightarrow> bool" where
  "peer_ok p = (text_ok (qp_public_key p) \<and> (\<forall>k. qp_preshared_key p = Some k \<longrightarrow> text_ok k) \<and>
     (\<forall>e. qp_endpoint p = Some e \<longrightarrow> text_ok e) \<and> (\<forall>a \<in> set (qp_allowed_ips p). item_ok a) \<and>
     qp_keepalive p \<le> 65535)"

definition quick_ok :: "wg_quick_config \<Rightarrow> bool" where
  "quick_ok c = (text_ok (q_private_key c) \<and> q_listen_port c \<le> 65535 \<and> q_fwmark c \<le> 4294967295 \<and>
     (\<forall>a \<in> set (q_addresses c). item_ok a) \<and> (\<forall>a \<in> set (q_dns_servers c). item_ok a) \<and>
     (\<forall>p \<in> set (q_peers c). peer_ok p))"

definition wg_keys :: "string list" where
  "wg_keys = [''PrivateKey'', ''ListenPort'', ''FwMark'', ''Address'', ''DNS'', ''PublicKey'',
     ''PresharedKey'', ''Endpoint'', ''AllowedIPs'', ''PersistentKeepalive'']"

lemma wg_keys_ok: "k \<in> set wg_keys \<Longrightarrow> k \<noteq> [] \<and> list_all is_alpha k"
  unfolding wg_keys_def by (auto simp: class_defs code_def)

lemma wg_kv_text: "k \<in> set wg_keys \<Longrightarrow> text_ok v \<Longrightarrow> text_ok (wg_kv k v)"
proof -
  assume h: "k \<in> set wg_keys" "text_ok v"
  have k: "k \<noteq> []" "list_all is_alpha k" using wg_keys_ok [OF h(1)] by auto
  have "solid (hd k)" using k solid_alnum by (cases k) (auto simp: is_alnum_def)
  moreover have "newline \<notin> set k"
    using k by (auto simp: list_all_iff newline_def class_defs code_def)
  ultimately show ?thesis using h k
    by (auto simp: text_ok_def trimmed_def wg_kv_def newline_def)
qed

lemma trim_key: "k \<in> set wg_keys \<Longrightarrow> trim (k @ '' '') = k"
proof -
  assume "k \<in> set wg_keys"
  then have k: "k \<noteq> []" "list_all is_alpha k" using wg_keys_ok by auto
  have solid: "c \<in> set k \<Longrightarrow> solid c" for c using k(2) solid_alnum by (auto simp: list_all_iff is_alnum_def)
  have t: "trimmed k" using k(1) solid by (simp add: trimmed_def)
  have "trim_start (k @ '' '') = k @ '' ''"
  proof -
    have "strip_front ws_encodings (k @ '' '') = k @ '' ''"
    proof (rule strip_front_none)
      fix w assume w: "w \<in> set ws_encodings" "w \<noteq> []"
      show "\<not> prefix w (k @ '' '')"
      proof
        assume "prefix w (k @ '' '')"
        then have "hd w = hd k" using w(2) k(1) by (auto simp: prefix_def neq_Nil_conv)
        then show False using solid_not_ws [of "hd k" w] solid [of "hd k"] k(1) w(1) by simp
      qed
    qed
    then show ?thesis by (simp add: trim_start_def)
  qed
  then show ?thesis using t by (simp add: trim_def trim_end_trimmed)
qed

lemma wg_line_kv:
  assumes k: "k \<in> set wg_keys" and v: "text_ok v"
  shows "wg_line (wg_kv k v) st = wg_key_line (wg_kv k v) k v st"
proof -
  have a: "k \<noteq> []" "list_all is_alpha k" using wg_keys_ok [OF k] by auto
  have "trim (wg_kv k v) = wg_kv k v" "wg_kv k v \<noteq> []"
    using wg_kv_text [OF k v] by (simp_all add: text_ok_def)
  moreover have "\<not> starts_with ''#'' (wg_kv k v)" "\<not> starts_with '';'' (wg_kv k v)" "\<not> starts_with ''['' (wg_kv k v)"
    using a by (cases k; auto simp: starts_with_def wg_kv_def class_defs code_def)+
  moreover have "split_once (CHR ''='') (wg_kv k v) = Some (k @ '' '', CHR '' '' # v)"
    unfolding split_once_Some wg_kv_def using a by (auto simp: list_all_iff class_defs code_def)
  moreover have "trim (CHR '' '' # v) = v" using v by (simp add: text_ok_def trim_space_front)
  ultimately show ?thesis using trim_key [OF k] by (simp add: wg_line_def Let_def)
qed

lemma wg_lines_append: "wg_lines (a @ b) st = tryR (wg_lines a st) (wg_lines b)"
proof (induction a arbitrary: st)
  case (Cons l a)
  then show ?case by (cases "wg_line l st") simp_all
qed simp

lemma trim_item: "item_ok v \<Longrightarrow> trim v = v \<and> trim (CHR '' '' # v) = v"
  by (simp add: item_ok_def text_ok_def trim_space_front)

lemma comma_items_join:
  "vs \<noteq> [] \<Longrightarrow> (\<And>v. v \<in> set vs \<Longrightarrow> item_ok v) \<Longrightarrow> comma_items (join '', '' vs) = vs"
proof (induction vs rule: induct_list012)
  case (2 x)
  then show ?case by (simp add: comma_items_def split_char_id item_ok_def text_ok_def)
next
  case (3 x y zs)
  have "map trim (split_char (CHR '','') (CHR '' '' # join '', '' (y # zs))) = y # zs"
  proof -
    obtain p ps where p: "split_char (CHR '','') (join '', '' (y # zs)) = p # ps"
      by (cases "split_char (CHR '','') (join '', '' (y # zs))") auto
    have "trim p = y" "map trim ps = zs" using 3 p by (auto simp: comma_items_def)
    moreover have "trim (CHR '' '' # p) = trim p" by (simp add: trim_def)
    ultimately show ?thesis using p by simp
  qed
  moreover have "CHR '','' \<notin> set x" "trim x = x" using 3(4) [of x] trim_item [of x] by (auto simp: item_ok_def)
  ultimately show ?case by (simp add: comma_items_def split_char_append)
qed simp

lemma text_ok_join: "vs \<noteq> [] \<Longrightarrow> (\<And>v. v \<in> set vs \<Longrightarrow> item_ok v) \<Longrightarrow> text_ok (join '', '' vs)"
proof (induction vs rule: induct_list012)
  case (3 x y zs)
  then have "text_ok (join '', '' (y # zs))" "text_ok x" by (auto simp: item_ok_def)
  then show ?case by (auto simp: text_ok_def trimmed_def newline_def)
qed (auto simp: item_ok_def)

lemmas wg_key_line_defs = wg_key_line_def wg_interface_key_def wg_peer_key_def parse_u16_def
  parse_u32_def parse_uint_show comma_items_join

lemma wg_keys_mem [simp]:
  "''PrivateKey'' \<in> set wg_keys" "''ListenPort'' \<in> set wg_keys" "''FwMark'' \<in> set wg_keys"
  "''Address'' \<in> set wg_keys" "''DNS'' \<in> set wg_keys" "''PublicKey'' \<in> set wg_keys"
  "''PresharedKey'' \<in> set wg_keys" "''Endpoint'' \<in> set wg_keys" "''AllowedIPs'' \<in> set wg_keys"
  "''PersistentKeepalive'' \<in> set wg_keys"
  by (simp_all add: wg_keys_def)

lemma wg_opt_lines:
  assumes "k \<in> set wg_keys" "\<And>x. v = Some x \<Longrightarrow> text_ok x"
    and "\<And>l x. v = Some x \<Longrightarrow> wg_key_line l k x st = Ok (g st)" "v = None \<Longrightarrow> g st = st"
  shows "wg_lines (opt_kv k v) st = Ok (g st)"
  using assms by (cases v) (simp_all add: opt_kv_def wg_line_kv)

lemma wg_list_lines:
  assumes "k \<in> set wg_keys" "\<And>x. x \<in> set vs \<Longrightarrow> item_ok x"
    and "\<And>l. vs \<noteq> [] \<Longrightarrow> wg_key_line l k (join '', '' vs) st = Ok (g st)" "vs = [] \<Longrightarrow> g st = st"
  shows "wg_lines (list_kv k vs) st = Ok (g st)"
  using assms by (cases "vs = []") (simp_all add: list_kv_def wg_line_kv text_ok_join)

text \<open>A peer block leaves the peer of the block in progress, the one before it flushed.\<close>

lemma wg_peer_block:
  assumes p: "peer_ok p"
  shows "wg_lines (render_peer p) st = Ok ((flush_peer st)\<lparr>current_section := SecPeer, current_peer := Some p\<rparr>)"
proof -
  let ?s = "\<lambda>q. (flush_peer st)\<lparr>current_section := SecPeer, current_peer := Some q\<rparr>"
  let ?p1 = "default_peer\<lparr>qp_public_key := qp_public_key p\<rparr>"
  let ?p2 = "?p1\<lparr>qp_preshared_key := qp_preshared_key p\<rparr>"
  let ?p3 = "?p2\<lparr>qp_endpoint := qp_endpoint p\<rparr>"
  let ?p4 = "?p3\<lparr>qp_allowed_ips := qp_allowed_ips p\<rparr>"
  have "wg_line ''[Peer]'' st = Ok (?s default_peer)"
    by (simp add: wg_line_def starts_with_def ends_with_def suffix_def wg_section_line_def Let_def
        trimmed_def solid_def code_def)
  moreover have "wg_line (wg_kv ''PublicKey'' (qp_public_key p)) (?s default_peer) = Ok (?s ?p1)"
    using p by (simp add: peer_ok_def wg_line_kv wg_key_line_defs)
  moreover have "wg_lines (opt_kv ''PresharedKey'' (qp_preshared_key p)) (?s ?p1) = Ok (?s ?p2)"
    using p by (intro wg_opt_lines [where g = "\<lambda>_. ?s ?p2"])
      (auto simp: peer_ok_def wg_key_line_defs default_peer_def)
  moreover have "wg_lines (opt_kv ''Endpoint'' (qp_endpoint p)) (?s ?p2) = Ok (?s ?p3)"
    using p by (intro wg_opt_lines [where g = "\<lambda>_. ?s ?p3"])
      (auto simp: peer_ok_def wg_key_line_defs default_peer_def)
  moreover have "wg_lines (list_kv ''AllowedIPs'' (qp_allowed_ips p)) (?s ?p3) = Ok (?s ?p4)"
    using p by (intro wg_list_lines [where g = "\<lambda>_. ?s ?p4"])
      (auto simp: peer_ok_def wg_key_line_defs default_peer_def)
  moreover have "wg_line (wg_kv ''PersistentKeepalive'' (show_nat (qp_keepalive p))) (?s ?p4) = Ok (?s p)"
    using p by (simp add: peer_ok_def wg_line_kv wg_key_line_defs default_peer_def)
  ultimately show ?thesis by (simp add: render_peer_def wg_lines_append)
qed

lemma wg_peer_blocks:
  assumes "\<forall>p \<in> set ps. peer_ok p"
  shows "\<exists>st'. wg_lines (concat (map render_peer ps)) st = Ok st' \<and>
    wg_config (flush_peer st') = (wg_config (flush_peer st))\<lparr>q_peers := q_peers (wg_config (flush_peer st)) @ ps\<rparr>"
  using assms
proof (induction ps arbitrary: st)
  case (Cons p ps)
  let ?t = "(flush_peer st)\<lparr>current_section := SecPeer, current_peer := Some p\<rparr>"
  obtain st' where st': "wg_lines (concat (map render_peer ps)) ?t = Ok st'"
    "wg_config (flush_peer st') = (wg_config (flush_peer ?t))\<lparr>q_peers := q_peers (wg_config (flush_peer ?t)) @ ps\<rparr>"
    using Cons.IH [of ?t] Cons.prems by auto
  moreover have "wg_config (flush_peer ?t) =
      (wg_config (flush_peer st))\<lparr>q_peers := q_peers (wg_config (flush_peer st)) @ [p]\<rparr>"
    by (simp add: flush_peer_def)
  ultimately show ?case using Cons.prems by (simp add: wg_lines_append wg_peer_block)
qed simp

lemma wg_interface_block:
  assumes c: "quick_ok c"
  shows "wg_lines (render_interface c) initial_wg =
    Ok \<lparr>wg_config = c\<lparr>q_peers := []\<rparr>, current_section = SecInterface, current_peer = None\<rparr>"
proof -
  let ?s = "\<lambda>q. \<lparr>wg_config = q, current_section = SecInterface, current_peer = None\<rparr>"
  let ?c1 = "default_quick\<lparr>q_private_key := q_private_key c\<rparr>"
  let ?c2 = "?c1\<lparr>q_listen_port := q_listen_port c\<rparr>"
  let ?c3 = "?c2\<lparr>q_fwmark := q_fwmark c\<rparr>"
  let ?c4 = "?c3\<lparr>q_addresses := q_addresses c\<rparr>"
  have "wg_line ''[Interface]'' initial_wg = Ok (?s default_quick)"
    by (simp add: wg_line_def starts_with_def ends_with_def suffix_def wg_section_line_def Let_def
        trimmed_def solid_def code_def initial_wg_def flush_peer_def)
  moreover have "wg_line (wg_kv ''PrivateKey'' (q_private_key c)) (?s default_quick) = Ok (?s ?c1)"
    using c by (simp add: quick_ok_def wg_line_kv wg_key_line_defs)
  moreover have "wg_line (wg_kv ''ListenPort'' (show_nat (q_listen_port c))) (?s ?c1) = Ok (?s ?c2)"
    using c by (simp add: quick_ok_def wg_line_kv wg_key_line_defs)
  moreover have "wg_line (wg_kv ''FwMark'' (show_nat (q_fwmark c))) (?s ?c2) = Ok (?s ?c3)"
    using c by (simp add: quick_ok_def wg_line_kv wg_key_line_defs)
  moreover have "wg_lines (list_kv ''Address'' (q_addresses c)) (?s ?c3) = Ok (?s ?c4)"
    using c by (intro wg_list_lines [where g = "\<lambda>_. ?s ?c4"])
      (auto simp: quick_ok_def wg_key_line_defs default_quick_def)
  moreover have "wg_lines (list_kv ''DNS'' (q_dns_servers c)) (?s ?c4) = Ok (?s (c\<lparr>q_peers := []\<rparr>))"
    using c by (intro wg_list_lines [where g = "\<lambda>_. ?s (c\<lparr>q_peers := []\<rparr>)"])
      (auto simp: quick_ok_def wg_key_line_defs default_quick_def)
  ultimately show ?thesis by (simp add: render_interface_def wg_lines_append)
qed

lemma render_lines_text:
  assumes "quick_ok c" "l \<in> set (render_interface c @ concat (map render_peer (q_peers c)))"
  shows "text_ok l"
proof -
  have s: "text_ok ''[Peer]''" "text_ok ''[Interface]''"
    by (auto simp: text_ok_def trimmed_def solid_def code_def newline_def)
  have "text_ok l" if "l \<in> set (render_peer p)" "peer_ok p" for p
    using that s by (auto simp: render_peer_def peer_ok_def opt_kv_def list_kv_def wg_kv_text text_ok_join
        split: option.splits if_splits)
  then show ?thesis using assms s
    by (auto simp: render_interface_def quick_ok_def list_kv_def wg_kv_text text_ok_join split: if_splits)
qed

lemma wg_read_back: "quick_ok c \<Longrightarrow> parse_wg_quick_raw (render_wg c) = Ok c"
proof -
  assume c: "quick_ok c"
  then have ps: "\<forall>p \<in> set (q_peers c). peer_ok p" by (simp add: quick_ok_def)
  let ?s = "\<lparr>wg_config = c\<lparr>q_peers := []\<rparr>, current_section = SecInterface, current_peer = None\<rparr>"
  have fl: "flush_peer ?s = ?s" by (simp add: flush_peer_def)
  obtain st' where st': "wg_lines (concat (map render_peer (q_peers c))) ?s = Ok st'"
    "wg_config (flush_peer st') = c"
    using wg_peer_blocks [OF ps, of ?s] by (auto simp: fl)
  have "rlines (render_wg c) = render_interface c @ concat (map render_peer (q_peers c))"
    unfolding render_wg_def by (intro rlines_unlines render_lines_text [OF c])
  then show ?thesis using st' c
    by (simp add: parse_wg_quick_raw_def wg_lines_append wg_interface_block quick_ok_def text_ok_def)
qed

interpretation wg_text: codec render_wg parse_wg_quick_raw Inr quick_ok
  by unfold_locales (simp_all add: wg_read_back)

text \<open>
  C15: the wg-quick parser reads back what the printer writes: for a configuration whose values the
  format can carry, parsing its rendering returns it.
\<close>

lemma wg_round_trip: "quick_ok c \<Longrightarrow> parse_wg_quick_raw (render_wg c) = Ok c"
  by (rule wg_text.read_back)

lemma wg_round_trip_witness:
  "parse_wg_quick_raw (render_wg \<lparr>q_private_key = ''k='', q_listen_port = 51820, q_addresses = [''10.0.0.2/32'', ''fd::2/128''],
      q_dns_servers = [], q_fwmark = 0, q_peers = [default_peer\<lparr>qp_public_key := ''p='', qp_allowed_ips := [''0.0.0.0/0'']\<rparr>]\<rparr>) =
    Ok \<lparr>q_private_key = ''k='', q_listen_port = 51820, q_addresses = [''10.0.0.2/32'', ''fd::2/128''],
      q_dns_servers = [], q_fwmark = 0, q_peers = [default_peer\<lparr>qp_public_key := ''p='', qp_allowed_ips := [''0.0.0.0/0'']\<rparr>]\<rparr>"
  by (rule wg_round_trip)
     (simp add: quick_ok_def peer_ok_def item_ok_def default_peer_def text_ok_def trimmed_def solid_def
        code_def newline_def)

section \<open>The import command\<close>

text \<open>
  \<^verbatim>\<open>import_wg::execute\<close>: the file system and the TOML serializer are parameters.  The result
  is the text printed, or the file written with its text; an error is its message.
\<close>

record import_wg_args =
  im_namespace :: string
  im_config_path :: string
  im_interface :: "string option"
  im_output :: "string option"
  im_stdout :: bool

record import_io =
  io_read :: "string \<Rightarrow> (string, string) res"
  io_exists :: "string \<Rightarrow> bool"
  io_mkdir :: "string \<Rightarrow> (string, unit) res"
  io_write :: "string \<Rightarrow> string \<Rightarrow> (string, unit) res"
  io_home :: "string option"
  io_toml :: "namespace_config \<Rightarrow> (string, string) res"

datatype import_result = Printed string | Written string string

fun show_wg_stop :: "wg_stop \<Rightarrow> string" where
  "show_wg_stop (WgErr e) = show_wg_parse_error e"
| "show_wg_stop WgPanic = ''panic''"

definition import_dir :: "import_io \<Rightarrow> string option \<Rightarrow> string" where
  "import_dir io out =
     (case out of Some d \<Rightarrow> d
      | None \<Rightarrow> if io_exists io ''/etc/segwire/namespaces'' then ''/etc/segwire/namespaces''
          else (case io_home io of Some h \<Rightarrow> h | None \<Rightarrow> ''/tmp'') @ ''/.config/segwire/namespaces'')"

definition import_wg :: "base64 \<Rightarrow> import_io \<Rightarrow> import_wg_args \<Rightarrow> (string, import_result) res" where
  "import_wg b64 io a =
     tryR (map_err (\<lambda>e. ''Cannot read WireGuard config '' @ quoted (im_config_path a) @ '': '' @ e)
        (io_read io (im_config_path a))) (\<lambda>content.
     tryR (map_err (\<lambda>e. ''Failed to parse WireGuard config: '' @ show_wg_stop e)
        (parse_wg_quick content (im_namespace a) (im_interface a))) (\<lambda>c.
     thenR (map_err (\<lambda>e. ''Generated config fails validation: '' @ show_segwire_error e)
        (validate_namespace_config b64 c))
    (tryR (map_err (\<lambda>e. ''Failed to serialize config to TOML: '' @ e) (io_toml io c)) (\<lambda>t.
     if im_stdout a then Ok (Printed t) else
     let d = import_dir io (im_output a);
         f = path_join d (im_namespace a @ ''.toml'') in
     thenR (map_err (\<lambda>e. ''Cannot create output directory '' @ quoted d @ '': '' @ e) (io_mkdir io d))
    (thenR (failIf (io_exists io f) (''Output file already exists: '' @ f @
        ''. Use --stdout to preview or remove the existing file.''))
    (thenR (map_err (\<lambda>e. ''Cannot write output file '' @ quoted f @ '': '' @ e) (io_write io f t))
           (Ok (Written f t))))))))"

definition sample_wg :: string where
  "sample_wg = unlines [''[Interface]'', ''PrivateKey = k'', ''Address = 10.0.0.2/32'']"

definition sample_io :: "(string \<Rightarrow> bool) \<Rightarrow> import_io" where
  "sample_io ex = \<lparr>io_read = (\<lambda>_. Ok sample_wg), io_exists = ex, io_mkdir = (\<lambda>_. Ok ()), io_write = (\<lambda>_ _. Ok ()),
     io_home = None, io_toml = (\<lambda>c. Ok (ns_name (namespace c)))\<rparr>"

text \<open>
  When the import command writes a file, the configuration it serialized is valid and has the
  requested name, and the file, named after the namespace, did not exist.
\<close>

lemma import_written:
  assumes "import_wg b64 io a = Ok (Written f t)"
  shows "\<exists>c. namespace_config_ok b64 c \<and> ns_name (namespace c) = im_namespace a \<and> io_toml io c = Ok t \<and>
    \<not> io_exists io f \<and> f = path_join (import_dir io (im_output a)) (im_namespace a @ ''.toml'')"
  using assms
  by (auto simp: import_wg_def Let_def result_simps config_simps parse_wg_quick_def to_namespace_config_def
      split: if_splits)

lemma import_written_witness:
  "\<exists>c. namespace_config_ok (\<lambda>_. Ok (replicate 32 (CHR ''k''))) c \<and> ns_name (namespace c) = ''vpn''"
proof -
  have "import_wg (\<lambda>_. Ok (replicate 32 (CHR ''k''))) (sample_io (\<lambda>_. False))
      \<lparr>im_namespace = ''vpn'', im_config_path = ''wg.conf'', im_interface = None, im_output = Some ''/etc'', im_stdout = False\<rparr> =
      Ok (Written ''/etc/vpn.toml'' ''vpn'')"
    by code_simp
  from import_written [OF this] show ?thesis by auto
qed

section \<open>Properties\<close>

text \<open>
  Every configuration the wg-quick parser returns has a private key, and its port, mark and
  keep-alive intervals fit their 16, 32 and 16 bits.
\<close>

lemma wg_parse_bounds:
  assumes "parse_wg_quick_raw content = Ok c"
  shows "q_private_key c \<noteq> [] \<and> q_listen_port c < 2 ^ 16 \<and> q_fwmark c < 2 ^ 32 \<and>
    list_all (\<lambda>p. qp_keepalive p < 2 ^ 16) (q_peers c)"
proof -
  obtain st where st: "wg_lines (rlines content) initial_wg = Ok st" "c = wg_config (flush_peer st)" "q_private_key c \<noteq> []"
    using assms by (auto simp: parse_wg_quick_raw_def Let_def tryR_Inr_iff split: if_splits)
  from wg_inv_flush [OF wg_inv_lines [OF wg_inv_initial st(1)]] st(2,3) show ?thesis
    by (auto simp: list_all_iff)
qed

lemma wg_parse_bounds_witness:
  "list_all (\<lambda>p. qp_keepalive p < 2 ^ 16) [default_peer\<lparr>qp_public_key := ''p''\<rparr>]"
proof -
  have "parse_wg_quick_raw (unlines [''[Interface]'', ''PrivateKey = k'', ''[Peer]'', ''PublicKey=p'']) =
      Ok (default_quick\<lparr>q_private_key := ''k'', q_peers := [default_peer\<lparr>qp_public_key := ''p''\<rparr>]\<rparr>)"
    by code_simp
  from wg_parse_bounds [OF this] show ?thesis by simp
qed

end
