(* ===== verification/Cli.thy ===== *)
theory Cli
  imports CliOutput NsEnter WgQuick Sections
begin

text \<open>
  The commands of \<^verbatim>\<open>segwire-cli\<close> (\<^verbatim>\<open>lib.rs\<close>, \<^verbatim>\<open>dbus_client.rs\<close>, \<^verbatim>\<open>commands/*.rs\<close>).  A command runs against
  the state \<open>'w\<close> of the daemon, which its calls may change; it gives the items printed, in order, and
  how the process ends.  Parsing the arguments is done by \<^verbatim>\<open>clap\<close>.
\<close>

section \<open>Commands\<close>

text \<open>
  A command ends normally, with an error and its contexts (outermost first), by \<^verbatim>\<open>exit\<close>, by a panic,
  or by becoming another program.
\<close>

datatype cmd_end = CmdDone | CmdFailed "string list" | CmdExit nat | CmdPanic | CmdBecame string "string list"

type_synonym cmd_result = "out_item list \<times> cmd_end"
type_synonym 'w command = "'w \<Rightarrow> cmd_result \<times> 'w"

text \<open>The exit status of the process, when it stays the command.\<close>

definition exit_code :: "cmd_result \<Rightarrow> nat option" where
  "exit_code r = (case snd r of
      CmdDone \<Rightarrow> Some 0 | CmdFailed _ \<Rightarrow> Some 1 | CmdExit n \<Rightarrow> Some n | CmdPanic \<Rightarrow> Some 101 | CmdBecame _ _ \<Rightarrow> None)"

definition end_with :: "cmd_end \<Rightarrow> 'w command" where "end_with e w = (([], e), w)"

definition cmd_fail :: "string \<Rightarrow> 'w command" where "cmd_fail e = end_with (CmdFailed [e])"

definition print_then :: "out_item list \<Rightarrow> 'w command \<Rightarrow> 'w command" where
  "print_then os c w = (case c w of ((os', e), w') \<Rightarrow> ((os @ os', e), w'))"

abbreviation print_end :: "out_item list \<Rightarrow> 'w command" where "print_end os \<equiv> print_then os (end_with CmdDone)"

section \<open>The client\<close>

text \<open>A D-Bus error: its name and message, and the text it is displayed with.\<close>

record rpc_error =
  re_name :: "string option"
  re_message :: "string option"
  re_text :: string

text \<open>
  \<open>bc_connect n\<close> is the outcome of the \<open>n\<close>th attempt to open the bus, \<open>bc_introspect\<close> the one of
  calling Introspect, \<open>bc_call\<close> the one of a method, \<open>bc_mismatch\<close> the error for a reply of the wrong types.
\<close>

record 'w bus_client =
  bc_connect :: "nat \<Rightarrow> (rpc_error, unit) res"
  bc_introspect :: "'w \<Rightarrow> (rpc_error, unit) res"
  bc_call :: "dbus_call \<Rightarrow> ('w, rpc_error, dbus_reply) op"
  bc_mismatch :: rpc_error

definition MAX_RETRY_ATTEMPTS :: nat where "MAX_RETRY_ATTEMPTS = 3"

text \<open>\<open>n\<close> attempts are left, the last error is \<open>e\<close>; the context is that of the returned error.\<close>

fun connect_attempts :: "(nat \<Rightarrow> (rpc_error, unit) res) \<Rightarrow> nat \<Rightarrow> nat \<Rightarrow> (rpc_error, unit) res" where
  "connect_attempts conn attempt 0 = conn attempt"
| "connect_attempts conn attempt (Suc n) =
     (case conn attempt of Inr u \<Rightarrow> Ok u | Inl e \<Rightarrow> connect_attempts conn (attempt + 1) n)"

definition connect_with_retry :: "'w bus_client \<Rightarrow> (rpc_error, unit) res" where
  "connect_with_retry cl = connect_attempts (bc_connect cl) 1 (MAX_RETRY_ATTEMPTS - 1)"

definition is_service_available :: "'w bus_client \<Rightarrow> 'w \<Rightarrow> bool" where
  "is_service_available cl w = is_ok (bc_introspect cl w)"

text \<open>An error with its contexts.\<close>

type_synonym rpc_failure = "string list \<times> rpc_error"

definition verify_service_availability :: "'w bus_client \<Rightarrow> 'w \<Rightarrow> (rpc_failure, unit) res" where
  "verify_service_availability cl w =
     map_err (\<lambda>e. ([''Daemon service is not available or not responding''], e)) (bc_introspect cl w)"

definition client_new :: "'w bus_client \<Rightarrow> 'w \<Rightarrow> (rpc_failure, unit) res" where
  "client_new cl w =
     tryR (map_err (\<lambda>e. ([''Failed to connect to D-Bus after multiple attempts'', ''Failed to connect to system D-Bus''], e))
             (connect_with_retry cl)) (\<lambda>_.
     map_err (apfst (Cons ''Daemon service is not available or not responding''))
       (verify_service_availability cl w))"

definition format_dbus_error :: "rpc_error \<Rightarrow> string" where
  "format_dbus_error e =
     (let name = (case re_name e of Some n \<Rightarrow> n | None \<Rightarrow> ''unknown'');
          msg = (case re_message e of Some m \<Rightarrow> m | None \<Rightarrow> ''Unknown error'') in
      if name = ''org.freedesktop.DBus.Error.ServiceUnknown''
        then ''Daemon service is not running. Please start segwire-daemon.''
      else if name = ''org.freedesktop.DBus.Error.AccessDenied''
        then ''Access denied. You may need appropriate permissions.''
      else if name = ''org.segwire.Error.PermissionDenied'' then ''Permission denied: '' @ msg
      else if name = ''org.segwire.Error.NamespaceNotFound'' then ''Namespace not found: '' @ msg
      else if name = ''org.segwire.Error.Configuration'' then ''Configuration error: '' @ msg
      else ''D-Bus error '' @ name @ '': '' @ msg)"

text \<open>A call, what is read of its reply, and the context of its error.\<close>

definition rpc :: "'w bus_client \<Rightarrow> string \<Rightarrow> dbus_call \<Rightarrow> (dbus_reply \<Rightarrow> 'a option) \<Rightarrow> ('w, rpc_failure, 'a) op" where
  "rpc cl ctx c read w =
     (case bc_call cl c w of
        (Inl e, w') \<Rightarrow> (Err ([ctx], e), w')
      | (Inr r, w') \<Rightarrow> (case read r of Some a \<Rightarrow> Ok a | None \<Rightarrow> Err ([ctx], bc_mismatch cl), w'))"

fun read_daemon :: "dbus_reply \<Rightarrow> (string \<times> nat \<times> 32 word \<times> 32 word) option" where
  "read_daemon (ReplyDaemon v u m a) = Some (v, u, m, a)" | "read_daemon _ = None"

fun read_namespaces :: "dbus_reply \<Rightarrow> ns_tuple list option" where
  "read_namespaces (ReplyNamespaces ns) = Some ns" | "read_namespaces _ = None"

fun read_status :: "dbus_reply \<Rightarrow> namespace_state option" where
  "read_status (ReplyStatus n full st path created updated) = Some
     \<lparr>st_name = n, st_full_name = full, status = (case parse_status st of Inr x \<Rightarrow> x | Inl _ \<Rightarrow> Failed),
      st_config_path = path, st_interfaces = [], st_routes = [],
      dns_config = \<lparr>di_servers = [], di_search_domains = []\<rparr>, created_at = created, last_updated = updated\<rparr>"
| "read_status _ = None"

fun read_result :: "dbus_reply \<Rightarrow> operation_result option" where
  "read_result (ReplyResult r) = Some r" | "read_result _ = None"

fun read_path :: "dbus_reply \<Rightarrow> string option" where
  "read_path (ReplyPath p) = Some p" | "read_path _ = None"

definition get_daemon_status :: "'w bus_client \<Rightarrow> ('w, rpc_failure, string \<times> nat \<times> 32 word \<times> 32 word) op" where
  "get_daemon_status cl = rpc cl ''Failed to get daemon status'' CallGetDaemonStatus read_daemon"

definition client_list_namespaces :: "'w bus_client \<Rightarrow> ('w, rpc_failure, ns_tuple list) op" where
  "client_list_namespaces cl = rpc cl ''Failed to list namespaces'' CallListNamespaces read_namespaces"

definition client_namespace_status :: "'w bus_client \<Rightarrow> string \<Rightarrow> ('w, rpc_failure, namespace_state) op" where
  "client_namespace_status cl n = rpc cl ''Failed to get namespace status'' (CallGetNamespaceStatus n) read_status"

definition reload_configuration :: "'w bus_client \<Rightarrow> ('w, rpc_failure, operation_result) op" where
  "reload_configuration cl = rpc cl ''Failed to reload configuration'' CallReloadConfiguration read_result"

definition client_restart_namespace :: "'w bus_client \<Rightarrow> string \<Rightarrow> ('w, rpc_failure, operation_result) op" where
  "client_restart_namespace cl n = rpc cl ''Failed to restart namespace'' (CallRestartNamespace n) read_result"

definition exec_authorize :: "'w bus_client \<Rightarrow> string \<Rightarrow> ('w, rpc_failure, string) op" where
  "exec_authorize cl n = rpc cl ''Failed to authorize namespace exec'' (CallExecAuthorize n) read_path"

text \<open>\<^verbatim>\<open>op()?\<close> in a command.\<close>

definition try_call :: "('w, rpc_failure, 'a) op \<Rightarrow> ('a \<Rightarrow> 'w command) \<Rightarrow> 'w command" where
  "try_call m k w = (case m w of
      (Inl (ctx, e), w') \<Rightarrow> (([], CmdFailed (ctx @ [re_text e])), w') | (Inr a, w') \<Rightarrow> k a w')"

definition when_available :: "'w bus_client \<Rightarrow> 'w command \<Rightarrow> 'w command" where
  "when_available cl k w =
     (if is_service_available cl w then k w
      else (([ErrLine ''Error: segwire daemon is not running or not accessible'',
              ErrLine ''Please ensure segwire-daemon is started and running''], CmdExit 1), w))"

section \<open>list and status\<close>

datatype status_filter = FilterActive | FilterCreating | FilterFailed | FilterDeleting

fun filter_matches :: "status_filter \<Rightarrow> string \<Rightarrow> bool" where
  "filter_matches FilterActive s = (to_lowercase s = ''active'')"
| "filter_matches FilterCreating s = (to_lowercase s = ''creating'')"
| "filter_matches FilterFailed s = starts_with ''failed'' (to_lowercase s)"
| "filter_matches FilterDeleting s = (to_lowercase s = ''deleting'')"

record list_args =
  la_format :: output_format
  la_status :: "status_filter option"
  la_verbose :: bool

definition list_command :: "'w bus_client \<Rightarrow> list_args \<Rightarrow> 'w command" where
  "list_command cl a =
     when_available cl
      (try_call (client_list_namespaces cl) (\<lambda>ns.
       let shown = (case la_status a of
             Some f \<Rightarrow> filter (\<lambda>(n, st, c, d). filter_matches f st) ns | None \<Rightarrow> ns)
       in print_end (format_namespace_list shown (la_format a) (la_verbose a))))"

record status_args =
  sa_namespace :: "string option"
  sa_format :: output_format
  sa_detailed :: bool
  sa_stats :: bool
  sa_logs :: bool

text \<open>The data that is shown of a state.\<close>

definition status_data :: "namespace_state \<Rightarrow> namespace_status_data" where
  "status_data st =
     \<lparr>sd_name = st_name st, sd_full_name = st_full_name st, sd_status = status_str (status st),
      sd_config_path = st_config_path st, sd_created_at = created_at st, sd_last_updated = last_updated st,
      sd_interfaces = map (\<lambda>i. \<lparr>id_name = ii_name i, id_iface_type = ii_type i, id_status = ii_status i,
        id_addresses = ii_addresses i\<rparr>) (st_interfaces st),
      sd_routes = map (\<lambda>r. \<lparr>rd_destination = ri_destination r, rd_gateway = ri_gateway r, rd_metric = ri_metric r,
        rd_interface = ri_interface r\<rparr>) (st_routes st),
      sd_dns_servers = di_servers (dns_config st), sd_dns_search_domains = di_search_domains (dns_config st)\<rparr>"

text \<open>\<open>fmt\<close> is the time library's format of a time.\<close>

definition show_namespace_status ::
  "(nat \<Rightarrow> string option) \<Rightarrow> 'w bus_client \<Rightarrow> string \<Rightarrow> status_args \<Rightarrow> 'w command" where
  "show_namespace_status fmt cl n a =
     (if n = [] then cmd_fail ''Namespace name cannot be empty''
      else if \<not> cli_valid_namespace_name n then cmd_fail (''Invalid namespace name: '' @ n)
      else try_call (client_namespace_status cl n) (\<lambda>st.
        print_end (format_namespace_status fmt (status_data st) (sa_format a) (sa_detailed a))))"

definition status_info :: "string \<times> nat \<times> 32 word \<times> 32 word \<Rightarrow> daemon_status_info" where
  "status_info t = (case t of (version, uptime, managed, active) \<Rightarrow>
     \<lparr>di_version = version, di_uptime_secs = uptime, di_managed_namespaces = managed, di_active_namespaces = active\<rparr>)"

definition show_all_namespaces_status :: "'w bus_client \<Rightarrow> status_args \<Rightarrow> 'w command" where
  "show_all_namespaces_status cl a =
     try_call (client_list_namespaces cl) (\<lambda>ns w. case get_daemon_status cl w of (r, w') \<Rightarrow>
       print_end (format_all_namespaces_status ns (case r of Inr d \<Rightarrow> Some (status_info d) | Inl _ \<Rightarrow> None) (sa_format a)) w')"

definition status_command :: "(nat \<Rightarrow> string option) \<Rightarrow> 'w bus_client \<Rightarrow> status_args \<Rightarrow> 'w command" where
  "status_command fmt cl a =
     when_available cl
      (case sa_namespace a of
         Some n \<Rightarrow> show_namespace_status fmt cl n a
       | None \<Rightarrow> show_all_namespaces_status cl a)"

section \<open>restart and reload\<close>

record restart_args =
  ra_namespace :: string
  ra_force :: bool
  ra_wait :: bool
  ra_timeout :: nat
  ra_verbose :: bool
  ra_format :: output_format

text \<open>\<open>answer\<close> is the line read, or the text of the I/O error.\<close>

definition confirm_restart :: "(string, string) res \<Rightarrow> string \<Rightarrow> (bool \<Rightarrow> 'w command) \<Rightarrow> 'w command" where
  "confirm_restart answer n k =
     print_then [OutPart (''Are you sure you want to restart namespace '' @ quoted n @ ''? [y/N]: '')]
      (case answer of
         Inl e \<Rightarrow> cmd_fail e
       | Inr input \<Rightarrow> k (to_lowercase (trim input) \<in> {''y'', ''yes''}))"

text \<open>The progress shown before the call, when asked for; its text is cut at 30 bytes.\<close>

definition with_progress :: "bool \<Rightarrow> string \<Rightarrow> string \<Rightarrow> 'w command \<Rightarrow> 'w command" where
  "with_progress verbose operation msg k =
     (if \<not> verbose then k
      else case progress_start (progress_new operation) msg of None \<Rightarrow> end_with CmdPanic | Some o' \<Rightarrow> print_then [o'] k)"

definition report_result :: "bool \<Rightarrow> string \<Rightarrow> string \<Rightarrow> output_format \<Rightarrow> operation_result \<Rightarrow> 'w command" where
  "report_result verbose operation msg fmt r =
     print_end ((if verbose then [if success r then progress_finish (progress_new operation) msg
                                   else progress_fail (progress_new operation) (message r)] else []) @
                format_operation_result r fmt)"

definition do_restart :: "'w bus_client \<Rightarrow> restart_args \<Rightarrow> 'w command" where
  "do_restart cl a =
     with_progress (ra_verbose a) ''Restart'' (''Restarting namespace '' @ quoted (ra_namespace a) @ ''...'')
      (try_call (client_restart_namespace cl (ra_namespace a))
        (report_result (ra_verbose a) ''Restart'' (''Namespace '' @ quoted (ra_namespace a) @ '' restarted'') (ra_format a)))"

text \<open>The command's own copy of \<open>is_valid_namespace_name\<close>.\<close>

definition restart_valid_namespace_name :: "string \<Rightarrow> bool" where
  "restart_valid_namespace_name name =
     (if name = [] \<or> length name > 255 then False
      else if \<not> is_alpha (hd name) \<and> hd name \<noteq> CHR ''_'' then False
      else list_all (\<lambda>c. is_alnum c \<or> c = CHR ''_'' \<or> c = CHR ''-'') name)"

lemma restart_valid_name [simp]: "restart_valid_namespace_name name = cli_valid_namespace_name name"
  by (auto simp: restart_valid_namespace_name_def cli_valid_namespace_name_def if_char_def list_all_iff)

definition restart_namespace :: "(string, string) res \<Rightarrow> 'w bus_client \<Rightarrow> restart_args \<Rightarrow> 'w command" where
  "restart_namespace answer cl a =
     (if ra_namespace a = [] then cmd_fail ''Namespace name cannot be empty''
      else if \<not> restart_valid_namespace_name (ra_namespace a)
        then cmd_fail (''Invalid namespace name: '' @ ra_namespace a)
      else if ra_force a then do_restart cl a
      else print_then [ErrLine (''Note: Namespace '' @ quoted (ra_namespace a) @
             '' will be recreated from its configuration file.'')]
        (confirm_restart answer (ra_namespace a) (\<lambda>yes.
          if yes then do_restart cl a else print_end [OutLine ''Restart cancelled by user''])))"

definition restart_command :: "(string, string) res \<Rightarrow> 'w bus_client \<Rightarrow> restart_args \<Rightarrow> 'w command" where
  "restart_command answer cl a = when_available cl (restart_namespace answer cl a)"

record reload_args =
  rl_wait :: bool
  rl_timeout :: nat
  rl_verbose :: bool
  rl_validate :: bool
  rl_format :: output_format

definition reload_command :: "'w bus_client \<Rightarrow> reload_args \<Rightarrow> 'w command" where
  "reload_command cl a =
     when_available cl
      (print_then (if rl_validate a \<and> rl_verbose a then [OutLine ''Validating configurations before reload...''] else [])
        (with_progress (rl_verbose a) ''Reload'' ''Initiating configuration reload...''
          (try_call (reload_configuration cl)
            (report_result (rl_verbose a) ''Reload'' ''Configuration reloaded'' (rl_format a)))))"

section \<open>exec\<close>

record exec_args =
  ea_namespace :: string
  ea_command :: "string list"

text \<open>
  The environment override, which paths exist, the directory of the running program, the output of a
  successful \<^verbatim>\<open>which\<close>, and the error of an \<^verbatim>\<open>execvp\<close> that returns.
\<close>

record exec_host =
  eh_override :: "string option"
  eh_exists :: "string \<Rightarrow> bool"
  eh_exe_dir :: "string option"
  eh_which :: "string option"
  eh_exec :: "string \<Rightarrow> string list \<Rightarrow> string option"

definition HELPER_SEARCH_PATHS :: "string list" where
  "HELPER_SEARCH_PATHS =
     [''/usr/libexec/segwire-ns-enter'', ''/usr/lib/segwire/segwire-ns-enter'', ''/usr/local/libexec/segwire-ns-enter'']"

definition debug_list :: "string list \<Rightarrow> string" where
  "debug_list ps = ''['' @ join '', '' (map (\<lambda>p. [CHR 0x22] @ p @ [CHR 0x22]) ps) @ '']''"

definition helper_missing :: string where
  "helper_missing = ''segwire-ns-enter helper not found.'' @ [newline] @ ''Searched: '' @ debug_list HELPER_SEARCH_PATHS @
     [newline] @ ''Set SEGWIRE_NS_ENTER_PATH or install segwire-ns-enter to a standard location.''"

definition existing :: "exec_host \<Rightarrow> string option \<Rightarrow> string option" where
  "existing h p = (case p of Some x \<Rightarrow> if eh_exists h x then Some x else None | None \<Rightarrow> None)"

definition find_helper_binary :: "exec_host \<Rightarrow> (string, string) res" where
  "find_helper_binary h =
     (case existing h (eh_override h) of Some p \<Rightarrow> Ok p | None \<Rightarrow>
     (case existing h (map_option (\<lambda>d. path_join d ''segwire-ns-enter'') (eh_exe_dir h)) of Some p \<Rightarrow> Ok p | None \<Rightarrow>
     (case find (eh_exists h) HELPER_SEARCH_PATHS of Some p \<Rightarrow> Ok p | None \<Rightarrow>
     (case map_option trim (eh_which h) of
        Some p \<Rightarrow> if p \<noteq> [] then Ok p else Err helper_missing
      | None \<Rightarrow> Err helper_missing))))"

definition helper_args :: "string \<Rightarrow> string list \<Rightarrow> string list" where
  "helper_args p cmd = p # ''--'' # cmd"

text \<open>The mini \<^verbatim>\<open>execvp\<close>: a null byte panics; the program is the first argument.\<close>

definition cli_execvp :: "exec_host \<Rightarrow> string \<Rightarrow> string list \<Rightarrow> 'w command" where
  "cli_execvp h program args =
     (if \<exists>a \<in> set (program # args). contains_char nul a then end_with CmdPanic
      else case eh_exec h program (program # args) of
        None \<Rightarrow> end_with (CmdBecame program (program # args))
      | Some e \<Rightarrow> cmd_fail (''Failed to exec '' @ quoted program @ '': '' @ e))"

definition exec_command_cli :: "exec_host \<Rightarrow> 'w bus_client \<Rightarrow> exec_args \<Rightarrow> 'w command" where
  "exec_command_cli h cl a =
     (if ea_command a = [] then cmd_fail ''No command specified''
      else when_available cl
        (try_call (exec_authorize cl (ea_namespace a)) (\<lambda>p.
         case find_helper_binary h of
           Inl e \<Rightarrow> cmd_fail e
         | Inr helper \<Rightarrow> cli_execvp h helper (helper_args p (ea_command a)))))"

section \<open>validate\<close>

datatype validate_format = Human | ValidateToml

record validate_args =
  va_path :: "string option"
  va_recursive :: bool
  va_format :: validate_format
  va_warnings :: bool
  va_continue :: bool

record cli_validation =
  cv_path :: string
  cv_has_errors :: bool
  cv_has_warnings :: bool
  cv_errors :: "string list"
  cv_warnings :: "string list"

text \<open>
  The files: what reading gives (or its error), size and mode, the entries of a directory, and the two
  TOML parsers, of any document and of a namespace configuration.
\<close>

record val_io =
  vo_read :: "string \<Rightarrow> (string, string) res"
  vo_meta :: "string \<Rightarrow> (string, nat \<times> 32 word) res"
  vo_is_file :: "string \<Rightarrow> bool"
  vo_is_dir :: "string \<Rightarrow> bool"
  vo_exists :: "string \<Rightarrow> bool"
  vo_dir :: "string \<Rightarrow> (string, (string, string) res list) res"
  vo_toml :: "string \<Rightarrow> (string, unit) res"
  vo_toml_ns :: "namespace_config toml"
  vo_b64 :: base64
  vo_home :: "string option"

definition cv_error :: "string \<Rightarrow> cli_validation \<Rightarrow> cli_validation" where
  "cv_error e r = r\<lparr>cv_errors := cv_errors r @ [e], cv_has_errors := True\<rparr>"

definition cv_warning :: "string \<Rightarrow> cli_validation \<Rightarrow> cli_validation" where
  "cv_warning e r = r\<lparr>cv_warnings := cv_warnings r @ [e], cv_has_warnings := True\<rparr>"

definition MAX_CONFIG_SIZE :: nat where "MAX_CONFIG_SIZE = 1024 * 1024"

definition validate_file_properties :: "val_io \<Rightarrow> string \<Rightarrow> cli_validation \<Rightarrow> cli_validation" where
  "validate_file_properties io path r =
     (case vo_meta io path of
        Inl e \<Rightarrow> cv_warning (''Could not check file properties: '' @ e) r
      | Inr (len, mode) \<Rightarrow>
          (let r1 = (if len > MAX_CONFIG_SIZE
                     then cv_warning (''File is unusually large ('' @ show_nat len @
                            '' bytes), consider splitting configuration'') r else r)
           in if mode AND 2 \<noteq> 0
              then cv_warning ''File is world-writable, this may be a security risk'' r1 else r1))"

definition check_extension :: "string \<Rightarrow> cli_validation \<Rightarrow> cli_validation" where
  "check_extension path r =
     (case extension path of
        Some x \<Rightarrow> if x \<noteq> ''toml'' then cv_warning ''File does not have .toml extension'' r else r
      | None \<Rightarrow> cv_warning ''File has no extension, expected .toml'' r)"

definition check_semantics :: "val_io \<Rightarrow> string \<Rightarrow> cli_validation \<Rightarrow> cli_validation" where
  "check_semantics io content r =
     (case vo_toml_ns io content of
        Inr c \<Rightarrow> (case validate_namespace_config (vo_b64 io) c of
            Inl e \<Rightarrow> cv_error (''Semantic validation error: '' @ show_segwire_error e) r | Inr _ \<Rightarrow> r)
      | Inl e \<Rightarrow> cv_error (''Cannot parse as NamespaceConfig: '' @ e) r)"

definition validate_single_file :: "val_io \<Rightarrow> bool \<Rightarrow> string \<Rightarrow> cli_validation" where
  "validate_single_file io warn path =
     (let r = check_extension path
         \<lparr>cv_path = path, cv_has_errors = False, cv_has_warnings = False, cv_errors = [], cv_warnings = []\<rparr> in
      case vo_read io path of
        Inl e \<Rightarrow> cv_error (''Cannot read file: '' @ e) r
      | Inr content \<Rightarrow>
          (case vo_toml io content of
             Inl e \<Rightarrow> cv_error (''TOML syntax error: '' @ e) r
           | Inr _ \<Rightarrow>
               (let r' = check_semantics io content r in
                if warn \<or> cv_has_errors r' then validate_file_properties io path r' else r')))"

text \<open>
  The recursion follows directories, which a link may close into a cycle: \<open>fuel\<close> bounds the depth, and
  \<open>None\<close> is a search that does not end within it.
\<close>

fun collect_entries :: "(string \<Rightarrow> (string, string list) res option) \<Rightarrow> val_io \<Rightarrow> bool \<Rightarrow>
    (string, string) res list \<Rightarrow> string list \<Rightarrow> (string, string list) res option" where
  "collect_entries sub io recursive [] files = Some (Ok files)"
| "collect_entries sub io recursive (Inl e # es) files = Some (Err e)"
| "collect_entries sub io recursive (Inr p # es) files =
     (if vo_is_file io p then
        collect_entries sub io recursive es (if extension p = Some ''toml'' then files @ [p] else files)
      else if vo_is_dir io p \<and> recursive then
        (case sub p of
           None \<Rightarrow> None
         | Some (Inl e) \<Rightarrow> Some (Err e)
         | Some (Inr fs) \<Rightarrow> collect_entries sub io recursive es (files @ fs))
      else collect_entries sub io recursive es files)"

primrec collect_config_files :: "nat \<Rightarrow> val_io \<Rightarrow> bool \<Rightarrow> string \<Rightarrow> (string, string list) res option" where
  "collect_config_files 0 io recursive dir = None"
| "collect_config_files (Suc fuel) io recursive dir =
     (case vo_dir io dir of
        Inl e \<Rightarrow> Some (Err e)
      | Inr es \<Rightarrow> map_option (map_sum id sort_paths)
          (collect_entries (collect_config_files fuel io recursive) io recursive es []))"

text \<open>The files in order, up to the first with an error unless asked to go on.\<close>

fun validate_files :: "val_io \<Rightarrow> validate_args \<Rightarrow> string list \<Rightarrow> cli_validation list" where
  "validate_files io a [] = []"
| "validate_files io a (f # fs) =
     (let r = validate_single_file io (va_warnings a) f in
      r # (if cv_has_errors r \<and> \<not> va_continue a then [] else validate_files io a fs))"

definition default_config_dir :: "val_io \<Rightarrow> string" where
  "default_config_dir io =
     (if vo_exists io ''/etc/segwire/namespaces'' then ''/etc/segwire/namespaces''
      else (case vo_home io of Some h \<Rightarrow> h | None \<Rightarrow> ''/tmp'') @ ''/.config/segwire/namespaces'')"

text \<open>The marks of the report.\<close>

definition mark_failed :: string where "mark_failed = [CHR 0xE2, CHR 0x9D, CHR 0x8C] @ '' FAILED''"
definition mark_warnings :: string where
  "mark_warnings = [CHR 0xE2, CHR 0x9A, CHR 0xA0, CHR 0xEF, CHR 0xB8, CHR 0x8F] @ ''  WARNINGS''"
definition mark_passed :: string where "mark_passed = [CHR 0xE2, CHR 0x9C, CHR 0x85] @ '' PASSED''"

definition human_lines :: "bool \<Rightarrow> cli_validation \<Rightarrow> out_item list" where
  "human_lines warn r =
     (let st = (if cv_has_errors r then mark_failed
                else if cv_has_warnings r \<and> warn then mark_warnings else mark_passed) in
      [OutLine (st @ '' '' @ cv_path r)] @
      map (\<lambda>e. OutLine (''  Error: '' @ e)) (cv_errors r) @
      (if warn then map (\<lambda>e. OutLine (''  Warning: '' @ e)) (cv_warnings r) else []) @
      (if cv_errors r \<noteq> [] \<or> (warn \<and> cv_warnings r \<noteq> []) then [OutLine []] else []))"

definition output_human_format :: "cli_validation list \<Rightarrow> bool \<Rightarrow> nat \<Rightarrow> nat \<Rightarrow> nat \<Rightarrow> out_item list" where
  "output_human_format rs warn n errors warned =
     [OutLine ''Configuration Validation Results'', OutLine ''================================'', OutLine []] @
     concat (map (human_lines warn) rs) @
     [OutLine ''Summary:'', OutLine (''  Total files: '' @ show_nat n),
      OutLine (''  Files with errors: '' @ show_nat errors)] @
     (if warn then [OutLine (''  Files with warnings: '' @ show_nat warned)] else []) @
     (if errors = 0 then [OutLine (''  '' @ [CHR 0xE2, CHR 0x9C, CHR 0x85] @ '' All configurations are valid!'')] else [])"

definition output_toml_format :: "cli_validation list \<Rightarrow> nat \<Rightarrow> nat \<Rightarrow> nat \<Rightarrow> out_item list" where
  "output_toml_format rs n errors warned =
     [OutToml (TTab [
        (''summary'', TTab [(''total_files'', TNat n), (''error_count'', TNat errors),
           (''warning_count'', TNat warned), (''valid'', TBool (errors = 0))]),
        (''results'', TArr (map (\<lambda>r. TTab [(''file'', TStr (cv_path r)), (''valid'', TBool (\<not> cv_has_errors r)),
           (''errors'', TArr (map TStr (cv_errors r))), (''warnings'', TArr (map TStr (cv_warnings r)))]) rs))])]"

definition count_where :: "('a \<Rightarrow> bool) \<Rightarrow> 'a list \<Rightarrow> nat" where "count_where p xs = length (filter p xs)"

definition output_validation_results ::
  "cli_validation list \<Rightarrow> validate_args \<Rightarrow> nat \<Rightarrow> nat \<Rightarrow> nat \<Rightarrow> out_item list" where
  "output_validation_results rs a n errors warned =
     (case va_format a of
        Human \<Rightarrow> output_human_format rs (va_warnings a) n errors warned
      | ValidateToml \<Rightarrow> output_toml_format rs n errors warned)"

definition finish_validation :: "validate_args \<Rightarrow> nat \<Rightarrow> cli_validation list \<Rightarrow> cmd_result" where
  "finish_validation a n rs =
     (let errors = count_where cv_has_errors rs; warned = count_where cv_has_warnings rs in
      (output_validation_results rs a n errors warned,
       if errors > 0 then CmdExit 1 else CmdDone))"

definition validate_path :: "nat \<Rightarrow> val_io \<Rightarrow> validate_args \<Rightarrow> string \<Rightarrow> cmd_result option" where
  "validate_path fuel io a path =
     (if vo_is_file io path then Some (finish_validation a 1 [validate_single_file io (va_warnings a) path])
      else if vo_is_dir io path then
        (case collect_config_files fuel io (va_recursive a) path of
           None \<Rightarrow> None
         | Some (Inl e) \<Rightarrow> Some ([], CmdFailed [e])
         | Some (Inr fs) \<Rightarrow> Some (finish_validation a (length fs) (validate_files io a fs)))
      else Some ([], CmdFailed [''Path does not exist or is not a file/directory: '' @ path]))"

definition validate_command :: "nat \<Rightarrow> val_io \<Rightarrow> validate_args \<Rightarrow> cmd_result option" where
  "validate_command fuel io a =
     (case va_path a of
        Some p \<Rightarrow> validate_path fuel io a p
      | None \<Rightarrow> map_option (apfst (\<lambda>os. OutLine (''No path specified, using default configuration directory: '' @
            default_config_dir io) # os)) (validate_path fuel io a (default_config_dir io)))"

section \<open>import-wg and the dispatch\<close>

text \<open>What \<^verbatim>\<open>import_wg::execute\<close> prints: the number of peers is that of the parsed file.\<close>

definition import_peers :: "import_io \<Rightarrow> import_wg_args \<Rightarrow> nat" where
  "import_peers io a =
     (case io_read io (im_config_path a) of
        Inl _ \<Rightarrow> 0
      | Inr content \<Rightarrow> (case parse_wg_quick content (im_namespace a) (im_interface a) of
            Inl _ \<Rightarrow> 0
          | Inr c \<Rightarrow> (case wireguard c of Some w \<Rightarrow> length (wg_peers w) | None \<Rightarrow> 0)))"

definition import_command :: "base64 \<Rightarrow> import_io \<Rightarrow> import_wg_args \<Rightarrow> cmd_result" where
  "import_command b64 io a =
     (case import_wg b64 io a of
        Inl e \<Rightarrow> ([], CmdFailed [e])
      | Inr (Printed t) \<Rightarrow> ([OutLine t], CmdDone)
      | Inr (Written f t) \<Rightarrow>
          ([OutLine ([CHR 0xE2, CHR 0x9C, CHR 0x85] @ '' Imported WireGuard config into: '' @ f),
            OutLine (''   Namespace: '' @ im_namespace a),
            OutLine (''   Interface: '' @ (case im_interface a of Some i \<Rightarrow> i | None \<Rightarrow> ''wg0'')),
            OutLine (''   Peers: '' @ show_nat (import_peers io a)), OutLine [],
            OutLine (''Run '' @ quoted ''segwire reload'' @ '' to apply the new configuration.'')], CmdDone))"

datatype commands =
    CmdStatus status_args
  | CmdList list_args
  | CmdReload reload_args
  | CmdRestart restart_args
  | CmdValidate validate_args
  | CmdExec exec_args
  | CmdImportWg import_wg_args

text \<open>Everything outside the program: the files, the terminal, the programs to execute.\<close>

record cli_world =
  cw_files :: val_io
  cw_import :: import_io
  cw_host :: exec_host
  cw_answer :: "(string, string) res"
  cw_time :: "nat \<Rightarrow> string option"

definition with_client :: "'w bus_client \<Rightarrow> 'w command \<Rightarrow> 'w command" where
  "with_client cl k w =
     (case client_new cl w of
        Inl (ctx, e) \<Rightarrow> (([ErrLine (format_dbus_error e),
            ErrLine ''Make sure segwire-daemon is running and accessible via D-Bus''],
           CmdFailed (ctx @ [re_text e])), w)
      | Inr _ \<Rightarrow> k w)"

fun run_cli :: "nat \<Rightarrow> cli_world \<Rightarrow> 'w bus_client \<Rightarrow> commands \<Rightarrow> 'w \<Rightarrow> (cmd_result \<times> 'w) option" where
  "run_cli fuel cw cl (CmdValidate a) w = map_option (\<lambda>r. (r, w)) (validate_command fuel (cw_files cw) a)"
| "run_cli fuel cw cl (CmdImportWg a) w = Some (import_command (vo_b64 (cw_files cw)) (cw_import cw) a, w)"
| "run_cli fuel cw cl (CmdStatus a) w = Some (with_client cl (status_command (cw_time cw) cl a) w)"
| "run_cli fuel cw cl (CmdList a) w = Some (with_client cl (list_command cl a) w)"
| "run_cli fuel cw cl (CmdReload a) w = Some (with_client cl (reload_command cl a) w)"
| "run_cli fuel cw cl (CmdRestart a) w = Some (with_client cl (restart_command (cw_answer cw) cl a) w)"
| "run_cli fuel cw cl (CmdExec a) w = Some (with_client cl (exec_command_cli (cw_host cw) cl a) w)"

section \<open>What validate reports\<close>

text \<open>A file is valid when it can be read, is TOML, and is a configuration the validation accepts.\<close>

definition file_valid :: "val_io \<Rightarrow> string \<Rightarrow> bool" where
  "file_valid io f = (\<exists>t c u. vo_read io f = Ok t \<and> vo_toml io t = Ok u \<and> vo_toml_ns io t = Ok c \<and>
     namespace_config_ok (vo_b64 io) c)"

lemma cv_simps [simp]:
  "cv_has_errors (cv_warning e r) = cv_has_errors r" "cv_has_errors (cv_error e r)"
  "cv_path (cv_warning e r) = cv_path r" "cv_path (cv_error e r) = cv_path r"
  by (simp_all add: cv_warning_def cv_error_def)

lemma errors_kept [simp]:
  "cv_has_errors (validate_file_properties io p r) = cv_has_errors r"
  "cv_has_errors (check_extension p r) = cv_has_errors r"
  by (auto simp: validate_file_properties_def check_extension_def Let_def split: sum.split option.split)

lemma check_semantics_errors:
  "\<not> cv_has_errors r \<Longrightarrow> cv_has_errors (check_semantics io t r) \<longleftrightarrow>
     \<not> (\<exists>c. vo_toml_ns io t = Ok c \<and> namespace_config_ok (vo_b64 io) c)"
proof (cases "vo_toml_ns io t")
  case (Inr c)
  assume "\<not> cv_has_errors r"
  then show ?thesis using Inr validate_namespace_config_iff [of "vo_b64 io" c]
    by (cases "validate_namespace_config (vo_b64 io) c") (auto simp: check_semantics_def)
qed (simp add: check_semantics_def)

lemma validate_single_file_iff: "cv_has_errors (validate_single_file io warn f) \<longleftrightarrow> \<not> file_valid io f"
proof (cases "vo_read io f")
  case (Inl e)
  then show ?thesis by (simp add: validate_single_file_def file_valid_def Let_def)
next
  case (Inr t)
  show ?thesis
  proof (cases "vo_toml io t")
    case (Inl e)
    then show ?thesis using Inr by (simp add: validate_single_file_def file_valid_def Let_def)
  next
    case toml: (Inr u)
    show ?thesis using Inr toml
      by (simp add: validate_single_file_def file_valid_def Let_def check_semantics_errors)
  qed
qed

lemma validate_files_errors:
  "(\<exists>r \<in> set (validate_files io a fs). cv_has_errors r) \<longleftrightarrow> (\<exists>f \<in> set fs. \<not> file_valid io f)"
  by (induction fs) (auto simp: Let_def validate_single_file_iff)

lemma count_where_pos: "0 < count_where p xs \<longleftrightarrow> (\<exists>x \<in> set xs. p x)"
  by (auto simp: count_where_def filter_empty_conv)

lemma finish_exit: "exit_code (finish_validation a n rs) = Some (if \<exists>r \<in> set rs. cv_has_errors r then 1 else 0)"
  by (simp add: finish_validation_def exit_code_def Let_def count_where_pos)

text \<open>The configuration files below a directory.\<close>

inductive toml_below :: "val_io \<Rightarrow> bool \<Rightarrow> string \<Rightarrow> string \<Rightarrow> bool" for io recursive where
  here: "vo_dir io d = Ok es \<Longrightarrow> Ok p \<in> set es \<Longrightarrow> vo_is_file io p \<Longrightarrow> extension p = Some ''toml'' \<Longrightarrow>
    toml_below io recursive d p"
| below: "vo_dir io d = Ok es \<Longrightarrow> Ok s \<in> set es \<Longrightarrow> \<not> vo_is_file io s \<Longrightarrow> vo_is_dir io s \<Longrightarrow> recursive \<Longrightarrow>
    toml_below io recursive s p \<Longrightarrow> toml_below io recursive d p"

inductive_simps toml_below_simps: "toml_below io recursive d p"

lemma set_sort_paths [simp]: "set (sort_paths ps) = set ps"
  by (simp add: sort_paths_def)

lemma collect_entries_set:
  assumes "collect_entries sub io recursive es files = Some (Ok fs)"
    and "\<And>d l. Inr d \<in> set es \<Longrightarrow> sub d = Some (Ok l) \<Longrightarrow> set l = {p. toml_below io recursive d p}"
  shows "set fs = set files \<union> {p. \<exists>s. Inr s \<in> set es \<and>
      (vo_is_file io s \<and> extension s = Some ''toml'' \<and> p = s \<or>
       \<not> vo_is_file io s \<and> vo_is_dir io s \<and> recursive \<and> toml_below io recursive s p)}"
  using assms
proof (induction sub io recursive es files rule: collect_entries.induct)
  case (3 sub io recursive s es files)
  note sub_set = "3.prems"(2)
  consider (regular) "vo_is_file io s" | (dir) "\<not> vo_is_file io s" "vo_is_dir io s" "recursive"
    | (neither) "\<not> vo_is_file io s" "\<not> (vo_is_dir io s \<and> recursive)"
    by blast
  then show ?case
  proof cases
    case regular
    then have "set fs = set (if extension s = Some ''toml'' then files @ [s] else files) \<union> {p. \<exists>s. Inr s \<in> set es \<and>
      (vo_is_file io s \<and> extension s = Some ''toml'' \<and> p = s \<or>
       \<not> vo_is_file io s \<and> vo_is_dir io s \<and> recursive \<and> toml_below io recursive s p)}"
      using "3.IH"(1) "3.prems"(1) sub_set by simp
    then show ?thesis using regular by auto
  next
    case dir
    then obtain l where l: "sub s = Some (Ok l)" "collect_entries sub io recursive es (files @ l) = Some (Ok fs)"
      using "3.prems"(1) by (auto split: option.splits sum.splits)
    have "set l = {p. toml_below io recursive s p}" using sub_set [OF _ l(1)] by simp
    moreover have "set fs = set (files @ l) \<union> {p. \<exists>s. Inr s \<in> set es \<and>
      (vo_is_file io s \<and> extension s = Some ''toml'' \<and> p = s \<or>
       \<not> vo_is_file io s \<and> vo_is_dir io s \<and> recursive \<and> toml_below io recursive s p)}"
      using "3.IH"(2) [OF _ _ l(1) refl l(2)] dir sub_set by simp
    ultimately show ?thesis using dir by auto
  next
    case neither
    have c: "collect_entries sub io recursive es files = Some (Ok fs)"
      using "3.prems"(1) neither by (auto split: if_splits)
    have "set fs = set files \<union> {p. \<exists>s. Inr s \<in> set es \<and>
      (vo_is_file io s \<and> extension s = Some ''toml'' \<and> p = s \<or>
       \<not> vo_is_file io s \<and> vo_is_dir io s \<and> recursive \<and> toml_below io recursive s p)}"
      by (rule "3.IH"(3) [OF neither c]) (simp add: sub_set)
    then show ?thesis using neither by auto
  qed
qed simp_all

lemma sorted_collection:
  assumes "map_sum id f z = Inr fs"
  obtains l where "z = Inr l" "fs = f l"
  using assms by (cases z) auto

lemma collected_files:
  "collect_config_files fuel io recursive d = Some (Ok fs) \<Longrightarrow> set fs = {p. toml_below io recursive d p}"
proof (induction fuel arbitrary: d fs)
  case (Suc fuel)
  obtain es l where es: "vo_dir io d = Ok es"
    and l: "collect_entries (collect_config_files fuel io recursive) io recursive es [] = Some (Ok l)" "fs = sort_paths l"
    using Suc.prems by (auto split: sum.splits elim!: sorted_collection)
  have "set l = {p. \<exists>s. Inr s \<in> set es \<and>
      (vo_is_file io s \<and> extension s = Some ''toml'' \<and> p = s \<or>
       \<not> vo_is_file io s \<and> vo_is_dir io s \<and> recursive \<and> toml_below io recursive s p)}"
    using collect_entries_set [OF l(1) Suc.IH] by simp
  then show ?case using es unfolding l(2) set_sort_paths by (subst toml_below_simps) auto
qed simp

text \<open>
  The directories a search looks into, and those it can read to the end: the directory is listed and
  none of its entries fails.
\<close>

inductive searched :: "val_io \<Rightarrow> bool \<Rightarrow> string \<Rightarrow> string \<Rightarrow> bool" for io recursive where
  itself: "searched io recursive d d"
| under: "vo_dir io d = Ok es \<Longrightarrow> Ok s \<in> set es \<Longrightarrow> \<not> vo_is_file io s \<Longrightarrow> vo_is_dir io s \<Longrightarrow> recursive \<Longrightarrow>
    searched io recursive s p \<Longrightarrow> searched io recursive d p"

inductive_simps searched_simps: "searched io recursive d p"

definition listable :: "val_io \<Rightarrow> string \<Rightarrow> bool" where
  "listable io d = (case vo_dir io d of Inl _ \<Rightarrow> False | Inr es \<Rightarrow> list_all is_ok es)"

lemma collect_entries_result:
  assumes "collect_entries sub io recursive es files = Some r"
  shows "if is_ok r then list_all is_ok es \<and>
      (\<forall>s. Inr s \<in> set es \<longrightarrow> \<not> vo_is_file io s \<longrightarrow> vo_is_dir io s \<longrightarrow> recursive \<longrightarrow> (\<exists>l. sub s = Some (Ok l)))
    else \<not> list_all is_ok es \<or>
      (\<exists>s e. Inr s \<in> set es \<and> \<not> vo_is_file io s \<and> vo_is_dir io s \<and> recursive \<and> sub s = Some (Err e))"
  using assms
proof (induction sub io recursive es files rule: collect_entries.induct)
  case (3 sub io recursive p es files)
  then show ?case by (cases "is_ok r") (auto split: if_splits option.splits sum.splits)
qed auto

lemma collected_iff:
  assumes "collect_config_files fuel io recursive d = Some r"
  shows "is_ok r \<longleftrightarrow> (\<forall>s. searched io recursive d s \<longrightarrow> listable io s)"
  using assms
proof (induction fuel arbitrary: d r)
  case (Suc fuel)
  show ?case
  proof (cases "vo_dir io d")
    case (Inl e)
    then have "\<not> listable io d" "\<not> is_ok r" using Suc.prems by (auto simp: listable_def)
    then show ?thesis using searched.itself by blast
  next
    case (Inr es)
    let ?sub = "\<lambda>s. Inr s \<in> set es \<and> \<not> vo_is_file io s \<and> vo_is_dir io s \<and> recursive"
    obtain q where q: "collect_entries (collect_config_files fuel io recursive) io recursive es [] = Some q"
      and r: "r = map_sum id sort_paths q" using Suc.prems Inr by auto
    have ok: "is_ok r \<longleftrightarrow> is_ok q" unfolding r by (cases q) simp_all
    have listed: "listable io d \<longleftrightarrow> list_all is_ok es" using Inr by (simp add: listable_def)
    have step: "searched io recursive d p \<longleftrightarrow> p = d \<or> (\<exists>s. ?sub s \<and> searched io recursive s p)" for p
      using Inr by (subst searched_simps) auto
    show ?thesis
    proof (cases "is_ok q")
      case True
      have "listable io p" if sub: "?sub s" and p: "searched io recursive s p" for s p
      proof -
        obtain l where "collect_config_files fuel io recursive s = Some (Ok l)"
          using collect_entries_result [OF q] sub unfolding if_P [OF True] by blast
        from Suc.IH [OF this] show ?thesis using p by simp
      qed
      moreover have "listable io d" using collect_entries_result [OF q] True listed by simp
      ultimately show ?thesis using True unfolding ok step by blast
    next
      case False
      then consider "\<not> list_all is_ok es" | s e where "?sub s" "collect_config_files fuel io recursive s = Some (Err e)"
        using collect_entries_result [OF q] unfolding if_not_P [OF False] by blast
      then have "\<exists>p. searched io recursive d p \<and> \<not> listable io p"
      proof cases
        case 2
        then show ?thesis using Suc.IH [OF 2(2)] unfolding step by auto
      qed (use listed searched.itself in blast)
      then show ?thesis using False ok by blast
    qed
  qed
qed simp

text \<open>
  C14: \<^verbatim>\<open>segwire validate\<close> on a directory that gives a result exits with 0 exactly when every directory it
  searches can be read to the end and every \<^verbatim>\<open>.toml\<close> file in them can be read and is a valid
  configuration, and with 1 otherwise, whether or not it stops at the first error.  It searches the
  directory itself and, only with \<^verbatim>\<open>--recursive\<close>, the directories below it.
\<close>

lemma validate_exit_status:
  assumes "validate_path fuel io a d = Some r" "vo_is_dir io d" "\<not> vo_is_file io d"
  shows "exit_code r = Some (if (\<forall>s. searched io (va_recursive a) d s \<longrightarrow> listable io s) \<and>
      (\<forall>f. toml_below io (va_recursive a) d f \<longrightarrow> file_valid io f) then 0 else 1)"
proof -
  obtain q where q: "collect_config_files fuel io (va_recursive a) d = Some q"
    "r = (case q of Inl e \<Rightarrow> ([], CmdFailed [e]) | Inr fs \<Rightarrow> finish_validation a (length fs) (validate_files io a fs))"
    using assms by (auto simp: validate_path_def split: option.splits sum.splits)
  note all = collected_iff [OF q(1)]
  show ?thesis
  proof (cases q)
    case (Inl e)
    then show ?thesis using all q(2) by (auto simp: exit_code_def)
  next
    case (Inr fs)
    have "set fs = {p. toml_below io (va_recursive a) d p}" using collected_files q(1) Inr by blast
    then show ?thesis using all q(2) Inr by (auto simp: finish_exit validate_files_errors)
  qed
qed

section \<open>The search of files ends\<close>

lemma collect_entries_ends:
  assumes "\<And>s. Inr s \<in> set es \<Longrightarrow> vo_is_dir io s \<Longrightarrow> \<not> vo_is_file io s \<Longrightarrow> sub s \<noteq> None"
  shows "collect_entries sub io recursive es files \<noteq> None"
  using assms
proof (induction sub io recursive es files rule: collect_entries.induct)
  case (3 sub io recursive s es files)
  then show ?case using "3.prems" [of s] by (cases "vo_is_file io s"; cases "sub s") (auto split: sum.split)
qed simp_all

lemma collect_ends:
  assumes "\<And>d es s. vo_dir io d = Ok es \<Longrightarrow> Ok s \<in> set es \<Longrightarrow> vo_is_dir io s \<Longrightarrow> rk s < (rk d :: nat)"
  shows "rk d < fuel \<Longrightarrow> collect_config_files fuel io recursive d \<noteq> None"
proof (induction fuel arbitrary: d)
  case (Suc fuel)
  show ?case
  proof (cases "vo_dir io d")
    case (Inr es)
    have "collect_config_files fuel io recursive s \<noteq> None" if "Inr s \<in> set es" "vo_is_dir io s" for s
      using Suc assms [OF Inr that] by simp
    then have "collect_entries (collect_config_files fuel io recursive) io recursive es [] \<noteq> None"
      by (intro collect_entries_ends) simp
    then show ?thesis using Inr by simp
  qed simp
qed simp

text \<open>
  C37: validation ends with a result when the directories are nested to a finite depth: a depth that
  decreases at each directory entry is enough fuel, however the files are.
\<close>

lemma validation_ends:
  assumes "\<And>d es s. vo_dir io d = Ok es \<Longrightarrow> Ok s \<in> set es \<Longrightarrow> vo_is_dir io s \<Longrightarrow> rk s < (rk d :: nat)"
    and "\<And>d. rk d < fuel"
  shows "validate_command fuel io a \<noteq> None"
proof -
  have "validate_path fuel io a d \<noteq> None" for d
  proof -
    have "collect_config_files fuel io (va_recursive a) d \<noteq> None"
      using assms by (rule collect_ends)
    then show ?thesis by (auto simp: validate_path_def split: option.split sum.split)
  qed
  then show ?thesis by (cases "va_path a") (simp_all add: validate_command_def del: not_None_eq)
qed

section \<open>The commands do not panic\<close>

lemma truncate_ascii:
  assumes "list_all is_ascii s" "0 < m"
  shows "\<exists>t. truncate_string s m = Some t"
proof (cases "length s \<le> m")
  case False
  then have "is_ascii (s ! (m - 1))" using assms by (simp add: list_all_length)
  then have "char_boundary s (m - 1)" using False by (auto simp: char_boundary_def is_ascii_def cont_byte_def)
  then show ?thesis using False by (simp add: truncate_string_def)
qed (simp add: truncate_string_def)

lemma cli_name_ascii: "cli_valid_namespace_name s \<Longrightarrow> list_all is_ascii s"
  using dbus_name_char_ascii by (auto simp: cli_valid_namespace_name_def list_all_iff split: if_splits)

lemma progress_ascii:
  assumes "list_all is_ascii m"
  obtains x where "progress_start (progress_new operation) m = Some x"
  using truncate_ascii [OF assms, of 30] by (auto simp: progress_update_def Let_def)

lemma print_then_panic [simp]: "snd (fst (print_then os c w)) = CmdPanic \<longleftrightarrow> snd (fst (c w)) = CmdPanic"
  by (simp add: print_then_def split: prod.split)

lemma ends_simps [simp]: "fst (end_with e w) = ([], e)" "snd (end_with e w) = w"
  by (simp_all add: end_with_def)

lemma try_call_panic: "(\<And>x w'. snd (fst (k x w')) \<noteq> CmdPanic) \<Longrightarrow> snd (fst (try_call m k w)) \<noteq> CmdPanic"
  by (auto simp: try_call_def split: prod.split sum.split)

lemma when_available_panic: "snd (fst (k w)) \<noteq> CmdPanic \<Longrightarrow> snd (fst (when_available cl k w)) \<noteq> CmdPanic"
  by (simp add: when_available_def)

lemma report_no_panic: "snd (fst (report_result v p m f r w)) \<noteq> CmdPanic"
  by (simp add: report_result_def)

lemma do_restart_no_panic:
  assumes "cli_valid_namespace_name (ra_namespace a)"
  shows "snd (fst (do_restart cl a w)) \<noteq> CmdPanic"
proof -
  have "list_all is_ascii (''Restarting namespace '' @ quoted (ra_namespace a) @ ''...'')"
    using cli_name_ascii [OF assms] by (simp add: quoted_def is_ascii_def code_def)
  then obtain x where "progress_start (progress_new ''Restart'') (''Restarting namespace '' @ quoted (ra_namespace a) @ ''...'') = Some x"
    by (rule progress_ascii)
  then show ?thesis
    unfolding do_restart_def with_progress_def by (simp add: try_call_panic report_no_panic)
qed

text \<open>
  \<^verbatim>\<open>segwire restart\<close> and \<^verbatim>\<open>segwire reload\<close> never panic: the name is checked before the progress text that
  holds it is cut at a byte position, and a checked name is ASCII.
\<close>

lemma restart_reload_no_panic:
  "snd (fst (restart_command answer cl a w)) \<noteq> CmdPanic \<and> snd (fst (reload_command cl b w)) \<noteq> CmdPanic"
proof
  show "snd (fst (restart_command answer cl a w)) \<noteq> CmdPanic"
    unfolding restart_command_def restart_namespace_def
    by (rule when_available_panic) (auto simp: cmd_fail_def confirm_restart_def do_restart_no_panic split: sum.split)
  have "list_all is_ascii ''Initiating configuration reload...''" by code_simp
  then obtain x where "progress_start (progress_new ''Reload'') ''Initiating configuration reload...'' = Some x"
    by (rule progress_ascii)
  then show "snd (fst (reload_command cl b w)) \<noteq> CmdPanic"
    unfolding reload_command_def
    by (intro when_available_panic) (simp add: with_progress_def try_call_panic report_no_panic)
qed

section \<open>The commands against the daemon\<close>

text \<open>
  The client whose calls the daemon of \<^verbatim>\<open>DbusService\<close> answers.  An error of a method has the name every
  failed method has and the message of the daemon.
\<close>

definition method_error :: "string \<Rightarrow> rpc_error" where
  "method_error m = \<lparr>re_name = Some ''org.freedesktop.DBus.Error.Failed'', re_message = Some m, re_text = m\<rparr>"

definition daemon_client :: "'k service_io \<Rightarrow> string option \<Rightarrow> nat \<Rightarrow> 'k service bus_client" where
  "daemon_client io sender now =
     \<lparr>bc_connect = (\<lambda>_. Ok ()), bc_introspect = (\<lambda>_. Ok ()),
      bc_call = (\<lambda>c. mapErrS method_error (handle_call io sender now c)), bc_mismatch = method_error []\<rparr>"

lemma daemon_rpc:
  "rpc (daemon_client io sender now) ctx c read svc =
     (case handle_call io sender now c svc of
        (Inl m, svc') \<Rightarrow> (Err ([ctx], method_error m), svc')
      | (Inr r, svc') \<Rightarrow> (case read r of Some a \<Rightarrow> Ok a | None \<Rightarrow> Err ([ctx], method_error []), svc'))"
  by (cases "handle_call io sender now c svc"; cases "fst (handle_call io sender now c svc)")
    (auto simp: rpc_def daemon_client_def mapErrS_def split: option.split)

text \<open>The tuple each function of the client reads is the one the handler of its method returns.\<close>

lemma client_reads_reply:
  assumes "handle_call io sender now c svc = (Ok x, svc')"
  shows "case c of CallListNamespaces \<Rightarrow> read_namespaces x \<noteq> None | CallGetNamespaceStatus n \<Rightarrow> read_status x \<noteq> None
    | CallReloadConfiguration \<Rightarrow> read_result x \<noteq> None | CallGetDaemonStatus \<Rightarrow> read_daemon x \<noteq> None
    | CallRestartNamespace n \<Rightarrow> read_result x \<noteq> None | CallExecAuthorize n \<Rightarrow> read_path x \<noteq> None | _ \<Rightarrow> True"
  using handler_typed [OF assms]
  by (cases c; cases x) (simp_all add: against_interface_def declared_results_simps)

lemma daemon_available [simp]: "when_available (daemon_client io sender now) k svc = k svc"
  by (simp add: when_available_def is_service_available_def daemon_client_def)

lemma read_path_Some [simp]: "read_path r = Some p \<longleftrightarrow> r = ReplyPath p"
  by (cases r) auto

text \<open>Without the null byte, the helper gets the words given.\<close>

lemma cli_execvp_became:
  "cli_execvp h program args w = ((os, CmdBecame p l), w') \<longleftrightarrow>
     os = [] \<and> w' = w \<and> p = program \<and> l = program # args \<and> (\<forall>a \<in> set l. nul \<notin> set a) \<and> eh_exec h p l = None"
  by (auto simp: cli_execvp_def end_with_def cmd_fail_def contains_char_def split: option.splits)

lemma exec_became:
  assumes "exec_command_cli h (daemon_client io sender now) a svc = ((os, CmdBecame prog l), svc')"
  obtains p where "handle_call io sender now (CallExecAuthorize (ea_namespace a)) svc = (Ok (ReplyPath p), svc')"
    "l = prog # p # ''--'' # ea_command a" "ea_command a \<noteq> []" "nul \<notin> set p" "os = []"
proof -
  have "ea_command a \<noteq> []" using assms by (auto simp: exec_command_cli_def cmd_fail_def end_with_def)
  obtain r svc1 where call: "handle_call io sender now (CallExecAuthorize (ea_namespace a)) svc = (r, svc1)"
    by fastforce
  obtain p where p: "r = Ok (ReplyPath p)"
    using assms call by (cases r)
      (auto simp: exec_command_cli_def try_call_def exec_authorize_def daemon_rpc cmd_fail_def end_with_def
        split: if_splits option.splits)
  then obtain helper where "cli_execvp h helper (helper_args p (ea_command a)) svc1 = ((os, CmdBecame prog l), svc')"
    using assms call \<open>ea_command a \<noteq> []\<close>
    by (auto simp: exec_command_cli_def try_call_def exec_authorize_def daemon_rpc cmd_fail_def end_with_def
        split: if_splits option.splits sum.splits)
  then show thesis
    using that call p \<open>ea_command a \<noteq> []\<close> by (auto simp: cli_execvp_became helper_args_def)
qed

lemma dots_bytes: "CHR ''.'' \<notin> set s \<Longrightarrow> \<not> contains_str ''..'' s"
proof
  assume "CHR ''.'' \<notin> set s" "contains_str ''..'' s"
  then show False by (auto simp: contains_str_sublist sublist_def)
qed

text \<open>
  C7: \<^verbatim>\<open>segwire exec\<close> hands the helper exactly the command given and the file of the namespace: when it
  becomes the helper, the sender is authorized, the namespace is active, and the helper, run with those
  arguments on a file that is not a link, accepts them and enters that namespace with that command.
\<close>

lemma exec_enters_namespace:
  assumes "exec_command_cli h (daemon_client io sender now) a svc = ((os, CmdBecame prog l), svc')"
    "utf8 (ea_namespace a)" "name_shape (prefix_of (sv_config svc))"
    and "prog \<noteq> ''--''" "an_lstat an (exec_path (full_name_of (ea_namespace a) svc)) = Ok False"
  shows "svc' = svc \<and> svc_check_authorization svc ''exec'' sender = Ok () \<and>
    (\<exists>ns. find_state (ea_namespace a) svc = Some ns \<and> is_active ns) \<and>
    (\<exists>cmd as. ea_command a = cmd # as \<and>
       ns_enter_main an l = enter_and_exec an (exec_path (full_name_of (ea_namespace a) svc)) cmd as)"
proof -
  obtain p where call: "handle_call io sender now (CallExecAuthorize (ea_namespace a)) svc = (Ok (ReplyPath p), svc')"
    and l: "l = prog # p # ''--'' # ea_command a" "ea_command a \<noteq> []" "nul \<notin> set p"
    using exec_became [OF assms(1)] by metis
  note e = exec_reply [OF call]
  let ?full = "full_name_of (ea_namespace a) svc"
  obtain cmd as where cmd: "ea_command a = cmd # as" using l(2) by (cases "ea_command a") auto
  have bytes: "CHR ''/'' \<notin> set ?full" "CHR ''.'' \<notin> set ?full"
    using full_name_bytes [OF assms(2) e(1) assms(3)] by auto
  have "?full \<noteq> []" using e(1)
    by (auto simp: dbus_validate_namespace_name_def full_name_of_def generate_full_name_cm_def full_name_for_def)
  then have "validate_ns_path (an_lstat an) p = Ok ()"
    using bytes dots_bytes [OF bytes(2)] l(3) assms(5) unfolding validate_ns_path_iff e(3)
    by (auto simp: exec_path_def ALLOWED_NS_PREFIX_def)
  moreover have "parse_args l = Ok (p, cmd, as)"
    using assms(4) e(3) by (auto simp: parse_args_iff l(1) cmd exec_path_def)
  ultimately have "ns_enter_main an l = enter_and_exec an p cmd as" by (simp add: ns_enter_main_def)
  moreover have "svc_check_authorization svc ''exec'' sender = Ok ()" using accepted_call [OF call] by simp
  ultimately show ?thesis using e cmd by auto
qed

section \<open>Concrete inputs\<close>

text \<open>A directory with one valid file, one invalid file and a subdirectory with a valid one.\<close>

definition sample_val :: val_io where
  "sample_val = \<lparr>vo_read = (\<lambda>p. Ok p), vo_meta = (\<lambda>_. Ok (10, 0x1A4)), vo_is_file = (\<lambda>p. extension p \<noteq> None),
     vo_is_dir = (\<lambda>p. p \<in> {''/d'', ''/d/s''}), vo_exists = (\<lambda>_. True),
     vo_dir = (\<lambda>d. if d = ''/d'' then Ok [Ok ''/d/b.toml'', Ok ''/d/s'', Ok ''/d/n.txt'']
                  else if d = ''/d/s'' then Ok [Ok ''/d/s/a.toml''] else Err ''not a directory''),
     vo_toml = (\<lambda>_. Ok ()), vo_toml_ns = (\<lambda>t. Ok (sample_config (if t = ''/d/b.toml'' then ''b/'' else ''web''))),
     vo_b64 = no_base64, vo_home = None\<rparr>"

definition sample_validate_args :: "bool \<Rightarrow> validate_args" where
  "sample_validate_args r = \<lparr>va_path = Some ''/d'', va_recursive = r, va_format = Human, va_warnings = False,
     va_continue = False\<rparr>"

lemma status_one: "Some (1 :: nat) = Some (if Q then 0 else 1) \<Longrightarrow> \<not> Q"
  by (simp split: if_splits)

lemma validate_exit_status_witness:
  "map_option exit_code (validate_path 2 sample_val (sample_validate_args True) ''/d'') = Some (Some 1) \<and>
   \<not> ((\<forall>s. searched sample_val True ''/d'' s \<longrightarrow> listable sample_val s) \<and>
      (\<forall>f. toml_below sample_val True ''/d'' f \<longrightarrow> file_valid sample_val f))"
proof -
  let ?a = "sample_validate_args True"
  obtain r where r: "validate_path 2 sample_val ?a ''/d'' = Some r" "exit_code r = Some 1"
  proof -
    have "map_option exit_code (validate_path 2 sample_val ?a ''/d'') = Some (Some 1)" by code_simp
    then show thesis using that by auto
  qed
  have d: "vo_is_dir sample_val ''/d''" "\<not> vo_is_file sample_val ''/d''" by code_simp+
  have a: "va_recursive ?a" by (simp add: sample_validate_args_def)
  show ?thesis
    using status_one [OF trans [OF r(2) [symmetric] validate_exit_status [OF r(1) d]]] a
    unfolding r(1) option.map r(2) by (simp only: refl simp_thms)
qed

definition sample_rank :: "string \<Rightarrow> nat" where
  "sample_rank d = (if d = ''/d'' then 1 else 0)"

lemma validation_ends_witness: "validate_command 2 sample_val (sample_validate_args True) \<noteq> None"
proof (rule validation_ends [where rk = sample_rank])
  show "sample_rank s < sample_rank d" if "vo_dir sample_val d = Ok es" "Ok s \<in> set es" "vo_is_dir sample_val s" for d es s
    using that by (auto simp: sample_val_def sample_rank_def split: if_splits)
  show "sample_rank d < 2" for d by (simp add: sample_rank_def)
qed

definition sample_exec :: exec_args where
  "sample_exec = \<lparr>ea_namespace = ''web'', ea_command = [''id'', ''-u'']\<rparr>"

definition sample_exec_host :: exec_host where
  "sample_exec_host = \<lparr>eh_override = None, eh_exists = (\<lambda>p. p = ''/usr/lib/segwire/segwire-ns-enter''),
     eh_exe_dir = Some ''/usr/bin'', eh_which = None, eh_exec = (\<lambda>_ _. None)\<rparr>"

lemma exec_enters_namespace_witness:
  "ns_enter_main sample_answers
     [''/usr/lib/segwire/segwire-ns-enter'', ''/run/netns/sw-web'', ''--'', ''id'', ''-u''] =
   enter_and_exec sample_answers ''/run/netns/sw-web'' ''id'' [''-u'']"
proof -
  let ?helper = "''/usr/lib/segwire/segwire-ns-enter''"
  let ?l = "[?helper, ''/run/netns/sw-web'', ''--'', ''id'', ''-u'']"
  have "fst (handle_call svc_io (Some '':root'') 0 (CallExecAuthorize ''web'') sample_service) =
      Ok (ReplyPath ''/run/netns/sw-web'')" by code_simp
  then have r: "handle_call svc_io (Some '':root'') 0 (CallExecAuthorize ''web'') sample_service =
      (Ok (ReplyPath ''/run/netns/sw-web''), sample_service)" by (rule query_reply) simp_all
  have h: "find_helper_binary sample_exec_host = Ok ?helper" by code_simp
  have "fst (cli_execvp sample_exec_host ?helper (helper_args ''/run/netns/sw-web'' [''id'', ''-u'']) ()) =
      ([], CmdBecame ?helper ?l)" by code_simp
  then have x: "cli_execvp sample_exec_host ?helper (helper_args ''/run/netns/sw-web'' [''id'', ''-u'']) sample_service =
      (([], CmdBecame ?helper ?l), sample_service)"
    by (auto simp: cli_execvp_def end_with_def cmd_fail_def split: if_splits option.splits)
  have c: "exec_command_cli sample_exec_host (daemon_client svc_io (Some '':root'') 0) sample_exec sample_service =
      (([], CmdBecame ?helper ?l), sample_service)"
    by (simp add: exec_command_cli_def sample_exec_def try_call_def exec_authorize_def daemon_rpc r h x del: handle_call.simps)
  have s: "full_name_of ''web'' sample_service = ''sw-web''" "utf8 ''web''"
    "name_shape (prefix_of (sv_config sample_service))" by code_simp+
  have "ea_namespace sample_exec = ''web''" by (simp add: sample_exec_def)
  then show ?thesis
    using exec_enters_namespace [OF c, of sample_answers] s
    by (simp add: sample_exec_def sample_answers_def exec_path_def)
qed

end
