(* ===== verification/NetlinkWire.thy ===== *)
theory NetlinkWire
  imports Netns
begin

text \<open>
  The netlink socket of \<^verbatim>\<open>segwire-netlink/src/lib.rs\<close>: the framing of requests byte by byte, the
  receive loop, and the two generic netlink helpers.  A byte is an 8-bit word; the byte order of
  \<^verbatim>\<open>to_ne_bytes\<close> is a parameter.  An index or a slice out of range is a panic, which is a value
  here.  Reading one message (\<^verbatim>\<open>netlink-packet-core\<close>) and the socket calls are parameters.
\<close>

unbundle bit_operations_syntax

section \<open>Bytes\<close>

type_synonym byte = "8 word"

datatype endian = LittleEndian | BigEndian

datatype wire_stop = WirePanic | WireErr netlink_error

type_synonym 'a wres = "(wire_stop, 'a) res"

definition ne :: "endian \<Rightarrow> 'a list \<Rightarrow> 'a list" where
  "ne e bs = (case e of LittleEndian \<Rightarrow> bs | BigEndian \<Rightarrow> rev bs)"

definition u16_bytes :: "endian \<Rightarrow> 16 word \<Rightarrow> byte list" where
  "u16_bytes e w = ne e [ucast w, ucast (drop_bit 8 w)]"

definition u32_bytes :: "endian \<Rightarrow> 32 word \<Rightarrow> byte list" where
  "u32_bytes e w = ne e [ucast w, ucast (drop_bit 8 w), ucast (drop_bit 16 w), ucast (drop_bit 24 w)]"

fun u16_le :: "byte list \<Rightarrow> 16 word" where
  "u16_le (a # b # _) = ucast a OR push_bit 8 (ucast b)"
| "u16_le _ = 0"

fun u32_le :: "byte list \<Rightarrow> 32 word" where
  "u32_le (a # b # c # d # _) =
     ucast a OR push_bit 8 (ucast b) OR push_bit 16 (ucast c) OR push_bit 24 (ucast d)"
| "u32_le _ = 0"

definition get_slice :: "nat \<Rightarrow> nat \<Rightarrow> byte list \<Rightarrow> byte list wres" where
  "get_slice off n buf = (if off + n \<le> length buf then Ok (take n (drop off buf)) else Err WirePanic)"

definition u16_at :: "endian \<Rightarrow> byte list \<Rightarrow> nat \<Rightarrow> 16 word wres" where
  "u16_at e buf off = tryR (get_slice off 2 buf) (\<lambda>bs. Ok (u16_le (ne e bs)))"

definition u32_at :: "endian \<Rightarrow> byte list \<Rightarrow> nat \<Rightarrow> 32 word wres" where
  "u32_at e buf off = tryR (get_slice off 4 buf) (\<lambda>bs. Ok (u32_le (ne e bs)))"

text \<open>\<^verbatim>\<open>buf[off..off + n].copy_from_slice(bs)\<close>\<close>

definition copy_at :: "nat \<Rightarrow> byte list \<Rightarrow> byte list \<Rightarrow> byte list wres" where
  "copy_at off bs buf = (if off + length bs \<le> length buf
     then Ok (take off buf @ bs @ drop (off + length bs) buf) else Err WirePanic)"

fun copy_all :: "(nat \<times> byte list) list \<Rightarrow> byte list \<Rightarrow> byte list wres" where
  "copy_all [] buf = Ok buf"
| "copy_all ((off, bs) # ws) buf = tryR (copy_at off bs buf) (copy_all ws)"

text \<open>\<^verbatim>\<open>(n + 3) & !3\<close> on \<^verbatim>\<open>usize\<close>; lengths are far below its bound.\<close>

definition align4 :: "nat \<Rightarrow> nat" where "align4 n = (n + 3) div 4 * 4"

definition bytes_of :: "string \<Rightarrow> byte list" where "bytes_of s = map (\<lambda>c. word_of_nat (code c)) s"

section \<open>Flags\<close>

definition NLM_F_REQUEST :: "16 word" where "NLM_F_REQUEST = 1"
definition NLM_F_ACK :: "16 word" where "NLM_F_ACK = 4"
definition NLM_F_DUMP :: "16 word" where "NLM_F_DUMP = 0x300"
definition NLM_F_EXCL :: "16 word" where "NLM_F_EXCL = 0x200"
definition NLM_F_CREATE :: "16 word" where "NLM_F_CREATE = 0x400"

definition is_dump :: "16 word \<Rightarrow> bool" where "is_dump flags = (flags AND NLM_F_DUMP \<noteq> 0)"

section \<open>Sockets\<close>

datatype netlink_protocol = Route | Generic

fun raw_value :: "netlink_protocol \<Rightarrow> int" where
  "raw_value Route = 0"
| "raw_value Generic = 16"

text \<open>The only constant \<^verbatim>\<open>nix\<close> has; for the generic protocol it is a placeholder.\<close>

datatype nix_protocol = NetlinkRoute

fun nix_value :: "nix_protocol \<Rightarrow> int" where "nix_value NetlinkRoute = 0"

fun to_nix :: "netlink_protocol \<Rightarrow> nix_protocol" where
  "to_nix Route = NetlinkRoute"
| "to_nix Generic = NetlinkRoute"

record 'k wire =
  wr_socket :: "int \<Rightarrow> ('k, string, nat) op"
  wr_bind :: "nat \<Rightarrow> ('k, string, unit) op"
  wr_send :: "nat \<Rightarrow> byte list \<Rightarrow> ('k, string, nat) op"
  wr_recv :: "nat \<Rightarrow> nat \<Rightarrow> ('k, string, byte list) op"
  wr_close :: "nat \<Rightarrow> 'k \<Rightarrow> 'k"

text \<open>\<open>wr_recv fd n\<close> gives at most \<open>n\<close> bytes of the next datagram.\<close>

record netlink_socket =
  sk_fd :: nat
  sk_seq :: "32 word"

type_synonym ('k, 'a) wop = "('k, wire_stop, 'a) op"

definition socketS :: "string \<Rightarrow> ('k, string, 'a) op \<Rightarrow> ('k, 'a) wop" where
  "socketS what = mapErrS (\<lambda>e. WireErr (SocketError (what @ e)))"

text \<open>A descriptor is closed when it is dropped: here when \<^verbatim>\<open>bind\<close> fails.\<close>

definition open_netlink_fd :: "'k wire \<Rightarrow> netlink_protocol \<Rightarrow> ('k, nat) wop" where
  "open_netlink_fd w p =
     bindS (socketS ''socket() failed: '' (wr_socket w (case p of Route \<Rightarrow> nix_value (to_nix p) | Generic \<Rightarrow> raw_value p))) (\<lambda>fd k.
     case socketS ''bind() failed: '' (wr_bind w fd) k of
       (Inl e, k') \<Rightarrow> (Inl e, wr_close w fd k')
     | (Inr _, k') \<Rightarrow> (Ok fd, k'))"

text \<open>The placeholder is not used: each protocol opens its own.\<close>

lemma opens_own_protocol: "(case p of Route \<Rightarrow> nix_value (to_nix p) | Generic \<Rightarrow> raw_value p) = raw_value p"
  by (cases p) simp_all

definition open_socket :: "'k wire \<Rightarrow> netlink_protocol \<Rightarrow> ('k, netlink_socket) wop" where
  "open_socket w p = bindS (open_netlink_fd w p) (\<lambda>fd. returnS \<lparr>sk_fd = fd, sk_seq = 1\<rparr>)"

definition next_seq :: "netlink_socket \<Rightarrow> 32 word \<times> netlink_socket" where
  "next_seq s = (sk_seq s, s\<lparr>sk_seq := sk_seq s + 1\<rparr>)"

definition send_raw :: "'k wire \<Rightarrow> netlink_socket \<Rightarrow> byte list \<Rightarrow> ('k, nat) wop" where
  "send_raw w s buf = socketS ''send() failed: '' (wr_send w (sk_fd s) buf)"

definition recv_raw :: "'k wire \<Rightarrow> netlink_socket \<Rightarrow> nat \<Rightarrow> ('k, byte list) wop" where
  "recv_raw w s n = socketS ''recv() failed: '' (wr_recv w (sk_fd s) n)"

section \<open>One batch of responses\<close>

text \<open>What reading one message gives; \<open>NlInner\<close> is every other payload, with the message.\<close>

datatype 'm nl_payload = NlDone | NlError "int option" | NlInner 'm

definition show_int :: "int \<Rightarrow> string" where
  "show_int i = (if i < 0 then ''-'' @ show_nat (nat (- i)) else show_nat (nat i))"

definition protocol_error :: "string \<Rightarrow> wire_stop" where "protocol_error m = WireErr (ProtocolError m)"

text \<open>What one message does to the responses; \<open>Inr None\<close> is to go on.\<close>

definition take_message :: "(string, 'm nl_payload) res \<Rightarrow> 'm list \<Rightarrow> bool option wres \<times> 'm list" where
  "take_message r rs =
     (case r of
        Inr NlDone \<Rightarrow> (Ok (Some True), rs)
      | Inr (NlError (Some c)) \<Rightarrow> (Err (protocol_error (''netlink error: code '' @ show_int c)), rs)
      | Inr (NlError None) \<Rightarrow> (Ok (Some True), rs)
      | Inr (NlInner m) \<Rightarrow> (Ok None, rs @ [m])
      | Inl e \<Rightarrow> (Err (protocol_error (''failed to parse netlink message: '' @ e)), rs))"

lemma align4_ge: "n \<le> align4 n"
  unfolding align4_def using div_mult_mod_eq [of "n + 3" 4] mod_less_divisor [of 4 "n + 3"] by linarith

function parse_response_batch ::
  "endian \<Rightarrow> (byte list \<Rightarrow> (string, 'm nl_payload) res) \<Rightarrow> byte list \<Rightarrow> nat \<Rightarrow> 'm list \<Rightarrow> bool wres \<times> 'm list" where
  "parse_response_batch e deser buf offset rs =
     (if offset < length buf then
        if length buf - offset < 4 then (Ok False, rs)
        else case u32_at e buf offset of
          Inl p \<Rightarrow> (Inl p, rs)
        | Inr w \<Rightarrow>
          (let msg_len = unat w in
           if msg_len < 16 \<or> offset + msg_len > length buf then (Ok False, rs)
           else case get_slice offset msg_len buf of
             Inl p \<Rightarrow> (Inl p, rs)
           | Inr msg \<Rightarrow>
             (case take_message (deser msg) rs of
                (Inl p, rs') \<Rightarrow> (Inl p, rs')
              | (Inr (Some b), rs') \<Rightarrow> (Ok b, rs')
              | (Inr None, rs') \<Rightarrow> parse_response_batch e deser buf (align4 (offset + msg_len)) rs'))
      else (Ok False, rs))"
  by pat_completeness auto

termination
proof (relation "measure (\<lambda>(e, deser, buf, offset, rs). length buf - offset)", goal_cases)
  case (2 e deser buf offset rs w msg_len)
  then show ?case using align4_ge [of "offset + msg_len"] by auto
qed auto

declare parse_response_batch.simps [simp del]

section \<open>Requests\<close>

text \<open>The receive loop; it may wait for ever, which is \<open>None\<close>.  \<open>rs\<close> are the responses so far.\<close>

partial_function (option) recv_loop ::
  "endian \<Rightarrow> (byte list \<Rightarrow> (string, 'm nl_payload) res) \<Rightarrow> ('k, byte list) wop \<Rightarrow> bool \<Rightarrow> 'm list \<Rightarrow> 'k \<Rightarrow>
   ('m list wres \<times> 'k) option" where
  "recv_loop e deser recv dump rs k =
     (case recv k of
        (Inl p, k') \<Rightarrow> Some (Inl p, k')
      | (Inr d, k') \<Rightarrow>
        (case parse_response_batch e deser d 0 rs of
           (Inl p, rs') \<Rightarrow> Some (Inl p, k')
         | (Inr b, rs') \<Rightarrow>
             (if b \<or> (\<not> dump \<and> rs' \<noteq> []) then Some (Ok rs', k')
              else recv_loop e deser recv dump rs' k')))"

text \<open>
  \<^verbatim>\<open>request\<close>: a number, the request flag, one datagram out, the answers.  \<open>ser\<close> is what
  \<^verbatim>\<open>finalize\<close> and \<^verbatim>\<open>emit\<close> write for a message with this number and these flags.
\<close>

definition request ::
  "endian \<Rightarrow> 'k wire \<Rightarrow> (32 word \<Rightarrow> 16 word \<Rightarrow> 'q \<Rightarrow> byte list) \<Rightarrow> (byte list \<Rightarrow> (string, 'm nl_payload) res) \<Rightarrow>
   16 word \<Rightarrow> 'q \<Rightarrow> netlink_socket \<Rightarrow> 'k \<Rightarrow> ('m list wres \<times> netlink_socket \<times> 'k) option" where
  "request e w ser deser flags q s k =
     (case next_seq s of (seq, s') \<Rightarrow>
       let fl = flags OR NLM_F_REQUEST in
       case send_raw w s' (ser seq fl q) k of
         (Inl p, k') \<Rightarrow> Some (Inl p, s', k')
       | (Inr _, k') \<Rightarrow>
         map_option (\<lambda>(r, k''). (r, s', k''))
           (recv_loop e deser (recv_raw w s' 65536) (is_dump fl) [] k'))"

section \<open>Generic netlink\<close>

text \<open>The header fields both helpers write: length, type, flags, number, command and version.\<close>

definition genl_header :: "endian \<Rightarrow> nat \<Rightarrow> 16 word \<Rightarrow> 16 word \<Rightarrow> 32 word \<Rightarrow> byte \<Rightarrow> byte \<Rightarrow> (nat \<times> byte list) list" where
  "genl_header e len ty flags seq cmd version =
    [(0, u32_bytes e (word_of_nat len)), (4, u16_bytes e ty), (6, u16_bytes e flags),
     (8, u32_bytes e seq), (16, [cmd]), (17, [version])]"

definition getfamily_message :: "endian \<Rightarrow> 32 word \<Rightarrow> string \<Rightarrow> byte list wres" where
  "getfamily_message e seq family_name =
     (let name_bytes = bytes_of family_name @ [0];
          nla_len = 4 + length name_bytes;
          nlmsg_len = 16 + 4 + align4 nla_len
      in copy_all (genl_header e nlmsg_len 0x10 NLM_F_REQUEST seq 3 1 @
           [(20, u16_bytes e (word_of_nat nla_len)), (22, u16_bytes e 2), (24, name_bytes)])
         (replicate nlmsg_len 0))"

text \<open>A receive into a buffer of 4096 zero bytes: the bytes read, and the buffer.\<close>

definition recv_buffer :: "byte list \<Rightarrow> nat \<times> byte list" where
  "recv_buffer d = (length d, d @ replicate (4096 - length d) 0)"

function find_family_id :: "endian \<Rightarrow> byte list \<Rightarrow> nat \<Rightarrow> nat \<Rightarrow> 16 word option wres" where
  "find_family_id e buf n offset =
     (if offset + 4 \<le> n then
        case u16_at e buf offset of
          Inl p \<Rightarrow> Inl p
        | Inr nla_len \<Rightarrow>
          (case u16_at e buf (offset + 2) of
             Inl p \<Rightarrow> Inl p
           | Inr nla_type \<Rightarrow>
             (if unat nla_len < 4 then Ok None
              else if nla_type = 1 \<and> 6 \<le> unat nla_len
                then tryR (u16_at e buf (offset + 4)) (\<lambda>i. Ok (Some i))
              else find_family_id e buf n (offset + align4 (unat nla_len))))
      else Ok None)"
  by pat_completeness auto

termination
proof (relation "measure (\<lambda>(e, buf, n, offset). n - offset)", goal_cases)
  case (2 e buf n offset nla_len nla_type)
  then show ?case using align4_ge [of "unat nla_len"] by auto
qed auto

declare find_family_id.simps [simp del]

definition getfamily_reply :: "endian \<Rightarrow> string \<Rightarrow> nat \<times> byte list \<Rightarrow> 16 word wres" where
  "getfamily_reply e family_name r =
     (case r of (n, buf) \<Rightarrow>
       if n < 20 then Err (protocol_error ''response too short'')
       else tryR (u16_at e buf 4) (\<lambda>nlmsg_type.
         if nlmsg_type = 2
         then tryR (if 24 \<le> n then tryR (u32_at e buf 16) (\<lambda>x. Ok (sint x)) else Ok 0) (\<lambda>errno.
              if errno \<noteq> 0
              then Err (protocol_error (''GETFAMILY '' @ quoted family_name @ '' error: errno '' @ show_int errno))
              else Err (protocol_error ''unexpected ACK for GETFAMILY''))
         else tryR (find_family_id e buf n 20) (\<lambda>x. case x of
              Some i \<Rightarrow> Ok i
            | None \<Rightarrow> Err (protocol_error (family_name @ '' family ID not found in GETFAMILY response'')))))"

text \<open>A fresh generic socket for \<open>f\<close>, closed when it is dropped at the end.\<close>

definition with_genl_socket :: "'k wire \<Rightarrow> (netlink_socket \<Rightarrow> ('k, 'a) wop) \<Rightarrow> ('k, 'a) wop" where
  "with_genl_socket w f =
     bindS (open_socket w Generic) (\<lambda>s k. case f s k of (r, k') \<Rightarrow> (r, wr_close w (sk_fd s) k'))"

definition resolve_genl_family_id :: "endian \<Rightarrow> 'k wire \<Rightarrow> string \<Rightarrow> ('k, 16 word) wop" where
  "resolve_genl_family_id e w family_name =
     with_genl_socket w (\<lambda>s. case next_seq s of (seq, s') \<Rightarrow>
       bindS (liftS (getfamily_message e seq family_name)) (\<lambda>buf.
       thenS (send_raw w s' buf)
      (bindS (recv_raw w s' 4096) (\<lambda>d. liftS (getfamily_reply e family_name (recv_buffer d))))))"

definition genl_message :: "endian \<Rightarrow> 32 word \<Rightarrow> 16 word \<Rightarrow> byte \<Rightarrow> byte \<Rightarrow> byte list \<Rightarrow> byte list wres" where
  "genl_message e seq family_id cmd version payload =
     (let nlmsg_len = 16 + 4 + length payload in
      copy_all (genl_header e nlmsg_len family_id (NLM_F_REQUEST OR NLM_F_ACK) seq cmd version @ [(20, payload)])
        (replicate nlmsg_len 0))"

definition genl_reply :: "endian \<Rightarrow> nat \<times> byte list \<Rightarrow> unit wres" where
  "genl_reply e r =
     (case r of (n, buf) \<Rightarrow>
       if 20 \<le> n then tryR (u16_at e buf 4) (\<lambda>nlmsg_type.
         if nlmsg_type = 2
         then tryR (u32_at e buf 16) (\<lambda>errno.
              if sint errno \<noteq> 0 then Err (protocol_error (''genetlink error: errno '' @ show_int (sint errno))) else Ok ())
         else Ok ())
       else Ok ())"

definition send_genl_request :: "endian \<Rightarrow> 'k wire \<Rightarrow> 16 word \<Rightarrow> byte \<Rightarrow> byte \<Rightarrow> byte list \<Rightarrow> ('k, unit) wop" where
  "send_genl_request e w family_id cmd version payload =
     with_genl_socket w (\<lambda>s. case next_seq s of (seq, s') \<Rightarrow>
       bindS (liftS (genl_message e seq family_id cmd version payload)) (\<lambda>buf.
       thenS (send_raw w s' buf)
      (bindS (recv_raw w s' 4096) (\<lambda>d. liftS (genl_reply e (recv_buffer d))))))"

section \<open>Bytes and words\<close>

lemma ne_ne [simp]: "ne e (ne e bs) = bs"
  by (cases e) (simp_all add: ne_def)

lemma length_ne [simp]: "length (ne e bs) = length bs"
  by (cases e) (simp_all add: ne_def)

lemma u16_round [simp]: "u16_le (ne e (u16_bytes e w)) = w"
proof -
  have "u16_le [ucast w, ucast (drop_bit 8 w)] = w"
    by (rule bit_word_eqI) (auto simp: bit_simps)
  then show ?thesis by (simp add: u16_bytes_def)
qed

lemma u32_round [simp]: "u32_le (ne e (u32_bytes e w)) = w"
proof -
  have "u32_le [ucast w, ucast (drop_bit 8 w), ucast (drop_bit 16 w), ucast (drop_bit 24 w)] = w"
  proof (rule bit_word_eqI)
    fix n assume "n < LENGTH(32)"
    then consider "n < 8" | "8 \<le> n" "n < 16" | "16 \<le> n" "n < 24" | "24 \<le> n" "n < 32" by fastforce
    then show "bit (u32_le [ucast w, ucast (drop_bit 8 w), ucast (drop_bit 16 w), ucast (drop_bit 24 w)]) n = bit w n"
      by cases (auto simp: bit_simps)
  qed
  then show ?thesis by (simp add: u32_bytes_def)
qed

lemma length_u16_bytes [simp]: "length (u16_bytes e w) = 2" and length_u32_bytes [simp]: "length (u32_bytes e v) = 4"
  by (simp_all add: u16_bytes_def u32_bytes_def)

section \<open>Reading back what was written\<close>

lemma copy_at_length: "copy_at off bs buf = Ok buf' \<Longrightarrow> length buf' = length buf"
  by (auto simp: copy_at_def split: if_splits)

lemma copy_at_slice:
  assumes "copy_at off bs buf = Ok buf'"
  shows "get_slice off (length bs) buf' = Ok bs"
    "i + n \<le> off \<or> off + length bs \<le> i \<Longrightarrow> get_slice i n buf' = get_slice i n buf"
proof -
  have b: "buf' = take off buf @ bs @ drop (off + length bs) buf" "off + length bs \<le> length buf"
    using assms by (auto simp: copy_at_def split: if_splits)
  show "get_slice off (length bs) buf' = Ok bs" using b by (simp add: get_slice_def)
  assume h: "i + n \<le> off \<or> off + length bs \<le> i"
  have l: "length buf' = length buf" using b by simp
  have "take n (drop i buf') = take n (drop i buf)" if "i + n \<le> length buf"
  proof (rule nth_equalityI)
    show "length (take n (drop i buf')) = length (take n (drop i buf))" using l by simp
    fix j assume "j < length (take n (drop i buf'))"
    then have j: "j < n" "i + j < length buf" using that l by auto
    have "buf' ! (i + j) = buf ! (i + j)"
    proof (cases "i + n \<le> off")
      case True
      then show ?thesis using b j by (simp add: nth_append)
    next
      case False
      then have "off + length bs \<le> i" using h by simp
      then show ?thesis using b j by (auto simp: nth_append)
    qed
    then show "take n (drop i buf') ! j = take n (drop i buf) ! j" using j l by simp
  qed
  then show "get_slice i n buf' = get_slice i n buf" using l by (simp add: get_slice_def)
qed

lemma copy_at_Ok: "off + length bs \<le> length buf \<Longrightarrow> \<exists>buf'. copy_at off bs buf = Ok buf'"
  by (simp add: copy_at_def)

lemma copy_all_length: "copy_all ws buf = Ok buf' \<Longrightarrow> length buf' = length buf"
  by (induction ws arbitrary: buf) (auto simp: result_simps, metis copy_at_length)

lemma copy_all_Ok:
  "(\<forall>(off, bs) \<in> set ws. off + length bs \<le> length buf) \<Longrightarrow> \<exists>buf'. copy_all ws buf = Ok buf'"
proof (induction ws arbitrary: buf)
  case (Cons x ws)
  obtain off bs where x: "x = (off, bs)" by (cases x)
  with Cons(2) obtain b where "copy_at off bs buf = Ok b" using copy_at_Ok by fastforce
  then show ?case using Cons x copy_at_length by fastforce
qed simp

definition apart :: "nat \<times> byte list \<Rightarrow> nat \<times> byte list \<Rightarrow> bool" where
  "apart x y = (fst x + length (snd x) \<le> fst y \<or> fst y + length (snd y) \<le> fst x)"

lemma copy_all_frame:
  "copy_all ws buf = Ok buf' \<Longrightarrow> (\<forall>x \<in> set ws. i + n \<le> fst x \<or> fst x + length (snd x) \<le> i) \<Longrightarrow>
   get_slice i n buf' = get_slice i n buf"
  by (induction ws arbitrary: buf) (auto simp: result_simps copy_at_slice(2))

text \<open>Writes that do not overlap are all read back.\<close>

lemma copy_all_slices:
  assumes "copy_all ws buf = Ok buf'" "sorted_wrt apart ws" "(off, bs) \<in> set ws"
  shows "get_slice off (length bs) buf' = Ok bs"
  using assms
proof (induction ws arbitrary: buf)
  case (Cons x ws)
  then obtain b where b: "copy_at (fst x) (snd x) buf = Ok b" "copy_all ws b = Ok buf'"
    by (cases x) (auto simp: result_simps)
  show ?case
  proof (cases "(off, bs) = x")
    case True
    have "get_slice off (length bs) b = Ok bs" using copy_at_slice(1) [OF b(1)] True by auto
    moreover have "get_slice off (length bs) buf' = get_slice off (length bs) b"
      using b(2) Cons(3) True by (intro copy_all_frame) (auto simp: apart_def)
    ultimately show ?thesis by simp
  next
    case False
    then show ?thesis using Cons b by auto
  qed
qed simp


lemma u16_at_slice [simp]: "get_slice off 2 buf = Ok (u16_bytes e w) \<Longrightarrow> u16_at e buf off = Ok w"
  by (simp add: u16_at_def)

lemma u32_at_slice [simp]: "get_slice off 4 buf = Ok (u32_bytes e w) \<Longrightarrow> u32_at e buf off = Ok w"
  by (simp add: u32_at_def)

lemma genl_header_apart: "sorted_wrt apart (genl_header e len ty flags seq cmd version)"
  by (simp add: genl_header_def apart_def)

lemma genl_header_end: "x \<in> set (genl_header e len ty flags seq cmd version) \<Longrightarrow> fst x + length (snd x) \<le> 18"
  by (auto simp: genl_header_def)

text \<open>What a kernel reads from the header both helpers write.\<close>

definition genl_fields :: "endian \<Rightarrow> nat \<Rightarrow> 16 word \<Rightarrow> 16 word \<Rightarrow> 32 word \<Rightarrow> byte \<Rightarrow> byte \<Rightarrow> byte list \<Rightarrow> bool" where
  "genl_fields e len ty flags seq cmd version buf =
     (length buf = len \<and> u32_at e buf 0 = Ok (word_of_nat len) \<and> u16_at e buf 4 = Ok ty \<and> u16_at e buf 6 = Ok flags \<and>
      u32_at e buf 8 = Ok seq \<and> get_slice 16 2 buf = Ok [cmd, version])"

lemma get_slice_two: "get_slice i 1 buf = Ok [a] \<Longrightarrow> get_slice (i + 1) 1 buf = Ok [b] \<Longrightarrow> get_slice i 2 buf = Ok [a, b]"
proof -
  assume h: "get_slice i 1 buf = Ok [a]" "get_slice (i + 1) 1 buf = Ok [b]"
  then have "take 1 (drop i buf) = [a]" "take 1 (drop (i + 1) buf) = [b]" "i + 2 \<le> length buf"
    by (auto simp: get_slice_def split: if_splits)
  moreover have "take 2 (drop i buf) = take 1 (drop i buf) @ take 1 (drop (i + 1) buf)"
    by (metis add.commute drop_drop one_add_one take_add)
  ultimately show ?thesis by (simp add: get_slice_def)
qed

lemma genl_fields_written:
  assumes "copy_all (genl_header e len ty flags seq cmd version @ ws) (replicate len 0) = Ok buf"
    "sorted_wrt apart (genl_header e len ty flags seq cmd version @ ws)"
  shows "genl_fields e len ty flags seq cmd version buf"
proof -
  note sl = copy_all_slices [OF assms]
  have "get_slice 0 4 buf = Ok (u32_bytes e (word_of_nat len))" "get_slice 4 2 buf = Ok (u16_bytes e ty)"
    "get_slice 6 2 buf = Ok (u16_bytes e flags)" "get_slice 8 4 buf = Ok (u32_bytes e seq)"
    "get_slice 16 1 buf = Ok [cmd]" "get_slice 17 1 buf = Ok [version]"
    using sl [of 0 "u32_bytes e (word_of_nat len)"] sl [of 4 "u16_bytes e ty"] sl [of 6 "u16_bytes e flags"]
      sl [of 8 "u32_bytes e seq"] sl [of 16 "[cmd]"] sl [of 17 "[version]"]
    by (simp_all add: genl_header_def)
  then show ?thesis
    using copy_all_length [OF assms(1)] get_slice_two [of 16 buf cmd version] by (simp add: genl_fields_def)
qed

text \<open>
  The family request is built for every name without a panic; its length is a multiple of four and
  is the one the header states, and the attribute holds the name with its zero byte.
\<close>

lemma getfamily_message_fields:
  "\<exists>buf. getfamily_message e seq name = Ok buf \<and>
     genl_fields e (20 + align4 (5 + length name)) 0x10 NLM_F_REQUEST seq 3 1 buf \<and> length buf mod 4 = 0 \<and>
     u16_at e buf 20 = Ok (word_of_nat (5 + length name)) \<and> u16_at e buf 22 = Ok 2 \<and>
     get_slice 24 (length name + 1) buf = Ok (bytes_of name @ [0])"
proof -
  let ?nb = "bytes_of name @ [0]" and ?len = "20 + align4 (5 + length name)"
  let ?attr = "[(20, u16_bytes e (word_of_nat (5 + length name))), (22, u16_bytes e 2), (24, ?nb)]"
  let ?h = "genl_header e ?len 0x10 NLM_F_REQUEST seq 3 1"
  have nb: "length ?nb = length name + 1" by (simp add: bytes_of_def)
  have al: "5 + length name \<le> align4 (5 + length name)" by (rule align4_ge)
  have m: "getfamily_message e seq name = copy_all (?h @ ?attr) (replicate ?len 0)"
    using nb by (simp add: getfamily_message_def Let_def)
  have ap: "sorted_wrt apart (?h @ ?attr)"
    using genl_header_end [of _ e ?len "0x10" NLM_F_REQUEST seq 3 1] genl_header_apart [of e ?len "0x10" NLM_F_REQUEST seq 3 1]
    by (fastforce simp: sorted_wrt_append apart_def)
  have "\<forall>(off, bs) \<in> set (?h @ ?attr). off + length bs \<le> length (replicate ?len (0 :: byte))"
    using al nb by (auto simp: genl_header_def)
  then obtain buf where buf: "copy_all (?h @ ?attr) (replicate ?len 0) = Ok buf" using copy_all_Ok by blast
  note sl = copy_all_slices [OF buf ap]
  have "get_slice 20 2 buf = Ok (u16_bytes e (word_of_nat (5 + length name)))" "get_slice 22 2 buf = Ok (u16_bytes e 2)"
    "get_slice 24 (length name + 1) buf = Ok ?nb"
    using sl [of 20 "u16_bytes e (word_of_nat (5 + length name))"] sl [of 22 "u16_bytes e 2"] sl [of 24 ?nb] nb by simp_all
  moreover have "?len mod 4 = 0" by (simp add: align4_def)
  ultimately show ?thesis
    using genl_fields_written [OF buf ap] buf m copy_all_length [OF buf] by auto
qed

lemma genl_message_fields:
  "\<exists>buf. genl_message e seq fam cmd version payload = Ok buf \<and>
     genl_fields e (20 + length payload) fam (NLM_F_REQUEST OR NLM_F_ACK) seq cmd version buf \<and>
     get_slice 20 (length payload) buf = Ok payload"
proof -
  let ?len = "20 + length payload"
  let ?h = "genl_header e ?len fam (NLM_F_REQUEST OR NLM_F_ACK) seq cmd version"
  have m: "genl_message e seq fam cmd version payload = copy_all (?h @ [(20, payload)]) (replicate ?len 0)"
    by (simp add: genl_message_def Let_def)
  have ap: "sorted_wrt apart (?h @ [(20, payload)])"
    using genl_header_end [of _ e ?len fam "NLM_F_REQUEST OR NLM_F_ACK" seq cmd version]
      genl_header_apart [of e ?len fam "NLM_F_REQUEST OR NLM_F_ACK" seq cmd version]
    by (fastforce simp: sorted_wrt_append apart_def)
  have "\<forall>(off, bs) \<in> set (?h @ [(20, payload)]). off + length bs \<le> length (replicate ?len (0 :: byte))"
    by (auto simp: genl_header_def)
  then obtain buf where buf: "copy_all (?h @ [(20, payload)]) (replicate ?len 0) = Ok buf" using copy_all_Ok by blast
  show ?thesis using genl_fields_written [OF buf ap] copy_all_slices [OF buf ap, of 20 payload] buf m by auto
qed

section \<open>Responses\<close>

text \<open>
  The specification: a batch is a list of messages, each with its length in front and padded to a
  multiple of four; reading it is one pass over the messages.
\<close>

fun take_messages :: "(string, 'm nl_payload) res list \<Rightarrow> 'm list \<Rightarrow> bool wres \<times> 'm list" where
  "take_messages [] rs = (Ok False, rs)"
| "take_messages (r # xs) rs =
     (case take_message r rs of
        (Inl p, rs') \<Rightarrow> (Inl p, rs')
      | (Inr (Some b), rs') \<Rightarrow> (Ok b, rs')
      | (Inr None, rs') \<Rightarrow> take_messages xs rs')"

definition framed :: "endian \<Rightarrow> byte list \<Rightarrow> bool" where
  "framed e m = (16 \<le> length m \<and> length m < 2 ^ 32 \<and> take 4 m = u32_bytes e (word_of_nat (length m)))"

definition padded :: "byte list \<Rightarrow> byte list" where
  "padded m = m @ replicate (align4 (length m) - length m) 0"

definition batch :: "byte list list \<Rightarrow> byte list" where "batch ms = concat (map padded ms)"

lemma length_padded [simp]: "length (padded m) = align4 (length m)"
  using align4_ge [of "length m"] by (simp add: padded_def)

lemma align4_add: "i mod 4 = 0 \<Longrightarrow> align4 (i + n) = i + align4 n"
proof -
  assume "i mod 4 = 0"
  then obtain q where q: "i = 4 * q" by auto
  have "i + n + 3 = (n + 3) + q * 4" using q by simp
  then have "(i + n + 3) div 4 = q + (n + 3) div 4" by (metis div_mult_self1 zero_neq_numeral)
  then show ?thesis using q by (simp add: align4_def)
qed

lemma align4_mod [simp]: "align4 n mod 4 = 0"
  by (simp add: align4_def)

lemma parse_batch_at:
  assumes "list_all (framed e) ms" "length pre mod 4 = 0"
  shows "parse_response_batch e deser (pre @ batch ms) (length pre) rs = take_messages (map deser ms) rs"
  using assms
proof (induction ms arbitrary: pre rs)
  case Nil
  then show ?case by (simp add: batch_def parse_response_batch.simps)
next
  case (Cons m ms)
  let ?buf = "pre @ batch (m # ms)"
  have m: "16 \<le> length m" "length m < 2 ^ 32" "take 4 m = u32_bytes e (word_of_nat (length m))"
    using Cons(2) by (auto simp: framed_def)
  have buf: "?buf = pre @ m @ replicate (align4 (length m) - length m) 0 @ batch ms"
    by (simp add: batch_def padded_def)
  have "get_slice (length pre) 4 ?buf = Ok (u32_bytes e (word_of_nat (length m)))"
    using m unfolding buf by (simp add: get_slice_def)
  then have l: "u32_at e ?buf (length pre) = Ok (word_of_nat (length m))" by simp
  have u: "unat (word_of_nat (length m) :: 32 word) = length m" using m(2) by (simp add: unat_of_nat)
  have sl: "get_slice (length pre) (length m) ?buf = Ok m" unfolding buf by (simp add: get_slice_def)
  have nxt: "align4 (length pre + length m) = length (pre @ padded m)" using Cons(3) by (simp add: align4_add)
  have re: "?buf = (pre @ padded m) @ batch ms" by (simp add: batch_def)
  have IH: "parse_response_batch e deser ?buf (align4 (length pre + length m)) rs' = take_messages (map deser ms) rs'" for rs'
    unfolding nxt re using Cons by (intro Cons.IH) auto
  have len: "length pre + length m \<le> length ?buf" unfolding buf by simp
  have ne: "batch (m # ms) \<noteq> []" using m(1) by (auto simp: batch_def padded_def)
  have "parse_response_batch e deser ?buf (length pre) rs =
     (case take_message (deser m) rs of
        (Inl p, rs') \<Rightarrow> (Inl p, rs')
      | (Inr (Some b), rs') \<Rightarrow> (Ok b, rs')
      | (Inr None, rs') \<Rightarrow> take_messages (map deser ms) rs')"
    using m(1) len ne
    by (subst parse_response_batch.simps)
       (simp add: l u sl IH Let_def split: prod.split sum.split option.split)
  then show ?case by simp
qed

text \<open>
  C30: one receive that holds framed messages is read as those messages in order: the inner ones are
  collected up to the first end, acknowledgement or error, which decides the result; nothing is read out
  of range.
\<close>

lemma batch_is_read:
  assumes "list_all (framed e) ms"
  shows "parse_response_batch e deser (batch ms) 0 rs = take_messages (map deser ms) rs"
  using parse_batch_at [OF assms, of "[]"] by simp

text \<open>The answers to a request, over the batches that arrive; \<open>None\<close> when they do not suffice.\<close>

fun answer :: "(byte list \<Rightarrow> (string, 'm nl_payload) res) \<Rightarrow> bool \<Rightarrow> byte list list list \<Rightarrow> 'm list \<Rightarrow> 'm list wres option" where
  "answer deser dump [] rs = None"
| "answer deser dump (ms # bs) rs =
     (case take_messages (map deser ms) rs of
        (Inl p, rs') \<Rightarrow> Some (Inl p)
      | (Inr b, rs') \<Rightarrow> if b \<or> (\<not> dump \<and> rs' \<noteq> []) then Some (Ok rs') else answer deser dump bs rs')"

fun delivers :: "('k, byte list) wop \<Rightarrow> byte list list \<Rightarrow> 'k \<Rightarrow> bool" where
  "delivers recv [] k = True"
| "delivers recv (d # ds) k = (case recv k of (r, k') \<Rightarrow> r = Ok d \<and> delivers recv ds k')"

lemma recv_loop_answer:
  "delivers recv (map batch bs) k \<Longrightarrow> list_all (list_all (framed e)) bs \<Longrightarrow> answer deser dump bs rs = Some r \<Longrightarrow>
   \<exists>k'. recv_loop e deser recv dump rs k = Some (r, k')"
proof (induction bs arbitrary: rs k)
  case (Cons ms bs)
  obtain k' where k: "recv k = (Ok (batch ms), k')" "delivers recv (map batch bs) k'"
    using Cons(2) by (cases "recv k") auto
  have p: "parse_response_batch e deser (batch ms) 0 rs = take_messages (map deser ms) rs"
    using Cons(3) parse_batch_at [of e ms "[]" deser rs] by simp
  obtain x rs' where x: "take_messages (map deser ms) rs = (x, rs')" by fastforce
  show ?case
  proof (cases x)
    case (Inl e')
    then show ?thesis using Cons(4) k x p by (subst recv_loop.simps) auto
  next
    case (Inr b)
    then show ?thesis
      using Cons(4) k x p Cons.IH [OF k(2)] Cons(3)
      by (subst recv_loop.simps) (auto split: if_splits)
  qed
qed simp

lemma take_messages_inner:
  "(\<forall>m \<in> set ms. deser m = Ok (NlInner (f m))) \<Longrightarrow> take_messages (map deser ms) rs = (Ok False, rs @ map f ms)"
  by (induction ms arbitrary: rs) (auto simp: take_message_def)

lemma take_messages_done:
  "(\<forall>m \<in> set ms. deser m = Ok (NlInner (f m))) \<Longrightarrow> deser d = Ok NlDone \<Longrightarrow>
   take_messages (map deser (ms @ d # ms')) rs = (Ok True, rs @ map f ms)"
  by (induction ms arbitrary: rs) (auto simp: take_message_def)

lemma answer_dump:
  "(\<forall>ms \<in> set bs. \<forall>m \<in> set ms. deser m = Ok (NlInner (f m))) \<Longrightarrow> (\<forall>m \<in> set ms. deser m = Ok (NlInner (f m))) \<Longrightarrow>
   deser d = Ok NlDone \<Longrightarrow>
   answer deser True (bs @ [ms @ d # ms']) rs = Some (Ok (rs @ map f (concat bs @ ms)))"
proof (induction bs arbitrary: rs)
  case Nil
  then show ?case using take_messages_done [of ms deser f d ms' rs] by (simp del: map_append list.map)
next
  case (Cons b bs)
  then have "take_messages (map deser b) rs = (Ok False, rs @ map f b)" by (intro take_messages_inner) simp
  with Cons show ?case by simp
qed

lemma is_dump_request [simp]: "is_dump (flags OR NLM_F_REQUEST) = is_dump flags"
proof -
  have "(flags OR NLM_F_REQUEST) AND NLM_F_DUMP = (flags AND NLM_F_DUMP) OR (NLM_F_REQUEST AND NLM_F_DUMP)"
    by (rule bit.conj_disj_distrib2)
  also have "NLM_F_REQUEST AND NLM_F_DUMP = 0" by (simp add: NLM_F_REQUEST_def NLM_F_DUMP_def)
  finally show ?thesis by (simp add: is_dump_def)
qed

text \<open>
  C29: a dump request whose answer comes in any number of datagrams, ended by a done message, returns:
  with exactly the messages before the end, in order.
\<close>

lemma dump_returns_all:
  assumes "send_raw w (snd (next_seq s)) (ser (sk_seq s) (flags OR NLM_F_REQUEST) q) k = (Ok n, k1)"
    "delivers (recv_raw w (snd (next_seq s)) 65536) (map batch (bs @ [ms @ [d]])) k1"
    "list_all (list_all (framed e)) (bs @ [ms @ [d]])"
    "\<forall>m \<in> set (concat bs @ ms). deser m = Ok (NlInner (f m))" "deser d = Ok NlDone"
    "flags AND NLM_F_DUMP \<noteq> 0"
  shows "\<exists>k'. request e w ser deser flags q s k = Some (Ok (map f (concat bs @ ms)), snd (next_seq s), k')"
proof -
  have "is_dump (flags OR NLM_F_REQUEST)" using assms(6) unfolding is_dump_request by (simp add: is_dump_def)
  moreover have "answer deser True (bs @ [ms @ [d]]) [] = Some (Ok (map f (concat bs @ ms)))"
    using answer_dump [of bs deser f ms d "[]" "[]"] assms(4,5) by auto
  ultimately obtain k' where "recv_loop e deser (recv_raw w (snd (next_seq s)) 65536) (is_dump (flags OR NLM_F_REQUEST)) [] k1
      = Some (Ok (map f (concat bs @ ms)), k')"
    using recv_loop_answer [OF assms(2,3), of deser True "[]"] by auto
  then show ?thesis using assms(1) by (simp add: request_def next_seq_def Let_def)
qed

section \<open>The family attributes\<close>

text \<open>An attribute: its length and type, its payload, padding.\<close>

definition attr_bytes :: "endian \<Rightarrow> 16 word \<times> byte list \<Rightarrow> byte list" where
  "attr_bytes e a = padded (u16_bytes e (word_of_nat (4 + length (snd a))) @ u16_bytes e (fst a) @ snd a)"

definition first_id :: "endian \<Rightarrow> (16 word \<times> byte list) list \<Rightarrow> 16 word option" where
  "first_id e as = map_option (\<lambda>a. u16_le (ne e (take 2 (snd a)))) (find (\<lambda>a. fst a = 1 \<and> 2 \<le> length (snd a)) as)"

lemma find_family_attrs:
  assumes "list_all (\<lambda>a. length (snd a) + 4 < 2 ^ 16) as"
  shows "find_family_id e (pre @ concat (map (attr_bytes e) as) @ post)
      (length pre + length (concat (map (attr_bytes e) as))) (length pre) = Ok (first_id e as)"
  using assms
proof (induction as arbitrary: pre)
  case Nil
  then show ?case by (simp add: find_family_id.simps first_id_def)
next
  case (Cons a as)
  obtain ty pl where a: "a = (ty, pl)" by (cases a)
  let ?rest = "concat (map (attr_bytes e) as)"
  let ?pad = "replicate (align4 (4 + length pl) - (4 + length pl)) 0 :: byte list"
  let ?buf = "pre @ (attr_bytes e a @ ?rest) @ post"
  let ?n = "length pre + length (attr_bytes e a @ ?rest)"
  have ab: "attr_bytes e a = u16_bytes e (word_of_nat (4 + length pl)) @ u16_bytes e ty @ pl @ ?pad"
  proof -
    have "length (u16_bytes e (word_of_nat (4 + length pl)) @ u16_bytes e ty @ pl) = 4 + length pl" by simp
    then show ?thesis unfolding attr_bytes_def padded_def a fst_conv snd_conv by (simp only: append_assoc)
  qed
  have len: "length (u16_bytes e (word_of_nat (4 + length pl)) @ u16_bytes e ty @ pl) = 4 + length pl" by simp
  have la: "length (attr_bytes e a) = align4 (4 + length pl)"
    unfolding attr_bytes_def length_padded a fst_conv snd_conv len ..
  have ge: "4 + length pl \<le> align4 (4 + length pl)" by (rule align4_ge)
  define L :: "16 word" where "L = word_of_nat (4 + length pl)"
  have l: "u16_at e ?buf (length pre) = Ok L"
    by (rule u16_at_slice) (simp add: ab get_slice_def L_def)
  have t: "u16_at e ?buf (length pre + 2) = Ok ty"
    by (rule u16_at_slice) (simp add: ab get_slice_def)
  have u: "unat L = 4 + length pl"
  proof -
    have "4 + length pl < 2 ^ LENGTH(16)" using Cons(2) a by simp
    then show ?thesis by (simp only: L_def unat_of_nat mod_less)
  qed
  have i: "2 \<le> length pl \<Longrightarrow> u16_at e ?buf (length pre + 4) = Ok (u16_le (ne e (take 2 pl)))"
    by (simp add: ab u16_at_def get_slice_def)
  have IH: "find_family_id e ?buf ?n (length pre + align4 (4 + length pl)) = Ok (first_id e as)"
    using Cons.IH [of "pre @ attr_bytes e a"] Cons(2) la by (simp add: add.assoc)
  have g: "length pre + 4 \<le> ?n" using la ge by simp
  have "find_family_id e ?buf ?n (length pre) =
      (if ty = 1 \<and> 2 \<le> length pl then Ok (Some (u16_le (ne e (take 2 pl)))) else Ok (first_id e as))"
    by (subst find_family_id.simps)
       (simp only: if_P [OF g] l t u IH sum.case, cases "2 \<le> length pl", use i in simp_all)
  then show ?case by (simp add: a first_id_def)
qed

lemma u16_at_ok: "off + 2 \<le> length buf \<Longrightarrow> \<exists>w. u16_at e buf off = Ok w"
  by (simp add: u16_at_def get_slice_def)

lemma find_family_no_panic:
  "offset mod 4 = 0 \<Longrightarrow> n < length buf \<Longrightarrow> length buf mod 4 = 0 \<Longrightarrow> \<exists>x. find_family_id e buf n offset = Ok x"
proof (induction e buf n offset rule: find_family_id.induct)
  case (1 e buf n offset)
  show ?case
  proof (cases "offset + 4 \<le> n")
    case True
    have "offset + 8 \<le> length buf"
      using True 1(2,3,4) by presburger
    then obtain l t i where w: "u16_at e buf offset = Ok l" "u16_at e buf (offset + 2) = Ok t" "u16_at e buf (offset + 4) = Ok i"
      using u16_at_ok [of offset buf e] u16_at_ok [of "offset + 2" buf e] u16_at_ok [of "offset + 4" buf e] by auto
    have m: "(offset + align4 (unat l)) mod 4 = 0" using 1(2) by (metis align4_mod mod_add_eq add_0 mod_0)
    note IH = 1(1) [OF True w(1,2) _ _ m 1(3,4)]
    show ?thesis
    proof (cases "unat l < 4 \<or> (t = 1 \<and> 6 \<le> unat l)")
      case True
      then show ?thesis using w \<open>offset + 4 \<le> n\<close> by (subst find_family_id.simps) auto
    next
      case False
      then have "find_family_id e buf n offset = find_family_id e buf n (offset + align4 (unat l))"
        using w \<open>offset + 4 \<le> n\<close> by (subst find_family_id.simps) auto
      with False IH show ?thesis by auto
    qed
  qed (simp add: find_family_id.simps [of e buf n offset])
qed

text \<open>
  C31: a reply of fewer than 4096 bytes, whatever it holds, is read without a panic.
\<close>

lemma short_reply_no_panic:
  assumes "length d < 4096"
  shows "getfamily_reply e name (recv_buffer d) \<noteq> Err WirePanic"
proof (cases "length d < 20")
  case True
  then show ?thesis by (simp add: recv_buffer_def getfamily_reply_def protocol_error_def)
next
  case False
  let ?buf = "d @ replicate (4096 - length d) 0"
  have b: "length ?buf = 4096" using assms by simp
  obtain ty where ty: "u16_at e ?buf 4 = Ok ty" using u16_at_ok [of 4 ?buf e] b by auto
  obtain x where x: "u32_at e ?buf 16 = Ok x" using b by (simp add: u32_at_def get_slice_def)
  obtain i where i: "find_family_id e ?buf (length d) 20 = Ok i"
    using find_family_no_panic [of 20 "length d" ?buf e] assms b by auto
  show ?thesis using False ty x i
    by (cases i) (auto simp: recv_buffer_def getfamily_reply_def protocol_error_def)
qed

lemma short_reply_no_panic_witness:
  "getfamily_reply LittleEndian ''wireguard'' (recv_buffer [1, 2, 3]) \<noteq> Err WirePanic"
  by (rule short_reply_no_panic) simp

text \<open>
  A reply that fills the buffer, and ends with the header of the attribute looked for, makes the read
  of the number go out of range.
\<close>

definition full_reply :: "byte list" where
  "full_reply = replicate 20 0 @ u16_bytes LittleEndian 4072 @ u16_bytes LittleEndian 5 @ replicate 4068 0 @
     u16_bytes LittleEndian 6 @ u16_bytes LittleEndian 1"

lemma full_reply_parts:
  obtains A Z where "full_reply = A @ u16_bytes LittleEndian 4072 @ u16_bytes LittleEndian 5 @ Z @
     u16_bytes LittleEndian 6 @ u16_bytes LittleEndian 1" "length A = 20" "length Z = 4068"
    "take 2 (drop 4 A) = [0, 0]"
proof (rule that [of "replicate 20 0" "replicate 4068 0"])
  show "take 2 (drop 4 (replicate 20 (0 :: byte))) = [0, 0]" by (simp add: numeral_2_eq_2)
qed (simp_all only: full_reply_def length_replicate)

lemma full_reply_panics:
  "length full_reply = 4096 \<and> getfamily_reply LittleEndian ''wireguard'' (recv_buffer full_reply) = Err WirePanic"
proof
  let ?e = LittleEndian
  obtain A Z where f: "full_reply = A @ u16_bytes LittleEndian 4072 @ u16_bytes LittleEndian 5 @ Z @
     u16_bytes LittleEndian 6 @ u16_bytes LittleEndian 1" "length A = 20" "length Z = 4068"
    "take 2 (drop 4 A) = [0, 0]" by (rule full_reply_parts)
  show l: "length full_reply = 4096" using f(2,3) by (simp add: f(1))
  have "get_slice 4 2 full_reply = Ok (u16_bytes ?e 0)"
    using f(2,4) by (simp add: get_slice_def l) (simp add: f(1) u16_bytes_def ne_def)
  then have t: "u16_at ?e full_reply 4 = Ok 0" by simp
  have "get_slice 20 2 full_reply = Ok (u16_bytes ?e 4072)" "get_slice 22 2 full_reply = Ok (u16_bytes ?e 5)"
    "get_slice 4092 2 full_reply = Ok (u16_bytes ?e 6)" "get_slice 4094 2 full_reply = Ok (u16_bytes ?e 1)"
    using f(2,3) by (simp_all add: get_slice_def l) (simp_all add: f(1))
  then have w: "u16_at ?e full_reply 20 = Ok 4072" "u16_at ?e full_reply 22 = Ok 5"
    "u16_at ?e full_reply 4092 = Ok 6" "u16_at ?e full_reply 4094 = Ok 1" by simp_all
  have p: "u16_at ?e full_reply 4096 = Err WirePanic" by (simp add: u16_at_def get_slice_def l)
  have "find_family_id ?e full_reply 4096 4092 = Err WirePanic"
    by (subst find_family_id.simps) (simp add: w p)
  then have "find_family_id ?e full_reply 4096 20 = Err WirePanic"
    by (subst find_family_id.simps) (simp add: w align4_def)
  then show "getfamily_reply ?e ''wireguard'' (recv_buffer full_reply) = Err WirePanic"
    by (simp add: getfamily_reply_def recv_buffer_def l t)
qed

text \<open>
  In a reply whose attributes are well formed the family number is that of the first
  attribute of type 1 with at least two bytes.
\<close>

lemma family_id_found:
  assumes "list_all (\<lambda>a. length (snd a) + 4 < 2 ^ 16) as" "length hd20 = 20"
    "d = hd20 @ concat (map (attr_bytes e) as)" "length d < 4096" "u16_at e hd20 4 = Ok ty" "ty \<noteq> 2"
  shows "getfamily_reply e name (recv_buffer d) =
    (case first_id e as of Some i \<Rightarrow> Ok i
     | None \<Rightarrow> Err (protocol_error (name @ '' family ID not found in GETFAMILY response'')))"
proof -
  let ?buf = "d @ replicate (4096 - length d) 0"
  have ty: "u16_at e ?buf 4 = Ok ty" using assms(2,3,5) by (simp add: u16_at_def get_slice_def)
  have f: "find_family_id e ?buf (length d) 20 = Ok (first_id e as)"
    using find_family_attrs [OF assms(1), of e hd20 "replicate (4096 - length d) 0"] assms(2,3) by simp
  have n: "\<not> length d < 20" using assms(2,3) by simp
  show ?thesis unfolding recv_buffer_def getfamily_reply_def prod.case if_not_P [OF n] ty tryR_simps
      if_not_P [OF assms(6)] f ..
qed

lemma family_id_found_witness:
  "getfamily_reply LittleEndian ''wireguard'' (recv_buffer (replicate 20 0 @
     concat (map (attr_bytes LittleEndian) [(2, [119, 103, 0]), (1, [31, 0])]))) = Ok 31"
proof -
  let ?as = "[(2, [119, 103, 0]), (1, [31, 0])] :: (16 word \<times> byte list) list"
  have "u16_at LittleEndian (replicate 20 0) 4 = Ok 0" by code_simp
  moreover have "length (replicate 20 0 @ concat (map (attr_bytes LittleEndian) ?as)) < 4096" by code_simp
  moreover have "first_id LittleEndian ?as = Some 31" by code_simp
  ultimately show ?thesis by (subst family_id_found [of ?as _ _ _ 0]) simp_all
qed

lemma batch_is_read_witness:
  "let m = u32_bytes BigEndian 18 @ replicate 14 7 in
   parse_response_batch BigEndian (\<lambda>m. Ok (NlInner (length m))) (batch [m, m]) 0 [] = (Ok False, [18, 18])"
proof -
  let ?m = "u32_bytes BigEndian 18 @ replicate 14 7"
  have "list_all (framed BigEndian) [?m, ?m]" by code_simp
  from batch_is_read [OF this, of "\<lambda>m. Ok (NlInner (length m))" "[]"] show ?thesis
    by (simp add: take_message_def)
qed

text \<open>A socket whose state is the queue of datagrams to be received.\<close>

definition queue_wire :: "byte list list wire" where
  "queue_wire = \<lparr>wr_socket = (\<lambda>_. returnS 3), wr_bind = (\<lambda>_. returnS ()), wr_send = (\<lambda>_ buf. returnS (length buf)),
     wr_recv = (\<lambda>_ n k. case k of [] \<Rightarrow> (Inl ''closed'', []) | d # ds \<Rightarrow> (Ok (take n d), ds)), wr_close = (\<lambda>_ k. k)\<rparr>"

definition test_deser :: "byte list \<Rightarrow> (string, nat nl_payload) res" where
  "test_deser m = (if m ! 4 = 3 then Ok NlDone else Ok (NlInner (unat (m ! 4))))"

definition test_msg :: "byte \<Rightarrow> byte list" where
  "test_msg b = u32_bytes LittleEndian 16 @ [b] @ replicate 11 0"

lemma dump_returns_all_witness:
  "\<exists>k'. request LittleEndian queue_wire (\<lambda>_ _ _. []) test_deser NLM_F_DUMP () \<lparr>sk_fd = 3, sk_seq = 1\<rparr>
     (map batch [[test_msg 20, test_msg 21], [test_msg 22, test_msg 3]]) =
   Some (Ok [20, 21, 22], \<lparr>sk_fd = 3, sk_seq = 2\<rparr>, k')"
proof -
  let ?s = "\<lparr>sk_fd = 3, sk_seq = 1\<rparr> :: netlink_socket" and ?k = "map batch [[test_msg 20, test_msg 21], [test_msg 22, test_msg 3]]"
  have n: "snd (next_seq ?s) = \<lparr>sk_fd = 3, sk_seq = 2\<rparr>" by code_simp
  have s: "send_raw queue_wire (snd (next_seq ?s)) ((\<lambda>_ _ _. []) (sk_seq ?s) (NLM_F_DUMP OR NLM_F_REQUEST) ()) ?k = (Ok 0, ?k)"
    by (simp add: send_raw_def socketS_def queue_wire_def mapErrS_def)
  have b: "[[test_msg 20, test_msg 21], [test_msg 22, test_msg 3]] =
      [[test_msg 20, test_msg 21]] @ [[test_msg 22] @ [test_msg 3]]" by simp
  have d: "delivers (recv_raw queue_wire (snd (next_seq ?s)) 65536)
      (map batch ([[test_msg 20, test_msg 21]] @ [[test_msg 22] @ [test_msg 3]])) ?k" by code_simp
  have f: "list_all (list_all (framed LittleEndian)) ([[test_msg 20, test_msg 21]] @ [[test_msg 22] @ [test_msg 3]])"
    by code_simp
  have i: "\<forall>m \<in> set (concat [[test_msg 20, test_msg 21]] @ [test_msg 22]). test_deser m = Ok (NlInner (unat (m ! 4)))"
    by code_simp
  have e: "test_deser (test_msg 3) = Ok NlDone" "NLM_F_DUMP AND NLM_F_DUMP \<noteq> 0" by code_simp+
  have v: "map (\<lambda>m. unat (m ! 4)) (concat [[test_msg 20, test_msg 21]] @ [test_msg 22]) = [20, 21, 22]" by code_simp
  show ?thesis using dump_returns_all [where ser = "\<lambda>_ _ _. []" and q = "()" and s = ?s, OF s d f i e] unfolding n v .
qed

text \<open>
  The flag of an exclusive creation is one of the two bits of the dump flag, so a creation
  request is received as a dump: only an end or an acknowledgement ends it.
\<close>

lemma exclusive_creation_is_dump: "is_dump (NLM_F_ACK OR NLM_F_CREATE OR NLM_F_EXCL)"
  by (simp add: is_dump_def NLM_F_ACK_def NLM_F_CREATE_def NLM_F_EXCL_def NLM_F_DUMP_def)

end
