(* ===== verification/ConfigToml.thy ===== *)
theory ConfigToml
  imports WgQuick
begin

text \<open>
  The derived \<^verbatim>\<open>Serialize\<close> and \<^verbatim>\<open>Deserialize\<close> of the structures of \<^verbatim>\<open>segwire-common/src/config.rs\<close>, as the
  attributes of the source say: which fields are required, which have a default and which one, which
  are optional.  They work on the values of a TOML document (\<open>tval\<close>); between a text and its value
  stands the \<^verbatim>\<open>toml\<close> crate, the pair \<open>pa\<close>, \<open>pr\<close> of a parser and a printer.  An integer outside the
  type of its field, a value of another kind and a missing required field are errors, whose text is
  that of the crate; keys no field has are passed over.  Structures written as arrays, which serde
  reads field by field, are refused here.
\<close>

datatype tval =
    VStr string
  | VInt int
  | VBool bool
  | VOther string
  | VArr "tval list"
  | VTab "(string \<times> tval) list"

text \<open>\<open>VOther\<close> is a float or a date.\<close>

type_synonym table = "(string \<times> tval) list"

section \<open>Reading a value\<close>

fun as_str :: "tval \<Rightarrow> string option" where
  "as_str (VStr s) = Some s" | "as_str _ = None"

fun as_bool :: "tval \<Rightarrow> bool option" where
  "as_bool (VBool b) = Some b" | "as_bool _ = None"

text \<open>An unsigned integer with its maximum.\<close>

fun as_uint :: "nat \<Rightarrow> tval \<Rightarrow> nat option" where
  "as_uint mx (VInt i) = (if 0 \<le> i \<and> i \<le> int mx then Some (nat i) else None)" | "as_uint mx _ = None"

abbreviation as_u16 :: "tval \<Rightarrow> nat option" where "as_u16 \<equiv> as_uint 65535"
abbreviation as_u32 :: "tval \<Rightarrow> nat option" where "as_u32 \<equiv> as_uint 4294967295"

fun as_vec :: "(tval \<Rightarrow> 'a option) \<Rightarrow> tval \<Rightarrow> 'a list option" where
  "as_vec f (VArr vs) = those (map f vs)" | "as_vec f _ = None"

fun as_map :: "(tval \<Rightarrow> 'a option) \<Rightarrow> tval \<Rightarrow> (string \<times> 'a) list option" where
  "as_map f (VTab m) = those (map (\<lambda>(k, v). map_option (Pair k) (f v)) m)" | "as_map f _ = None"

fun as_struct :: "(table \<Rightarrow> 'a option) \<Rightarrow> tval \<Rightarrow> 'a option" where
  "as_struct f (VTab m) = f m" | "as_struct f _ = None"

text \<open>A required field, one with a default, and one of type \<^verbatim>\<open>Option\<close>.\<close>

definition field :: "(tval \<Rightarrow> 'a option) \<Rightarrow> string \<Rightarrow> table \<Rightarrow> ('a \<Rightarrow> 'b option) \<Rightarrow> 'b option" where
  "field f k m next = Option.bind (case map_of m k of Some v \<Rightarrow> f v | None \<Rightarrow> None) next"

definition field_or :: "'a \<Rightarrow> (tval \<Rightarrow> 'a option) \<Rightarrow> string \<Rightarrow> table \<Rightarrow> ('a \<Rightarrow> 'b option) \<Rightarrow> 'b option" where
  "field_or d f k m next = Option.bind (case map_of m k of Some v \<Rightarrow> f v | None \<Rightarrow> Some d) next"

definition field_opt :: "(tval \<Rightarrow> 'a option) \<Rightarrow> string \<Rightarrow> table \<Rightarrow> ('a option \<Rightarrow> 'b option) \<Rightarrow> 'b option" where
  "field_opt f = field_or None (\<lambda>v. map_option Some (f v))"

section \<open>Defaults\<close>

definition default_cleanup_on_shutdown :: bool where "default_cleanup_on_shutdown = True"
definition default_log_level :: string where "default_log_level = ''info''"
definition default_with_timestamps :: bool where "default_with_timestamps = True"
definition default_with_thread_names :: bool where "default_with_thread_names = True"
definition default_with_file_line :: bool where "default_with_file_line = False"
definition default_with_spans :: bool where "default_with_spans = False"
definition default_service_name :: string where "default_service_name = ''org.segwire.NamespaceManager''"
definition default_object_path :: string where "default_object_path = ''/org/segwire/NamespaceManager''"

lemmas default_fns = default_cleanup_on_shutdown_def default_log_level_def default_with_timestamps_def
  default_with_thread_names_def default_with_file_line_def default_with_spans_def
  default_service_name_def default_object_path_def

lemma default_logging: "default_logging_config =
    \<lparr>level = default_log_level, with_timestamps = default_with_timestamps,
     with_thread_names = default_with_thread_names, with_file_line = default_with_file_line,
     with_spans = default_with_spans\<rparr>"
  by (simp add: default_logging_config_def default_fns)

section \<open>Reading the structures\<close>

definition read_logging :: "table \<Rightarrow> logging_config option" where
  "read_logging m =
     field_or default_log_level as_str ''level'' m (\<lambda>l.
     field_or default_with_timestamps as_bool ''with_timestamps'' m (\<lambda>t.
     field_or default_with_thread_names as_bool ''with_thread_names'' m (\<lambda>n.
     field_or default_with_file_line as_bool ''with_file_line'' m (\<lambda>f.
     field_or default_with_spans as_bool ''with_spans'' m (\<lambda>s.
     Some \<lparr>level = l, with_timestamps = t, with_thread_names = n, with_file_line = f, with_spans = s\<rparr>)))))"

definition read_daemon_settings :: "table \<Rightarrow> daemon_settings option" where
  "read_daemon_settings m =
     field as_str ''namespace_prefix'' m (\<lambda>p.
     field as_str ''config_dir'' m (\<lambda>d.
     field_or default_cleanup_on_shutdown as_bool ''cleanup_on_shutdown'' m (\<lambda>c.
     field_or default_logging_config (as_struct read_logging) ''logging'' m (\<lambda>l.
     Some \<lparr>namespace_prefix = p, config_dir = d, cleanup_on_shutdown = c, logging = l\<rparr>))))"

definition read_dbus_settings :: "table \<Rightarrow> dbus_settings option" where
  "read_dbus_settings m =
     field_or default_service_name as_str ''service_name'' m (\<lambda>s.
     field_or default_object_path as_str ''object_path'' m (\<lambda>p.
     Some \<lparr>service_name = s, object_path = p\<rparr>))"

definition read_daemon_config :: "table \<Rightarrow> daemon_config option" where
  "read_daemon_config m =
     field (as_struct read_daemon_settings) ''daemon'' m (\<lambda>d.
     field (as_struct read_dbus_settings) ''dbus'' m (\<lambda>b.
     Some \<lparr>daemon = d, dbus = b\<rparr>))"

definition read_namespace_settings :: "table \<Rightarrow> namespace_settings option" where
  "read_namespace_settings m =
     field as_str ''name'' m (\<lambda>n.
     field_or [] as_str ''description'' m (\<lambda>d.
     Some \<lparr>ns_name = n, ns_description = d\<rparr>))"

definition read_virtual_interface :: "table \<Rightarrow> virtual_interface option" where
  "read_virtual_interface m =
     field as_str ''name'' m (\<lambda>n.
     field as_str ''interface_type'' m (\<lambda>t.
     field_opt as_str ''peer'' m (\<lambda>p.
     field_or [] (as_vec as_str) ''addresses'' m (\<lambda>a.
     Some \<lparr>vif_name = n, interface_type = t, vif_peer = p, vif_addresses = a\<rparr>))))"

definition read_interface_config :: "table \<Rightarrow> interface_config option" where
  "read_interface_config m =
     field_or [] (as_vec as_str) ''move_interfaces'' m (\<lambda>ms.
     field_or [] (as_vec (as_struct read_virtual_interface)) ''virtual_interfaces'' m (\<lambda>vs.
     Some \<lparr>move_interfaces = ms, virtual_interfaces = vs\<rparr>))"

definition read_route :: "table \<Rightarrow> route option" where
  "read_route m =
     field as_str ''destination'' m (\<lambda>d.
     field as_str ''gateway'' m (\<lambda>g.
     field_opt as_u32 ''metric'' m (\<lambda>k.
     Some \<lparr>destination = d, gateway = g, metric = k\<rparr>)))"

definition read_routing_config :: "table \<Rightarrow> routing_config option" where
  "read_routing_config m =
     field_opt as_str ''default_gateway'' m (\<lambda>g.
     field_or [] (as_vec (as_struct read_route)) ''routes'' m (\<lambda>rs.
     Some \<lparr>default_gateway = g, routes = rs\<rparr>))"

definition read_dns_config :: "table \<Rightarrow> dns_config option" where
  "read_dns_config m =
     field_or [] (as_vec as_str) ''servers'' m (\<lambda>ss.
     field_or [] (as_vec as_str) ''search'' m (\<lambda>ds.
     Some \<lparr>servers = ss, search = ds\<rparr>))"

definition read_wireguard_peer :: "table \<Rightarrow> wireguard_peer_config option" where
  "read_wireguard_peer m =
     field as_str ''public_key'' m (\<lambda>k.
     field_opt as_str ''preshared_key'' m (\<lambda>s.
     field_opt as_str ''endpoint'' m (\<lambda>e.
     field_or [] (as_vec as_str) ''allowed_ips'' m (\<lambda>a.
     field_or 0 as_u16 ''persistent_keepalive'' m (\<lambda>n.
     Some \<lparr>public_key = k, preshared_key = s, endpoint = e, allowed_ips = a, persistent_keepalive = n\<rparr>)))))"

definition read_wireguard_config :: "table \<Rightarrow> wireguard_config option" where
  "read_wireguard_config m =
     field as_str ''private_key'' m (\<lambda>k.
     field_or 0 as_u16 ''listen_port'' m (\<lambda>p.
     field_or 0 as_u32 ''fwmark'' m (\<lambda>f.
     field_or [] (as_vec (as_struct read_wireguard_peer)) ''peers'' m (\<lambda>ps.
     Some \<lparr>private_key = k, listen_port = p, fwmark = f, wg_peers = ps\<rparr>))))"

definition read_namespace_config :: "table \<Rightarrow> namespace_config option" where
  "read_namespace_config m =
     field (as_struct read_namespace_settings) ''namespace'' m (\<lambda>n.
     field_or default_interface_config (as_struct read_interface_config) ''interfaces'' m (\<lambda>i.
     field_or default_routing_config (as_struct read_routing_config) ''routing'' m (\<lambda>r.
     field_or default_dns_config (as_struct read_dns_config) ''dns'' m (\<lambda>d.
     field_opt (as_struct read_wireguard_config) ''wireguard'' m (\<lambda>w.
     field_or [] (as_map as_str) ''environment'' m (\<lambda>e.
     Some \<lparr>namespace = n, interfaces = i, routing = r, dns = d, wireguard = w, environment = e\<rparr>))))))"

text \<open>\<^verbatim>\<open>toml::from_str\<close>: \<open>pa\<close> parses a text, \<open>msg\<close> is the error of a document that does not fit.\<close>

definition from_toml :: "(string \<Rightarrow> (string, table) res) \<Rightarrow> (table \<Rightarrow> string) \<Rightarrow> (table \<Rightarrow> 'c option) \<Rightarrow> 'c toml" where
  "from_toml pa msg f text = tryR (pa text) (\<lambda>m. ok_or (msg m) (f m))"

section \<open>Writing the structures\<close>

definition opt_entry :: "string \<Rightarrow> ('a \<Rightarrow> tval) \<Rightarrow> 'a option \<Rightarrow> table" where
  "opt_entry k f x = (case x of Some a \<Rightarrow> [(k, f a)] | None \<Rightarrow> [])"

definition of_nat_val :: "nat \<Rightarrow> tval" where "of_nat_val n = VInt (int n)"

definition strs :: "string list \<Rightarrow> tval" where "strs ss = VArr (map VStr ss)"

text \<open>The daemon never writes its own configuration; only a unit test of \<^verbatim>\<open>config.rs\<close> serializes one.\<close>

definition write_daemon_config :: "daemon_config \<Rightarrow> table" where
  "write_daemon_config c =
     [(''daemon'', VTab
        [(''namespace_prefix'', VStr (namespace_prefix (daemon c))), (''config_dir'', VStr (config_dir (daemon c))),
         (''cleanup_on_shutdown'', VBool (cleanup_on_shutdown (daemon c))),
         (''logging'', VTab
            [(''level'', VStr (level (logging (daemon c)))),
             (''with_timestamps'', VBool (with_timestamps (logging (daemon c)))),
             (''with_thread_names'', VBool (with_thread_names (logging (daemon c)))),
             (''with_file_line'', VBool (with_file_line (logging (daemon c)))),
             (''with_spans'', VBool (with_spans (logging (daemon c))))])]),
      (''dbus'', VTab
        [(''service_name'', VStr (service_name (dbus c))), (''object_path'', VStr (object_path (dbus c)))])]"

definition write_virtual_interface :: "virtual_interface \<Rightarrow> table" where
  "write_virtual_interface v =
     [(''name'', VStr (vif_name v)), (''interface_type'', VStr (interface_type v))] @
     opt_entry ''peer'' VStr (vif_peer v) @ [(''addresses'', strs (vif_addresses v))]"

definition write_route :: "route \<Rightarrow> table" where
  "write_route r =
     [(''destination'', VStr (destination r)), (''gateway'', VStr (gateway r))] @
     opt_entry ''metric'' of_nat_val (metric r)"

definition write_wireguard_peer :: "wireguard_peer_config \<Rightarrow> table" where
  "write_wireguard_peer p =
     [(''public_key'', VStr (public_key p))] @ opt_entry ''preshared_key'' VStr (preshared_key p) @
     opt_entry ''endpoint'' VStr (endpoint p) @
     [(''allowed_ips'', strs (allowed_ips p)), (''persistent_keepalive'', of_nat_val (persistent_keepalive p))]"

definition write_wireguard_config :: "wireguard_config \<Rightarrow> table" where
  "write_wireguard_config w =
     [(''private_key'', VStr (private_key w)), (''listen_port'', of_nat_val (listen_port w)),
      (''fwmark'', of_nat_val (fwmark w)),
      (''peers'', VArr (map (\<lambda>p. VTab (write_wireguard_peer p)) (wg_peers w)))]"

definition write_namespace_config :: "namespace_config \<Rightarrow> table" where
  "write_namespace_config c =
     [(''namespace'', VTab
        [(''name'', VStr (ns_name (namespace c))), (''description'', VStr (ns_description (namespace c)))]),
      (''interfaces'', VTab
        [(''move_interfaces'', strs (move_interfaces (interfaces c))),
         (''virtual_interfaces'',
            VArr (map (\<lambda>v. VTab (write_virtual_interface v)) (virtual_interfaces (interfaces c))))]),
      (''routing'', VTab
        (opt_entry ''default_gateway'' VStr (default_gateway (routing c)) @
         [(''routes'', VArr (map (\<lambda>r. VTab (write_route r)) (routes (routing c))))])),
      (''dns'', VTab [(''servers'', strs (servers (dns c))), (''search'', strs (search (dns c)))])] @
     opt_entry ''wireguard'' (\<lambda>w. VTab (write_wireguard_config w)) (wireguard c) @
     [(''environment'', VTab (map (\<lambda>(k, v). (k, VStr v)) (environment c)))]"

section \<open>What is written is read back\<close>

lemma those_map_Some: "(\<And>x. x \<in> set xs \<Longrightarrow> f (g x) = Some x) \<Longrightarrow> those (map f (map g xs)) = Some xs"
  by (induction xs) auto

lemma as_vec_strs [simp]: "as_vec as_str (strs ss) = Some ss"
  unfolding strs_def as_vec.simps by (rule those_map_Some) simp

lemma as_vec_structs:
  "(\<And>x. x \<in> set xs \<Longrightarrow> f (g x) = Some x) \<Longrightarrow> as_vec (as_struct f) (VArr (map (\<lambda>x. VTab (g x)) xs)) = Some xs"
  unfolding as_vec.simps by (rule those_map_Some) simp

lemma as_map_strs [simp]: "as_map as_str (VTab (map (\<lambda>(k, v). (k, VStr v)) e)) = Some e"
  unfolding as_map.simps by (rule those_map_Some) auto

lemma as_uint_val [simp]: "as_uint mx (of_nat_val n) = (if n \<le> mx then Some n else None)"
  by (simp add: of_nat_val_def)

lemma opt_entry_simps [simp]: "opt_entry k f None = []" "opt_entry k f (Some a) = [(k, f a)]"
  by (simp_all add: opt_entry_def)

lemmas field_defs = field_def field_or_def field_opt_def

text \<open>The integers of a configuration fit their fields, as the types of the source make sure.\<close>

definition peer_sized :: "wireguard_peer_config \<Rightarrow> bool" where
  "peer_sized p = (persistent_keepalive p \<le> 65535)"

definition wireguard_sized :: "wireguard_config \<Rightarrow> bool" where
  "wireguard_sized w = (listen_port w \<le> 65535 \<and> fwmark w \<le> 4294967295 \<and> (\<forall>p \<in> set (wg_peers w). peer_sized p))"

definition route_sized :: "route \<Rightarrow> bool" where
  "route_sized r = (\<forall>n. metric r = Some n \<longrightarrow> n \<le> 4294967295)"

definition config_sized :: "namespace_config \<Rightarrow> bool" where
  "config_sized c = ((\<forall>r \<in> set (routes (routing c)). route_sized r) \<and>
     (\<forall>w. wireguard c = Some w \<longrightarrow> wireguard_sized w))"

lemmas sized_defs = peer_sized_def wireguard_sized_def route_sized_def config_sized_def

lemma read_write_vif [simp]: "read_virtual_interface (write_virtual_interface v) = Some v"
  by (cases "vif_peer v") (simp_all add: read_virtual_interface_def write_virtual_interface_def field_defs)

lemma read_write_route [simp]: "route_sized r \<Longrightarrow> read_route (write_route r) = Some r"
  by (cases "metric r") (simp_all add: read_route_def write_route_def field_defs sized_defs)

lemma read_write_peer [simp]: "peer_sized p \<Longrightarrow> read_wireguard_peer (write_wireguard_peer p) = Some p"
  by (cases "preshared_key p"; cases "endpoint p")
     (simp_all add: read_wireguard_peer_def write_wireguard_peer_def field_defs sized_defs)

lemma read_write_wireguard [simp]:
  assumes "wireguard_sized w"
  shows "read_wireguard_config (write_wireguard_config w) = Some w"
proof -
  have "as_vec (as_struct read_wireguard_peer) (VArr (map (\<lambda>p. VTab (write_wireguard_peer p)) (wg_peers w))) =
      Some (wg_peers w)"
    using assms by (intro as_vec_structs) (simp add: wireguard_sized_def)
  then show ?thesis using assms
    by (simp add: read_wireguard_config_def write_wireguard_config_def field_defs wireguard_sized_def)
qed

lemma read_write_daemon: "read_daemon_config (write_daemon_config c) = Some c"
  by (simp add: read_daemon_config_def write_daemon_config_def read_daemon_settings_def read_logging_def
      read_dbus_settings_def field_defs)

lemma read_write_namespace:
  assumes "config_sized c"
  shows "read_namespace_config (write_namespace_config c) = Some c"
proof -
  have v: "as_vec (as_struct read_virtual_interface)
      (VArr (map (\<lambda>v. VTab (write_virtual_interface v)) (virtual_interfaces (interfaces c)))) =
      Some (virtual_interfaces (interfaces c))"
    by (intro as_vec_structs) simp
  have r: "as_vec (as_struct read_route) (VArr (map (\<lambda>r. VTab (write_route r)) (routes (routing c)))) =
      Some (routes (routing c))"
    using assms by (intro as_vec_structs) (simp add: config_sized_def)
  have w: "(case wireguard c of None \<Rightarrow> True | Some x \<Rightarrow> read_wireguard_config (write_wireguard_config x) = Some x)"
    using assms by (simp add: config_sized_def split: option.split)
  note d = read_namespace_config_def write_namespace_config_def read_namespace_settings_def
    read_interface_config_def read_routing_config_def read_dns_config_def field_defs
  show ?thesis
    using v r w by (cases "default_gateway (routing c)"; cases "wireguard c")
      (simp_all add: d del: as_vec.simps as_map.simps)
qed

interpretation namespace_table: codec write_namespace_config read_namespace_config Some config_sized
  by unfold_locales (simp_all add: read_write_namespace)

interpretation daemon_table: codec write_daemon_config read_daemon_config Some "\<lambda>_. True"
  by unfold_locales (simp_all add: read_write_daemon)

section \<open>Imported configurations\<close>

text \<open>\<^verbatim>\<open>toml::to_string_pretty\<close>: \<open>pr\<close> prints a table.\<close>

definition to_toml :: "(table \<Rightarrow> (string, string) res) \<Rightarrow> ('c \<Rightarrow> table) \<Rightarrow> 'c \<Rightarrow> (string, string) res" where
  "to_toml pr f c = pr (f c)"

lemma wg_config_sized:
  assumes "parse_wg_quick content n i = Ok c"
  shows "config_sized c"
proof -
  obtain q where q: "parse_wg_quick_raw content = Ok q" "c = to_namespace_config q n i"
    using assms by (auto simp: parse_wg_quick_def tryR_Inr_iff)
  show ?thesis using wg_parse_bounds [OF q(1)]
    by (auto simp: q(2) to_namespace_config_def to_peer_config_def default_routing_config_def sized_defs list_all_iff)
qed

lemma import_source:
  assumes "import_wg b64 io a = Ok (Written f t)"
  obtains content c where "io_read io (im_config_path a) = Ok content"
    "parse_wg_quick content (im_namespace a) (im_interface a) = Ok c" "namespace_config_ok b64 c"
    "ns_name (namespace c) = im_namespace a" "io_toml io c = Ok t" "\<not> io_exists io f"
  using assms
  by (auto simp: import_wg_def Let_def result_simps config_simps parse_wg_quick_def to_namespace_config_def
      split: if_splits)

lemma toml_read_back:
  assumes "\<And>m t. pr m = Ok t \<Longrightarrow> pa t = Ok m" "to_toml pr write_namespace_config c = Ok t" "config_sized c"
  shows "from_toml pa msg read_namespace_config t = Ok c"
  using assms by (simp add: from_toml_def to_toml_def read_write_namespace)

section \<open>Keys without a field\<close>

text \<open>The entries of a table with the keys \<open>ks\<close>.\<close>

definition only :: "string list \<Rightarrow> table \<Rightarrow> table" where
  "only ks m = filter (\<lambda>(k, v). k \<in> set ks) m"

lemma map_of_only [simp]: "k \<in> set ks \<Longrightarrow> map_of (only ks m) k = map_of m k"
  by (induction m) (auto simp: only_def)

section \<open>Documents as they are described\<close>

























lemma as_struct_read: "f t = Some x \<Longrightarrow> as_struct f (VTab t) = Some x"
  by simp







text \<open>Only the entries of the table \<^verbatim>\<open>[dbus]\<close> have defaults: a daemon document without it is refused.\<close>

lemma dbus_table_required: "map_of m ''dbus'' = None \<Longrightarrow> read_daemon_config m = None"
  by (simp add: read_daemon_config_def field_def bind_eq_None_conv)

section \<open>Properties\<close>




text \<open>
  Settings the program does not know are passed over without an error: a document is read as if only
  the keys of its structures were in it, at the top level and in the tables of the daemon, its
  logging and the interfaces.
\<close>

lemma unknown_settings_ignored:
  "read_daemon_config m = read_daemon_config (only [''daemon'', ''dbus''] m) \<and>
   read_daemon_settings m =
     read_daemon_settings (only [''namespace_prefix'', ''config_dir'', ''cleanup_on_shutdown'', ''logging''] m) \<and>
   read_logging m =
     read_logging (only [''level'', ''with_timestamps'', ''with_thread_names'', ''with_file_line'', ''with_spans''] m) \<and>
   read_namespace_config m =
     read_namespace_config (only [''namespace'', ''interfaces'', ''routing'', ''dns'', ''wireguard'', ''environment''] m) \<and>
   read_interface_config m = read_interface_config (only [''move_interfaces'', ''virtual_interfaces''] m)"
  by (simp add: read_daemon_config_def read_daemon_settings_def read_logging_def read_namespace_config_def
      read_interface_config_def field_defs)

text \<open>
  The daemon document of the tests and of the design document sets \<^verbatim>\<open>log_level\<close>, which no field has;
  the log level stays the default.
\<close>

lemma log_level_ignored:
  "read_daemon_settings
     [(''namespace_prefix'', VStr p), (''config_dir'', VStr d), (''cleanup_on_shutdown'', VBool b), (''log_level'', VStr l)] =
   Some \<lparr>namespace_prefix = p, config_dir = d, cleanup_on_shutdown = b, logging = default_logging_config\<rparr>"
  by (simp add: read_daemon_settings_def field_defs)

text \<open>The smallest daemon document, with the defaults of the source.\<close>

lemma minimal_daemon_config:
  "read_daemon_config
     [(''daemon'', VTab [(''namespace_prefix'', VStr p), (''config_dir'', VStr d)]), (''dbus'', VTab [])] =
   Some \<lparr>daemon = \<lparr>namespace_prefix = p, config_dir = d, cleanup_on_shutdown = True, logging = default_logging_config\<rparr>,
     dbus = default_dbus_settings\<rparr>"
  by (simp add: read_daemon_config_def read_daemon_settings_def read_dbus_settings_def field_defs default_fns
      default_dbus_settings_def)

text \<open>
  The example of \<^verbatim>\<open>docs/configuration.md\<close>: its second address has a group that is not hexadecimal, and
  the configuration is invalid whatever its other fields.
\<close>

lemma documented_address_rejected:
  assumes "v \<in> set (virtual_interfaces (interfaces c))" "''fd00:vpn::2/64'' \<in> set (vif_addresses v)"
  shows "validate_namespace_config b64 c \<noteq> Ok u"
proof
  assume "validate_namespace_config b64 c = Ok u"
  then have "namespace_config_ok b64 c" by (simp add: config_simps)
  then have "virtual_interface_ok v" using assms(1) by (auto simp: namespace_config_ok_def interface_config_ok_def)
  then have "cidr_text_ok ''fd00:vpn::2/64''" using assms(2) by (auto simp: virtual_interface_ok_def)
  then have "validate_cidr ''fd00:vpn::2/64'' = Ok ()" by (simp add: validate_simps)
  moreover have "validate_cidr ''fd00:vpn::2/64'' \<noteq> Ok ()" by code_simp
  ultimately show False by simp
qed

end
