(* ===== verification/TestSupport.thy ===== *)
theory TestSupport
  imports EnvSubst
begin

text \<open>
  The repository's own unit tests, read as boolean functions over the model: a test is the
  conjunction of its assertions, in their order.  \<^verbatim>\<open>assert!(r.is_ok())\<close> and \<^verbatim>\<open>is_err\<close> are
  \<open>is_ok\<close> and \<open>is_err\<close>, \<^verbatim>\<open>assert_eq!(r.unwrap(), v)\<close> is \<open>r = Ok v\<close>, and \<open>err_says\<close> is the
  search in the text of an error.  Where a test reads the environment of the process, an
  external decoder or the clock, that is an argument of its function.  Each test is
  evaluated on the model in the kernel, so a test that passes is a check that the model and
  the code agree on its inputs.  This theory holds what the test theories share.
\<close>

definition is_err :: "('e, 'a) res \<Rightarrow> bool" where
  "is_err r = (\<not> is_ok r)"

definition err_says :: "string \<Rightarrow> 'a sres \<Rightarrow> bool" where
  "err_says m r = (case r of Inl e \<Rightarrow> contains_str m (show_segwire_error e) | Inr _ \<Rightarrow> False)"

text \<open>What follows a successful call: \<^verbatim>\<open>unwrap\<close> or \<^verbatim>\<open>expect\<close>, and the assertions on the value.\<close>

definition unwrap_and :: "('e, 'a) res \<Rightarrow> ('a \<Rightarrow> bool) \<Rightarrow> bool" where
  "unwrap_and r p = (case r of Inl _ \<Rightarrow> False | Inr a \<Rightarrow> p a)"

definition some_and :: "'a option \<Rightarrow> ('a \<Rightarrow> bool) \<Rightarrow> bool" where
  "some_and x p = (case x of None \<Rightarrow> False | Some a \<Rightarrow> p a)"

text \<open>The text of lines, each with its end, and a text between double quotes.\<close>

definition text_lines :: "string list \<Rightarrow> string" where
  "text_lines ls = concat (map (\<lambda>l. l @ [newline]) ls)"

definition in_quotes :: "string \<Rightarrow> string" where
  "in_quotes s = [CHR 0x22] @ s @ [CHR 0x22]"

text \<open>Indexing: outside the list the test panics.\<close>

definition at :: "'a list \<Rightarrow> nat \<Rightarrow> 'a option" where
  "at xs i = (if i < length xs then Some (xs ! i) else None)"

end
