(* ===== verification/UtilsTests.thy ===== *)
theory UtilsTests
  imports TestSupport Security
begin

text \<open>The tests of \<^verbatim>\<open>segwire-common/src/utils.rs\<close>: the validators, the names, the substitution.\<close>

section \<open>Validators and names\<close>

definition test_validate_interface_name :: bool where
  "test_validate_interface_name =
     (is_ok (validate_interface_name ''eth0'') \<and>
      is_ok (validate_interface_name ''wlan0'') \<and>
      is_ok (validate_interface_name ''veth-test'') \<and>
      is_err (validate_interface_name []) \<and>
      is_err (validate_interface_name ''very-long-interface-name'') \<and>
      is_err (validate_interface_name ''eth@0''))"

definition test_validate_namespace_name :: bool where
  "test_validate_namespace_name =
     (is_ok (validate_namespace_name ''test'') \<and>
      is_ok (validate_namespace_name ''test-namespace'') \<and>
      is_ok (validate_namespace_name ''app1'') \<and>
      is_err (validate_namespace_name []) \<and>
      is_err (validate_namespace_name ''1test'') \<and>
      is_err (validate_namespace_name ''test_namespace''))"

definition test_validate_ip_address :: bool where
  "test_validate_ip_address =
     (is_ok (validate_ip_address ''192.168.1.1'') \<and>
      is_ok (validate_ip_address ''10.0.0.1'') \<and>
      is_ok (validate_ip_address ''::1'') \<and>
      is_err (validate_ip_address ''256.1.1.1'') \<and>
      is_err (validate_ip_address ''not.an.ip''))"

definition test_validate_cidr :: bool where
  "test_validate_cidr =
     (is_ok (validate_cidr ''192.168.1.0/24'') \<and>
      is_ok (validate_cidr ''10.0.0.0/8'') \<and>
      is_ok (validate_cidr ''::1/128'') \<and>
      is_err (validate_cidr ''192.168.1.0'') \<and>
      is_err (validate_cidr ''192.168.1.0/33'') \<and>
      is_err (validate_cidr ''invalid/24''))"

definition test_validate_domain_name :: bool where
  "test_validate_domain_name =
     (is_ok (validate_domain_name ''example.com'') \<and>
      is_ok (validate_domain_name ''sub.example.com'') \<and>
      is_ok (validate_domain_name ''test-domain.org'') \<and>
      is_err (validate_domain_name []) \<and>
      is_err (validate_domain_name ''invalid..domain'') \<and>
      is_err (validate_domain_name ''.example.com'') \<and>
      is_ok (validate_domain_name ''example.com.'') \<and>
      is_err (validate_domain_name (replicate 254 (CHR ''a''))) \<and>
      is_err (validate_domain_name (replicate 64 (CHR ''a'') @ ''.com'')))"

definition test_validate_namespace_prefix :: bool where
  "test_validate_namespace_prefix =
     (is_ok (validate_namespace_prefix ''segwire'') \<and>
      is_ok (validate_namespace_prefix ''app-1'') \<and>
      is_err (validate_namespace_prefix []) \<and>
      is_err (validate_namespace_prefix ''1invalid'') \<and>
      is_err (validate_namespace_prefix ''invalid_prefix'') \<and>
      is_err (validate_namespace_prefix (replicate 33 (CHR ''a''))))"

definition test_generate_full_namespace_name :: bool where
  "test_generate_full_namespace_name =
     (generate_full_namespace_name ''segwire'' ''test'' = ''segwire-test'' \<and>
      generate_full_namespace_name ''app'' ''backend'' = ''app-backend'')"

definition test_extract_namespace_name :: bool where
  "test_extract_namespace_name =
     (extract_namespace_name ''segwire'' ''segwire-test'' = Some ''test'' \<and>
      extract_namespace_name ''app'' ''segwire-test'' = None \<and>
      extract_namespace_name ''segwire'' ''test'' = None)"

lemma tests_names: "test_generate_full_namespace_name" "test_extract_namespace_name" by code_simp+
lemma tests_interface_name: "test_validate_interface_name" by code_simp
lemma tests_namespace_name: "test_validate_namespace_name" by code_simp
lemma tests_ip_address: "test_validate_ip_address" by code_simp
lemma tests_cidr: "test_validate_cidr" by code_simp
lemma tests_domain_name: "test_validate_domain_name" by code_simp
lemma tests_namespace_prefix: "test_validate_namespace_prefix" by code_simp

section \<open>Substitution\<close>

definition test_substitute_env_vars_simple :: "env \<Rightarrow> bool" where
  "test_substitute_env_vars_simple sysenv =
     (let config_env = [(''TEST_VAR'', ''test_value'')];
          config_env2 = (''VAR2'', ''value2'') # config_env
      in substitute_env_vars sysenv config_env ''${TEST_VAR}'' = Ok ''test_value'' \<and>
         substitute_env_vars sysenv config_env ''prefix-${TEST_VAR}-suffix'' = Ok ''prefix-test_value-suffix'' \<and>
         substitute_env_vars sysenv config_env2 ''${TEST_VAR}-${VAR2}'' = Ok ''test_value-value2'' \<and>
         substitute_env_vars sysenv config_env2 ''no_variables_here'' = Ok ''no_variables_here'')"

definition test_substitute_env_vars_default_values :: "env \<Rightarrow> bool" where
  "test_substitute_env_vars_default_values sysenv =
     (let empty_env = [(''EMPTY_VAR'', [])];
          config_env = (''SET_VAR'', ''actual_value'') # empty_env
      in substitute_env_vars sysenv [] ''${MISSING_VAR:-default_value}'' = Ok ''default_value'' \<and>
         substitute_env_vars sysenv empty_env ''${EMPTY_VAR:-default_value}'' = Ok ''default_value'' \<and>
         substitute_env_vars sysenv config_env ''${SET_VAR:-default_value}'' = Ok ''actual_value'' \<and>
         substitute_env_vars sysenv config_env ''${MISSING_VAR:-complex-default-123}'' =
           Ok ''complex-default-123'')"

definition test_substitute_env_vars_alternate_values :: "env \<Rightarrow> bool" where
  "test_substitute_env_vars_alternate_values sysenv =
     (let config_env = [(''SET_VAR'', ''original_value'')];
          config_env2 = (''EMPTY_VAR'', []) # config_env
      in substitute_env_vars sysenv config_env ''${SET_VAR:+alternate_value}'' = Ok ''alternate_value'' \<and>
         substitute_env_vars sysenv config_env ''${MISSING_VAR:+alternate_value}'' = Ok [] \<and>
         substitute_env_vars sysenv config_env2 ''${EMPTY_VAR:+alternate_value}'' = Ok [])"

text \<open>\<^verbatim>\<open>set_var\<close> adds to the environment of the process.\<close>

definition test_substitute_env_vars_system_env :: "env \<Rightarrow> bool" where
  "test_substitute_env_vars_system_env sysenv =
     (let sysenv2 = (''SEGWIRE_TEST_VAR'', ''system_value'') # sysenv
      in substitute_env_vars sysenv2 [] ''${SEGWIRE_TEST_VAR}'' = Ok ''system_value'' \<and>
         substitute_env_vars sysenv2 [(''SEGWIRE_TEST_VAR'', ''config_value'')] ''${SEGWIRE_TEST_VAR}'' =
           Ok ''config_value'')"

definition test_substitute_env_vars_nested :: "env \<Rightarrow> bool" where
  "test_substitute_env_vars_nested sysenv =
     (let config_env = [(''OUTER_VAR'', ''${INNER_VAR}''), (''INNER_VAR'', ''inner_value'')];
          config_env2 = [(''FULL_NAME'', ''${PREFIX}-${SUFFIX}''), (''SUFFIX'', ''app''), (''PREFIX'', ''test'')]
            @ config_env
      in substitute_env_vars sysenv config_env ''${OUTER_VAR}'' = Ok ''inner_value'' \<and>
         substitute_env_vars sysenv config_env2 ''namespace-${FULL_NAME}'' = Ok ''namespace-test-app'')"

definition test_substitute_env_vars_errors :: "env \<Rightarrow> bool" where
  "test_substitute_env_vars_errors sysenv =
     (let config_env = [(''VAR2'', ''${VAR1}''), (''VAR1'', ''${VAR2}'')]
      in is_err (substitute_env_vars sysenv [] ''${MISSING_VAR}'') \<and>
         err_says (''Environment variable '' @ quoted ''MISSING_VAR'' @ '' not found'')
           (substitute_env_vars sysenv [] ''${MISSING_VAR}'') \<and>
         is_err (substitute_env_vars sysenv config_env ''${VAR1}'') \<and>
         err_says ''Maximum substitution iterations exceeded''
           (substitute_env_vars sysenv config_env ''${VAR1}''))"

definition test_substitute_env_vars_edge_cases :: "env \<Rightarrow> bool" where
  "test_substitute_env_vars_edge_cases sysenv =
     (let config_env = [(''SPECIAL_CHARS'', ''value-with_special.chars123''),
            (''SPACES'', ''  value with spaces  ''), (''EMPTY'', [])]
      in substitute_env_vars sysenv config_env ''${EMPTY}'' = Ok [] \<and>
         substitute_env_vars sysenv config_env ''${SPACES}'' = Ok ''  value with spaces  '' \<and>
         substitute_env_vars sysenv config_env ''${SPECIAL_CHARS}'' = Ok ''value-with_special.chars123'' \<and>
         substitute_env_vars sysenv config_env ''${EMPTY:-default}-${SPACES}-${SPECIAL_CHARS:+alt}'' =
           Ok ''default-  value with spaces  -alt'')"

lemma tests_substitution:
  "test_substitute_env_vars_simple []" "test_substitute_env_vars_default_values []"
  "test_substitute_env_vars_alternate_values []" "test_substitute_env_vars_system_env []"
  "test_substitute_env_vars_nested []" "test_substitute_env_vars_errors []"
  "test_substitute_env_vars_edge_cases []"
  by code_simp+

end
