(* ===== verification/ConfigTests.thy ===== *)
theory ConfigTests
  imports TestSupport ConfigToml
begin

text \<open>
  The tests of \<^verbatim>\<open>segwire-common/src/config.rs\<close> and \<^verbatim>\<open>segwire-common/src/wireguard.rs\<close>.
  The printer and the parser of the \<^verbatim>\<open>toml\<close> crate are \<open>pr\<close> and \<open>pa\<close>; the tests of serialization hold
  for every pair that agrees and prints the three settings they look for.  The base64 crate is the pair \<open>enc\<close>, \<open>dec\<close>: the tests
  of the WireGuard validator hold for every pair where decoding reads back what encoding wrote and
  refuses a text with exclamation marks.  The wg-quick parser never decodes a key, so its tests
  take the keys as texts and are evaluated on the encodings of 32 bytes 0x42 and 0x43.
\<close>

section \<open>Serialization\<close>

definition assign :: "string \<Rightarrow> string \<Rightarrow> string" where
  "assign k v = k @ '' = '' @ [CHR 0x22] @ v @ [CHR 0x22]"

definition serialized_daemon :: daemon_config where
  "serialized_daemon =
     \<lparr>daemon = \<lparr>namespace_prefix = ''test'', config_dir = ''/tmp'', cleanup_on_shutdown = True,
        logging = \<lparr>level = ''debug'', with_timestamps = True, with_thread_names = True, with_file_line = False,
          with_spans = False\<rparr>\<rparr>,
      dbus = \<lparr>service_name = ''org.test.Service'', object_path = ''/org/test/Service''\<rparr>\<rparr>"

definition test_daemon_config_serialization ::
  "(table \<Rightarrow> (string, string) res) \<Rightarrow> (string \<Rightarrow> (string, table) res) \<Rightarrow> (table \<Rightarrow> string) \<Rightarrow> bool" where
  "test_daemon_config_serialization pr pa msg =
     unwrap_and (to_toml pr write_daemon_config serialized_daemon) (\<lambda>toml_str.
       contains_str (assign ''namespace_prefix'' ''test'') toml_str \<and>
       contains_str (assign ''service_name'' ''org.test.Service'') toml_str \<and>
       unwrap_and (from_toml pa msg read_daemon_config toml_str) (\<lambda>deserialized.
         namespace_prefix (daemon deserialized) = ''test'' \<and>
         service_name (dbus deserialized) = ''org.test.Service''))"

definition serialized_namespace :: namespace_config where
  "serialized_namespace =
     \<lparr>namespace = \<lparr>ns_name = ''test-app'', ns_description = ''Test application namespace''\<rparr>,
      interfaces = \<lparr>move_interfaces = [''eth1''],
        virtual_interfaces = [\<lparr>vif_name = ''veth-app'', interface_type = ''veth'', vif_peer = Some ''veth-host'',
          vif_addresses = []\<rparr>]\<rparr>,
      routing = \<lparr>default_gateway = Some ''192.168.100.1'',
        routes = [\<lparr>destination = ''10.0.0.0/8'', gateway = ''192.168.100.1'', metric = Some 100\<rparr>]\<rparr>,
      dns = \<lparr>servers = [''8.8.8.8'', ''8.8.4.4''], search = [''example.com'']\<rparr>,
      wireguard = None, environment = [(''APP_NETWORK'', ''192.168.100.0/24'')]\<rparr>"

definition test_namespace_config_serialization ::
  "(table \<Rightarrow> (string, string) res) \<Rightarrow> (string \<Rightarrow> (string, table) res) \<Rightarrow> (table \<Rightarrow> string) \<Rightarrow> bool" where
  "test_namespace_config_serialization pr pa msg =
     unwrap_and (to_toml pr write_namespace_config serialized_namespace) (\<lambda>toml_str.
       contains_str (assign ''name'' ''test-app'') toml_str \<and>
       contains_str (''move_interfaces = ['' @ [CHR 0x22] @ ''eth1'' @ [CHR 0x22] @ '']'') toml_str \<and>
       contains_str (assign ''default_gateway'' ''192.168.100.1'') toml_str \<and>
       unwrap_and (from_toml pa msg read_namespace_config toml_str) (\<lambda>deserialized.
         ns_name (namespace deserialized) = ''test-app'' \<and>
         move_interfaces (interfaces deserialized) = [''eth1''] \<and>
         default_gateway (routing deserialized) = Some ''192.168.100.1''))"

definition minimal_toml :: string where
  "minimal_toml = unlines [[], ''[daemon]'', assign ''namespace_prefix'' ''test'', assign ''config_dir'' ''/tmp'', [],
     ''[dbus]'']"

definition test_daemon_config_defaults :: "(string \<Rightarrow> (string, table) res) \<Rightarrow> (table \<Rightarrow> string) \<Rightarrow> bool" where
  "test_daemon_config_defaults pa msg =
     unwrap_and (from_toml pa msg read_daemon_config minimal_toml) (\<lambda>config.
       cleanup_on_shutdown (daemon config) \<and> level (logging (daemon config)) = ''info'' \<and>
       service_name (dbus config) = ''org.segwire.NamespaceManager'' \<and>
       object_path (dbus config) = ''/org/segwire/NamespaceManager'')"

lemma tests_serialization:
  assumes "\<And>m t. pr m = Ok t \<Longrightarrow> pa t = Ok m"
  shows "pr (write_daemon_config serialized_daemon) = Ok t \<Longrightarrow>
      contains_str (assign ''namespace_prefix'' ''test'') t \<Longrightarrow>
      contains_str (assign ''service_name'' ''org.test.Service'') t \<Longrightarrow> test_daemon_config_serialization pr pa msg"
    and "pr (write_namespace_config serialized_namespace) = Ok t \<Longrightarrow>
      contains_str (assign ''name'' ''test-app'') t \<Longrightarrow>
      contains_str (''move_interfaces = ['' @ [CHR 0x22] @ ''eth1'' @ [CHR 0x22] @ '']'') t \<Longrightarrow>
      contains_str (assign ''default_gateway'' ''192.168.100.1'') t \<Longrightarrow> test_namespace_config_serialization pr pa msg"
proof -
  have n: "config_sized serialized_namespace" by (simp add: sized_defs serialized_namespace_def)
  show "pr (write_daemon_config serialized_daemon) = Ok t \<Longrightarrow>
      contains_str (assign ''namespace_prefix'' ''test'') t \<Longrightarrow>
      contains_str (assign ''service_name'' ''org.test.Service'') t \<Longrightarrow> test_daemon_config_serialization pr pa msg"
    using assms read_write_daemon [of serialized_daemon]
    by (simp add: test_daemon_config_serialization_def to_toml_def from_toml_def unwrap_and_def)
       (simp add: serialized_daemon_def)
  show "pr (write_namespace_config serialized_namespace) = Ok t \<Longrightarrow>
      contains_str (assign ''name'' ''test-app'') t \<Longrightarrow>
      contains_str (''move_interfaces = ['' @ [CHR 0x22] @ ''eth1'' @ [CHR 0x22] @ '']'') t \<Longrightarrow>
      contains_str (assign ''default_gateway'' ''192.168.100.1'') t \<Longrightarrow> test_namespace_config_serialization pr pa msg"
    using assms read_write_namespace [OF n]
    by (simp add: test_namespace_config_serialization_def to_toml_def from_toml_def unwrap_and_def)
       (simp add: serialized_namespace_def)
qed

lemma tests_defaults:
  "pa minimal_toml = Ok [(''daemon'', VTab [(''namespace_prefix'', VStr ''test''), (''config_dir'', VStr ''/tmp'')]),
     (''dbus'', VTab [])] \<Longrightarrow> test_daemon_config_defaults pa msg"
  by (simp add: test_daemon_config_defaults_def from_toml_def minimal_daemon_config unwrap_and_def
      default_logging_config_def default_dbus_settings_def)

section \<open>Validation\<close>

definition test_daemon_config_validation :: "(string \<Rightarrow> bool) \<Rightarrow> bool" where
  "test_daemon_config_validation ex =
     (let config = (\<lambda>pre lvl svc. \<lparr>daemon = \<lparr>namespace_prefix = pre, config_dir = ''/tmp'',
             cleanup_on_shutdown = True, logging = default_logging_config\<lparr>level := lvl\<rparr>\<rparr>,
           dbus = \<lparr>service_name = svc, object_path = ''/org/test/Service''\<rparr>\<rparr>);
          info = level default_logging_config
      in is_err (validate_daemon_config ex (config [] info ''org.test.Service'')) \<and>
         is_ok (validate_daemon_config ex (config ''test'' info ''org.test.Service'')) \<and>
         is_err (validate_daemon_config ex (config ''test'' ''invalid'' ''org.test.Service'')) \<and>
         is_ok (validate_daemon_config ex (config ''test'' ''debug'' ''org.test.Service'')) \<and>
         is_err (validate_daemon_config ex (config ''test'' ''debug'' ''invalid-service'')))"

definition plain_config :: "string \<Rightarrow> string \<Rightarrow> env \<Rightarrow> namespace_config" where
  "plain_config n d e = \<lparr>namespace = \<lparr>ns_name = n, ns_description = d\<rparr>,
     interfaces = default_interface_config, routing = default_routing_config, dns = default_dns_config,
     wireguard = None, environment = e\<rparr>"

definition test_namespace_config_validation :: "base64 \<Rightarrow> bool" where
  "test_namespace_config_validation dec =
     (is_err (validate_namespace_config dec (plain_config [] ''Test'' [])) \<and>
      is_ok (validate_namespace_config dec (plain_config ''valid-name'' ''Test'' [])) \<and>
      is_err (validate_namespace_config dec (plain_config ''1invalid'' ''Test'' [])))"

definition test_interface_config_validation :: bool where
  "test_interface_config_validation =
     (let config = (\<lambda>ms. \<lparr>move_interfaces = ms, virtual_interfaces = []\<rparr>)
      in is_err (validate_interface_config (config [''eth0'', ''invalid@interface''])) \<and>
         is_ok (validate_interface_config (config [''eth0'', ''wlan0''])) \<and>
         is_err (validate_interface_config (config [''eth0'', ''eth0''])))"

definition test_virtual_interface_validation :: bool where
  "test_virtual_interface_validation =
     (let vif = (\<lambda>t p. \<lparr>vif_name = ''veth0'', interface_type = t, vif_peer = p, vif_addresses = []\<rparr>)
      in is_err (validate_virtual_interface (vif ''veth'' None)) \<and>
         is_ok (validate_virtual_interface (vif ''veth'' (Some ''veth1''))) \<and>
         is_err (validate_virtual_interface (vif ''invalid'' (Some ''veth1''))) \<and>
         is_err (validate_virtual_interface (vif ''veth'' (Some ''veth0''))))"

definition test_routing_config_validation :: bool where
  "test_routing_config_validation =
     (let config = (\<lambda>g rs. \<lparr>default_gateway = Some g, routes = rs\<rparr>);
          r = (\<lambda>d g m. \<lparr>destination = d, gateway = g, metric = Some m\<rparr>)
      in is_err (validate_routing_config (config ''invalid-ip'' [])) \<and>
         is_ok (validate_routing_config (config ''192.168.1.1'' [])) \<and>
         is_err (validate_routing_config (config ''192.168.1.1'' [r ''invalid-cidr'' ''192.168.1.1'' 100])) \<and>
         is_ok (validate_routing_config (config ''192.168.1.1'' [r ''10.0.0.0/8'' ''192.168.1.1'' 100])) \<and>
         is_err (validate_routing_config (config ''192.168.1.1''
           [r ''10.0.0.0/8'' ''192.168.1.1'' 100, r ''10.0.0.0/8'' ''192.168.1.2'' 200])))"

definition test_dns_config_validation :: bool where
  "test_dns_config_validation =
     (let config = (\<lambda>ss ds. \<lparr>servers = ss, search = ds\<rparr>)
      in is_err (validate_dns_config (config [''invalid-ip''] [''example.com''])) \<and>
         is_ok (validate_dns_config (config [''8.8.8.8''] [''example.com''])) \<and>
         is_err (validate_dns_config (config [''8.8.8.8''] [''invalid..domain''])) \<and>
         is_ok (validate_dns_config (config [''8.8.8.8''] [''example.com''])) \<and>
         is_err (validate_dns_config (config [''8.8.8.8'', ''8.8.8.8''] [''example.com''])))"

lemma tests_validation:
  "test_daemon_config_validation (\<lambda>p. p = ''/tmp'')" "test_namespace_config_validation no_base64"
  "test_interface_config_validation" "test_virtual_interface_validation"
  "test_routing_config_validation" "test_dns_config_validation"
  by code_simp+

section \<open>Substitution in a configuration\<close>

definition test_environment_variable_substitution :: "env \<Rightarrow> bool" where
  "test_environment_variable_substitution sysenv =
     (let config = \<lparr>namespace = \<lparr>ns_name = ''${APP_NAME}'', ns_description = ''Namespace for ${APP_NAME}''\<rparr>,
            interfaces = \<lparr>move_interfaces = [''${APP_NAME}-eth0''],
              virtual_interfaces = [\<lparr>vif_name = ''veth-${APP_NAME}'', interface_type = ''veth'',
                vif_peer = Some ''veth-${APP_NAME}-host'', vif_addresses = []\<rparr>]\<rparr>,
            routing = \<lparr>default_gateway = Some ''${NETWORK_PREFIX}.1'',
              routes = [\<lparr>destination = ''10.0.0.0/8'', gateway = ''${NETWORK_PREFIX}.1'', metric = Some 100\<rparr>]\<rparr>,
            dns = \<lparr>servers = [''${DNS_SERVER}''], search = [''${APP_NAME}.local'']\<rparr>,
            wireguard = None,
            environment = [(''DNS_SERVER'', ''8.8.8.8''), (''NETWORK_PREFIX'', ''192.168.100''),
              (''APP_NAME'', ''test-app'')]\<rparr>
      in unwrap_and (substitute_environment_variables sysenv config) (\<lambda>c.
           ns_name (namespace c) = ''test-app'' \<and>
           ns_description (namespace c) = ''Namespace for test-app'' \<and>
           at (move_interfaces (interfaces c)) 0 = Some ''test-app-eth0'' \<and>
           some_and (at (virtual_interfaces (interfaces c)) 0) (\<lambda>v. vif_name v = ''veth-test-app'') \<and>
           some_and (at (virtual_interfaces (interfaces c)) 0) (\<lambda>v. vif_peer v = Some ''veth-test-app-host'') \<and>
           default_gateway (routing c) = Some ''192.168.100.1'' \<and>
           some_and (at (routes (routing c)) 0) (\<lambda>r. gateway r = ''192.168.100.1'') \<and>
           at (servers (dns c)) 0 = Some ''8.8.8.8'' \<and>
           at (search (dns c)) 0 = Some ''test-app.local''))"

definition test_environment_variable_substitution_with_defaults :: "env \<Rightarrow> bool" where
  "test_environment_variable_substitution_with_defaults sysenv =
     (let config = \<lparr>namespace = \<lparr>ns_name = ''${SET_VAR}'', ns_description = ''${UNSET_VAR:-default_description}''\<rparr>,
            interfaces = \<lparr>move_interfaces = [''${UNSET_VAR:-eth0}''], virtual_interfaces = []\<rparr>,
            routing = \<lparr>default_gateway = Some ''${GATEWAY:-192.168.1.1}'', routes = []\<rparr>,
            dns = \<lparr>servers = [''${DNS:-8.8.8.8}''], search = []\<rparr>,
            wireguard = None, environment = [(''SET_VAR'', ''set_value'')]\<rparr>
      in unwrap_and (substitute_environment_variables sysenv config) (\<lambda>c.
           ns_name (namespace c) = ''set_value'' \<and>
           ns_description (namespace c) = ''default_description'' \<and>
           at (move_interfaces (interfaces c)) 0 = Some ''eth0'' \<and>
           default_gateway (routing c) = Some ''192.168.1.1'' \<and>
           at (servers (dns c)) 0 = Some ''8.8.8.8''))"

definition test_environment_variable_substitution_errors :: "env \<Rightarrow> bool" where
  "test_environment_variable_substitution_errors sysenv =
     (let result = substitute_environment_variables sysenv (plain_config ''${MISSING_VAR}'' ''Test'' [])
      in is_err result \<and>
         err_says (''Environment variable '' @ quoted ''MISSING_VAR'' @ '' not found'') result)"

definition test_environment_variable_substitution_system_env :: "env \<Rightarrow> bool" where
  "test_environment_variable_substitution_system_env sysenv =
     unwrap_and (substitute_environment_variables ((''SEGWIRE_TEST_SYSTEM_VAR'', ''system_value'') # sysenv)
         (plain_config ''${SEGWIRE_TEST_SYSTEM_VAR}'' ''Test'' []))
       (\<lambda>c. ns_name (namespace c) = ''system_value'')"

definition test_environment_variable_substitution_precedence :: "env \<Rightarrow> bool" where
  "test_environment_variable_substitution_precedence sysenv =
     unwrap_and (substitute_environment_variables ((''SEGWIRE_TEST_PRECEDENCE_VAR'', ''system_value'') # sysenv)
         (plain_config ''${SEGWIRE_TEST_PRECEDENCE_VAR}'' ''Test''
            [(''SEGWIRE_TEST_PRECEDENCE_VAR'', ''config_value'')]))
       (\<lambda>c. ns_name (namespace c) = ''config_value'')"

lemma tests_config_substitution:
  "test_environment_variable_substitution []" "test_environment_variable_substitution_with_defaults []"
  "test_environment_variable_substitution_errors []" "test_environment_variable_substitution_system_env []"
  "test_environment_variable_substitution_precedence []"
  by code_simp+

section \<open>WireGuard\<close>

definition wg_test_key :: "(string \<Rightarrow> string) \<Rightarrow> char \<Rightarrow> string" where
  "wg_test_key enc fill = enc (replicate 32 fill)"

definition test_wireguard_config_valid :: "(string \<Rightarrow> string) \<Rightarrow> base64 \<Rightarrow> bool" where
  "test_wireguard_config_valid enc dec =
     is_ok (validate_wireguard_config dec
       \<lparr>private_key = wg_test_key enc (CHR 0x42), listen_port = 51820, fwmark = 0,
        wg_peers = [\<lparr>public_key = wg_test_key enc (CHR 0x43), preshared_key = None,
          endpoint = Some ''203.0.113.1:51820'', allowed_ips = [''0.0.0.0/0'', ''::/0''],
          persistent_keepalive = 25\<rparr>]\<rparr>)"

definition test_wireguard_config_invalid_base64_key :: "base64 \<Rightarrow> bool" where
  "test_wireguard_config_invalid_base64_key dec =
     (let result = validate_wireguard_config dec
            \<lparr>private_key = ''not-valid-base64!!!'', listen_port = 0, fwmark = 0, wg_peers = []\<rparr>
      in is_err result \<and> err_says ''invalid base64'' result)"

definition test_wireguard_config_wrong_key_length :: "(string \<Rightarrow> string) \<Rightarrow> base64 \<Rightarrow> bool" where
  "test_wireguard_config_wrong_key_length enc dec =
     (let result = validate_wireguard_config dec
            \<lparr>private_key = enc (replicate 16 (CHR 0x42)), listen_port = 0, fwmark = 0, wg_peers = []\<rparr>
      in is_err result \<and> err_says ''32 bytes'' result)"

definition test_wireguard_config_empty_private_key :: "base64 \<Rightarrow> bool" where
  "test_wireguard_config_empty_private_key dec =
     is_err (validate_wireguard_config dec
       \<lparr>private_key = [], listen_port = 0, fwmark = 0, wg_peers = []\<rparr>)"

definition test_wireguard_peer_invalid_endpoint :: "(string \<Rightarrow> string) \<Rightarrow> base64 \<Rightarrow> bool" where
  "test_wireguard_peer_invalid_endpoint enc dec =
     (let result = validate_wireguard_config dec
            \<lparr>private_key = wg_test_key enc (CHR 0x42), listen_port = 0, fwmark = 0,
             wg_peers = [\<lparr>public_key = wg_test_key enc (CHR 0x43), preshared_key = None,
               endpoint = Some ''not-a-valid-endpoint'', allowed_ips = [''10.0.0.0/8''],
               persistent_keepalive = 0\<rparr>]\<rparr>
      in is_err result \<and> err_says ''endpoint'' result)"

definition test_wireguard_peer_invalid_allowed_ip :: "(string \<Rightarrow> string) \<Rightarrow> base64 \<Rightarrow> bool" where
  "test_wireguard_peer_invalid_allowed_ip enc dec =
     is_err (validate_wireguard_config dec
       \<lparr>private_key = wg_test_key enc (CHR 0x42), listen_port = 0, fwmark = 0,
        wg_peers = [\<lparr>public_key = wg_test_key enc (CHR 0x43), preshared_key = None, endpoint = None,
          allowed_ips = [''not-a-cidr''], persistent_keepalive = 0\<rparr>]\<rparr>)"

lemma wg_validator_facts:
  "validate_cidr ''0.0.0.0/0'' = Ok ()" "validate_cidr ''::/0'' = Ok ()" "validate_cidr ''10.0.0.0/8'' = Ok ()"
  "validate_endpoint ''203.0.113.1:51820'' = Ok ()" "is_err (validate_cidr ''not-a-cidr'')"
  by code_simp+

lemma tests_wireguard_config:
  assumes dec: "\<And>b. dec (enc b) = Ok b" and enc: "\<And>b. b \<noteq> [] \<Longrightarrow> enc b \<noteq> []"
    and bad: "is_err (dec ''not-valid-base64!!!'')"
  shows "test_wireguard_config_valid enc dec" "test_wireguard_config_invalid_base64_key dec"
    "test_wireguard_config_wrong_key_length enc dec" "test_wireguard_config_empty_private_key dec"
    "test_wireguard_peer_invalid_endpoint enc dec" "test_wireguard_peer_invalid_allowed_ip enc dec"
proof -
  have key: "validate_wg_key dec (wg_test_key enc c) f = Ok ()" for c f
    by (simp add: validate_wg_key_def wg_test_key_def dec enc)
  note vd = validate_wireguard_config_def validate_wg_peer_def key
  show "test_wireguard_config_valid enc dec"
    by (simp add: test_wireguard_config_valid_def vd wg_validator_facts)
  obtain e where e: "dec ''not-valid-base64!!!'' = Inl e"
    using bad by (cases "dec ''not-valid-base64!!!''") (auto simp: is_err_def)
  have m: "err_says ''invalid base64'' (bad_value ''wireguard.private_key'' ''invalid base64 encoding'' :: unit sres)"
    by code_simp
  show "test_wireguard_config_invalid_base64_key dec"
    using m by (simp add: test_wireguard_config_invalid_base64_key_def vd validate_wg_key_def e is_err_def)
  have m: "err_says ''32 bytes'' (bad_value ''wireguard.private_key''
      (''key must be 32 bytes (got '' @ show_nat 16 @ '' bytes after base64 decode)'') :: unit sres)"
    by code_simp
  have n: "enc (replicate 16 (CHR 0x42)) \<noteq> []" by (rule enc) simp
  show "test_wireguard_config_wrong_key_length enc dec"
    using m n by (simp add: test_wireguard_config_wrong_key_length_def vd validate_wg_key_def dec is_err_def)
  show "test_wireguard_config_empty_private_key dec"
    by (simp add: test_wireguard_config_empty_private_key_def vd validate_wg_key_def is_err_def)
  have x: "is_err (validate_wg_peer dec \<lparr>public_key = wg_test_key enc (CHR 0x43), preshared_key = None,
      endpoint = None, allowed_ips = [''not-a-cidr''], persistent_keepalive = 0\<rparr>)"
    using wg_validator_facts(5) by (simp add: vd is_err_def)
  show "test_wireguard_peer_invalid_allowed_ip enc dec"
    using x by (simp add: test_wireguard_peer_invalid_allowed_ip_def vd is_err_def)
  have v: "validate_endpoint ''not-a-valid-endpoint'' =
      Inl (Config (InvalidValue ''endpoint'' (''expected host:port format, got '' @ quoted ''not-a-valid-endpoint'')))"
    by code_simp
  have m: "err_says ''endpoint'' (Inl (at_index ''wireguard.peers'' 0 (Config (InvalidValue ''endpoint''
      (''expected host:port format, got '' @ quoted ''not-a-valid-endpoint'')))) :: unit sres)"
    by code_simp
  show "test_wireguard_peer_invalid_endpoint enc dec"
    using m by (simp add: test_wireguard_peer_invalid_endpoint_def vd v is_err_def)
qed

section \<open>The wg-quick parser\<close>

definition test_parse_minimal_wg_quick :: "string \<Rightarrow> string \<Rightarrow> bool" where
  "test_parse_minimal_wg_quick key peer_key =
     unwrap_and (parse_wg_quick (unlines [''[Interface]'', ''PrivateKey = '' @ key, [],
         ''[Peer]'', ''PublicKey = '' @ peer_key, ''AllowedIPs = 0.0.0.0/0'']) ''vpn-ns'' None) (\<lambda>result.
       ns_name (namespace result) = ''vpn-ns'' \<and>
       some_and (at (virtual_interfaces (interfaces result)) 0) (\<lambda>v. interface_type v = ''wireguard'') \<and>
       some_and (at (virtual_interfaces (interfaces result)) 0) (\<lambda>v. vif_name v = ''wg0'') \<and>
       some_and (wireguard result) (\<lambda>wg. private_key wg = key \<and> length (wg_peers wg) = 1 \<and>
         some_and (at (wg_peers wg) 0) (\<lambda>p. public_key p = peer_key) \<and>
         some_and (at (wg_peers wg) 0) (\<lambda>p. allowed_ips p = [''0.0.0.0/0''])))"

definition test_parse_full_wg_quick :: "string \<Rightarrow> string \<Rightarrow> string \<Rightarrow> bool" where
  "test_parse_full_wg_quick key peer_key psk =
     unwrap_and (parse_wg_quick (unlines [''[Interface]'', ''PrivateKey = '' @ key, ''ListenPort = 51820'',
         ''Address = 10.0.0.1/24, fd00::1/128'', ''DNS = 8.8.8.8, 8.8.4.4'', [],
         ''[Peer]'', ''PublicKey = '' @ peer_key, ''PresharedKey = '' @ psk, ''Endpoint = 203.0.113.1:51820'',
         ''AllowedIPs = 0.0.0.0/0, ::/0'', ''PersistentKeepalive = 25'']) ''full-vpn'' (Some ''wg1'')) (\<lambda>result.
       some_and (at (virtual_interfaces (interfaces result)) 0) (\<lambda>v. vif_name v = ''wg1'') \<and>
       some_and (at (virtual_interfaces (interfaces result)) 0)
         (\<lambda>v. vif_addresses v = [''10.0.0.1/24'', ''fd00::1/128'']) \<and>
       servers (dns result) = [''8.8.8.8'', ''8.8.4.4''] \<and>
       some_and (wireguard result) (\<lambda>wg. listen_port wg = 51820 \<and>
         some_and (at (wg_peers wg) 0) (\<lambda>p. endpoint p = Some ''203.0.113.1:51820'') \<and>
         some_and (at (wg_peers wg) 0) (\<lambda>p. preshared_key p = Some psk) \<and>
         some_and (at (wg_peers wg) 0) (\<lambda>p. persistent_keepalive p = 25) \<and>
         some_and (at (wg_peers wg) 0) (\<lambda>p. allowed_ips p = [''0.0.0.0/0'', ''::/0''])))"

definition test_parse_multiple_peers :: "string \<Rightarrow> string \<Rightarrow> string \<Rightarrow> bool" where
  "test_parse_multiple_peers key pk1 pk2 =
     unwrap_and (parse_wg_quick (unlines [''[Interface]'', ''PrivateKey = '' @ key, [],
         ''[Peer]'', ''PublicKey = '' @ pk1, ''AllowedIPs = 10.0.1.0/24'', [],
         ''[Peer]'', ''PublicKey = '' @ pk2, ''AllowedIPs = 10.0.2.0/24'', ''Endpoint = 198.51.100.1:51820''])
         ''multi-peer'' None) (\<lambda>result.
       some_and (wireguard result) (\<lambda>wg. length (wg_peers wg) = 2 \<and>
         some_and (at (wg_peers wg) 0) (\<lambda>p. public_key p = pk1) \<and>
         some_and (at (wg_peers wg) 1) (\<lambda>p. public_key p = pk2) \<and>
         some_and (at (wg_peers wg) 1) (\<lambda>p. endpoint p = Some ''198.51.100.1:51820'')))"

definition test_parse_wg_quick_ignores_comments :: "string \<Rightarrow> string \<Rightarrow> bool" where
  "test_parse_wg_quick_ignores_comments key peer_key =
     is_ok (parse_wg_quick (unlines [''# This is a comment'', ''; This is also a comment'', ''[Interface]'',
         ''PrivateKey = '' @ key, ''# Another comment'', [],
         ''[Peer]'', ''PublicKey = '' @ peer_key, ''AllowedIPs = 10.0.0.0/8'']) ''comment-test'' None)"

definition test_parse_wg_quick_missing_private_key :: bool where
  "test_parse_wg_quick_missing_private_key =
     (let result = parse_wg_quick (unlines [''[Interface]'', ''ListenPort = 51820'']) ''test'' None
      in is_err result \<and> result = Err (WgErr MissingPrivateKey))"

definition test_parse_wg_quick_ignores_wg_quick_directives :: "string \<Rightarrow> string \<Rightarrow> bool" where
  "test_parse_wg_quick_ignores_wg_quick_directives key peer_key =
     is_ok (parse_wg_quick (unlines [''[Interface]'', ''PrivateKey = '' @ key, ''Table = auto'',
         ''PostUp = iptables -A FORWARD -i wg0 -j ACCEPT'', ''PostDown = iptables -D FORWARD -i wg0 -j ACCEPT'',
         ''SaveConfig = true'', ''MTU = 1420'', [],
         ''[Peer]'', ''PublicKey = '' @ peer_key, ''AllowedIPs = 10.0.0.0/8'']) ''directive-test'' None)"

definition key_42 :: string where "key_42 = ''QkJCQkJCQkJCQkJCQkJCQkJCQkJCQkJCQkJCQkJCQkI=''"
definition key_43 :: string where "key_43 = ''Q0NDQ0NDQ0NDQ0NDQ0NDQ0NDQ0NDQ0NDQ0NDQ0NDQ0M=''"

text \<open>What the parser gives for the texts of the tests, after which each test is a few look-ups.\<close>

abbreviation plain_peer :: "string \<Rightarrow> string list \<Rightarrow> wg_quick_peer" where
  "plain_peer k ips \<equiv> \<lparr>qp_public_key = k, qp_preshared_key = None, qp_endpoint = None, qp_allowed_ips = ips,
     qp_keepalive = 0\<rparr>"

abbreviation plain_quick :: "string \<Rightarrow> wg_quick_peer list \<Rightarrow> wg_quick_config" where
  "plain_quick k ps \<equiv> \<lparr>q_private_key = k, q_listen_port = 0, q_addresses = [], q_dns_servers = [], q_fwmark = 0,
     q_peers = ps\<rparr>"

lemma parse_minimal:
  "parse_wg_quick_raw (unlines [''[Interface]'', ''PrivateKey = '' @ key_42, [],
     ''[Peer]'', ''PublicKey = '' @ key_43, ''AllowedIPs = 0.0.0.0/0'']) =
   Ok (plain_quick key_42 [plain_peer key_43 [''0.0.0.0/0'']])"
  by code_simp

lemma parse_full:
  "parse_wg_quick_raw (unlines [''[Interface]'', ''PrivateKey = '' @ key_42, ''ListenPort = 51820'',
     ''Address = 10.0.0.1/24, fd00::1/128'', ''DNS = 8.8.8.8, 8.8.4.4'', [],
     ''[Peer]'', ''PublicKey = '' @ key_43, ''PresharedKey = '' @ key_42, ''Endpoint = 203.0.113.1:51820'',
     ''AllowedIPs = 0.0.0.0/0, ::/0'', ''PersistentKeepalive = 25'']) =
   Ok \<lparr>q_private_key = key_42, q_listen_port = 51820, q_addresses = [''10.0.0.1/24'', ''fd00::1/128''],
     q_dns_servers = [''8.8.8.8'', ''8.8.4.4''], q_fwmark = 0,
     q_peers = [\<lparr>qp_public_key = key_43, qp_preshared_key = Some key_42,
       qp_endpoint = Some ''203.0.113.1:51820'', qp_allowed_ips = [''0.0.0.0/0'', ''::/0''], qp_keepalive = 25\<rparr>]\<rparr>"
  by code_simp

lemma parse_multiple:
  "parse_wg_quick_raw (unlines [''[Interface]'', ''PrivateKey = '' @ key_42, [],
     ''[Peer]'', ''PublicKey = '' @ key_43, ''AllowedIPs = 10.0.1.0/24'', [],
     ''[Peer]'', ''PublicKey = '' @ key_42, ''AllowedIPs = 10.0.2.0/24'', ''Endpoint = 198.51.100.1:51820'']) =
   Ok (plain_quick key_42 [plain_peer key_43 [''10.0.1.0/24''],
     (plain_peer key_42 [''10.0.2.0/24''])\<lparr>qp_endpoint := Some ''198.51.100.1:51820''\<rparr>])"
  by code_simp

lemmas wg_test_simps = parse_wg_quick_def to_namespace_config_def to_peer_config_def unwrap_and_def some_and_def at_def

lemma tests_wg_quick:
  "test_parse_minimal_wg_quick key_42 key_43" "test_parse_full_wg_quick key_42 key_43 key_42"
  "test_parse_multiple_peers key_42 key_43 key_42"
  by (simp_all only: test_parse_minimal_wg_quick_def test_parse_full_wg_quick_def test_parse_multiple_peers_def
      parse_wg_quick_def parse_minimal parse_full parse_multiple) (simp_all add: wg_test_simps)

lemma tests_wg_comments:
  "test_parse_wg_quick_ignores_comments key_42 key_43" "test_parse_wg_quick_missing_private_key"
  "test_parse_wg_quick_ignores_wg_quick_directives key_42 key_43"
  by code_simp+

end
