(* ===== verification/CommonTests.thy ===== *)
theory CommonTests
  imports TestSupport Security DbusTypes Logging
begin

text \<open>
  The tests of \<^verbatim>\<open>dbus.rs\<close>, \<^verbatim>\<open>security.rs\<close>, \<^verbatim>\<open>error.rs\<close>, \<^verbatim>\<open>netlink.rs\<close> and \<^verbatim>\<open>logging.rs\<close> of
  \<^verbatim>\<open>segwire-common\<close>.
\<close>

section \<open>The D-Bus interface\<close>

definition test_interface_constants :: bool where
  "test_interface_constants =
     (INTERFACE_NAME = ''org.segwire.NamespaceManager'' \<and>
      SERVICE_NAME = ''org.segwire.NamespaceManager'' \<and>
      OBJECT_PATH = ''/org/segwire/NamespaceManager'')"

definition test_method_discovery :: bool where
  "test_method_discovery =
     (get_methods \<noteq> [] \<and>
      (let method_names = map mi_name get_methods in
       METHOD_LIST_NAMESPACES \<in> set method_names \<and>
       METHOD_GET_NAMESPACE_STATUS \<in> set method_names \<and>
       METHOD_DELETE_NAMESPACE \<in> set method_names \<and>
       METHOD_RELOAD_CONFIGURATION \<in> set method_names \<and>
       METHOD_VALIDATE_CONFIGURATION \<in> set method_names \<and>
       METHOD_GET_DAEMON_STATUS \<in> set method_names \<and>
       METHOD_RESTART_NAMESPACE \<in> set method_names))"

definition test_signal_discovery :: bool where
  "test_signal_discovery =
     (get_signals \<noteq> [] \<and>
      (let signal_names = map si_name get_signals in
       SIGNAL_NAMESPACE_CREATED \<in> set signal_names \<and>
       SIGNAL_NAMESPACE_DELETED \<in> set signal_names \<and>
       SIGNAL_CONFIGURATION_RELOADED \<in> set signal_names \<and>
       SIGNAL_OPERATION_PROGRESS \<in> set signal_names \<and>
       SIGNAL_NAMESPACE_STATUS_CHANGED \<in> set signal_names \<and>
       SIGNAL_ERROR_OCCURRED \<in> set signal_names))"

definition test_method_lookup :: bool where
  "test_method_lookup =
     (some_and (find_method METHOD_LIST_NAMESPACES)
        (\<lambda>m. mi_name m = METHOD_LIST_NAMESPACES \<and> mi_description m \<noteq> []) \<and>
      find_method ''NonExistentMethod'' = None)"

definition test_signal_lookup :: bool where
  "test_signal_lookup =
     (some_and (find_signal SIGNAL_NAMESPACE_CREATED)
        (\<lambda>s. si_name s = SIGNAL_NAMESPACE_CREATED \<and> si_description s \<noteq> [] \<and> length (si_args s) = 2) \<and>
      find_signal ''NonExistentSignal'' = None)"

definition test_method_signatures :: bool where
  "test_method_signatures =
     (some_and (find (\<lambda>m. mi_name m = METHOD_LIST_NAMESPACES) get_methods)
        (\<lambda>m. input_args m = [] \<and> length (output_args m) = 1 \<and>
             map_option type_signature (at (output_args m) 0) = Some ''a(ssss)'') \<and>
      some_and (find (\<lambda>m. mi_name m = METHOD_GET_NAMESPACE_STATUS) get_methods)
        (\<lambda>m. length (input_args m) = 1 \<and>
             map_option type_signature (at (input_args m) 0) = Some ''s'' \<and> length (output_args m) = 1))"

definition test_signal_signatures :: bool where
  "test_signal_signatures =
     (some_and (find (\<lambda>s. si_name s = SIGNAL_NAMESPACE_CREATED) get_signals)
        (\<lambda>s. length (si_args s) = 2 \<and>
             map_option type_signature (at (si_args s) 0) = Some ''s'' \<and>
             map_option type_signature (at (si_args s) 1) = Some ''s'') \<and>
      some_and (find (\<lambda>s. si_name s = SIGNAL_OPERATION_PROGRESS) get_signals)
        (\<lambda>s. length (si_args s) = 3 \<and>
             map_option type_signature (at (si_args s) 0) = Some ''s'' \<and>
             map_option type_signature (at (si_args s) 1) = Some ''d'' \<and>
             map_option type_signature (at (si_args s) 2) = Some ''s''))"

definition test_introspection_xml :: bool where
  "test_introspection_xml =
     (let xml = introspection_xml in
      xml \<noteq> [] \<and>
      contains_str ''org.segwire.NamespaceManager'' xml \<and>
      contains_str ''ListNamespaces'' xml \<and>
      contains_str ''GetNamespaceStatus'' xml \<and>
      contains_str ''NamespaceCreated'' xml \<and>
      contains_str ''OperationProgress'' xml \<and>
      starts_with ''<!DOCTYPE'' xml \<and>
      contains_str ''<node>'' xml \<and>
      contains_str ''</node>'' xml \<and>
      contains_str ''<interface'' xml \<and>
      contains_str ''</interface>'' xml)"

definition test_method_enumeration :: bool where
  "test_method_enumeration = (length get_method_names = 8 \<and> length get_signal_names = 6)"

definition test_dbus_error_types :: bool where
  "test_dbus_error_types =
     (let config_error = ConfigurationError ''test config error'';
          network_error = NetworkErr ''test network error'';
          permission_error = PermissionDenied ''test permission error''
      in error_name config_error = ''org.segwire.Error.Configuration'' \<and>
         dbus_message config_error = ''test config error'' \<and>
         error_name network_error = ''org.segwire.Error.Network'' \<and>
         dbus_message network_error = ''test network error'' \<and>
         error_name permission_error = ''org.segwire.Error.PermissionDenied'' \<and>
         dbus_message permission_error = ''test permission error'')"

definition test_namespace_state_creation :: "nat \<Rightarrow> bool" where
  "test_namespace_state_creation now =
     (let s = new_state now ''test'' ''prefix-test'' ''/etc/test.toml''
      in st_name s = ''test'' \<and> st_full_name s = ''prefix-test'' \<and> status s = Creating \<and>
         st_config_path s = ''/etc/test.toml'' \<and> st_interfaces s = [] \<and> st_routes s = [] \<and>
         di_servers (dns_config s) = [] \<and> created_at s > 0 \<and> last_updated s > 0)"

definition test_namespace_status_enum :: bool where
  "test_namespace_status_enum =
     (status_str Creating = ''creating'' \<and> status_str Active = ''active'' \<and>
      status_str Failed = ''failed'' \<and> status_str Deleting = ''deleting'' \<and>
      \<not> is_error Creating \<and> \<not> is_error Active \<and> is_error Failed \<and> \<not> is_error Deleting)"

definition test_operation_result :: bool where
  "test_operation_result =
     (let s = op_success ''Operation completed''; f = op_failure ''Operation failed'' in
      success s \<and> message s = ''Operation completed'' \<and> details s = [] \<and>
      \<not> success f \<and> message f = ''Operation failed'' \<and> details f = [] \<and>
      map_of (details (with_detail ''key'' ''value'' s)) ''key'' = Some ''value'')"

definition test_validation_helpers :: "(nat \<Rightarrow> bool) \<Rightarrow> bool" where
  "test_validation_helpers ua =
     (is_ok (dbus_validate_namespace_name ua ''valid-namespace'') \<and>
      is_ok (dbus_validate_namespace_name ua ''valid_namespace'') \<and>
      is_ok (dbus_validate_namespace_name ua ''namespace123'') \<and>
      is_err (dbus_validate_namespace_name ua []) \<and>
      is_err (dbus_validate_namespace_name ua ''invalid namespace'') \<and>
      is_err (dbus_validate_namespace_name ua ''invalid@namespace'') \<and>
      is_ok (dbus_validate_config_path ''/etc/segwire/test.toml'') \<and>
      is_ok (dbus_validate_config_path ''config.toml'') \<and>
      is_err (dbus_validate_config_path []) \<and>
      is_err (dbus_validate_config_path ''config.txt'') \<and>
      is_err (dbus_validate_config_path ''../config.toml''))"

lemma tests_dbus:
  "test_interface_constants" "test_method_discovery" "test_signal_discovery" "test_method_lookup"
  "test_signal_lookup" "test_method_signatures" "test_signal_signatures"
  "test_method_enumeration" "test_dbus_error_types" "test_namespace_status_enum"
  "test_operation_result" "test_validation_helpers (\<lambda>_. True)"
  by code_simp+

text \<open>The document is long: a text is in it when it is in one of its lines.\<close>

lemma sublist_join: "l \<in> set ls \<Longrightarrow> sublist l (join sep ls)"
proof (induction sep ls rule: join.induct)
  case (3 sep p q ps)
  then show ?case
  proof (cases "l = p")
    case False
    then have "sublist l (join sep (q # ps))" using 3 by simp
    then show ?thesis by (simp add: sublist_append)
  qed simp
qed auto

lemma contains_line: "contains_str p l \<Longrightarrow> l \<in> set ls \<Longrightarrow> contains_str p (join sep ls)"
  using sublist_join sublist_order.order.trans unfolding contains_str_sublist by blast

lemma xml_contains:
  \<open>contains_str ''org.segwire.NamespaceManager'' introspection_xml\<close>
  \<open>contains_str ''ListNamespaces'' introspection_xml\<close>
  \<open>contains_str ''GetNamespaceStatus'' introspection_xml\<close>
  \<open>contains_str ''NamespaceCreated'' introspection_xml\<close>
  \<open>contains_str ''OperationProgress'' introspection_xml\<close>
  \<open>contains_str ''<node>'' introspection_xml\<close>
  \<open>contains_str ''</node>'' introspection_xml\<close>
  \<open>contains_str ''<interface'' introspection_xml\<close>
  \<open>contains_str ''</interface>'' introspection_xml\<close>
proof -
  have \<open>contains_str ''org.segwire.NamespaceManager'' ''  <interface name="org.segwire.NamespaceManager">''\<close> by code_simp
  then show \<open>contains_str ''org.segwire.NamespaceManager'' introspection_xml\<close>
    unfolding introspection_xml_def by (rule contains_line) simp
  have \<open>contains_str ''ListNamespaces'' ''    <method name="ListNamespaces">''\<close> by code_simp
  then show \<open>contains_str ''ListNamespaces'' introspection_xml\<close>
    unfolding introspection_xml_def by (rule contains_line) simp
  have \<open>contains_str ''GetNamespaceStatus'' ''    <method name="GetNamespaceStatus">''\<close> by code_simp
  then show \<open>contains_str ''GetNamespaceStatus'' introspection_xml\<close>
    unfolding introspection_xml_def by (rule contains_line) simp
  have \<open>contains_str ''NamespaceCreated'' ''    <signal name="NamespaceCreated">''\<close> by code_simp
  then show \<open>contains_str ''NamespaceCreated'' introspection_xml\<close>
    unfolding introspection_xml_def by (rule contains_line) simp
  have \<open>contains_str ''OperationProgress'' ''    <signal name="OperationProgress">''\<close> by code_simp
  then show \<open>contains_str ''OperationProgress'' introspection_xml\<close>
    unfolding introspection_xml_def by (rule contains_line) simp
  have \<open>contains_str ''<node>'' ''<node>''\<close> by code_simp
  then show \<open>contains_str ''<node>'' introspection_xml\<close>
    unfolding introspection_xml_def by (rule contains_line) simp
  have \<open>contains_str ''</node>'' ''</node>''\<close> by code_simp
  then show \<open>contains_str ''</node>'' introspection_xml\<close>
    unfolding introspection_xml_def by (rule contains_line) simp
  have \<open>contains_str ''<interface'' ''  <interface name="org.segwire.NamespaceManager">''\<close> by code_simp
  then show \<open>contains_str ''<interface'' introspection_xml\<close>
    unfolding introspection_xml_def by (rule contains_line) simp
  have \<open>contains_str ''</interface>'' ''  </interface>''\<close> by code_simp
  then show \<open>contains_str ''</interface>'' introspection_xml\<close>
    unfolding introspection_xml_def by (rule contains_line) simp
qed

lemma tests_introspection: "test_introspection_xml"
proof -
  have "starts_with ''<!DOCTYPE'' introspection_xml"
    by (simp add: introspection_xml_def starts_with_def)
  moreover have "introspection_xml \<noteq> []"
    by (simp add: introspection_xml_def)
  ultimately show ?thesis using xml_contains by (simp add: test_introspection_xml_def Let_def)
qed

text \<open>A clock at least a second past the epoch.\<close>

lemma tests_dbus_clock: "1000000000 \<le> now \<Longrightarrow> test_namespace_state_creation now"
  by (simp add: test_namespace_state_creation_def new_state_def unix_secs_def Let_def div_greater_zero_iff)

section \<open>Security checks\<close>

definition test_path_traversal_clean :: bool where
  "test_path_traversal_clean =
     (is_ok (check_path_traversal ''/etc/segwire/test.toml'') \<and>
      is_ok (check_path_traversal ''relative/path.toml''))"

definition test_path_traversal_blocked :: bool where
  "test_path_traversal_blocked =
     (is_err (check_path_traversal ''../../etc/shadow'') \<and>
      is_err (check_path_traversal ''/etc/segwire/../shadow''))"

definition test_sanitize_config_value_valid :: bool where
  "test_sanitize_config_value_valid =
     (is_ok (sanitize_config_value ''hello world'' ''test'') \<and>
      is_ok (sanitize_config_value ''192.168.1.1'' ''ip'') \<and>
      is_ok (sanitize_config_value (''multi'' @ [newline] @ ''line'') ''desc''))"

definition test_sanitize_config_value_null :: bool where
  "test_sanitize_config_value_null = is_err (sanitize_config_value (''bad'' @ [nul] @ ''value'') ''test'')"

definition test_sanitize_config_value_control_char :: bool where
  "test_sanitize_config_value_control_char =
     is_err (sanitize_config_value (''bad'' @ [CHR 0x01] @ ''value'') ''test'')"

definition test_sanitize_config_value_too_long :: bool where
  "test_sanitize_config_value_too_long = is_err (sanitize_config_value (replicate 5000 (CHR ''x'')) ''test'')"

definition test_sanitize_namespace_name :: bool where
  "test_sanitize_namespace_name =
     (is_ok (sanitize_namespace_name ''my-namespace'') \<and>
      is_ok (sanitize_namespace_name ''test_123'') \<and>
      is_err (sanitize_namespace_name ''.hidden'') \<and>
      is_err (sanitize_namespace_name ''-starts-dash'') \<and>
      is_err (sanitize_namespace_name ''has/slash''))"

definition test_sanitize_interface_name :: bool where
  "test_sanitize_interface_name =
     (is_ok (sanitize_interface_name ''eth0'') \<and>
      is_ok (sanitize_interface_name ''veth-app'') \<and>
      is_err (sanitize_interface_name ''veryverylongname1'') \<and>
      is_err (sanitize_interface_name ''has space''))"

text \<open>\<open>canon\<close> resolves a path in the file system of the test.\<close>

definition test_sanitize_config_path_empty :: "(string \<Rightarrow> (string, string) res) \<Rightarrow> bool" where
  "test_sanitize_config_path_empty canon = is_err (sanitize_config_path canon [] ''/etc/segwire'')"

definition test_sanitize_config_path_null_byte :: "(string \<Rightarrow> (string, string) res) \<Rightarrow> bool" where
  "test_sanitize_config_path_null_byte canon =
     is_err (sanitize_config_path canon (''test'' @ [nul] @ ''.toml'') ''/etc/segwire'')"

definition test_sanitize_config_path_traversal :: "(string \<Rightarrow> (string, string) res) \<Rightarrow> bool" where
  "test_sanitize_config_path_traversal canon =
     is_err (sanitize_config_path canon ''../../etc/shadow'' ''/etc/segwire'')"

definition test_sanitize_config_path_within_root :: "(string \<Rightarrow> (string, string) res) \<Rightarrow> string \<Rightarrow> bool" where
  "test_sanitize_config_path_within_root canon dir =
     (let file_path = path_join dir ''test.toml'';
          result = sanitize_config_path canon ''test.toml'' dir
      in is_ok result \<and> unwrap_and result (\<lambda>p. canon file_path = Ok p))"

definition test_check_config_file_security ::
  "(string \<Rightarrow> (string, string) res) \<Rightarrow> (string \<Rightarrow> (string, file_metadata) res) \<Rightarrow> nat \<Rightarrow> string \<Rightarrow> bool" where
  "test_check_config_file_security canon stat euid dir =
     (let result = check_config_file_security canon stat euid (path_join dir ''test.toml'')
      in scr_errors result = [] \<or> \<not> passed result)"

definition test_check_config_directory_security_nonexistent ::
  "(string \<Rightarrow> bool) \<Rightarrow> (string \<Rightarrow> bool) \<Rightarrow> (string \<Rightarrow> (string, file_metadata) res) \<Rightarrow> bool" where
  "test_check_config_directory_security_nonexistent ex isdir stat =
     (let result = check_config_directory_security ex isdir stat ''/nonexistent/dir/xyz''
      in \<not> passed result \<and> some_and (at (scr_errors result) 0) (contains_str ''does not exist''))"

definition test_security_check_result_display :: bool where
  "test_security_check_result_display =
     (let display = show_check (add_warning ''test warning'' (add_error ''test error'' (new_check ''/test/path'')))
      in contains_str ''FAIL'' display \<and> contains_str ''test error'' display \<and>
         contains_str ''test warning'' display)"

lemma tests_security:
  "test_path_traversal_clean" "test_path_traversal_blocked" "test_sanitize_config_value_valid"
  "test_sanitize_config_value_null" "test_sanitize_config_value_control_char"
  "test_sanitize_namespace_name" "test_sanitize_interface_name" "test_security_check_result_display"
  by code_simp+

lemma tests_security_long: "test_sanitize_config_value_too_long"
proof -
  have "sanitize_config_value (replicate 5000 (CHR ''x'')) ''test'' \<noteq> Ok u" for u
    unfolding sanitize_config_value_iff by simp
  then show ?thesis by (simp add: test_sanitize_config_value_too_long_def is_err_def is_ok_iff)
qed

text \<open>These hold in every file system; the file of the last one is where it was created.\<close>

lemma tests_security_files:
  "test_sanitize_config_path_empty canon" "test_sanitize_config_path_null_byte canon"
  "test_sanitize_config_path_traversal canon" "test_check_config_file_security canon stat euid dir"
  "\<not> ex ''/nonexistent/dir/xyz'' \<Longrightarrow> test_check_config_directory_security_nonexistent ex isdir stat"
proof -
  show "test_sanitize_config_path_empty canon"
    by (simp add: test_sanitize_config_path_empty_def sanitize_config_path_def is_err_def)
  show "test_sanitize_config_path_null_byte canon"
    by (simp add: test_sanitize_config_path_null_byte_def sanitize_config_path_def is_err_def contains_char_def)
  have "is_err (check_path_traversal ''../../etc/shadow'')" by code_simp
  then show "test_sanitize_config_path_traversal canon"
    by (auto simp: test_sanitize_config_path_traversal_def sanitize_config_path_def is_err_def)
  show "test_check_config_file_security canon stat euid dir"
    using config_file_consistent [of canon stat euid "path_join dir ''test.toml''"]
    by (auto simp: test_check_config_file_security_def Let_def check_consistent_def)
  have m: "contains_str ''does not exist'' ''Directory does not exist''" by code_simp
  show "\<not> ex ''/nonexistent/dir/xyz'' \<Longrightarrow> test_check_config_directory_security_nonexistent ex isdir stat"
    using m by (simp add: test_check_config_directory_security_nonexistent_def check_config_directory_security_def
        some_and_def at_def add_error_def new_check_def)
qed

lemma tests_security_within:
  "canon ''/tmp/t'' = Ok ''/tmp/t'' \<Longrightarrow> canon ''/tmp/t/test.toml'' = Ok ''/tmp/t/test.toml'' \<Longrightarrow>
   test_sanitize_config_path_within_root canon ''/tmp/t''"
proof -
  assume h: "canon ''/tmp/t'' = Ok ''/tmp/t''" "canon ''/tmp/t/test.toml'' = Ok ''/tmp/t/test.toml''"
  have p: "path_join ''/tmp/t'' ''test.toml'' = ''/tmp/t/test.toml''" by code_simp
  have "sanitize_config_path canon ''test.toml'' ''/tmp/t'' = Ok ''/tmp/t/test.toml''"
  proof (subst sanitized_path_iff, intro conjI)
    have "\<not> is_absolute ''test.toml''" by code_simp
    then show "canon (if is_absolute ''test.toml'' then ''test.toml'' else path_join ''/tmp/t'' ''test.toml'') =
        Ok ''/tmp/t/test.toml''" by (simp add: p h)
    have "prefix (components ''/tmp/t'') (components ''/tmp/t/test.toml'')" by code_simp
    then show "\<exists>r. canon ''/tmp/t'' = Ok r \<and> prefix (components r) (components ''/tmp/t/test.toml'')"
      using h by blast
    show "nul \<notin> set ''test.toml''" by code_simp
    show "''..'' \<notin> set (split_char (CHR ''/'') ''test.toml'')" by code_simp
  qed simp
  then show ?thesis
    by (simp add: test_sanitize_config_path_within_root_def p h unwrap_and_def)
qed

section \<open>Errors\<close>

definition test_error_context_creation :: bool where
  "test_error_context_creation =
     (let ctx = with_remediation ''fix it'' (with_field ''key'' ''value''
            (with_config_path ''/etc/test.toml'' (with_namespace ''test_ns'' (new_context ''test_op''))))
      in ec_operation ctx = ''test_op'' \<and> ec_namespace ctx = Some ''test_ns'' \<and>
         ec_config_path ctx = Some ''/etc/test.toml'' \<and> map_of (ec_fields ctx) ''key'' = Some ''value'' \<and>
         ec_remediation ctx = [''fix it''])"

definition test_segwire_error_recoverable :: "string \<Rightarrow> bool" where
  "test_segwire_error_recoverable os_error =
     (is_recoverable (Config (FileNotFound [])) \<and> is_recoverable (Network []) \<and>
      is_recoverable (Validation []) \<and> \<not> is_recoverable (Permission []) \<and>
      \<not> is_recoverable (System os_error))"

definition test_segwire_error_category :: "string \<Rightarrow> bool" where
  "test_segwire_error_category os_error =
     (category (Config (FileNotFound [])) = ''configuration'' \<and> category (Network []) = ''network'' \<and>
      category (Permission []) = ''permission'' \<and> category (System os_error) = ''system'' \<and>
      category (Validation []) = ''validation'')"

definition test_segwire_error_remediation :: bool where
  "test_segwire_error_remediation =
     ((\<exists>s \<in> set (remediation_steps (Config (MissingField ''test''))). contains_str ''test'' s) \<and>
      (\<exists>s \<in> set (remediation_steps (Permission [])). contains_str ''CAP_SYS_ADMIN'' s))"

definition test_contextual_error :: bool where
  "test_contextual_error =
     (let ctx_err = with_context (new_context ''op'') (Network ''test'')
      in show_contextual ctx_err = ''Network operation failed: test (operation: op)'' \<and>
         (case snd (log_and_return ctx_err) of Network _ \<Rightarrow> True | _ \<Rightarrow> False))"

lemma tests_errors:
  "test_error_context_creation" "test_segwire_error_recoverable ''EPERM''"
  "test_segwire_error_category ''EPERM''" "test_segwire_error_remediation" "test_contextual_error"
  by code_simp+

section \<open>Netlink types\<close>

definition test_netlink_validate_namespace_name :: bool where
  "test_netlink_validate_namespace_name =
     (is_ok (validate_namespace_name ''valid-ns'') \<and> is_err (validate_namespace_name []))"

definition test_dns_config_rendering :: bool where
  "test_dns_config_rendering =
     is_ok (validate_nl_dns \<lparr>nd_servers = [''8.8.8.8'', ''1.1.1.1''], nd_search_domains = [''example.com''],
       nd_options = [''ndots:5'']\<rparr>)"

definition test_netlink_format_route :: bool where
  "test_netlink_format_route =
     is_ok (validate_route_config \<lparr>rc_destination = ''192.168.1.0/24'', rc_gateway = ''10.0.0.1'',
       rc_interface = None, rc_metric = Some 100\<rparr>)"

lemma tests_netlink_types:
  "test_netlink_validate_namespace_name" "test_dns_config_rendering" "test_netlink_format_route"
  by code_simp+

section \<open>Logging\<close>

definition test_log_level_from_str :: bool where
  "test_log_level_from_str =
     (parse_log_level ''info'' = Ok LevelInfo \<and> parse_log_level ''debug'' = Ok LevelDebug \<and>
      parse_log_level ''error'' = Ok LevelError \<and> is_err (parse_log_level ''invalid''))"

definition test_log_context_creation :: bool where
  "test_log_context_creation =
     (let ctx = lx_with_field ''custom'' ''value'' (lx_with_user_id 1000
            (lx_with_namespace ''test-ns'' (log_context_new ''test_operation'')))
      in lx_operation ctx = ''test_operation'' \<and> lx_namespace ctx = Some ''test-ns'' \<and>
         lx_user_id ctx = Some 1000 \<and> map_of (lx_fields ctx) ''custom'' = Some ''value'')"

definition test_log_context_with_path :: bool where
  "test_log_context_with_path =
     (let ctx = lx_with_field ''test_field'' ''test_value'' (lx_with_user_id 1000
            (lx_with_config_path ''/test/config.toml''
            (lx_with_namespace ''test-ns'' (log_context_new ''test_operation''))))
      in lx_operation ctx = ''test_operation'' \<and> lx_namespace ctx = Some ''test-ns'' \<and>
         lx_config_path ctx = Some ''/test/config.toml'' \<and> lx_user_id ctx = Some 1000 \<and>
         map_of (lx_fields ctx) ''test_field'' = Some ''test_value'')"

text \<open>The test expects a result, which the first subscriber of a process gets.\<close>

definition test_logging_initialization :: "'f tracing \<Rightarrow> 'f log_layer option \<Rightarrow> bool" where
  "test_logging_initialization t global =
     (init_logging t \<lparr>lc_level = LevelDebug, lc_timestamps = False, lc_thread_names = False, lc_file_line = False,
        lc_spans = False, lc_component = ''test''\<rparr> global \<noteq> None)"

lemma tests_logging_init: "test_logging_initialization t global \<longleftrightarrow> global = None"
  by (simp add: test_logging_initialization_def init_logging_def split: option.split)

lemma tests_logging:
  "test_log_level_from_str" "test_log_context_creation" "test_log_context_with_path"
  by code_simp+

end
