(* ===== verification/DaemonConfigTests.thy ===== *)
theory DaemonConfigTests
  imports TestSupport ConfigManager
begin

text \<open>
  The tests of \<^verbatim>\<open>segwire-daemon/src/config.rs\<close>.  Each works in a temporary directory, here the path
  \<open>dir\<close>, on a file system that is the record \<open>disk\<close>; \<open>disk_io\<close> is what the configuration manager sees
  of it.  The texts written are those of the source, and the \<^verbatim>\<open>toml\<close> crate is the pair \<open>tn\<close>, \<open>td\<close> of
  its readings of namespace and daemon configurations.  The tests are evaluated with readings that
  know the texts written, with the defaults of the fields left out.
\<close>

section \<open>The file system of a test\<close>

record disk =
  dk_files :: "(string \<times> string) list"
  dk_dirs :: "string list"

definition write_file :: "string \<Rightarrow> string \<Rightarrow> disk \<Rightarrow> disk" where
  "write_file p text d = d\<lparr>dk_files := insertM p text (dk_files d)\<rparr>"

definition parent_dir :: "string \<Rightarrow> string" where
  "parent_dir p = (case rfind_char (CHR ''/'') p of Some i \<Rightarrow> take i p | None \<Rightarrow> [])"

definition disk_io :: "namespace_config toml \<Rightarrow> daemon_config toml \<Rightarrow> disk \<Rightarrow> config_io" where
  "disk_io tn td d =
     \<lparr>cio_read = map_of (dk_files d),
      cio_meta = (\<lambda>p. if map_of (dk_files d) p \<noteq> None \<or> p \<in> set (dk_dirs d) then Some (Ok 0) else None),
      cio_exists = (\<lambda>p. map_of (dk_files d) p \<noteq> None \<or> p \<in> set (dk_dirs d)),
      cio_is_file = (\<lambda>p. map_of (dk_files d) p \<noteq> None),
      cio_dir = (\<lambda>p. if p \<in> set (dk_dirs d)
         then Ok (map Ok (filter (\<lambda>f. parent_dir f = p) (map fst (dk_files d)))) else Err ''not found''),
      cio_toml_ns = tn, cio_toml_daemon = td, cio_b64 = no_base64, cio_env = []\<rparr>"

section \<open>The texts the tests write\<close>

definition setting :: "string \<Rightarrow> string \<Rightarrow> string" where
  "setting k v = ''    '' @ k @ '' = '' @ [CHR 0x22] @ v @ [CHR 0x22]"

definition daemon_text :: "string \<Rightarrow> string \<Rightarrow> string \<Rightarrow> string \<Rightarrow> string \<Rightarrow> string" where
  "daemon_text pre dir cleanup lvl target = unlines
     [[], ''    [daemon]'', setting ''namespace_prefix'' pre, setting ''config_dir'' dir,
      ''    cleanup_on_shutdown = '' @ cleanup, setting ''log_level'' lvl, setting ''log_target'' target,
      [], ''    [dbus]'', setting ''service_name'' ''org.segwire.NamespaceManager'',
      setting ''object_path'' ''/org/segwire/NamespaceManager''] @ ''    ''"

definition create_test_daemon_config :: "string \<Rightarrow> string \<Rightarrow> disk \<Rightarrow> disk" where
  "create_test_daemon_config dir pre d =
     (write_file (path_join dir ''daemon.toml'')
        (daemon_text pre (path_join dir ''namespaces'') ''true'' ''info'' ''stdout'') d)
     \<lparr>dk_dirs := path_join dir ''namespaces'' # dk_dirs d\<rparr>"

definition namespace_text :: "string \<Rightarrow> string" where
  "namespace_text n =
     (let short_name = take 6 n; q = (\<lambda>s. [CHR 0x22] @ s @ [CHR 0x22]) in unlines
     [[], ''    [namespace]'', setting ''name'' n, setting ''description'' ''Test namespace'', [],
      ''    [interfaces]'', ''    move_interfaces = ['' @ q ''eth0'' @ '']'', [],
      ''    [[interfaces.virtual_interfaces]]'', setting ''name'' (''v'' @ short_name),
      setting ''interface_type'' ''veth'', setting ''peer'' (''v'' @ short_name @ ''-h''), [],
      ''    [routing]'', setting ''default_gateway'' ''192.168.1.1'', [],
      ''    [[routing.routes]]'', setting ''destination'' ''10.0.0.0/8'', setting ''gateway'' ''192.168.1.1'',
      ''    metric = 100'', [],
      ''    [dns]'', ''    servers = ['' @ q ''8.8.8.8'' @ '', '' @ q ''8.8.4.4'' @ '']'',
      ''    search = ['' @ q ''example.com'' @ '']'', [],
      ''    [environment]'', setting ''APP_NAME'' n] @ ''    '')"

definition create_test_namespace_config :: "string \<Rightarrow> string \<Rightarrow> disk \<Rightarrow> disk" where
  "create_test_namespace_config dir n =
     write_file (path_join (path_join dir ''namespaces'') (n @ ''.toml'')) (namespace_text n)"

definition updated_text :: "string \<Rightarrow> string list \<Rightarrow> string" where
  "updated_text n moved =
     (let q = (\<lambda>s. [CHR 0x22] @ s @ [CHR 0x22]) in unlines
     [[], ''    [namespace]'', setting ''name'' n, setting ''description'' ''Updated test namespace'', [],
      ''    [interfaces]'', ''    move_interfaces = ['' @ join '', '' (map q moved) @ '']'', [],
      ''    [routing]'', setting ''default_gateway'' ''192.168.2.1'', [],
      ''    [dns]'', ''    servers = ['' @ q ''1.1.1.1'' @ '']'', [],
      ''    [environment]'', setting ''APP_NAME'' n] @ ''    '')"

section \<open>The tests\<close>

definition ns_file :: "string \<Rightarrow> string \<Rightarrow> string" where
  "ns_file dir n = path_join (path_join dir ''namespaces'') (n @ ''.toml'')"

definition no_disk :: disk where "no_disk = \<lparr>dk_files = [], dk_dirs = []\<rparr>"

definition with_manager ::
  "namespace_config toml \<Rightarrow> daemon_config toml \<Rightarrow> string \<Rightarrow> disk \<Rightarrow> (config_manager \<Rightarrow> bool) \<Rightarrow> bool" where
  "with_manager tn td dir d p = unwrap_and (manager_new (disk_io tn td d) (path_join dir ''daemon.toml'')) p"

definition test_config_manager_creation ::
  "namespace_config toml \<Rightarrow> daemon_config toml \<Rightarrow> string \<Rightarrow> bool" where
  "test_config_manager_creation tn td dir =
     with_manager tn td dir (create_test_daemon_config dir ''test'' no_disk) (\<lambda>cm.
       prefix_of cm = ''test'' \<and> config_directory cm = path_join dir ''namespaces'')"

definition test_config_manager_missing_file ::
  "namespace_config toml \<Rightarrow> daemon_config toml \<Rightarrow> string \<Rightarrow> bool" where
  "test_config_manager_missing_file tn td dir =
     is_err (manager_new (disk_io tn td no_disk) (path_join dir ''nonexistent.toml''))"

definition test_config_manager_invalid_config_dir ::
  "namespace_config toml \<Rightarrow> daemon_config toml \<Rightarrow> string \<Rightarrow> bool" where
  "test_config_manager_invalid_config_dir tn td dir =
     is_err (manager_new (disk_io tn td (write_file (path_join dir ''daemon.toml'')
         (daemon_text ''test'' ''/nonexistent/directory'' ''true'' ''info'' ''stdout'') no_disk))
       (path_join dir ''daemon.toml''))"

definition test_namespace_prefix_matching ::
  "namespace_config toml \<Rightarrow> daemon_config toml \<Rightarrow> string \<Rightarrow> bool" where
  "test_namespace_prefix_matching tn td dir =
     with_manager tn td dir (create_test_daemon_config dir ''segwire'' no_disk) (\<lambda>cm.
       matches_namespace_prefix_cm cm ''segwire'' \<and>
       matches_namespace_prefix_cm cm ''segwire-app'' \<and>
       matches_namespace_prefix_cm cm ''segwire_app'' \<and>
       \<not> matches_namespace_prefix_cm cm ''other-app'' \<and>
       \<not> matches_namespace_prefix_cm cm ''segwireapp'' \<and>
       \<not> matches_namespace_prefix_cm cm ''seg'')"

definition test_full_namespace_name_generation ::
  "namespace_config toml \<Rightarrow> daemon_config toml \<Rightarrow> string \<Rightarrow> bool" where
  "test_full_namespace_name_generation tn td dir =
     with_manager tn td dir (create_test_daemon_config dir ''segwire'' no_disk) (\<lambda>cm.
       generate_full_name_cm cm ''app'' = ''segwire-app'' \<and>
       generate_full_name_cm cm ''segwire-app'' = ''segwire-app'' \<and>
       generate_full_name_cm cm ''segwire'' = ''segwire'')"

definition test_config_path_resolution ::
  "namespace_config toml \<Rightarrow> daemon_config toml \<Rightarrow> string \<Rightarrow> bool" where
  "test_config_path_resolution tn td dir =
     with_manager tn td dir (create_test_daemon_config dir ''test'' no_disk) (\<lambda>cm. True)"

definition test_config_reload ::
  "namespace_config toml \<Rightarrow> daemon_config toml \<Rightarrow> string \<Rightarrow> bool" where
  "test_config_reload tn td dir =
     (let d = create_test_daemon_config dir ''test'' no_disk;
          d' = write_file (path_join dir ''daemon.toml'')
            (daemon_text ''updated'' (path_join dir ''namespaces'') ''false'' ''debug'' ''stderr'') d
      in with_manager tn td dir d (\<lambda>cm. prefix_of cm = ''test'' \<and>
           (case reload_master_config (disk_io tn td d') cm of
              (cm', r) \<Rightarrow> is_ok r \<and> prefix_of cm' = ''updated'' \<and> \<not> should_cleanup_on_shutdown cm')))"

definition test_namespace_config_scanning ::
  "namespace_config toml \<Rightarrow> daemon_config toml \<Rightarrow> string \<Rightarrow> bool" where
  "test_namespace_config_scanning tn td dir =
     (let d = write_file (path_join (path_join dir ''namespaces'') ''readme.txt'') ''This is not a TOML file''
            (create_test_namespace_config dir ''other-app'' (create_test_namespace_config dir ''app2''
            (create_test_namespace_config dir ''app1'' (create_test_daemon_config dir ''test'' no_disk))))
      in with_manager tn td dir d (\<lambda>cm. case scan_namespace_configs (disk_io tn td d) cm of
           (cm', r) \<Rightarrow> unwrap_and r (\<lambda>loaded.
             length loaded = 2 \<and> ''test-app1'' \<in> set loaded \<and> ''test-app2'' \<in> set loaded \<and>
             ''test-other-app'' \<notin> set loaded \<and>
             length (namespace_configs cm') = 2 \<and>
             get_namespace_config cm' ''test-app1'' \<noteq> None \<and>
             get_namespace_config cm' ''test-app2'' \<noteq> None \<and>
             get_namespace_config cm' ''test-other-app'' = None)))"

definition test_namespace_config_prefix_filtering ::
  "namespace_config toml \<Rightarrow> daemon_config toml \<Rightarrow> string \<Rightarrow> bool" where
  "test_namespace_config_prefix_filtering tn td dir =
     (let d = create_test_namespace_config dir ''other-service'' (create_test_namespace_config dir ''segwire-service''
            (create_test_namespace_config dir ''app'' (create_test_daemon_config dir ''segwire'' no_disk)))
      in with_manager tn td dir d (\<lambda>cm. case scan_namespace_configs (disk_io tn td d) cm of
           (cm', r) \<Rightarrow> unwrap_and r (\<lambda>loaded.
             length loaded = 2 \<and> ''segwire-app'' \<in> set loaded \<and> ''segwire-service'' \<in> set loaded \<and>
             ''other-service'' \<notin> set loaded)))"

definition test_namespace_config_reload ::
  "namespace_config toml \<Rightarrow> daemon_config toml \<Rightarrow> string \<Rightarrow> bool" where
  "test_namespace_config_reload tn td dir =
     (let d = create_test_namespace_config dir ''app'' (create_test_daemon_config dir ''test'' no_disk);
          d' = write_file (ns_file dir ''app'') (updated_text ''app'' [''eth1'', ''wlan0'']) d
      in with_manager tn td dir d (\<lambda>cm.
           case reload_namespace_config (disk_io tn td d) (ns_file dir ''app'') cm of (cm', r) \<Rightarrow>
             r = Ok (Some ''test-app'') \<and> get_namespace_config cm' ''test-app'' \<noteq> None \<and>
             (case reload_namespace_config (disk_io tn td d') (ns_file dir ''app'') cm' of (cm'', r') \<Rightarrow>
               r' = Ok (Some ''test-app'') \<and>
               some_and (get_namespace_config cm'' ''test-app'') (\<lambda>e.
                 ns_description (namespace (ce_config e)) = ''Updated test namespace'' \<and>
                 move_interfaces (interfaces (ce_config e)) = [''eth1'', ''wlan0''] \<and>
                 default_gateway (routing (ce_config e)) = Some ''192.168.2.1'' \<and>
                 servers (dns (ce_config e)) = [''1.1.1.1'']))))"

definition test_namespace_config_removal ::
  "namespace_config toml \<Rightarrow> daemon_config toml \<Rightarrow> string \<Rightarrow> bool" where
  "test_namespace_config_removal tn td dir =
     (let d = create_test_namespace_config dir ''app'' (create_test_daemon_config dir ''test'' no_disk)
      in with_manager tn td dir d (\<lambda>cm.
           case reload_namespace_config (disk_io tn td d) (ns_file dir ''app'') cm of (cm', r) \<Rightarrow>
             is_ok r \<and> get_namespace_config cm' ''test-app'' \<noteq> None \<and>
             (case remove_namespace_config (ns_file dir ''app'') cm' of (cm'', removed_name) \<Rightarrow>
               removed_name = Some ''test-app'' \<and>
               get_namespace_config cm'' ''test-app'' = None \<and> length (namespace_configs cm'') = 0)))"

definition test_config_stats ::
  "namespace_config toml \<Rightarrow> daemon_config toml \<Rightarrow> string \<Rightarrow> bool" where
  "test_config_stats tn td dir =
     (let d = create_test_namespace_config dir ''app2'' (create_test_namespace_config dir ''app1''
            (create_test_daemon_config dir ''test'' no_disk))
      in with_manager tn td dir d (\<lambda>cm. case scan_namespace_configs (disk_io tn td d) cm of
           (cm', r) \<Rightarrow> is_ok r \<and> total_configs (get_config_stats cm') = 2))"

definition test_file_event_handling ::
  "namespace_config toml \<Rightarrow> daemon_config toml \<Rightarrow> string \<Rightarrow> bool" where
  "test_file_event_handling tn td dir =
     (let path = ns_file dir ''newapp'';
          d0 = create_test_daemon_config dir ''test'' no_disk;
          d1 = create_test_namespace_config dir ''newapp'' d0;
          d2 = write_file path (updated_text ''newapp'' [''eth1'']) d1;
          named = (\<lambda>r. unwrap_and r (\<lambda>ns. length ns = 1 \<and> at ns 0 = Some ''test-newapp''))
      in with_manager tn td dir d0 (\<lambda>cm.
           case handle_file_event (disk_io tn td d1) (FileCreated path) cm of (cm1, r1) \<Rightarrow>
             named r1 \<and> get_namespace_config cm1 ''test-newapp'' \<noteq> None \<and>
             (case handle_file_event (disk_io tn td d2) (FileModified path) cm1 of (cm2, r2) \<Rightarrow>
               named r2 \<and>
               some_and (get_namespace_config cm2 ''test-newapp'') (\<lambda>e.
                 ns_description (namespace (ce_config e)) = ''Updated test namespace'' \<and>
                 move_interfaces (interfaces (ce_config e)) = [''eth1'']) \<and>
               (case handle_file_event (disk_io tn td d2) (FileDeleted path) cm2 of (cm3, r3) \<Rightarrow>
                 named r3 \<and> get_namespace_config cm3 ''test-newapp'' = None))))"

section \<open>The operation compiled for tests only\<close>

text \<open>
  \<^verbatim>\<open>validate_namespace_config_file\<close>: the list of errors of a file, empty when it is valid.  \<open>rerr\<close> is
  the error of a file that cannot be read.
\<close>

definition validate_namespace_config_file ::
  "(string \<Rightarrow> string) \<Rightarrow> config_io \<Rightarrow> string \<Rightarrow> config_manager \<Rightarrow> string list" where
  "validate_namespace_config_file rerr io path cm =
     (if \<not> cio_exists io path then [''File does not exist: '' @ path]
      else if \<not> cio_is_file io path then [''Path is not a file: '' @ path]
      else case cio_read io path of None \<Rightarrow> [''Cannot read file: '' @ rerr path]
      | Some content \<Rightarrow>
        (case cio_toml_ns io content of Inl e \<Rightarrow> [''TOML parsing failed: '' @ e]
         | Inr c0 \<Rightarrow>
           (case substitute_environment_variables (cio_env io) c0 of
              Inl e \<Rightarrow> [''Environment variable substitution failed: '' @ show_segwire_error e]
            | Inr c \<Rightarrow>
              (case validate_namespace_config (cio_b64 io) c of
                 Inl e \<Rightarrow> [''Configuration validation failed: '' @ show_segwire_error e] | Inr _ \<Rightarrow> []) @
              (let n = ns_name (namespace c) in
               if (contains_char (CHR ''-'') n \<or> contains_char (CHR ''_'') n) \<and>
                  \<not> matches_namespace_prefix_cm cm n
               then [''Namespace '' @ quoted n @ '' doesn'' @ [CHR 0x27] @ ''t match daemon prefix '' @
                       quoted (prefix_of cm)]
               else []))))"

text \<open>It finds no error exactly in the files that the loading of a configuration accepts.\<close>

lemma valid_file_loads:
  assumes "cio_exists io path" "cio_is_file io path"
  shows "validate_namespace_config_file rerr io path cm = [] \<longleftrightarrow>
    (\<exists>c. namespace_config_from_file (cio_b64 io) (cio_toml_ns io) (cio_read io) (cio_env io) path = Ok c \<and>
      should_manage (prefix_of cm) (ns_name (namespace c)))"
  using assms
  by (auto simp: validate_namespace_config_file_def namespace_config_from_file_def result_simps
      should_manage_def matches_namespace_prefix_cm_def Let_def split: option.splits sum.splits)

section \<open>Running them\<close>

text \<open>The readings of the texts written under \<^verbatim>\<open>/t\<close>.\<close>

definition parsed_daemon :: "string \<Rightarrow> bool \<Rightarrow> daemon_config" where
  "parsed_daemon pre cleanup =
     \<lparr>daemon = \<lparr>namespace_prefix = pre, config_dir = ''/t/namespaces'', cleanup_on_shutdown = cleanup,
        logging = default_logging_config\<rparr>, dbus = default_dbus_settings\<rparr>"

definition sample_td :: "daemon_config toml" where
  "sample_td text = ok_or ''unknown text'' (map_of
     [(daemon_text ''test'' ''/t/namespaces'' ''true'' ''info'' ''stdout'', parsed_daemon ''test'' True),
      (daemon_text ''segwire'' ''/t/namespaces'' ''true'' ''info'' ''stdout'', parsed_daemon ''segwire'' True),
      (daemon_text ''updated'' ''/t/namespaces'' ''false'' ''debug'' ''stderr'', parsed_daemon ''updated'' False),
      (daemon_text ''test'' ''/nonexistent/directory'' ''true'' ''info'' ''stdout'',
        \<lparr>daemon = (daemon (parsed_daemon ''test'' True))\<lparr>config_dir := ''/nonexistent/directory''\<rparr>,
         dbus = default_dbus_settings\<rparr>)] text)"

definition parsed_namespace :: "string \<Rightarrow> namespace_config" where
  "parsed_namespace n =
     \<lparr>namespace = \<lparr>ns_name = n, ns_description = ''Test namespace''\<rparr>,
      interfaces = \<lparr>move_interfaces = [''eth0''], virtual_interfaces = [\<lparr>vif_name = ''v'' @ take 6 n,
        interface_type = ''veth'', vif_peer = Some (''v'' @ take 6 n @ ''-h''), vif_addresses = []\<rparr>]\<rparr>,
      routing = \<lparr>default_gateway = Some ''192.168.1.1'', routes = [\<lparr>destination = ''10.0.0.0/8'',
        gateway = ''192.168.1.1'', metric = Some 100\<rparr>]\<rparr>,
      dns = \<lparr>servers = [''8.8.8.8'', ''8.8.4.4''], search = [''example.com'']\<rparr>,
      wireguard = None, environment = [(''APP_NAME'', n)]\<rparr>"

definition parsed_updated :: "string \<Rightarrow> string list \<Rightarrow> namespace_config" where
  "parsed_updated n moved =
     \<lparr>namespace = \<lparr>ns_name = n, ns_description = ''Updated test namespace''\<rparr>,
      interfaces = \<lparr>move_interfaces = moved, virtual_interfaces = []\<rparr>,
      routing = \<lparr>default_gateway = Some ''192.168.2.1'', routes = []\<rparr>,
      dns = \<lparr>servers = [''1.1.1.1''], search = []\<rparr>,
      wireguard = None, environment = [(''APP_NAME'', n)]\<rparr>"

definition sample_tn :: "namespace_config toml" where
  "sample_tn text =
     (case find (\<lambda>n. namespace_text n = text) [''app'', ''app1'', ''app2'', ''other-app'', ''segwire-service'',
             ''other-service'', ''newapp''] of
        Some n \<Rightarrow> Ok (parsed_namespace n)
      | None \<Rightarrow> ok_or ''unknown text'' (map_of
          [(updated_text ''app'' [''eth1'', ''wlan0''], parsed_updated ''app'' [''eth1'', ''wlan0'']),
           (updated_text ''newapp'' [''eth1''], parsed_updated ''newapp'' [''eth1''])] text))"

lemma tests_manager:
  "test_config_manager_creation sample_tn sample_td ''/t''"
  "test_config_manager_missing_file sample_tn sample_td ''/t''"
  "test_config_manager_invalid_config_dir sample_tn sample_td ''/t''"
  "test_namespace_prefix_matching sample_tn sample_td ''/t''"
  "test_full_namespace_name_generation sample_tn sample_td ''/t''"
  "test_config_path_resolution sample_tn sample_td ''/t''"
  "test_config_reload sample_tn sample_td ''/t''"
  by code_simp+

lemma tests_scanning: "test_namespace_config_scanning sample_tn sample_td ''/t''"
  by code_simp

lemma tests_filtering: "test_namespace_config_prefix_filtering sample_tn sample_td ''/t''"
  by code_simp

lemma tests_reloading:
  "test_namespace_config_reload sample_tn sample_td ''/t''"
  "test_namespace_config_removal sample_tn sample_td ''/t''"
  by code_simp+

lemma tests_stats: "test_config_stats sample_tn sample_td ''/t''"
  by code_simp

lemma tests_events: "test_file_event_handling sample_tn sample_td ''/t''"
  by code_simp

end
