(* ===== verification/DaemonTests.thy ===== *)
theory DaemonTests
  imports TestSupport EventLoop
begin

text \<open>
  The tests of \<^verbatim>\<open>segwire-daemon\<close> other than those of its configuration manager: PolicyKit,
  capabilities, route formatting, the namespace state manager and the errors of the D-Bus service.
  A test that is skipped when netlink is not available runs here on any network state.
\<close>

section \<open>PolicyKit and capabilities\<close>

definition test_action_mappings :: "bus_host \<Rightarrow> env \<Rightarrow> bool" where
  "test_action_mappings host sysenv =
     (case authorizer_new host sysenv of
        Inl _ \<Rightarrow> True
      | Inr a \<Rightarrow>
        (let m = map_of (action_mappings a) in
         m ''list'' \<noteq> None \<and> m ''status'' \<noteq> None \<and> m ''create'' \<noteq> None \<and> m ''delete'' \<noteq> None \<and>
         m ''restart'' \<noteq> None \<and> m ''reload'' \<noteq> None \<and> m ''validate'' \<noteq> None \<and>
         m ''create'' = Some ''org.segwire.namespace.create'' \<and>
         m ''delete'' = Some ''org.segwire.namespace.delete'' \<and>
         m ''status'' = Some ''org.segwire.namespace.status''))"

definition test_authorization_result :: bool where
  "test_authorization_result =
     (Authorized = Authorized \<and> Authorized \<noteq> NotAuthorized \<and>
      (case AuthFailed ''test'' of AuthFailed msg \<Rightarrow> msg = ''test'' | _ \<Rightarrow> False))"

lemma tests_policykit: "test_action_mappings host sysenv" "test_authorization_result"
  by (auto simp: test_action_mappings_def test_authorization_result_def Let_def action_defs
      dest: authorizer_new_mappings split: sum.split)

definition test_has_cap_sys_admin_full_caps :: bool where
  "test_has_cap_sys_admin_full_caps = has_cap_sys_admin ''0000003fffffffff''"

definition test_has_cap_sys_admin_exact :: bool where
  "test_has_cap_sys_admin_exact = has_cap_sys_admin ''0000000000200000''"

definition test_has_cap_sys_admin_missing :: bool where
  "test_has_cap_sys_admin_missing = (\<not> has_cap_sys_admin ''0000000000000000'')"

definition test_has_cap_sys_admin_empty :: bool where
  "test_has_cap_sys_admin_empty = (\<not> has_cap_sys_admin [])"

definition test_has_cap_sys_admin_bad_hex :: bool where
  "test_has_cap_sys_admin_bad_hex = (\<not> has_cap_sys_admin ''not_hex'')"

definition test_check_capabilities_runs :: "host_view \<Rightarrow> bool" where
  "test_check_capabilities_runs h = ([] \<notin> set (missing_capabilities (check_capabilities h)))"

definition test_capability_check_result_display :: bool where
  "test_capability_check_result_display =
     (let display = show_capability_check
            \<lparr>has_required_capabilities = False, cc_is_root = False, is_container = True,
             container_runtime = Some ''Docker'', missing_capabilities = [''CAP_SYS_ADMIN''], cc_warnings = []\<rparr>
      in contains_str ''FAILED'' display \<and> contains_str ''CAP_SYS_ADMIN'' display \<and>
         contains_str ''Docker'' display)"

lemma hex_texts:
  "parse_u64_hex ''0000003fffffffff'' = Some 274877906943" "parse_u64_hex ''0000000000200000'' = Some 2097152"
  "parse_u64_hex ''0000000000000000'' = Some 0" "parse_u64_hex [] = None" "parse_u64_hex ''not_hex'' = None"
  by code_simp+

lemma tests_capabilities:
  "test_has_cap_sys_admin_full_caps" "test_has_cap_sys_admin_exact" "test_has_cap_sys_admin_missing"
  "test_has_cap_sys_admin_empty" "test_has_cap_sys_admin_bad_hex"
  by (simp_all add: test_has_cap_sys_admin_full_caps_def test_has_cap_sys_admin_exact_def
      test_has_cap_sys_admin_missing_def test_has_cap_sys_admin_empty_def test_has_cap_sys_admin_bad_hex_def
      has_cap_iff hex_texts)

lemma tests_capabilities_display: "test_capability_check_result_display"
  by code_simp

lemma tests_capabilities_host: "test_check_capabilities_runs h"
  by (simp add: test_check_capabilities_runs_def check_capabilities_def Let_def split: prod.split)

section \<open>Routes\<close>

text \<open>A default message, of either family.\<close>

definition blank_route :: "addr_family \<Rightarrow> route_msg" where
  "blank_route f = \<lparr>rm_family = f, rm_prefix_len = 0, rm_table = TableMain, rm_protocol = ProtoStatic, rm_attrs = []\<rparr>"

definition test_format_route :: "addr_family \<Rightarrow> bool" where
  "test_format_route f =
     (let formatted = format_route ((blank_route f)\<lparr>rm_prefix_len := 24, rm_attrs :=
            [RDestination (V4 [192, 168, 1, 0]), RGateway (V4 [10, 0, 0, 1]), RPriority 100]\<rparr>)
      in contains_str ''192.168.1.0/24'' formatted \<and> contains_str ''via 10.0.0.1'' formatted \<and>
         contains_str ''metric 100'' formatted)"

definition test_format_route_ipv6 :: "addr_family \<Rightarrow> bool" where
  "test_format_route_ipv6 f =
     (let formatted = format_route ((blank_route f)\<lparr>rm_prefix_len := 64, rm_attrs :=
            [RDestination (V6 [0xfd00, 0, 0, 0, 0, 0, 0, 0]), RGateway (V6 [0xfe80, 0, 0, 0, 0, 0, 0, 1]),
             RPriority 200]\<rparr>)
      in contains_str ''fd00::/64'' formatted \<and> contains_str ''via fe80::1'' formatted \<and>
         contains_str ''metric 200'' formatted)"

lemma tests_routes: "test_format_route Inet" "test_format_route_ipv6 Inet6"
  by code_simp+

section \<open>The namespace state manager\<close>

definition test_manager :: "'s \<Rightarrow> nat \<Rightarrow> 's state_manager" where
  "test_manager s t = \<lparr>namespace_states = [], net = s, last_sync = t, sync_interval = 30 * second\<rparr>"

definition test_state_stats :: "'s \<Rightarrow> nat \<Rightarrow> bool" where
  "test_state_stats s now =
     (let state1 = set_status now Active (new_state now ''test1'' ''test-test1'' ''/tmp/test1.toml'');
          state2 = set_status now Failed (new_state now ''test2'' ''test-test2'' ''/tmp/test2.toml'');
          stats = get_state_stats (update_namespace_state state2
            (update_namespace_state state1 (test_manager s now)))
      in active_namespaces stats = 1 \<and> failed_namespaces stats = 1 \<and>
         creating_namespaces stats = 0 \<and> deleting_namespaces stats = 0)"

text \<open>The entry of a file written and loaded by the test.\<close>

definition test_entry :: "string \<Rightarrow> string \<Rightarrow> nat \<Rightarrow> config_entry" where
  "test_entry n dir now =
     \<lparr>ce_config = \<lparr>namespace = \<lparr>ns_name = n, ns_description = ''Test namespace''\<rparr>,
        interfaces = \<lparr>move_interfaces = [''eth0''], virtual_interfaces = []\<rparr>,
        routing = \<lparr>default_gateway = Some ''192.168.1.1'', routes = []\<rparr>,
        dns = \<lparr>servers = [''8.8.8.8''], search = []\<rparr>, wireguard = None, environment = []\<rparr>,
      file_path = path_join dir (n @ ''.toml''), full_name = ''test-'' @ n, last_modified = now\<rparr>"

definition test_needs_namespace_update :: "string \<Rightarrow> nat \<Rightarrow> bool" where
  "test_needs_namespace_update dir now =
     (let e = test_entry ''app1'' dir now;
          st = new_state now ''app1'' ''test-app1'' ''/tmp/app1.toml'';
          actual = \<lparr>nsi_name = ''test-app1'', nsi_id = 1234, nsi_path = ''/var/run/netns/test-app1'',
            nsi_active = True\<rparr>
      in \<not> needs_namespace_update (st\<lparr>last_updated := unix_secs now + 10\<rparr>) e actual \<and>
         needs_namespace_update (st\<lparr>last_updated := unix_secs (last_modified e) - 60\<rparr>) e actual)"

definition test_state_operations :: "'s \<Rightarrow> nat \<Rightarrow> bool" where
  "test_state_operations s now =
     (let manager = update_namespace_state (new_state now ''test'' ''test-namespace'' ''/tmp/test.toml'')
            (test_manager s 0)
      in length (namespace_states manager) = 1 \<and>
         get_namespace_state manager ''test-namespace'' \<noteq> None \<and>
         get_namespace_state manager ''test-namespace'' \<noteq> None \<and>
         length (namespace_states (remove_namespace_state ''test-namespace'' manager)) = 0)"

lemma tests_state_manager:
  "test_state_stats s now" "test_state_operations s now"
  "1000000000 \<le> now \<Longrightarrow> test_needs_namespace_update dir now"
  by (simp_all add: test_state_stats_def test_state_operations_def test_needs_namespace_update_def
      test_manager_def test_entry_def update_namespace_state_def remove_namespace_state_def
      get_namespace_state_def get_state_stats_def needs_namespace_update_def has_configuration_drift_def
      new_state_def removeM_def Let_def unix_secs_def div_greater_zero_iff)

text \<open>
  The deletion of a namespace that does not exist.  The test makes its configuration manager from a
  directory, and \<^verbatim>\<open>unwrap\<close> panics there: it never reaches its assertions.
\<close>

definition test_resolve_conflict_delete ::
  "'s nl_ops \<Rightarrow> config_io \<Rightarrow> string \<Rightarrow> 's \<Rightarrow> nat \<Rightarrow> bool" where
  "test_resolve_conflict_delete ops io dir s now =
     unwrap_and (manager_new io dir) (\<lambda>cm.
       let conflict = \<lparr>cf_name = ''test-nonexistent'', cf_description = ''Test conflict delete'',
             cf_resolution = DeleteNamespace\<rparr>;
           manager = update_namespace_state (new_state now ''nonexistent'' ''test-nonexistent'' ''/tmp/nonexistent.toml'')
             (test_manager s now);
           (result, manager') = resolve_conflict ops now conflict cm manager
       in get_namespace_state manager ''test-nonexistent'' \<noteq> None \<and> is_err result \<and>
          get_namespace_state manager' ''test-nonexistent'' \<noteq> None)"

lemma test_resolve_conflict_panics:
  "cio_read io dir = None \<Longrightarrow> \<not> test_resolve_conflict_delete ops io dir s now"
proof -
  assume "cio_read io dir = None"
  then have "manager_new io dir \<noteq> Ok cm" for cm
    by (auto simp: manager_new_def load_master_config_def daemon_config_from_file_def result_simps)
  then obtain e where "manager_new io dir = Inl e" by (cases "manager_new io dir") auto
  then show ?thesis by (simp add: test_resolve_conflict_delete_def unwrap_and_def)
qed

text \<open>What the test means to check holds: a deletion that fails keeps the state.\<close>

lemma failed_delete_keeps_state:
  assumes "o_delete ops n (net mg) = (Inl e, s)" "cf_resolution cf = DeleteNamespace" "cf_name cf = n"
  shows "resolve_conflict ops now cf cm mg = (Inl e, mg\<lparr>net := s\<rparr>)"
  using assms by (simp add: resolve_conflict_def)

text \<open>The clock is read three times after the first; the test needs it to be at least a minute after its zero.\<close>

definition elapsed_at_least :: "nat \<Rightarrow> nat \<Rightarrow> nat \<Rightarrow> bool" where
  "elapsed_at_least interval now t = (if now < t then True else now - t \<ge> interval)"

definition test_sync_timing :: "nat \<Rightarrow> nat \<Rightarrow> nat \<Rightarrow> nat \<Rightarrow> bool" where
  "test_sync_timing t1 t2 t3 t4 =
     (let old_time = t1 - 60 * second; recent_time = t2 - 10 * second; sync_interval = 30 * second
      in elapsed_at_least sync_interval t3 old_time \<and> \<not> elapsed_at_least sync_interval t4 recent_time)"

lemma tests_sync_timing:
  "60 * second \<le> t1 \<Longrightarrow> t1 \<le> t2 \<Longrightarrow> t2 \<le> t3 \<Longrightarrow> t3 \<le> t4 \<Longrightarrow> t4 < t2 + 20 * second \<Longrightarrow> test_sync_timing t1 t2 t3 t4"
  by (simp add: test_sync_timing_def elapsed_at_least_def second_def Let_def) arith

text \<open>From \<^verbatim>\<open>tests/namespace_state_integration.rs\<close>: a manager that cannot be created is expected.\<close>

definition test_state_manager_creation :: "'k sys \<Rightarrow> 'k \<Rightarrow> nat \<Rightarrow> bool" where
  "test_state_manager_creation y k now =
     (case fst (new_state_manager y k) of
        Inl _ \<Rightarrow> True
      | Inr mg \<Rightarrow> total_namespaces (get_state_stats mg) = 0 \<and> needs_sync now mg)"

lemma tests_manager_creation: "30 * second \<le> now \<Longrightarrow> test_state_manager_creation y k now"
  by (auto simp: test_state_manager_creation_def new_state_manager_def manager_with_def state_manager_new_def
      get_state_stats_def needs_sync_def split: prod.splits sum.splits)

lemma elapsed_needs_sync: "needs_sync now mg = elapsed_at_least (sync_interval mg) now (last_sync mg)"
  by (simp add: needs_sync_def elapsed_at_least_def)

section \<open>The event loop\<close>

definition event_loop_test_config :: "string \<Rightarrow> string \<Rightarrow> string" where
  "event_loop_test_config temp_dir pre = text_lines
     [[], ''[daemon]'', ''namespace_prefix = '' @ in_quotes pre,
      ''config_dir = '' @ in_quotes (path_join temp_dir ''namespaces''), ''cleanup_on_shutdown = true'',
      ''log_level = '' @ in_quotes ''info'', ''log_target = '' @ in_quotes ''stdout'', [],
      ''[dbus]'', ''service_name = '' @ in_quotes ''org.segwire.NamespaceManager'',
      ''object_path = '' @ in_quotes ''/org/segwire/NamespaceManager'']"

text \<open>The text must be a daemon's configuration to the parser; a daemon that is not created is expected.\<close>

definition test_daemon_event_loop_creation ::
  "daemon_config toml \<Rightarrow> 'k sys \<Rightarrow> ('k, 'f) daemon_host \<Rightarrow> nat \<Rightarrow> string \<Rightarrow> bool" where
  "test_daemon_event_loop_creation toml y h now temp_dir =
     unwrap_and (toml (event_loop_test_config temp_dir ''test'')) (\<lambda>c.
       case event_loop_new y h now c (path_join temp_dir ''daemon.toml'') of
         Inl _ \<Rightarrow> True
       | Inr svc \<Rightarrow> dm_shutdown (request_shutdown (started svc)))"

lemma tests_event_loop:
  "is_ok (toml (event_loop_test_config temp_dir ''test'')) \<Longrightarrow> test_daemon_event_loop_creation toml y h now temp_dir"
  by (auto simp: test_daemon_event_loop_creation_def unwrap_and_def is_ok_iff split: sum.split)

section \<open>Errors of the D-Bus service\<close>

definition test_create_method_err :: "string \<Rightarrow> bool" where
  "test_create_method_err toml_error = (create_method_err (Config (InvalidToml toml_error)) \<noteq> [])"

definition test_create_method_err_generic :: bool where
  "test_create_method_err_generic = contains_str ''file missing'' (create_method_err (System ''file missing''))"

lemma tests_method_err: "test_create_method_err e" "test_create_method_err_generic"
proof -
  show "test_create_method_err_generic" by code_simp
  show "test_create_method_err e" by (simp add: test_create_method_err_def create_method_err_def)
qed

end
