(* ===== verification/WatcherTests.thy ===== *)
theory WatcherTests
  imports TestSupport Watcher HotReload
begin

text \<open>
  The tests of \<^verbatim>\<open>segwire-daemon/tests/cfg_file_watcher.rs\<close>: a directory is watched, files are written and removed,
  and the events sent are looked at.  The events that inotify reports of an operation are those of its
  documentation; the time at which each is handled is an argument.
\<close>

definition millis :: nat where "millis = 1000000"

definition file_event :: "string \<Rightarrow> event_flag \<Rightarrow> raw_event" where
  "file_event n f = \<lparr>re_mask = [f], re_name = Some (Some n)\<rparr>"

text \<open>\<^verbatim>\<open>fs::write\<close> creates the file, or cuts an existing one; then it writes and closes it.\<close>

definition fs_created :: "string \<Rightarrow> nat list \<Rightarrow> (nat \<times> raw_event) list" where
  "fs_created n ts = zip ts (map (file_event n) [CREATE, MODIFY, CLOSE_WRITE])"

definition fs_written :: "string \<Rightarrow> nat list \<Rightarrow> (nat \<times> raw_event) list" where
  "fs_written n ts = zip ts (map (file_event n) [MODIFY, MODIFY, CLOSE_WRITE])"

definition fs_removed :: "string \<Rightarrow> nat list \<Rightarrow> (nat \<times> raw_event) list" where
  "fs_removed n ts = zip ts (map (file_event n) [DELETE])"

text \<open>What \<^verbatim>\<open>collect_events\<close> gives of a watcher whose receiver is alive.\<close>

definition collect_events :: "inotify_host \<Rightarrow> file_watcher \<Rightarrow> (nat \<times> raw_event) list \<Rightarrow> config_file_event list sres" where
  "collect_events h w evs =
     thenR (start_monitoring h w) (tryR (watch_directory_inotify h w (\<lambda>_. False) [ReadEvents evs]) (\<lambda>(sent, _). Ok (map snd sent)))"

definition watcher_on :: "string \<Rightarrow> nat \<Rightarrow> file_watcher" where
  "watcher_on dir ms = \<lparr>fw_dir = dir, fw_debounce = ms * millis\<rparr>"

definition test_cfg_file_watcher_detects_creation :: "inotify_host \<Rightarrow> string \<Rightarrow> nat list \<Rightarrow> bool" where
  "test_cfg_file_watcher_detects_creation h dir ts =
     unwrap_and (collect_events h (watcher_on dir 100) (fs_created ''test.toml'' ts)) (\<lambda>events.
       events \<noteq> [] \<and> list_ex (\<lambda>e. e = FileCreated (path_join dir ''test.toml'') \<or> e = FileModified (path_join dir ''test.toml'')) events)"

definition test_cfg_file_watcher_detects_modification :: "inotify_host \<Rightarrow> string \<Rightarrow> nat list \<Rightarrow> bool" where
  "test_cfg_file_watcher_detects_modification h dir ts =
     unwrap_and (collect_events h (watcher_on dir 100) (fs_written ''modify.toml'' ts)) (\<lambda>events.
       events \<noteq> [] \<and> list_ex (\<lambda>e. e = FileModified (path_join dir ''modify.toml'')) events)"

definition test_cfg_file_watcher_detects_deletion :: "inotify_host \<Rightarrow> string \<Rightarrow> nat list \<Rightarrow> bool" where
  "test_cfg_file_watcher_detects_deletion h dir ts =
     unwrap_and (collect_events h (watcher_on dir 100) (fs_removed ''delete.toml'' ts)) (\<lambda>events.
       events \<noteq> [] \<and> list_ex (\<lambda>e. e = FileDeleted (path_join dir ''delete.toml'')) events)"

definition test_cfg_file_watcher_ignores_non_toml :: "inotify_host \<Rightarrow> string \<Rightarrow> nat list \<Rightarrow> nat list \<Rightarrow> bool" where
  "test_cfg_file_watcher_ignores_non_toml h dir ts us =
     unwrap_and (collect_events h (watcher_on dir 100) (fs_created ''readme.txt'' ts @ fs_created ''config.json'' us))
       (\<lambda>events. events = [])"

definition test_cfg_file_watcher_debounces_rapid_writes :: "inotify_host \<Rightarrow> string \<Rightarrow> nat list \<Rightarrow> nat list \<Rightarrow> nat list \<Rightarrow> bool" where
  "test_cfg_file_watcher_debounces_rapid_writes h dir ts us vs =
     unwrap_and (collect_events h (watcher_on dir 500)
         (fs_created ''rapid.toml'' ts @ fs_written ''rapid.toml'' us @ fs_written ''rapid.toml'' vs))
       (\<lambda>events. length events \<le> 2)"

section \<open>They pass\<close>

definition watchable :: "inotify_host \<Rightarrow> bool" where
  "watchable h = (ih_spawn h = Ok () \<and> ih_init h = Ok () \<and> (\<forall>p fs. ih_add h p fs = Ok ()))"

lemma collected:
  "watchable h \<Longrightarrow> collect_events h w evs = Ok (map snd (watch_events (fw_dir w) (fw_debounce w) evs []))"
  using watch_batch_alive [of evs "\<lambda>_. False" w "[]"]
  by (auto simp: watchable_def collect_events_def start_monitoring_def watch_directory_inotify_def watch_setup_def
      watch_reads_batch split: prod.splits)

lemma toml_file_event: "toml_name (file_event n f) = (if ends_with ''.toml'' n then Some n else None)"
  by (simp add: toml_name_def file_event_def)

lemma re_mask_file_event: "re_mask (file_event n f) = [f]"
  by (simp add: file_event_def)

lemma test_names:
  "ends_with ''.toml'' ''test.toml''" "ends_with ''.toml'' ''modify.toml''" "ends_with ''.toml'' ''delete.toml''"
  "ends_with ''.toml'' ''rapid.toml''" "\<not> ends_with ''.toml'' ''readme.txt''" "\<not> ends_with ''.toml'' ''config.json''"
  by code_simp+

lemma first_sent:
  assumes "ends_with ''.toml'' n" "classify [f] (path_join dir n) = Some e" "P e"
  shows "map snd (watch_events dir d ((t, file_event n f) # evs) []) \<noteq> [] \<and>
    list_ex P (map snd (watch_events dir d ((t, file_event n f) # evs) []))"
  using assms by (simp add: watch_event_def toml_file_event re_mask_file_event debounced_def Let_def)

text \<open>Whatever the times; the debouncing test when the writes are within half a second of the first.\<close>

lemma tests_watcher:
  assumes "watchable h"
  shows "test_cfg_file_watcher_detects_creation h dir [t1, t2, t3]" "test_cfg_file_watcher_detects_modification h dir [t1, t2, t3]"
    "test_cfg_file_watcher_detects_deletion h dir [t1]" "test_cfg_file_watcher_ignores_non_toml h dir ts us"
proof -
  note fd = unwrap_and_def collected [OF assms] watcher_on_def
  have evs: "fs_created n [t1, t2, t3] = (t1, file_event n CREATE) # [(t2, file_event n MODIFY), (t3, file_event n CLOSE_WRITE)]"
    "fs_written n [t1, t2, t3] = (t1, file_event n MODIFY) # [(t2, file_event n MODIFY), (t3, file_event n CLOSE_WRITE)]"
    "fs_removed n [t1] = [(t1, file_event n DELETE)]" for n
    by (simp_all add: fs_created_def fs_written_def fs_removed_def)
  have c: "classify [CREATE] p = Some (FileCreated p)" "classify [MODIFY] p = Some (FileModified p)"
    "classify [DELETE] p = Some (FileDeleted p)" for p by (simp_all add: classify_def)
  show "test_cfg_file_watcher_detects_creation h dir [t1, t2, t3]"
    using first_sent [OF test_names(1) c(1)] by (simp add: test_cfg_file_watcher_detects_creation_def fd evs del: watch_events.simps)
  show "test_cfg_file_watcher_detects_modification h dir [t1, t2, t3]"
    using first_sent [OF test_names(2) c(2)] by (simp add: test_cfg_file_watcher_detects_modification_def fd evs del: watch_events.simps)
  show "test_cfg_file_watcher_detects_deletion h dir [t1]"
    using first_sent [OF test_names(3) c(3)] by (simp add: test_cfg_file_watcher_detects_deletion_def fd evs del: watch_events.simps)
  have "watch_events dir d evs m = []" if "\<forall>(t, ev) \<in> set evs. toml_name ev = None" for evs d m
    using that by (induction evs) (auto simp: watch_event_def)
  moreover have "\<forall>(t, ev) \<in> set (fs_created ''readme.txt'' ts @ fs_created ''config.json'' us). toml_name ev = None"
    by (auto simp: fs_created_def toml_file_event test_names elim!: in_set_zipE)
  ultimately show "test_cfg_file_watcher_ignores_non_toml h dir ts us"
    by (simp add: test_cfg_file_watcher_ignores_non_toml_def fd)
qed

lemma tests_debouncing:
  assumes "watchable h" "ts = [t, t2, t3]" "\<forall>x \<in> set (ts @ us @ vs). x - t < 500 * millis"
  shows "test_cfg_file_watcher_debounces_rapid_writes h dir ts us vs"
proof -
  let ?evs = "fs_created ''rapid.toml'' ts @ fs_written ''rapid.toml'' us @ fs_written ''rapid.toml'' vs"
  have e: "?evs = (t, file_event ''rapid.toml'' CREATE) # tl ?evs" by (simp add: fs_created_def assms(2))
  have "\<forall>(t', ev') \<in> set (tl ?evs). toml_name ev' = Some ''rapid.toml'' \<and> t' - t < 500 * millis"
    using assms(2,3) by (auto simp: fs_created_def fs_written_def toml_file_event test_names dest: set_zip_leftD elim!: in_set_zipE)
  then have "watch_events dir (500 * millis) ?evs [] = [(t, FileCreated (path_join dir ''rapid.toml''))]"
    by (subst e, intro watch_first) (simp_all add: toml_file_event test_names re_mask_file_event classify_def millis_def)
  then show ?thesis
    by (simp add: test_cfg_file_watcher_debounces_rapid_writes_def collected [OF assms(1)] unwrap_and_def watcher_on_def)
qed

end
