(* ===== verification/CliTests.thy ===== *)
theory CliTests
  imports TestSupport Cli NsEnter
begin

text \<open>
  The tests of \<^verbatim>\<open>segwire-cli\<close> and of the setuid helper \<^verbatim>\<open>segwire-ns-enter\<close>.  A table is rendered
  by the \<^verbatim>\<open>tabled\<close> crate: \<open>tabled\<close> is the text it makes of a header and rows, and holds its cells.
\<close>

section \<open>Output\<close>

definition test_format_duration :: bool where
  "test_format_duration =
     (format_duration 0 = ''0s'' \<and> format_duration 45 = ''45s'' \<and> format_duration 65 = ''1m 5s'' \<and>
      format_duration 3661 = ''1h 1m'' \<and> format_duration 90061 = ''1d 1h'')"

definition test_format_timestamp_zero :: "(nat \<Rightarrow> string option) \<Rightarrow> bool" where
  "test_format_timestamp_zero fmt = (format_timestamp fmt 0 = ''-'')"

definition test_format_timestamp_epoch :: "(nat \<Rightarrow> string option) \<Rightarrow> bool" where
  "test_format_timestamp_epoch fmt = starts_with ''1970-01-01 00:00:01'' (format_timestamp fmt 1)"

definition test_short_path :: bool where
  "test_short_path =
     (short_path ''/etc/segwire/namespaces/test.toml'' = ellipsis @ ''/namespaces/test.toml'' \<and>
      short_path ''test.toml'' = ''test.toml'')"

definition test_truncate_string :: bool where
  "test_truncate_string =
     (truncate_string ''hello'' 10 = Some ''hello'' \<and>
      truncate_string ''hello world'' 5 = Some (''hell'' @ ellipsis))"

definition test_colorize_status_active :: bool where
  "test_colorize_status_active =
     (let colored = colorize_status ''active''
      in contains_str ''active'' colored \<and> contains_str ([escape] @ ''[32m'') colored)"

text \<open>The text of a rendered table.\<close>

definition table_text :: "(string list \<Rightarrow> string list list \<Rightarrow> string) \<Rightarrow> out_item \<Rightarrow> string" where
  "table_text tabled t = (case t of OutLine s \<Rightarrow> s | OutTable h rows \<Rightarrow> tabled h rows | _ \<Rightarrow> [])"

definition test_render_empty_table :: "(string list \<Rightarrow> string list list \<Rightarrow> string) \<Rightarrow> bool" where
  "test_render_empty_table tabled = (table_text tabled (list_rows []) = ''(no results)'')"

definition test_render_table_with_data :: "(string list \<Rightarrow> string list list \<Rightarrow> string) \<Rightarrow> bool" where
  "test_render_table_with_data tabled =
     (let output = table_text tabled (list_rows
            [\<lparr>lr_name = ''test-ns'', lr_status = ''active'', lr_interfaces = ''2'', lr_config_path = ''/etc/test.toml'',
              lr_description = ''Test namespace''\<rparr>])
      in contains_str ''test-ns'' output \<and> contains_str ''active'' output)"

definition test_progress_display :: bool where
  "test_progress_display = (let pd = progress_new ''Test'' in pd_width pd = 40 \<and> pd_operation pd = ''Test'')"

lemma tests_output:
  "test_progress_display" "test_format_duration" "test_short_path" "test_truncate_string" "test_colorize_status_active"
  by code_simp+

lemma tests_output_parameters:
  "test_format_timestamp_zero fmt" "test_render_empty_table tabled"
  "fmt 1 = Some ''1970-01-01 00:00:01 UTC'' \<Longrightarrow> test_format_timestamp_epoch fmt"
  "(\<And>h rows r c. r \<in> set rows \<Longrightarrow> c \<in> set r \<Longrightarrow> contains_str c (tabled h rows)) \<Longrightarrow>
     test_render_table_with_data tabled"
  by (simp_all add: test_format_timestamp_zero_def format_timestamp_def test_render_empty_table_def
      table_text_def list_rows_def render_table_def test_format_timestamp_epoch_def test_render_table_with_data_def
      starts_with_def Let_def)

section \<open>Commands\<close>

definition test_list_args_parsing :: bool where
  "test_list_args_parsing =
     (let args = \<lparr>la_format = Table, la_status = Some FilterActive, la_verbose = True\<rparr>
      in la_format args = Table \<and> la_status args = Some FilterActive \<and> la_verbose args)"

definition test_status_filter_matches :: bool where
  "test_status_filter_matches =
     (filter_matches FilterActive ''active'' \<and> filter_matches FilterActive ''Active'' \<and>
      \<not> filter_matches FilterActive ''creating'' \<and>
      filter_matches FilterCreating ''creating'' \<and> filter_matches FilterFailed ''failed'' \<and>
      filter_matches FilterFailed ''failed: some error'' \<and> filter_matches FilterDeleting ''deleting'')"

definition test_status_name_validation :: bool where
  "test_status_name_validation =
     (cli_valid_namespace_name ''test'' \<and> cli_valid_namespace_name ''test-namespace'' \<and>
      cli_valid_namespace_name ''test_namespace'' \<and> cli_valid_namespace_name ''_test'' \<and>
      cli_valid_namespace_name ''test123'' \<and>
      \<not> cli_valid_namespace_name [] \<and> \<not> cli_valid_namespace_name ''123test'' \<and>
      \<not> cli_valid_namespace_name ''-test'' \<and> \<not> cli_valid_namespace_name ''test.namespace'' \<and>
      \<not> cli_valid_namespace_name ''test namespace'' \<and> \<not> cli_valid_namespace_name ''test/namespace'')"

definition test_restart_name_validation :: bool where
  "test_restart_name_validation =
     (restart_valid_namespace_name ''test'' \<and> restart_valid_namespace_name ''test-namespace'' \<and>
      restart_valid_namespace_name ''test_namespace'' \<and> restart_valid_namespace_name ''_test'' \<and>
      restart_valid_namespace_name ''test123'' \<and>
      \<not> restart_valid_namespace_name [] \<and> \<not> restart_valid_namespace_name ''123test'' \<and>
      \<not> restart_valid_namespace_name ''-test'' \<and> \<not> restart_valid_namespace_name ''test.namespace'' \<and>
      \<not> restart_valid_namespace_name ''test namespace'' \<and> \<not> restart_valid_namespace_name ''test/namespace'')"

definition test_restart_args_validation :: bool where
  "test_restart_args_validation =
     (let args = \<lparr>ra_namespace = ''test-namespace'', ra_force = False, ra_wait = True, ra_timeout = 90,
            ra_verbose = True, ra_format = Table\<rparr>
      in ra_namespace args = ''test-namespace'' \<and> \<not> ra_force args \<and> ra_wait args \<and>
         ra_timeout args = 90 \<and> ra_verbose args)"

definition test_reload_args_validation :: bool where
  "test_reload_args_validation =
     (let args = \<lparr>rl_wait = True, rl_timeout = 120, rl_verbose = True, rl_validate = False, rl_format = Table\<rparr>
      in rl_wait args \<and> rl_timeout args = 120 \<and> rl_verbose args \<and> \<not> rl_validate args)"

definition test_validate_args :: bool where
  "test_validate_args =
     (let args = \<lparr>va_path = Some ''/etc/segwire/namespaces'', va_recursive = True, va_format = ValidateToml,
            va_warnings = True, va_continue = True\<rparr>
      in va_path args = Some ''/etc/segwire/namespaces'' \<and> va_recursive args \<and>
         va_format args = ValidateToml \<and> va_warnings args \<and> va_continue args)"

definition test_helper_search :: "exec_host \<Rightarrow> bool" where
  "test_helper_search h = (let result = find_helper_binary h in is_ok result \<or> is_err result)"

definition test_error_formatting :: bool where
  "test_error_formatting =
     (let formatted = ''Daemon service is not running. Please start segwire-daemon.''
      in contains_str ''Daemon service is not running'' formatted)"

lemma tests_commands:
  "test_list_args_parsing" "test_status_filter_matches" "test_status_name_validation"
  "test_restart_name_validation" "test_restart_args_validation" "test_reload_args_validation"
  "test_validate_args" "test_error_formatting"
  by code_simp+

lemma tests_helper_search: "test_helper_search h"
  by (simp add: test_helper_search_def is_err_def)

section \<open>The client\<close>

text \<open>
  The service of \<^verbatim>\<open>tests/dbus_client_integration.rs\<close> with its four methods; a method it does not have fails.
\<close>

fun mock_method :: "dbus_call \<Rightarrow> (method_err, dbus_reply) res" where
  "mock_method CallGetDaemonStatus = Ok (ReplyDaemon ''1.0.0'' 100 1 1)"
| "mock_method CallListNamespaces = Ok (ReplyNamespaces [(''test-ns'', ''active'', ''/path/to/test-ns.toml'', ''Test NS'')])"
| "mock_method (CallGetNamespaceStatus n) =
     (if n = ''test-ns'' then Ok (ReplyStatus ''test-ns'' ''segwire-test-ns'' ''active'' ''/path/to/test-ns.toml'' 0 0)
      else Err (''Namespace '' @ quoted n @ '' not found''))"
| "mock_method CallReloadConfiguration = Ok (ReplyResult (op_success ''Reloaded''))"
| "mock_method (CallRestartNamespace n) = Ok (ReplyResult (op_success (''Restarted '' @ n)))"
| "mock_method _ = Err ''Unknown method''"

definition mock_client :: "unit bus_client" where
  "mock_client = \<lparr>bc_connect = (\<lambda>_. Ok ()), bc_introspect = (\<lambda>_. Ok ()),
     bc_call = (\<lambda>c. liftS (map_err method_error (mock_method c))), bc_mismatch = method_error []\<rparr>"

definition test_dbus_client_mock :: bool where
  "test_dbus_client_mock =
     (is_ok (client_new mock_client ()) \<and>
      unwrap_and (fst (get_daemon_status mock_client ())) (\<lambda>(version, uptime, _). version = ''1.0.0'' \<and> uptime = 100) \<and>
      unwrap_and (fst (client_list_namespaces mock_client ())) (\<lambda>l. length l = 1 \<and> some_and (at l 0) (\<lambda>t. fst t = ''test-ns'')) \<and>
      unwrap_and (fst (client_namespace_status mock_client ''test-ns'' ())) (\<lambda>ns. st_name ns = ''test-ns'') \<and>
      is_err (fst (client_namespace_status mock_client ''nonexistent'' ())) \<and>
      unwrap_and (fst (reload_configuration mock_client ())) success \<and>
      unwrap_and (fst (client_restart_namespace mock_client ''test-ns'' ())) success)"

lemma tests_client: "test_dbus_client_mock"
  by code_simp

section \<open>The setuid helper\<close>

definition test_parse_args_valid :: bool where
  "test_parse_args_valid =
     unwrap_and (parse_args [''segwire-ns-enter'', ''/run/netns/test'', ''--'', ''ip'', ''link'', ''show''])
       (\<lambda>(ns, cmd, cmd_args). ns = ''/run/netns/test'' \<and> cmd = ''ip'' \<and> cmd_args = [''link'', ''show''])"

definition test_parse_args_no_separator :: bool where
  "test_parse_args_no_separator = is_err (parse_args [''segwire-ns-enter'', ''/run/netns/test'', ''ip''])"

definition test_parse_args_no_command :: bool where
  "test_parse_args_no_command = is_err (parse_args [''segwire-ns-enter'', ''/run/netns/test'', ''--''])"

definition test_parse_args_too_few :: bool where
  "test_parse_args_too_few = is_err (parse_args [''segwire-ns-enter''])"

definition test_validate_ns_path_valid_prefix :: "(string \<Rightarrow> (string, bool) res) \<Rightarrow> bool" where
  "test_validate_ns_path_valid_prefix lstat =
     (is_err (validate_ns_path lstat ''/etc/passwd'') \<and> is_err (validate_ns_path lstat ''/tmp/test'') \<and>
      is_err (validate_ns_path lstat ''relative/path''))"

definition test_validate_ns_path_traversal :: "(string \<Rightarrow> (string, bool) res) \<Rightarrow> bool" where
  "test_validate_ns_path_traversal lstat =
     (is_err (validate_ns_path lstat ''/run/netns/../../etc/shadow'') \<and>
      is_err (validate_ns_path lstat ''/run/netns/foo/bar''))"

definition test_validate_ns_path_empty_name :: "(string \<Rightarrow> (string, bool) res) \<Rightarrow> bool" where
  "test_validate_ns_path_empty_name lstat = is_err (validate_ns_path lstat ''/run/netns/'')"

lemma tests_parse_args:
  "test_parse_args_valid" "test_parse_args_no_separator" "test_parse_args_no_command"
  "test_parse_args_too_few"
  by code_simp+

text \<open>These hold whatever the file system answers.\<close>

lemma tests_ns_path:
  "test_validate_ns_path_valid_prefix lstat" "test_validate_ns_path_traversal lstat"
  "test_validate_ns_path_empty_name lstat"
  by (simp_all add: test_validate_ns_path_valid_prefix_def test_validate_ns_path_traversal_def
      test_validate_ns_path_empty_name_def is_err_def is_ok_unit validate_ns_path_iff ALLOWED_NS_PREFIX_def)

end
