(* ===== verification/TestHarness.thy ===== *)
theory TestHarness
  imports EventLoop Cli ConfigToml TestSupport
begin

text \<open>
  The harness of the integration tests, \<^verbatim>\<open>segwire-test/src/harness.rs\<close>: a private message bus, a temporary
  directory with the daemon's file, the files of namespaces, the start of a daemon and the end of it all;
  and the tests of \<^verbatim>\<open>tests/integration.rs\<close> that need no other program.  The files below the temporary
  directory and the environment of the process are the state; what the system answers is a parameter.
\<close>

section \<open>The state\<close>

record machine =
  mc_files :: "(string \<times> string) list"
  mc_env :: env

record harness =
  hs_config_dir :: string
  hs_config_path :: string
  hs_dbus_pid :: "nat option"

text \<open>
  What \<^verbatim>\<open>dbus-daemon\<close> prints, or why it cannot be started; the new temporary directory; whether a file can be
  created or removed; what a file holds after a write and the write's result; whether a thread starts.
\<close>

record harness_host =
  hh_bus_daemon :: "(string, string) res"
  hh_tempdir :: "(string, string) res"
  hh_create :: "string \<Rightarrow> (string, unit) res"
  hh_write :: "string \<Rightarrow> string \<Rightarrow> string \<times> (string, unit) res"
  hh_remove :: "string \<Rightarrow> (string, unit) res"
  hh_spawn :: "(string, unit) res"

type_synonym 'a harness_op = "(machine, string, 'a) op"

definition set_var :: "string \<Rightarrow> string \<Rightarrow> 'a harness_op \<Rightarrow> 'a harness_op" where
  "set_var k v p m = p (m\<lparr>mc_env := insertM k v (mc_env m)\<rparr>)"

definition write_file :: "harness_host \<Rightarrow> string \<Rightarrow> string \<Rightarrow> unit harness_op" where
  "write_file h p content m =
     (case hh_create h p of
        Inl e \<Rightarrow> (Inl e, m)
      | Inr _ \<Rightarrow> (case hh_write h p content of (t, r) \<Rightarrow> (r, m\<lparr>mc_files := insertM p t (mc_files m)\<rparr>)))"

definition remove_file :: "harness_host \<Rightarrow> string \<Rightarrow> unit harness_op" where
  "remove_file h p m =
     (if \<not> containsM p (mc_files m) then (Inl ''No such file or directory (os error 2)'', m)
      else case hh_remove h p of
        Inl e \<Rightarrow> (Inl e, m)
      | Inr _ \<Rightarrow> (Ok (), m\<lparr>mc_files := removeM p (mc_files m)\<rparr>))"

section \<open>The files\<close>

definition daemon_text :: "string \<Rightarrow> string" where
  "daemon_text dir = text_lines
     [''[daemon]'', ''namespace_prefix = '' @ in_quotes ''test'', ''config_dir = '' @ in_quotes dir,
      ''log_level = '' @ in_quotes ''debug'', ''sync_interval_seconds = 30'', ''cleanup_on_shutdown = false'', [],
      ''[dbus]'', ''service_name = '' @ in_quotes SERVICE_NAME, ''object_path = '' @ in_quotes OBJECT_PATH, []]"

definition sample_namespace_config :: "string \<Rightarrow> string" where
  "sample_namespace_config name = text_lines
     [''[namespace]'', ''name = '' @ in_quotes name, ''description = '' @ in_quotes ''Test namespace'', [],
      ''[interfaces]'', ''move_interfaces = []'', ''virtual_interfaces = []'', [],
      ''[routing]'', [], ''[dns]'', ''servers = ['' @ in_quotes ''8.8.8.8'' @ '']'']"

definition namespace_config_with_dummy :: "string \<Rightarrow> string" where
  "namespace_config_with_dummy name = text_lines
     [''[namespace]'', ''name = '' @ in_quotes name, ''description = '' @ in_quotes ''Namespace with dummy interface'', [],
      ''[interfaces]'', ''move_interfaces = []'', [],
      ''[[interfaces.virtual_interfaces]]'', ''name = '' @ in_quotes ''dummy0'', ''interface_type = '' @ in_quotes ''dummy'', [],
      ''[routing]'', [], ''[dns]'', ''servers = ['' @ in_quotes ''8.8.8.8'' @ '']'']"

text \<open>The values these texts denote.\<close>

definition daemon_document :: "string \<Rightarrow> table" where
  "daemon_document dir =
     [(''daemon'', VTab [(''namespace_prefix'', VStr ''test''), (''config_dir'', VStr dir), (''log_level'', VStr ''debug''),
        (''sync_interval_seconds'', VInt 30), (''cleanup_on_shutdown'', VBool False)]),
      (''dbus'', VTab [(''service_name'', VStr SERVICE_NAME), (''object_path'', VStr OBJECT_PATH)])]"

definition namespace_document :: "string \<Rightarrow> string \<Rightarrow> tval list \<Rightarrow> table" where
  "namespace_document name desc vifs =
     [(''namespace'', VTab [(''name'', VStr name), (''description'', VStr desc)]),
      (''interfaces'', VTab [(''move_interfaces'', VArr []), (''virtual_interfaces'', VArr vifs)]),
      (''routing'', VTab []), (''dns'', VTab [(''servers'', VArr [VStr ''8.8.8.8''])])]"

definition dummy_interface :: tval where
  "dummy_interface = VTab [(''name'', VStr ''dummy0''), (''interface_type'', VStr ''dummy'')]"

section \<open>The harness\<close>

text \<open>\<^verbatim>\<open>new\<close>; the text of an error is that of its context.\<close>

definition harness_new :: "harness_host \<Rightarrow> harness harness_op" where
  "harness_new h =
     bindS (liftS (map_err (\<lambda>_. ''Failed to launch dbus-daemon (is dbus installed?)'') (hh_bus_daemon h))) (\<lambda>out.
     case rlines out of
       [] \<Rightarrow> errS ''dbus-daemon did not print address''
     | address # rest \<Rightarrow>
         (case rest of
            [] \<Rightarrow> errS ''dbus-daemon did not print PID''
          | p # _ \<Rightarrow>
              bindS (liftS (ok_or ''dbus-daemon printed invalid PID'' (parse_u32 (trim p)))) (\<lambda>pid.
              set_var ''DBUS_SESSION_BUS_ADDRESS'' (trim address) (
              bindS (liftS (hh_tempdir h)) (\<lambda>dir.
              let path = path_join dir ''daemon.toml'' in
              thenS (write_file h path (daemon_text dir))
              (returnS \<lparr>hs_config_dir = dir, hs_config_path = path, hs_dbus_pid = Some pid\<rparr>))))))"

definition namespace_file :: "harness \<Rightarrow> string \<Rightarrow> string" where
  "namespace_file hs name = path_join (hs_config_dir hs) (name @ ''.toml'')"

definition write_namespace_file :: "harness_host \<Rightarrow> harness \<Rightarrow> string \<Rightarrow> string \<Rightarrow> string harness_op" where
  "write_namespace_file h hs name content =
     thenS (write_file h (namespace_file hs name) content) (returnS (namespace_file hs name))"

definition remove_namespace_file :: "harness_host \<Rightarrow> harness \<Rightarrow> string \<Rightarrow> unit harness_op" where
  "remove_namespace_file h hs name = remove_file h (namespace_file hs name)"

text \<open>
  The daemon's configuration is read without being validated; the event loop runs in a thread, where an
  error of its start is only printed.
\<close>

definition start_daemon :: "'k sys \<Rightarrow> ('k, 'f) daemon_host \<Rightarrow> config_io \<Rightarrow> nat \<Rightarrow> harness \<Rightarrow> (string, 'k service) res" where
  "start_daemon y d io now hs =
     tryR (ok_or ''No such file or directory (os error 2)'' (cio_read io (hs_config_path hs))) (\<lambda>content.
     tryR (cio_toml_daemon io content) (\<lambda>c.
     map_err show_segwire_error (event_loop_new y d now c (hs_config_path hs))))"

definition start_daemon_background ::
  "harness_host \<Rightarrow> 'k sys \<Rightarrow> ('k, 'f) daemon_host \<Rightarrow> config_io \<Rightarrow> nat \<Rightarrow> harness \<Rightarrow> (string, 'k daemon_state sres) res" where
  "start_daemon_background h y d io now hs =
     tryR (start_daemon y d io now hs) (\<lambda>svc.
     thenR (map_err (\<lambda>_. ''Failed to spawn daemon thread'') (hh_spawn h))
     (Ok (daemon_start io (dh_watch d) svc)))"

section \<open>The end\<close>

datatype drop_action = Terminate int | Probe int | Pause

text \<open>\<open>alive i\<close>: the bus still runs at the probe \<open>i\<close>.\<close>

fun await_exit :: "nat \<Rightarrow> (nat \<Rightarrow> bool) \<Rightarrow> int \<Rightarrow> nat \<Rightarrow> drop_action list" where
  "await_exit 0 alive pid i = []"
| "await_exit (Suc n) alive pid i =
     Probe pid # (if alive i then Pause # await_exit n alive pid (Suc i) else [])"

text \<open>\<^verbatim>\<open>drop\<close>, and then that of the temporary directory.  A process id is cast to a signed one.\<close>

definition harness_drop :: "(nat \<Rightarrow> bool) \<Rightarrow> harness \<Rightarrow> machine \<Rightarrow> drop_action list \<times> machine" where
  "harness_drop alive hs m =
     (let m' = m\<lparr>mc_files := filter (\<lambda>f. \<not> starts_with (hs_config_dir hs @ ''/'') (fst f)) (mc_files m)\<rparr> in
      case hs_dbus_pid hs of
        None \<Rightarrow> ([], m')
      | Some pid \<Rightarrow>
          (let raw = sint (word_of_nat pid :: 32 word) in
           (Terminate raw # await_exit 50 alive raw 0, m'\<lparr>mc_env := removeM ''DBUS_SESSION_BUS_ADDRESS'' (mc_env m')\<rparr>)))"

section \<open>Lemmas\<close>

text \<open>Dropping a harness signals its bus once and probes it at most fifty times; its variable and its files are gone.\<close>

lemma await_exit_bounded: "length (filter (\<lambda>a. a = Probe pid) (await_exit n alive pid i)) \<le> n"
  by (induction n alive pid i rule: await_exit.induct) auto

lemma await_exit_gone: "\<not> alive i \<Longrightarrow> await_exit (Suc n) alive pid i = [Probe pid]"
  by simp

lemma drop_clean:
  assumes "hs_dbus_pid hs = Some pid" "harness_drop alive hs m = (acts, m')"
  shows "length (filter (\<lambda>a. a \<noteq> Pause) acts) \<le> 51 \<and> map_of (mc_env m') ''DBUS_SESSION_BUS_ADDRESS'' = None \<and>
    (\<forall>f \<in> set (mc_files m'). \<not> starts_with (hs_config_dir hs @ ''/'') (fst f))"
proof -
  have probes: "length (filter (\<lambda>a. a \<noteq> Pause) (await_exit n alive p i)) \<le> n" for n p i
    by (induction n alive p i rule: await_exit.induct) auto
  show ?thesis
    using assms probes [of 50 "sint (word_of_nat pid :: 32 word)" 0]
    by (auto simp: harness_drop_def Let_def map_of_removeM)
qed

text \<open>
  The daemon of the harness, when the parser reads its file: the prefix \<^verbatim>\<open>test\<close>, the temporary directory, in
  which the daemon's own file lies too, and default logging, the level in the file having no field.  On
  the private bus it has no authorizer, so that every call is allowed.
\<close>

lemma harness_config:
  "read_daemon_config (daemon_document dir) = Some
     \<lparr>daemon = \<lparr>namespace_prefix = ''test'', config_dir = dir, cleanup_on_shutdown = False, logging = default_logging_config\<rparr>,
      dbus = \<lparr>service_name = SERVICE_NAME, object_path = OBJECT_PATH\<rparr>\<rparr>"
  by (simp add: daemon_document_def read_daemon_config_def read_daemon_settings_def read_dbus_settings_def field_defs)

lemma harness_daemon:
  assumes "start_daemon y d io now hs = Ok svc" "cio_read io (hs_config_path hs) = Some (daemon_text (hs_config_dir hs))"
    and "cio_toml_daemon io = from_toml pa msg read_daemon_config"
    and "pa (daemon_text (hs_config_dir hs)) = Ok (daemon_document (hs_config_dir hs))"
    and "map_of (dh_env d) ''DBUS_SESSION_BUS_ADDRESS'' \<noteq> None"
  shows "prefix_of (sv_config svc) = ''test'' \<and> config_directory (sv_config svc) = hs_config_dir hs \<and>
    config_file_path (sv_config svc) = hs_config_path hs \<and> svc_check_authorization svc action sender = Ok ()"
proof -
  let ?c = "\<lparr>daemon = \<lparr>namespace_prefix = ''test'', config_dir = hs_config_dir hs, cleanup_on_shutdown = False,
      logging = default_logging_config\<rparr>, dbus = \<lparr>service_name = SERVICE_NAME, object_path = OBJECT_PATH\<rparr>\<rparr>"
  have "cio_toml_daemon io (daemon_text (hs_config_dir hs)) = Ok ?c"
    by (simp add: assms(3,4) from_toml_def harness_config)
  then have e: "event_loop_new y d now ?c (hs_config_path hs) = Ok svc"
    using assms(1,2) by (auto simp: start_daemon_def map_err_Inr_iff)
  have "sv_authorizer svc = None"
    using event_loop_new_Ok [OF e] assms(5) by (simp add: service_authorizer_def)
  then show ?thesis using event_loop_new_Ok [OF e]
    by (simp add: svc_check_authorization_def manager_from_config_def prefix_of_def config_directory_def)
qed

section \<open>The integration tests\<close>

text \<open>A file that is written exists, and does not when it is removed; \<^verbatim>\<open>expect\<close> fails the test.\<close>

definition exists_file :: "string \<Rightarrow> machine \<Rightarrow> bool" where
  "exists_file p m = containsM p (mc_files m)"

definition test_config_file_lifecycle :: "harness_host \<Rightarrow> machine \<Rightarrow> bool" where
  "test_config_file_lifecycle h m =
     (case harness_new h m of
        (Inl _, _) \<Rightarrow> False
      | (Inr hs, m1) \<Rightarrow>
          (case write_namespace_file h hs ''ephemeral'' (namespace_config_with_dummy ''ephemeral'') m1 of
             (Inl _, _) \<Rightarrow> False
           | (Inr path, m2) \<Rightarrow> exists_file path m2 \<and>
               (case remove_namespace_file h hs ''ephemeral'' m2 of
                  (Inl _, _) \<Rightarrow> False
                | (Inr _, m3) \<Rightarrow> \<not> exists_file path m3)))"

lemma lifecycle:
  assumes "harness_new h m = (Ok hs, m1)" "\<And>p. hh_create h p = Ok ()" "\<And>p t. hh_write h p t = (t, Ok ())" "\<And>p. hh_remove h p = Ok ()"
  shows "test_config_file_lifecycle h m"
  using assms
  by (simp add: test_config_file_lifecycle_def write_namespace_file_def remove_namespace_file_def write_file_def
      remove_file_def exists_file_def containsM_iff thenS_def bindS_def returnS_def map_of_removeM)

text \<open>The file system that the daemon and the command line see: the files of the machine and their directories.\<close>

definition files_io :: "machine \<Rightarrow> config_io \<Rightarrow> config_io" where
  "files_io m io = io\<lparr>cio_read := map_of (mc_files m), cio_exists := (\<lambda>p. containsM p (mc_files m) \<or> list_ex (starts_with (p @ ''/'')) (keys (mc_files m))),
     cio_is_file := (\<lambda>p. containsM p (mc_files m)),
     cio_dir := (\<lambda>d. Ok (map Ok (filter (starts_with (d @ ''/'')) (keys (mc_files m))))), cio_env := mc_env m\<rparr>"

text \<open>The commands one after the other, each expected to succeed.\<close>

fun cli_all_done :: "cli_world \<Rightarrow> 'w bus_client \<Rightarrow> commands list \<Rightarrow> 'w \<Rightarrow> bool" where
  "cli_all_done cw cl [] w = True"
| "cli_all_done cw cl (c # cs) w =
     (case run_cli 0 cw cl c w of
        Some ((out, CmdDone), w') \<Rightarrow> cli_all_done cw cl cs w'
      | _ \<Rightarrow> False)"

text \<open>
  The test of the set-up as a user who is not root: \<open>meanwhile\<close> is what the threads of the daemon do before the
  first command, and nothing between the commands, whose options are those of no arguments.  The shutdown
  that follows is not part of it.
\<close>

definition test_namespace_setup ::
  "harness_host \<Rightarrow> 'k sys \<Rightarrow> ('k, 'f) daemon_host \<Rightarrow> config_io \<Rightarrow> (config_io \<Rightarrow> 'k daemon_state \<Rightarrow> 'k daemon_state) \<Rightarrow>
   cli_world \<Rightarrow> nat \<Rightarrow> machine \<Rightarrow> bool" where
  "test_namespace_setup h y d io0 meanwhile cw now m =
     (case bindS (set_var ''SEGWIRE_SIMULATION'' ''1'' (harness_new h)) (\<lambda>hs.
           thenS (write_namespace_file h hs ''testns'' (namespace_config_with_dummy ''testns'')) (returnS hs)) m of
        (Inl _, _) \<Rightarrow> False
      | (Inr hs, m1) \<Rightarrow>
          (let io = files_io m1 io0;
               sio = \<lparr>io_files = io, io_sys = y, io_read_error = (\<lambda>_. []), io_alnum = (\<lambda>_. False)\<rparr>;
               cl = daemon_client sio (Some '':1.1'') now in
           case start_daemon_background h y (d\<lparr>dh_env := mc_env m1\<rparr>) io now hs of
             Inl _ \<Rightarrow> False
           | Inr (Inl _) \<Rightarrow> False
           | Inr (Inr s) \<Rightarrow>
               cli_all_done cw cl
                 [CmdReload \<lparr>rl_wait = False, rl_timeout = 60, rl_verbose = False, rl_validate = False, rl_format = Table\<rparr>,
                  CmdList \<lparr>la_format = Table, la_status = None, la_verbose = False\<rparr>,
                  CmdStatus \<lparr>sa_namespace = Some ''testns'', sa_format = Table, sa_detailed = False, sa_stats = False,
                    sa_logs = False\<rparr>]
                 (dm_service (meanwhile io s))))"

definition sample_harness :: harness_host where
  "sample_harness = \<lparr>hh_bus_daemon = Ok (text_lines [''unix:path=/tmp/dbus,guid=1'', ''4242'']), hh_tempdir = Ok ''/tmp/t'',
     hh_create = (\<lambda>_. Ok ()), hh_write = (\<lambda>p t. (t, Ok ())), hh_remove = (\<lambda>_. Ok ()), hh_spawn = Ok ()\<rparr>"

text \<open>A parser that reads the two files of the harness as the values they denote.\<close>

definition harness_parser :: "string \<Rightarrow> (string, table) res" where
  "harness_parser t =
     (if t = daemon_text ''/tmp/t'' then Ok (daemon_document ''/tmp/t'')
      else if t = namespace_config_with_dummy ''testns''
      then Ok (namespace_document ''testns'' ''Namespace with dummy interface'' [dummy_interface])
      else Err ''no document'')"

definition harness_io :: config_io where
  "harness_io = (sample_io_with (\<lambda>_. None))\<lparr>
     cio_toml_ns := from_toml harness_parser (\<lambda>_. []) read_namespace_config,
     cio_toml_daemon := from_toml harness_parser (\<lambda>_. []) read_daemon_config\<rparr>"

definition session_daemon :: "(string list, string) daemon_host" where
  "session_daemon = sample_daemon_host\<lparr>dh_bus := \<lparr>open_session = Ok sample_bus, open_system = Err ''none''\<rparr>\<rparr>"

text \<open>
  The test passes when the initial synchronization is done before the first command, which the harness
  hopes 200 milliseconds are enough for; otherwise it fails, as reloading synchronizes nothing.
\<close>

lemma tests_namespace_setup:
  "test_namespace_setup sample_harness file_sys session_daemon harness_io
     (\<lambda>io s. sync_step file_sys (cio_b64 io) 0 0 s) cw 0 \<lparr>mc_files = [], mc_env = []\<rparr>"
  "\<not> test_namespace_setup sample_harness file_sys session_daemon harness_io
     (\<lambda>io s. s) cw 0 \<lparr>mc_files = [], mc_env = []\<rparr>"
  by code_simp+

end
