(* ===== verification/Spec2Isabelle.thy ===== *)
theory Spec2Isabelle
  imports AnyBackend EventLoop Reaction Locks Cli NetlinkWire ConfigToml UtilsTests ConfigTests CommonTests DaemonConfigTests
    DaemonTests WatcherTests CliTests TestHarness
begin

text \<open>
  Segwire manages Linux network namespaces.  A daemon (\<^verbatim>\<open>src/crates/segwire-daemon\<close>) reads one TOML file
  per namespace, creates the namespaces and their interfaces, addresses, routes, DNS and WireGuard over
  netlink, keeps a table of their states, and serves a D-Bus interface guarded by PolicyKit.  A command
  line (\<^verbatim>\<open>segwire-cli\<close>) calls that interface, checks and imports configurations, and enters a namespace by a
  setuid helper (\<^verbatim>\<open>segwire-ns-enter\<close>).  \<^verbatim>\<open>segwire-common\<close> holds the shared types and validators,
  \<^verbatim>\<open>segwire-netlink\<close> the socket.

  \<^bold>\<open>Conventions.\<close>  A Rust string is the list of its bytes, a \<^verbatim>\<open>HashMap\<close> an association list with distinct
  keys whose order is the map's, \<^verbatim>\<open>Result\<close> the sum \<open>'e + 'a\<close>, a \<^verbatim>\<open>SystemTime\<close> a number of nanoseconds.  An
  operation on mutable state is a function of the state that gives its result and the new state, composed
  by \<open>bindS\<close> and \<open>thenS\<close> (\<^verbatim>\<open>Prelude\<close>).  An index, a slice or a subtraction that may panic is a value where it
  matters.  Code outside the repository is a parameter: the kernel (the record \<open>sys\<close>), the file system
  (\<open>config_io\<close>, \<open>val_io\<close>), the bus and PolicyKit (\<open>bus\<close>), the TOML and base64 decoders.  Log statements and
  delays are left out.

  \<^bold>\<open>Theories.\<close>  \<^verbatim>\<open>Prelude\<close>, \<^verbatim>\<open>RustStd\<close> and \<^verbatim>\<open>Regex\<close> hold the generic part: results, operations, maps, the
  functions of the standard library on texts, and the pattern matcher.  \<^verbatim>\<open>Prelude\<close> also states the
  interfaces that several parts share: \<open>codec\<close>, what a reader promises of a writer (decimal numbers,
  wg-quick texts, resolver files, both TOML structures), and \<open>preserved\<close> with its extension \<open>ranked\<close>, steps
  that keep an invariant and use up a measure (the threads of the daemon before and after a shutdown, and
  the runs of threads over their locks).  Then, from the bottom:

    \<^item> \<^verbatim>\<open>Errors\<close>, \<^verbatim>\<open>Logging\<close>, \<^verbatim>\<open>Validate\<close>, \<^verbatim>\<open>EnvSubst\<close>, \<^verbatim>\<open>Config\<close>, \<^verbatim>\<open>Security\<close>, \<^verbatim>\<open>WgQuick\<close>, \<^verbatim>\<open>DbusTypes\<close>: the modules
      of \<^verbatim>\<open>segwire-common\<close>, one theory each (\<^verbatim>\<open>error.rs\<close>, \<^verbatim>\<open>logging.rs\<close>, \<^verbatim>\<open>utils.rs\<close> in two, \<^verbatim>\<open>config.rs\<close>,
      \<^verbatim>\<open>security.rs\<close>, \<^verbatim>\<open>wireguard.rs\<close> with \<^verbatim>\<open>commands/import_wg.rs\<close>, \<^verbatim>\<open>dbus.rs\<close>).  Each validator has an exact
      description of what it accepts; substitution ends and leaves no reference; a wg-quick text printed
      and parsed is the same configuration.

    \<^item> \<^verbatim>\<open>NetAddr\<close>, \<^verbatim>\<open>Netns\<close>, \<^verbatim>\<open>NetlinkWire\<close>, \<^verbatim>\<open>RouteNetlink\<close>, \<^verbatim>\<open>NetlinkManager\<close>: addresses of the standard library;
      \<^verbatim>\<open>netns_raw.rs\<close> and the system calls; \<^verbatim>\<open>segwire-netlink/src/lib.rs\<close> byte by byte; the messages of
      \<^verbatim>\<open>netlink_raw.rs\<close> and \<^verbatim>\<open>wireguard_raw.rs\<close>; \<^verbatim>\<open>netlink.rs\<close> with the real and the simulated backend.

    \<^item> \<^verbatim>\<open>ConfigToml\<close>: the derived \<^verbatim>\<open>Serialize\<close> and \<^verbatim>\<open>Deserialize\<close> of the structures of \<^verbatim>\<open>config.rs\<close>, on the values of a
      TOML document, with the required, optional and default fields of their attributes.  Every document
      that \<^verbatim>\<open>docs/configuration.md\<close> describes for a configuration, with its defaults written or left out, is
      read as that configuration; keys without a field are passed over.

    \<^item> \<^verbatim>\<open>ConfigManager\<close>, \<^verbatim>\<open>Watcher\<close>: \<^verbatim>\<open>segwire-daemon/src/config.rs\<close>, the table of configurations and what the
      watcher makes of an event; then the watcher's start, its setup of inotify and its loop over reads.

    \<^item> \<^verbatim>\<open>HotReload\<close>: the table as an index of what the files define, the locale \<open>indexed_table\<close>.  Handling the
      event of one file leaves what a scan of the directory gives, unless the file lost or changed its
      namespace; so after any history of other changes the table is not stale.  Both suppose that no two
      files define the same name, and \<open>second_source_dropped\<close> shows why.

    \<^item> \<^verbatim>\<open>NamespaceState\<close>: \<^verbatim>\<open>namespace_state.rs\<close>.  The locale \<open>namespace_store\<close> states what listing, creating and
      deleting promise, \<open>namespace_backend\<close> adds that configuring keeps the set of namespaces; the
      interpretation \<open>sim\<close> shows both for the simulation of \<^verbatim>\<open>NetlinkManager\<close>.  A synchronization implements
      \<open>abs_sync\<close>, a function on the set of names and the map of states.  \<^verbatim>\<open>AnyBackend\<close> supposes nothing of the
      operations: what a synchronization does to the table whatever they answer, the failing listing
      included, and which of them it does not call.

    \<^item> \<^verbatim>\<open>Policy\<close>, \<^verbatim>\<open>DbusService\<close>: \<^verbatim>\<open>policykit.rs\<close> and \<^verbatim>\<open>dbus_service.rs\<close>, the eight methods as one function
      \<open>handle_call\<close> on the service.

    \<^item> \<^verbatim>\<open>Sections\<close>: the same methods as programs of sections, each under one lock or none.  Run without
      interruption a program is its handler; run among threads that change the state by any relation that
      keeps the authorizer and a valid prefix, it still replies only to those who may ask and with paths
      in \<^verbatim>\<open>/run/netns\<close>.  Its replies are compared with what the interface table of \<^verbatim>\<open>dbus.rs\<close> declares.

    \<^item> \<^verbatim>\<open>Capabilities\<close>, \<^verbatim>\<open>EventLoop\<close>: \<^verbatim>\<open>capabilities.rs\<close>, \<^verbatim>\<open>event_loop.rs\<close> and \<^verbatim>\<open>main.rs\<close>.  The three threads are
      program counters with one step function each (\<open>config_step\<close>, \<open>sync_step\<close>, \<open>main_step\<close>, which goes on with
      \<open>shutdown_step\<close>, and with a method call section by section); \<open>daemon_step\<close> interleaves them with changes
      from outside.  An invariant holds in every reachable state; after a shutdown request a lexicographic rank of the program counters and the
      queue decreases.  Two races are given as tables over the place at which a synchronization falls
      among the steps of a restart or of the shutdown (\<open>restart_race\<close>, \<open>shutdown_race\<close>): executable schedules
      of the threads in which nothing outside the daemon changes the kernel.

    \<^item> \<^verbatim>\<open>Reaction\<close>: the threads, the table and the states together: from the event of a file to the namespace.

    \<^item> \<^verbatim>\<open>Locks\<close>: the mutexes that the methods, on each path of their sections, and the threads take, in the
      order the comment of \<^verbatim>\<open>event_loop.rs\<close> requires; threads that acquire upwards never deadlock.

    \<^item> \<^verbatim>\<open>NsEnter\<close>: the helper as the sequence of its system calls.

    \<^item> \<^verbatim>\<open>CliOutput\<close>, \<^verbatim>\<open>Cli\<close>: \<^verbatim>\<open>output.rs\<close>, and the client with the seven commands.  \<open>daemon_client\<close> joins them to
      \<open>handle_call\<close>, so that a command is followed through the daemon to the helper.

    \<^item> \<^verbatim>\<open>TestSupport\<close>, \<^verbatim>\<open>UtilsTests\<close>, \<^verbatim>\<open>ConfigTests\<close>, \<^verbatim>\<open>CommonTests\<close>, \<^verbatim>\<open>CliTests\<close>, \<^verbatim>\<open>DaemonTests\<close>, \<^verbatim>\<open>DaemonConfigTests\<close>,
      \<^verbatim>\<open>WatcherTests\<close>: the tests of the crates, one definition each under the test's name, true when the test's
      assertions hold of the model, and lemmas that they are true.  They check the model against what
      the authors expect of the code; \<^verbatim>\<open>DaemonConfigTests\<close> also has \<^verbatim>\<open>validate_namespace_config_file\<close>, which is
      compiled for tests only.

    \<^item> \<^verbatim>\<open>TestHarness\<close>: \<^verbatim>\<open>segwire-test/src/harness.rs\<close> and the integration tests that need no other program.  The
      test of the set-up joins the daemon, its first synchronization and three commands.

  \<^bold>\<open>Bounds.\<close>  Recursion is structural or ends by a measure.  Two loops depend on the world.  The receive loop of
  \<^verbatim>\<open>NetlinkWire\<close> is a partial function, \<open>None\<close> when it does not return; a complete answer makes it return.
  The search of configuration files in \<^verbatim>\<open>Cli\<close> has its depth as fuel and is \<open>None\<close> beyond it; the depth of
  the directories is enough, and links that close a cycle have none.

  \<^bold>\<open>Steps.\<close>  What is done under a lock is one step of the daemon, and so is what a method call does to the
  kernel between two locks.

  \<^bold>\<open>Not modelled.\<close>  Drawing tables, the text of a TOML document (\<^verbatim>\<open>tabled\<close>, \<^verbatim>\<open>toml\<close>), parsing arguments
  (\<^verbatim>\<open>clap\<close>), the dispatch of messages (\<^verbatim>\<open>dbus-crossroads\<close>), what \<^verbatim>\<open>tracing\<close> does with a log line; the integration
  tests that need root, which run \<^verbatim>\<open>ip\<close>, \<^verbatim>\<open>ping\<close> and the helper as processes, and the one of \<^verbatim>\<open>segwire-netlink\<close>, which
  lists the links of the machine; \<^verbatim>\<open>OperationProgress\<close>, a structure that no code makes, and poisoned mutexes.

  This theory holds the properties that follow a value through several programs.
\<close>

section \<open>From an imported file to a managed namespace\<close>

text \<open>
  C13: a file \<^verbatim>\<open>segwire import-wg\<close> writes is a namespace of the daemon: it did not exist before, and when it
  appears, the TOML parser reading back what the printer wrote, no variable in the configuration and its
  name one of the daemon's, the table gets exactly the configuration of the wg-quick file, valid, under
  its full name.
\<close>

lemma imported_is_managed:
  assumes "import_wg b64 io a = Ok (Written f t)"
    and "io_toml io = to_toml pr write_namespace_config" "cio_toml_ns cio = from_toml pa msg read_namespace_config"
    and "\<forall>m s. pr m = Ok s \<longrightarrow> pa s = Ok m"
    and "\<forall>content c. io_read io (im_config_path a) = Ok content \<longrightarrow>
      parse_wg_quick content (im_namespace a) (im_interface a) = Ok c \<longrightarrow> list_all (\<lambda>x. refs x = []) (config_texts c)"
    and "cio_read cio f = Some t" "cio_meta cio f = Some (Ok m)" "cio_b64 cio = b64"
    and "should_manage (prefix_of cm) (im_namespace a)"
  shows "\<not> io_exists io f \<and> (\<exists>content cm' e. io_read io (im_config_path a) = Ok content \<and>
    handle_file_event cio (FileCreated f) cm = (cm', Ok [full_name e]) \<and>
    get_namespace_config cm' (full_name e) = Some e \<and> full_name e = full_name_for (prefix_of cm) (im_namespace a) \<and>
    parse_wg_quick content (im_namespace a) (im_interface a) = Ok (ce_config e) \<and>
    namespace_config_ok b64 (ce_config e) \<and> file_path e = f)"
proof -
  obtain content c where c: "io_read io (im_config_path a) = Ok content"
    "parse_wg_quick content (im_namespace a) (im_interface a) = Ok c" "namespace_config_ok b64 c"
    "ns_name (namespace c) = im_namespace a" "io_toml io c = Ok t" "\<not> io_exists io f"
    using import_source [OF assms(1)] by blast
  have "to_toml pr write_namespace_config c = Ok t" using c(5) assms(2) by simp
  then have "cio_toml_ns cio t = Ok c"
    using toml_read_back [of pr pa c t] assms(4) wg_config_sized [OF c(2)] by (simp add: assms(3))
  moreover have "substitute_environment_variables (cio_env cio) c = Ok c"
    using assms(5) c(1,2) by (intro subst_fixpoint) (auto simp: list_all_iff)
  ultimately have "namespace_config_from_file b64 (cio_toml_ns cio) (cio_read cio) (cio_env cio) f = Ok c"
    using assms(6) c(3) by (auto simp: from_file_iff)
  then have h: "load_namespace_config cio (prefix_of cm) f = Ok (Some \<lparr>ce_config = c, file_path = f,
      full_name = full_name_for (prefix_of cm) (im_namespace a), last_modified = m\<rparr>)"
    using assms(7-9) c(4) by (simp add: load_namespace_config_def)
  let ?e = "\<lparr>ce_config = c, file_path = f, full_name = full_name_for (prefix_of cm) (im_namespace a), last_modified = m\<rparr>"
  have "handle_file_event cio (FileCreated f) cm =
      (cm\<lparr>namespace_configs := insertM (full_name ?e) ?e (namespace_configs cm)\<rparr>, Ok [full_name ?e])"
    by (simp add: reload_namespace_config_def h names_of_def)
  moreover have "get_namespace_config (cm\<lparr>namespace_configs := insertM (full_name ?e) ?e (namespace_configs cm)\<rparr>)
      (full_name ?e) = Some ?e"
    by (simp add: get_namespace_config_def)
  moreover have "full_name ?e = full_name_for (prefix_of cm) (im_namespace a)"
    "parse_wg_quick content (im_namespace a) (im_interface a) = Ok (ce_config ?e)"
    "namespace_config_ok b64 (ce_config ?e)" "file_path ?e = f"
    using c(2,3) by simp_all
  ultimately show ?thesis using c(1,6) by blast
qed

text \<open>A printer and a parser of the sample's table.\<close>

definition sample_vpn :: namespace_config where
  "sample_vpn = (case parse_wg_quick sample_wg ''vpn'' None of Inr c \<Rightarrow> c | Inl _ \<Rightarrow> sample_config [])"

definition vpn_printer :: "table \<Rightarrow> (string, string) res" where
  "vpn_printer m = (if m = write_namespace_config sample_vpn then Ok ''vpn'' else Err ''other'')"

definition vpn_parser :: "string \<Rightarrow> (string, table) res" where
  "vpn_parser s = Ok (write_namespace_config sample_vpn)"

definition vpn_import :: import_io where
  "vpn_import = (sample_io (\<lambda>_. False))\<lparr>io_toml := to_toml vpn_printer write_namespace_config\<rparr>"

definition vpn_files :: config_io where
  "vpn_files = (sample_io_with (\<lambda>p. Some ''vpn''))\<lparr>
     cio_toml_ns := from_toml vpn_parser (\<lambda>_. []) read_namespace_config,
     cio_b64 := (\<lambda>_. Ok (replicate 32 (CHR ''k'')))\<rparr>"

lemma imported_is_managed_witness:
  "\<exists>cm' e. handle_file_event vpn_files (FileCreated ''/etc/vpn.toml'') sample_manager = (cm', Ok [''sw-vpn'']) \<and>
    get_namespace_config cm' ''sw-vpn'' = Some e"
proof -
  let ?b64 = "(\<lambda>_. Ok (replicate 32 (CHR ''k''))) :: base64"
  let ?a = "\<lparr>im_namespace = ''vpn'', im_config_path = ''wg.conf'', im_interface = None, im_output = Some ''/etc'', im_stdout = False\<rparr>"
  have w: "import_wg ?b64 vpn_import ?a = Ok (Written ''/etc/vpn.toml'' ''vpn'')" by code_simp
  have p: "parse_wg_quick sample_wg ''vpn'' None = Ok sample_vpn" by code_simp
  have r: "list_all (\<lambda>x. refs x = []) (config_texts sample_vpn)" by code_simp
  have law: "\<forall>m s. vpn_printer m = Ok s \<longrightarrow> vpn_parser s = Ok m"
    by (auto simp: vpn_printer_def vpn_parser_def split: if_splits)
  have texts: "\<forall>content c. io_read vpn_import (im_config_path ?a) = Ok content \<longrightarrow>
      parse_wg_quick content (im_namespace ?a) (im_interface ?a) = Ok c \<longrightarrow> list_all (\<lambda>x. refs x = []) (config_texts c)"
    using p r by (simp add: vpn_import_def sample_io_def)
  have t: "io_toml vpn_import = to_toml vpn_printer write_namespace_config"
    "cio_toml_ns vpn_files = from_toml vpn_parser (\<lambda>_. []) read_namespace_config"
    by (simp_all add: vpn_import_def vpn_files_def)
  have f: "full_name_for (prefix_of sample_manager) ''vpn'' = ''sw-vpn''" by code_simp
  have m: "should_manage (prefix_of sample_manager) (im_namespace ?a)" by code_simp
  have s: "cio_read vpn_files ''/etc/vpn.toml'' = Some ''vpn''" "cio_meta vpn_files ''/etc/vpn.toml'' = Some (Ok 0)"
    "cio_b64 vpn_files = ?b64"
    by (simp_all add: vpn_files_def sample_io_with_def)
  obtain cm' e where "handle_file_event vpn_files (FileCreated ''/etc/vpn.toml'') sample_manager = (cm', Ok [full_name e])"
    "get_namespace_config cm' (full_name e) = Some e" "full_name e = full_name_for (prefix_of sample_manager) (im_namespace ?a)"
    using conjunct2 [OF imported_is_managed [OF w t law texts s m]] by (elim exE conjE) (rule that)
  then show ?thesis using f by auto
qed

end
